(* ===== verification/Prelude.thy ===== *)
theory Prelude
  imports Main "HOL-Library.Word" "HOL-Library.Monad_Syntax"
begin

text \<open>
  Shared ground of the development: octets and machine words of the platform the code is
  written for (i386: \<^verbatim>\<open>int\<close>, \<^verbatim>\<open>unsigned\<close> and \<^verbatim>\<open>unsigned long\<close> have 32 bits, little endian),
  packet buffers as functions from offsets to octets, the copying primitives the C code
  uses on them (\<^verbatim>\<open>memcpy\<close>, \<^verbatim>\<open>strcpy\<close>, struct field access), and the facts on them that all
  components share.

  An access outside a buffer of known size is undefined behaviour in C. The checked
  operations (suffix \<open>_chk\<close>) answer \<open>None\<close> there, so that a \<open>None\<close> anywhere in the
  development means that the program has touched memory outside one of its buffers.
\<close>

unbundle bit_operations_syntax

type_synonym byte = "8 word"
type_synonym u32 = "32 word"
type_synonym u16 = "16 word"
type_synonym buffer = "nat \<Rightarrow> byte"

named_theorems buf_simps \<open>reading back what was stored in a buffer\<close>

named_theorems model_defs \<open>the defining equations of the modelled operations\<close>

section \<open>Little-endian words\<close>

definition word_le :: "byte list \<Rightarrow> 'a::len word" where
  "word_le bs = foldr (\<lambda>b acc. ucast b OR push_bit 8 acc) bs 0"

definition bytes_le :: "nat \<Rightarrow> 'a::len word \<Rightarrow> byte list" where
  "bytes_le n w = map (\<lambda>i. ucast (drop_bit (8 * i) w)) [0..<n]"

lemma length_bytes_le [simp]: "length (bytes_le n w) = n"
  by (simp add: bytes_le_def)

lemma bit_word_le:
  "bit (word_le bs :: 'a::len word) k \<longleftrightarrow>
     k < LENGTH('a) \<and> k div 8 < length bs \<and> bit (bs ! (k div 8)) (k mod 8)"
proof (induction bs arbitrary: k)
  case Nil
  then show ?case by (simp add: word_le_def)
next
  case (Cons b bs)
  have step: "(word_le (b # bs) :: 'a word) = ucast b OR push_bit 8 (word_le bs)"
    by (simp add: word_le_def)
  show ?case
  proof (cases "k < 8")
    case True
    then show ?thesis unfolding step by (auto simp: bit_simps)
  next
    case False
    then obtain j where k: "k = j + 8" by (metis le_add_diff_inverse2 not_less)
    have "(j + 8) div 8 = Suc (j div 8)" by simp
    then show ?thesis unfolding step k
      by (auto simp: bit_simps Cons.IH dest: bit_imp_le_length)
  qed
qed

lemma word_le_bytes_le:
  assumes "LENGTH('a) \<le> 8 * n"
  shows "word_le (bytes_le n w) = (w :: 'a::len word)"
proof (rule bit_eqI)
  fix k assume k: "possible_bit TYPE('a word) k"
  then have "k < 8 * n" using assms by simp
  then have "k div 8 < n" by (simp add: less_mult_imp_div_less mult.commute)
  moreover have "8 * (k div 8) + k mod 8 = k" by simp
  ultimately show "bit (word_le (bytes_le n w) :: 'a word) k = bit w k"
    using k by (auto simp: bit_word_le bytes_le_def bit_simps)
qed

lemma bytes_le_word_le:
  assumes "length bs = n" and "8 * n \<le> LENGTH('a)"
  shows "bytes_le n (word_le bs :: 'a::len word) = bs"
proof (rule nth_equalityI)
  show "length (bytes_le n (word_le bs :: 'a word)) = length bs" using assms by simp
next
  fix i assume "i < length (bytes_le n (word_le bs :: 'a word))"
  then have i: "i < n" by simp
  show "bytes_le n (word_le bs :: 'a word) ! i = bs ! i"
  proof (rule bit_eqI)
    fix k assume "possible_bit TYPE(byte) k"
    then have k: "k < 8" by simp
    then have "8 * i + k < LENGTH('a)" using i assms(2) by linarith
    moreover have "(8 * i + k) div 8 = i" "(8 * i + k) mod 8 = k" using k by auto
    ultimately show "bit (bytes_le n (word_le bs :: 'a word) ! i) k = bit (bs ! i) k"
      using i k assms(1) by (auto simp: bytes_le_def bit_simps bit_word_le add.commute)
  qed
qed

section \<open>Buffers\<close>

definition get_bytes :: "buffer \<Rightarrow> nat \<Rightarrow> nat \<Rightarrow> byte list" where
  "get_bytes b off n = map b [off..<off + n]"

definition put_bytes :: "nat \<Rightarrow> byte list \<Rightarrow> buffer \<Rightarrow> buffer" where
  "put_bytes off bs b = (\<lambda>i. if off \<le> i \<and> i < off + length bs then bs ! (i - off) else b i)"

definition get32 :: "buffer \<Rightarrow> nat \<Rightarrow> u32" where
  "get32 b off = word_le (get_bytes b off 4)"

definition put32 :: "nat \<Rightarrow> u32 \<Rightarrow> buffer \<Rightarrow> buffer" where
  "put32 off w b = put_bytes off (bytes_le 4 w) b"

text \<open>\<open>get16\<close> is \<^verbatim>\<open>unsigned int v=0; memcpy(&v, p, 2);\<close>: two octets, zero extended.\<close>

definition get16 :: "buffer \<Rightarrow> nat \<Rightarrow> u32" where
  "get16 b off = word_le (get_bytes b off 2)"

text \<open>The checked accesses of a buffer of \<open>sz\<close> octets.\<close>

definition get_bytes_chk :: "nat \<Rightarrow> buffer \<Rightarrow> nat \<Rightarrow> nat \<Rightarrow> byte list option" where
  "get_bytes_chk sz b off n = (if off + n \<le> sz then Some (get_bytes b off n) else None)"

definition put_bytes_chk :: "nat \<Rightarrow> nat \<Rightarrow> byte list \<Rightarrow> buffer \<Rightarrow> buffer option" where
  "put_bytes_chk sz off bs b =
     (if off + length bs \<le> sz then Some (put_bytes off bs b) else None)"

definition get32_chk :: "nat \<Rightarrow> buffer \<Rightarrow> nat \<Rightarrow> u32 option" where
  "get32_chk sz b off = (if off + 4 \<le> sz then Some (get32 b off) else None)"

definition get16_chk :: "nat \<Rightarrow> buffer \<Rightarrow> nat \<Rightarrow> u32 option" where
  "get16_chk sz b off = (if off + 2 \<le> sz then Some (get16 b off) else None)"

definition get8_chk :: "nat \<Rightarrow> buffer \<Rightarrow> nat \<Rightarrow> byte option" where
  "get8_chk sz b off = (if off < sz then Some (b off) else None)"

lemmas chk_defs =
  get_bytes_chk_def put_bytes_chk_def get32_chk_def get16_chk_def get8_chk_def

lemma length_get_bytes [simp]: "length (get_bytes b off n) = n"
  by (simp add: get_bytes_def)

lemma nth_get_bytes [simp]: "i < n \<Longrightarrow> get_bytes b off n ! i = b (off + i)"
  by (simp add: get_bytes_def)

lemma get_bytes_0 [simp]: "get_bytes b off 0 = []"
  by (simp add: get_bytes_def)

lemma get_bytes_eqI:
  "(\<And>i. off \<le> i \<Longrightarrow> i < off + n \<Longrightarrow> b i = c i) \<Longrightarrow> get_bytes b off n = get_bytes c off n"
  by (auto simp: get_bytes_def)

lemma put_bytes_Nil [simp]: "put_bytes off [] b = b"
  by (rule ext) (auto simp: put_bytes_def)

lemma put_bytes_same [buf_simps]:
  "length bs = n \<Longrightarrow> get_bytes (put_bytes off bs b) off n = bs"
  by (rule nth_equalityI) (auto simp: put_bytes_def)

lemma put_bytes_other [buf_simps]:
  "off + n \<le> o' \<or> o' + length bs \<le> off \<Longrightarrow>
     get_bytes (put_bytes o' bs b) off n = get_bytes b off n"
  by (rule get_bytes_eqI) (auto simp: put_bytes_def)

lemma put_bytes_nth [buf_simps]:
  "i < off \<or> off + length bs \<le> i \<Longrightarrow> put_bytes off bs b i = b i"
  by (auto simp: put_bytes_def)

lemma put_bytes_nth_in [buf_simps]:
  "off \<le> i \<Longrightarrow> i < off + length bs \<Longrightarrow> put_bytes off bs b i = bs ! (i - off)"
  by (auto simp: put_bytes_def)

lemma put_bytes_inside [buf_simps]:
  "off \<le> o' \<Longrightarrow> o' + n \<le> off + length bs \<Longrightarrow>
     get_bytes (put_bytes off bs b) o' n = take n (drop (o' - off) bs)"
  by (rule nth_equalityI) (auto simp: put_bytes_def)

lemma put_bytes_append:
  "put_bytes (off + length xs) ys (put_bytes off xs b) = put_bytes off (xs @ ys) b"
  by (rule ext) (auto simp: put_bytes_def nth_append)

lemma put_bytes_tail [buf_simps]:
  "off \<le> o' \<Longrightarrow> o' - off + length ys = n \<Longrightarrow>
     get_bytes (put_bytes o' ys b) off n = get_bytes b off (o' - off) @ ys"
  by (rule nth_equalityI) (auto simp: put_bytes_def nth_append add.commute)

lemma put32_same [buf_simps]: "get32 (put32 off w b) off = w"
  by (simp add: get32_def put32_def put_bytes_same word_le_bytes_le)

lemma put32_other [buf_simps]:
  "off + 4 \<le> o' \<or> o' + 4 \<le> off \<Longrightarrow> get32 (put32 o' w b) off = get32 b off"
  by (simp add: get32_def put32_def put_bytes_other)

lemma get32_put_bytes_other [buf_simps]:
  "off + 4 \<le> o' \<or> o' + length bs \<le> off \<Longrightarrow> get32 (put_bytes o' bs b) off = get32 b off"
  by (simp add: get32_def put_bytes_other)

lemma get32_put_bytes_in [buf_simps]:
  "off \<le> o' \<Longrightarrow> o' + 4 \<le> off + length bs \<Longrightarrow>
     get32 (put_bytes off bs b) o' = word_le (take 4 (drop (o' - off) bs))"
  by (simp add: get32_def put_bytes_inside)

lemma get16_put_bytes_in [buf_simps]:
  "off \<le> o' \<Longrightarrow> o' + 2 \<le> off + length bs \<Longrightarrow>
     get16 (put_bytes off bs b) o' = word_le (take 2 (drop (o' - off) bs))"
  by (simp add: get16_def put_bytes_inside)

lemma get16_put_bytes_other [buf_simps]:
  "off + 2 \<le> o' \<or> o' + length bs \<le> off \<Longrightarrow> get16 (put_bytes o' bs b) off = get16 b off"
  by (simp add: get16_def put_bytes_other)

lemma get16_put32_other [buf_simps]:
  "off + 2 \<le> o' \<or> o' + 4 \<le> off \<Longrightarrow> get16 (put32 o' w b) off = get16 b off"
  by (simp add: put32_def get16_put_bytes_other)

lemma get_bytes_put32_other [buf_simps]:
  "off + n \<le> o' \<or> o' + 4 \<le> off \<Longrightarrow> get_bytes (put32 o' w b) off n = get_bytes b off n"
  by (simp add: put32_def put_bytes_other)

lemma put32_nth [buf_simps]: "i < off \<or> off + 4 \<le> i \<Longrightarrow> put32 off w b i = b i"
  by (simp add: put32_def put_bytes_nth)

lemma get_bytes_split:
  "k \<le> n \<Longrightarrow> get_bytes b off n = get_bytes b off k @ get_bytes b (off + k) (n - k)"
  unfolding get_bytes_def
  by (metis add.assoc le_add1 le_add_diff_inverse map_append upt_add_eq_append)

lemma take_get_bytes: "take k (get_bytes b off n) = get_bytes b off (min k n)"
  by (rule nth_equalityI) auto

lemma drop_get_bytes: "drop k (get_bytes b off n) = get_bytes b (off + k) (n - k)"
  by (rule nth_equalityI) (auto simp: add.assoc)

lemma power_16_eq: "(2::nat) ^ 16 = 65536"
  by simp

text \<open>Two octets zero extended to a word stay below 65536.\<close>

lemma get16_less: "unat (get16 b off) < 65536"
proof -
  have "get16 b off = take_bit 16 (get16 b off)"
  proof (rule bit_eqI)
    fix k assume "possible_bit TYPE(u32) k"
    show "bit (get16 b off) k = bit (take_bit 16 (get16 b off)) k"
    proof (cases "k < 16")
      case False
      then have "\<not> k div 8 < 2" by simp
      then show ?thesis by (simp add: get16_def bit_word_le bit_simps)
    qed (simp add: bit_simps)
  qed
  then have "unat (get16 b off) = unat (get16 b off) mod 65536"
    by (metis take_bit_eq_mod unsigned_take_bit_eq power_16_eq)
  then show ?thesis by (metis mod_less_divisor zero_less_numeral)
qed

text \<open>Replacing the low seven bits of a word by a sum.\<close>

lemma replace_low_bits:
  fixes w :: u32 and c :: byte
  assumes "c < 128"
  shows "((w AND 0xFFFFFF80) + ucast c) AND 0x7F = ucast c"
    and "((w AND 0xFFFFFF80) + ucast c) AND 0xFFFFFF80 = w AND 0xFFFFFF80"
proof -
  have m: "(0x7F :: u32) = mask 7" "(0xFFFFFF80 :: u32) = NOT (mask 7)" by (simp_all add: mask_eq_exp_minus_1)
  have c: "ucast c = take_bit 7 (ucast c :: u32)"
  proof -
    have "unat (ucast c :: u32) = unat c" 
      using assms by (simp add: word_less_nat_alt unsigned_ucast_eq take_bit_nat_eq_self_iff)
    then have "unat (ucast c :: u32) < 2 ^ 7" using assms by (simp add: word_less_nat_alt)
    then have "unat (take_bit 7 (ucast c :: u32)) = unat (ucast c :: u32)"
      by (simp only: unsigned_take_bit_eq take_bit_nat_eq_self)
    then show ?thesis by (metis word_unat_eq_iff)
  qed
  have z: "(w AND 0xFFFFFF80) AND ucast c = 0"
    by (subst c, unfold m, rule bit_eqI) (auto simp: bit_simps)
  have s: "(w AND 0xFFFFFF80) + ucast c = (w AND 0xFFFFFF80) OR ucast c"
    using z by (simp add: disjunctive_add_eq_or)
  show "((w AND 0xFFFFFF80) + ucast c) AND 0x7F = ucast c"
    unfolding s
    by (subst (2) c, unfold m, rule bit_eqI) (auto simp: bit_simps)
  show "((w AND 0xFFFFFF80) + ucast c) AND 0xFFFFFF80 = w AND 0xFFFFFF80"
    unfolding s
    by (subst c, unfold m, rule bit_eqI) (auto simp: bit_simps)
qed

section \<open>Zero-terminated strings\<close>

text \<open>
  The octets of the string at \<open>off\<close> in a buffer of \<open>sz\<close> octets, without the
  terminator; \<open>None\<close> when the scan for the terminator leaves the buffer.
\<close>

fun cstring :: "nat \<Rightarrow> buffer \<Rightarrow> nat \<Rightarrow> byte list option" where
  "cstring 0 b off = None"
| "cstring (Suc room) b off =
     (if b off = 0 then Some [] else map_option (Cons (b off)) (cstring room b (Suc off)))"

text \<open>\<^verbatim>\<open>strcpy(dst, src)\<close> into an array of \<open>dsize\<close> octets.\<close>

definition strcpy_chk :: "nat \<Rightarrow> nat \<Rightarrow> buffer \<Rightarrow> nat \<Rightarrow> byte list option" where
  "strcpy_chk dsize ssize b off =
     (case cstring (ssize - off) b off of
        None \<Rightarrow> None
      | Some s \<Rightarrow> if length s < dsize then Some s else None)"

lemma cstring_length: "cstring room b off = Some s \<Longrightarrow> length s < room"
  by (induction room arbitrary: off s) (auto split: if_splits)

lemma cstring_nonzero: "cstring room b off = Some s \<Longrightarrow> 0 \<notin> set s"
  by (induction room arbitrary: off s) (auto split: if_splits)

lemma cstring_bytes:
  "cstring room b off = Some s \<Longrightarrow> s = get_bytes b off (length s) \<and> b (off + length s) = 0"
proof (induction room arbitrary: off s)
  case (Suc room)
  show ?case
  proof (cases "b off = 0")
    case False
    with Suc.prems obtain t where t: "cstring room b (Suc off) = Some t" "s = b off # t"
      by auto
    have "get_bytes b off (Suc (length t)) = b off # get_bytes b (Suc off) (length t)"
      by (simp add: get_bytes_def upt_conv_Cons del: upt_Suc)
    with Suc.IH [OF t(1)] t(2) show ?thesis by simp
  qed (use Suc.prems in \<open>auto simp: get_bytes_def\<close>)
qed simp

lemma cstring_name: "(\<And>i. i < length n \<Longrightarrow> b (off + i) = n ! i) \<Longrightarrow> b (off + length n) = 0 \<Longrightarrow>
  0 \<notin> set n \<Longrightarrow> length n < room \<Longrightarrow> cstring room b off = Some n"
proof (induction n arbitrary: off room)
  case Nil
  then show ?case by (cases room) auto
next
  case (Cons x n)
  from Cons.prems(1) [of 0] Cons.prems(3,4) obtain r where r: "room = Suc r" "b off = x" "x \<noteq> 0" by (cases room) auto
  have "cstring r b (Suc off) = Some n"
    using Cons.prems(1) [of "Suc i" for i] Cons.prems(2,3,4) r(1) by (intro Cons.IH) auto
  with r show ?case by simp
qed

lemma strcpy_chk_SomeD:
  "strcpy_chk dsize ssize b off = Some s \<Longrightarrow>
     length s < dsize \<and> off + length s < ssize \<and> 0 \<notin> set s \<and>
     s = get_bytes b off (length s) \<and> b (off + length s) = 0"
  by (auto simp: strcpy_chk_def dest: cstring_length cstring_nonzero cstring_bytes
      split: option.splits if_splits)

definition string_bytes :: "string \<Rightarrow> byte list" where
  "string_bytes s = map (\<lambda>c. of_nat (of_char c)) s"

lemma length_string_bytes [simp]: "length (string_bytes s) = length s"
  by (simp add: string_bytes_def)

end
