(* ===== verification/Protocol.thy ===== *)
theory Protocol
  imports Prelude
begin

text \<open>
  The wire protocol of \<^verbatim>\<open>linux-server/src/protocol.h\<close>: the numeric constants, the message
  structures as records, and the memory layout the C compiler gives them on i386 (every
  member is a 32-bit word or an octet array, so there is no padding). The header comment of
  the C file gives \<^verbatim>\<open>int\<close> two octets; with the compiler the code is written for it has four,
  which is what the layout below uses.

  The layout functions read a structure out of a buffer (\<open>request_header_at\<close>,
  \<open>answer_header_at\<close>), as the code does when it overlays a structure on its buffer. \<open>encode_request_header\<close> and
  \<open>encode_answer_header\<close> are their inverses; they translate no code and serve to write down the packets in the
  statements of other theories.
\<close>

section \<open>Constants\<close>

definition OS_TYPE_WINDOWS :: u32 where "OS_TYPE_WINDOWS = 1"
definition OS_TYPE_LINUX :: u32 where "OS_TYPE_LINUX = 2"
definition OS_TYPE_GENERIC :: u32 where "OS_TYPE_GENERIC = 0"

definition PERROR_NONE :: u32 where "PERROR_NONE = 0"
definition PERROR_AUTH_REQUIRED :: u32 where "PERROR_AUTH_REQUIRED = 1"
definition PERROR_WRONG_SESSION :: u32 where "PERROR_WRONG_SESSION = 2"
definition PERROR_ACCESS_DENIED :: u32 where "PERROR_ACCESS_DENIED = 3"
definition PERROR_UNKNOWN_APP :: u32 where "PERROR_UNKNOWN_APP = 4"
definition PERROR_UNKNOWN_CTRL :: u32 where "PERROR_UNKNOWN_CTRL = 5"
definition PERROR_PARSE_ERROR :: u32 where "PERROR_PARSE_ERROR = 6"
definition PERROR_AUTH_TYPE_NOT_SUPPORTED :: u32 where "PERROR_AUTH_TYPE_NOT_SUPPORTED = 7"
definition PERROR_INCOMPATIBLE_VERSION :: u32 where "PERROR_INCOMPATIBLE_VERSION = 8"
definition PERROR_NO_RESSOURCES :: u32 where "PERROR_NO_RESSOURCES = 128"
definition PERROR_CRITICAL_INTERNAL_ERROR :: u32 where "PERROR_CRITICAL_INTERNAL_ERROR = 129"
definition PERROR_SOCKET_ERROR :: u32 where "PERROR_SOCKET_ERROR = 130"
definition PERROR_CRITICAL_SOCKET_ERROR :: u32 where "PERROR_CRITICAL_SOCKET_ERROR = 131"
definition PERROR_CAPI_ERROR :: u32 where "PERROR_CAPI_ERROR = 255"

definition AUTH_NO_AUTH :: u32 where "AUTH_NO_AUTH = 0"
definition AUTH_BY_IP :: u32 where "AUTH_BY_IP = 1"
definition AUTH_USERPASS :: u32 where "AUTH_USERPASS = 2"

definition TYPE_CAPI_REGISTER :: u32 where "TYPE_CAPI_REGISTER = 1"
definition TYPE_CAPI_RELEASE :: u32 where "TYPE_CAPI_RELEASE = 2"
definition TYPE_CAPI_PUTMESSAGE :: u32 where "TYPE_CAPI_PUTMESSAGE = 3"
definition TYPE_CAPI_GETMESSAGE :: u32 where "TYPE_CAPI_GETMESSAGE = 4"
definition TYPE_CAPI_WAITFORSIGNAL :: u32 where "TYPE_CAPI_WAITFORSIGNAL = 5"
definition TYPE_CAPI_MANUFACTURER :: u32 where "TYPE_CAPI_MANUFACTURER = 6"
definition TYPE_CAPI_VERSION :: u32 where "TYPE_CAPI_VERSION = 7"
definition TYPE_CAPI_SERIAL :: u32 where "TYPE_CAPI_SERIAL = 8"
definition TYPE_CAPI_PROFILE :: u32 where "TYPE_CAPI_PROFILE = 9"
definition TYPE_CAPI_INSTALLED :: u32 where "TYPE_CAPI_INSTALLED = 10"
definition TYPE_PROXY_HELO :: u32 where "TYPE_PROXY_HELO = 99"
definition TYPE_PROXY_AUTH :: u32 where "TYPE_PROXY_AUTH = 98"
definition TYPE_PROXY_KEEPALIVE :: u32 where "TYPE_PROXY_KEEPALIVE = 97"
definition TYPE_PROXY_SHUTDOWN :: u32 where "TYPE_PROXY_SHUTDOWN = 96"
definition TYPE_PROXY_FEATURE :: u32 where "TYPE_PROXY_FEATURE = 95"

lemmas proto_consts =
  OS_TYPE_WINDOWS_def OS_TYPE_LINUX_def OS_TYPE_GENERIC_def PERROR_NONE_def
  PERROR_AUTH_REQUIRED_def PERROR_WRONG_SESSION_def PERROR_ACCESS_DENIED_def
  PERROR_UNKNOWN_APP_def PERROR_UNKNOWN_CTRL_def PERROR_PARSE_ERROR_def
  PERROR_AUTH_TYPE_NOT_SUPPORTED_def PERROR_INCOMPATIBLE_VERSION_def PERROR_NO_RESSOURCES_def
  PERROR_CRITICAL_INTERNAL_ERROR_def PERROR_SOCKET_ERROR_def PERROR_CRITICAL_SOCKET_ERROR_def
  PERROR_CAPI_ERROR_def AUTH_NO_AUTH_def AUTH_BY_IP_def AUTH_USERPASS_def
  TYPE_CAPI_REGISTER_def TYPE_CAPI_RELEASE_def TYPE_CAPI_PUTMESSAGE_def
  TYPE_CAPI_GETMESSAGE_def TYPE_CAPI_WAITFORSIGNAL_def TYPE_CAPI_MANUFACTURER_def
  TYPE_CAPI_VERSION_def TYPE_CAPI_SERIAL_def TYPE_CAPI_PROFILE_def TYPE_CAPI_INSTALLED_def
  TYPE_PROXY_HELO_def TYPE_PROXY_AUTH_def TYPE_PROXY_KEEPALIVE_def TYPE_PROXY_SHUTDOWN_def
  TYPE_PROXY_FEATURE_def

section \<open>Message structures\<close>

record version_t =
  major :: u32
  minor :: u32

record request_header =
  rq_message_len :: u32
  rq_header_len :: u32
  rq_body_len :: u32
  rq_data_len :: u32
  rq_message_id :: u32
  rq_message_type :: u32
  rq_app_id :: u32
  rq_controller_id :: u32
  rq_session_id :: u32

record answer_header =
  an_message_len :: u32
  an_header_len :: u32
  an_body_len :: u32
  an_data_len :: u32
  an_message_id :: u32
  an_message_type :: u32
  an_app_id :: u32
  an_session_id :: u32
  an_proxy_error :: u32
  an_capi_error :: u32

record request_capi_register =
  messageBufferSize :: u32
  maxLogicalConnection :: u32
  maxBDataBlocks :: u32
  maxBDataLen :: u32

record answer_proxy_helo =
  re_name :: "byte list"
  re_os :: u32
  re_version :: version_t
  re_auth_type :: u32
  re_timeout :: u32

text \<open>Sizes. Structures without members have size 0 in GNU C.\<close>

definition sizeof_REQUEST_HEADER :: nat where "sizeof_REQUEST_HEADER = 36"
definition sizeof_ANSWER_HEADER :: nat where "sizeof_ANSWER_HEADER = 40"
definition sizeof_REQUEST_PROXY_HELO :: nat where "sizeof_REQUEST_PROXY_HELO = 76"
definition sizeof_REQUEST_PROXY_AUTH :: nat where "sizeof_REQUEST_PROXY_AUTH = 4"
definition sizeof_REQUEST_CAPI_REGISTER :: nat where "sizeof_REQUEST_CAPI_REGISTER = 16"
definition sizeof_ANSWER_PROXY_HELO :: nat where "sizeof_ANSWER_PROXY_HELO = 84"
definition sizeof_ANSWER_PROXY_SHUTDOWN :: nat where "sizeof_ANSWER_PROXY_SHUTDOWN = 128"
definition sizeof_ANSWER_CAPI_MANUFACTURER :: nat where "sizeof_ANSWER_CAPI_MANUFACTURER = 64"
definition sizeof_ANSWER_CAPI_VERSION :: nat where "sizeof_ANSWER_CAPI_VERSION = 16"
definition sizeof_ANSWER_CAPI_SERIAL :: nat where "sizeof_ANSWER_CAPI_SERIAL = 8"
definition sizeof_ANSWER_CAPI_PROFILE :: nat where "sizeof_ANSWER_CAPI_PROFILE = 64"

lemmas sizeof_defs =
  sizeof_REQUEST_HEADER_def sizeof_ANSWER_HEADER_def sizeof_REQUEST_PROXY_HELO_def
  sizeof_REQUEST_PROXY_AUTH_def sizeof_REQUEST_CAPI_REGISTER_def sizeof_ANSWER_PROXY_HELO_def
  sizeof_ANSWER_PROXY_SHUTDOWN_def sizeof_ANSWER_CAPI_MANUFACTURER_def
  sizeof_ANSWER_CAPI_VERSION_def sizeof_ANSWER_CAPI_SERIAL_def sizeof_ANSWER_CAPI_PROFILE_def

section \<open>Layout\<close>

text \<open>Offsets of the members of \<^verbatim>\<open>struct ANSWER_HEADER\<close>.\<close>

abbreviation (input) "AH_message_len \<equiv> (0::nat)"
abbreviation (input) "AH_header_len \<equiv> (4::nat)"
abbreviation (input) "AH_body_len \<equiv> (8::nat)"
abbreviation (input) "AH_data_len \<equiv> (12::nat)"
abbreviation (input) "AH_message_id \<equiv> (16::nat)"
abbreviation (input) "AH_message_type \<equiv> (20::nat)"
abbreviation (input) "AH_app_id \<equiv> (24::nat)"
abbreviation (input) "AH_session_id \<equiv> (28::nat)"
abbreviation (input) "AH_proxy_error \<equiv> (32::nat)"
abbreviation (input) "AH_capi_error \<equiv> (36::nat)"

definition request_header_at :: "buffer \<Rightarrow> request_header" where
  "request_header_at b = \<lparr>rq_message_len = get32 b 0, rq_header_len = get32 b 4,
     rq_body_len = get32 b 8, rq_data_len = get32 b 12, rq_message_id = get32 b 16,
     rq_message_type = get32 b 20, rq_app_id = get32 b 24, rq_controller_id = get32 b 28,
     rq_session_id = get32 b 32\<rparr>"

definition answer_header_at :: "buffer \<Rightarrow> answer_header" where
  "answer_header_at b = \<lparr>an_message_len = get32 b AH_message_len,
     an_header_len = get32 b AH_header_len, an_body_len = get32 b AH_body_len,
     an_data_len = get32 b AH_data_len, an_message_id = get32 b AH_message_id,
     an_message_type = get32 b AH_message_type, an_app_id = get32 b AH_app_id,
     an_session_id = get32 b AH_session_id, an_proxy_error = get32 b AH_proxy_error,
     an_capi_error = get32 b AH_capi_error\<rparr>"

definition encode_request_header :: "request_header \<Rightarrow> byte list" where
  "encode_request_header h = concat (map (bytes_le 4)
     [rq_message_len h, rq_header_len h, rq_body_len h, rq_data_len h, rq_message_id h,
      rq_message_type h, rq_app_id h, rq_controller_id h, rq_session_id h])"

definition encode_answer_header :: "answer_header \<Rightarrow> byte list" where
  "encode_answer_header h = concat (map (bytes_le 4)
     [an_message_len h, an_header_len h, an_body_len h, an_data_len h, an_message_id h,
      an_message_type h, an_app_id h, an_session_id h, an_proxy_error h, an_capi_error h])"

text \<open>A packet seen as a buffer: the octets of the list, zero beyond its end.\<close>

definition buffer_of :: "byte list \<Rightarrow> buffer" where
  "buffer_of bs = put_bytes 0 bs (\<lambda>_. 0)"

section \<open>Encoding and decoding are inverse\<close>

lemma get32_buffer_of_append:
  "get32 (put_bytes 0 (xs @ bytes_le 4 w @ ys) b) (length xs) = w"
proof -
  have "get_bytes (put_bytes 0 (xs @ bytes_le 4 w @ ys) b) (length xs) 4 = bytes_le 4 w"
    by (rule nth_equalityI) (auto simp: put_bytes_def nth_append)
  then show ?thesis by (simp add: get32_def word_le_bytes_le)
qed

lemma get32_words:
  assumes "k < length ws"
  shows "get32 (put_bytes 0 (concat (map (bytes_le 4) ws) @ ys) b) (4 * k) = (ws ! k :: u32)"
proof -
  have len: "length (concat (map (bytes_le 4) vs)) = 4 * length vs" for vs :: "u32 list"
    by (induction vs) auto
  have "ws = take k ws @ ws ! k # drop (Suc k) ws"
    using assms by (rule id_take_nth_drop)
  then have "concat (map (bytes_le 4) ws) = concat (map (bytes_le 4) (take k ws)) @
      bytes_le 4 (ws ! k) @ concat (map (bytes_le 4) (drop (Suc k) ws))"
    by (metis concat_append list.simps(9) map_append concat.simps(2))
  then show ?thesis
    using get32_buffer_of_append [of "concat (map (bytes_le 4) (take k ws))" "ws ! k"
        "concat (map (bytes_le 4) (drop (Suc k) ws)) @ ys" b] assms
    by (simp add: len)
qed

lemma get32_words_at:
  "off mod 4 = 0 \<Longrightarrow> off div 4 < length ws \<Longrightarrow>
     get32 (put_bytes 0 (concat (map (bytes_le 4) ws) @ ys) b) off = (ws ! (off div 4) :: u32)"
  using get32_words [of "off div 4" ws ys b] by (simp add: mult_div_mod_eq mod_eq_0_iff_dvd)

lemma request_header_at_encode:
  "request_header_at (put_bytes 0 (encode_request_header h @ ys) b) = h"
  unfolding request_header_at_def encode_request_header_def
  by (simp add: get32_words_at del: concat.simps list.map)

lemma answer_header_at_encode:
  "answer_header_at (put_bytes 0 (encode_answer_header h @ ys) b) = h"
  unfolding answer_header_at_def encode_answer_header_def
  by (simp add: get32_words_at del: concat.simps list.map)

lemma bytes_le_get32: "bytes_le 4 (get32 b off) = get_bytes b off 4"
  by (simp add: get32_def bytes_le_word_le)

lemma get_bytes_append: "get_bytes b off m @ get_bytes b (off + m) n = get_bytes b off (m + n)"
  using get_bytes_split [of m "m + n" b off] by simp

lemma get_bytes_append_assoc:
  "o' = off + m \<Longrightarrow> get_bytes b off m @ get_bytes b o' n @ xs = get_bytes b off (m + n) @ xs"
  by (metis append.assoc get_bytes_append)

lemma get_bytes_4words:
  "get_bytes b off 16 = bytes_le 4 (get32 b off) @ bytes_le 4 (get32 b (off + 4)) @
     bytes_le 4 (get32 b (off + 8)) @ bytes_le 4 (get32 b (off + 12))"
  by (simp add: bytes_le_get32 get_bytes_append_assoc get_bytes_append [of b off, simplified]
      get_bytes_append [of b off 12 4])

lemma get_bytes_put_bytes_inside:
  "o' + n \<le> length bs \<Longrightarrow> get_bytes (put_bytes 0 bs b) o' n = take n (drop o' bs)"
  by (rule nth_equalityI) (auto simp: put_bytes_def)

lemma encode_request_header_at: "encode_request_header (request_header_at b) = get_bytes b 0 36"
proof -
  have "encode_request_header (request_header_at b) =
      concat (map (\<lambda>k. get_bytes b (4 * k) 4) [0..<9])"
    by (simp add: encode_request_header_def request_header_at_def bytes_le_get32 upt_rec)
  also have "\<dots> = get_bytes b 0 36"
    by (simp add: upt_rec get_bytes_append_assoc get_bytes_append [of b 0, simplified])
  finally show ?thesis .
qed

lemma encode_answer_header_at: "encode_answer_header (answer_header_at b) = get_bytes b 0 40"
proof -
  have "encode_answer_header (answer_header_at b) =
      concat (map (\<lambda>k. get_bytes b (4 * k) 4) [0..<10])"
    by (simp add: encode_answer_header_def answer_header_at_def bytes_le_get32 upt_rec)
  also have "\<dots> = get_bytes b 0 40"
    by (simp add: upt_rec get_bytes_append_assoc get_bytes_append [of b 0, simplified])
  finally show ?thesis .
qed

lemma length_encode_request_header [simp]: "length (encode_request_header h) = 36"
  by (simp add: encode_request_header_def)

lemma length_encode_answer_header [simp]: "length (encode_answer_header h) = 40"
  by (simp add: encode_answer_header_def)

lemma get32_buffer_of_get_bytes:
  "off + 4 \<le> n \<Longrightarrow> get32 (buffer_of (get_bytes b 0 n)) off = get32 b off"
  unfolding get32_def buffer_of_def
  by (rule arg_cong [where f = word_le], rule get_bytes_eqI) (auto simp: put_bytes_def)

lemma answer_header_of_sent:
  "40 \<le> n \<Longrightarrow> answer_header_at (buffer_of (get_bytes b 0 n)) = answer_header_at b"
  by (simp add: answer_header_at_def get32_buffer_of_get_bytes)

end
