(* ===== verification/AppIndex.thy ===== *)
theory AppIndex
  imports Prelude
begin

text \<open>
  The table of the applications a session has registered with the CAPI
  (\<^verbatim>\<open>linux-server/src/appindex.c\<close>) and its predecessor, the linked list of
  \<^verbatim>\<open>linux-server/src/old/main-rev1.14-cvs.c\<close>.

  The interface both offer to the session code is the locale \<open>app_index\<close>: the operations
  with the set of application ids they represent. Inside the locale the loop
  \<^verbatim>\<open>while((app=getfirst_app(_list))) capi20_release(app);\<close> is shown to release every
  registered application exactly once. The table and the list are two interpretations.

  The number \<open>m\<close> stands for \<^verbatim>\<open>CAPI_MAXAPPL\<close> of \<^verbatim>\<open>linux/capi.h\<close>. The table is the memory from
  \<^verbatim>\<open>registered_apps\<close> upwards, as a function of the index: the array is declared with \<open>m\<close>
  elements, but \<^verbatim>\<open>getfirst_app\<close> looks at the indices 1 to \<open>m\<close> and the server clears
  \<open>m + 1\<close> octets, so the octet behind the array takes part (\<open>declared_apps\<close> is the declared
  range).
\<close>

section \<open>The interface\<close>

locale app_index =
  fixes elems :: "'s \<Rightarrow> u32 set"
    and invar :: "'s \<Rightarrow> bool"
    and valid :: "u32 \<Rightarrow> bool"
    and add :: "u32 \<Rightarrow> 's \<Rightarrow> 's"
    and del :: "u32 \<Rightarrow> 's \<Rightarrow> 's"
    and first :: "'s \<Rightarrow> u32 \<times> 's"
    and rel :: "u32 \<Rightarrow> 'w \<Rightarrow> u32 \<times> 'w"
    and rel_all :: "'s \<Rightarrow> 'w \<Rightarrow> 's \<times> 'w"
  assumes elems_finite: "finite (elems s)"
    and elems_nonzero: "invar s \<Longrightarrow> 0 \<notin> elems s"
    and invar_add: "invar s \<Longrightarrow> valid a \<Longrightarrow> a \<notin> elems s \<Longrightarrow> invar (add a s)"
    and elems_add: "invar s \<Longrightarrow> valid a \<Longrightarrow> a \<notin> elems s \<Longrightarrow> elems (add a s) = insert a (elems s)"
    and invar_del: "invar s \<Longrightarrow> invar (del a s)"
    and elems_del: "invar s \<Longrightarrow> elems (del a s) = elems s - {a}"
    and first_none: "invar s \<Longrightarrow> elems s = {} \<Longrightarrow> fst (first s) = 0 \<and> elems (snd (first s)) = {}"
    and first_some: "invar s \<Longrightarrow> elems s \<noteq> {} \<Longrightarrow>
          fst (first s) \<in> elems s \<and> elems (snd (first s)) = elems s - {fst (first s)} \<and>
          invar (snd (first s))"
    and rel_all_unfold: "rel_all s w =
          (let (app, s') = first s
           in if app \<noteq> 0 then rel_all s' (snd (rel app w)) else (s', w))"
begin

text \<open>
  A release run: the ids in the order they are released, each once, and the calls of
  \<^verbatim>\<open>capi20_release\<close> they amount to.
\<close>

lemma rel_all_exact:
  assumes "invar s"
  shows "\<exists>apps. distinct apps \<and> set apps = elems s \<and>
           snd (rel_all s w) = fold (\<lambda>a v. snd (rel a v)) apps w \<and>
           elems (fst (rel_all s w)) = {}"
  using assms
proof (induction "card (elems s)" arbitrary: s w)
  case 0
  then have "elems s = {}" by (simp add: elems_finite)
  with first_none [OF 0(2)] show ?case
    by (intro exI [of _ "[]"]) (auto simp: rel_all_unfold [of s] split: prod.splits)
next
  case (Suc n)
  obtain a s' where f: "first s = (a, s')" by fastforce
  from Suc(2) have ne: "elems s \<noteq> {}" by auto
  with first_some [OF Suc(3) ne] f have a: "a \<in> elems s" "elems s' = elems s - {a}" "invar s'"
    by auto
  then have a0: "a \<noteq> 0" using elems_nonzero [OF Suc(3)] by auto
  have "n = card (elems s')" using Suc(2) a by (simp add: elems_finite)
  from Suc(1) [OF this a(3), of "snd (rel a w)"] obtain apps where apps: "distinct apps"
    "set apps = elems s'"
    "snd (rel_all s' (snd (rel a w))) = fold (\<lambda>a v. snd (rel a v)) apps (snd (rel a w))"
    "elems (fst (rel_all s' (snd (rel a w)))) = {}" by blast
  have "rel_all s w = rel_all s' (snd (rel a w))"
    by (subst rel_all_unfold) (simp add: f a0)
  with apps a show ?case
    by (intro exI [of _ "a # apps"]) auto
qed

lemma elems_add_del: "invar s \<Longrightarrow> valid a \<Longrightarrow> a \<notin> elems s \<Longrightarrow> elems (del a (add a s)) = elems s"
  by (simp add: elems_del invar_add elems_add)

end

section \<open>The table of appindex.c\<close>

type_synonym app_table = "nat \<Rightarrow> byte"

definition declared_apps :: "nat \<Rightarrow> nat set" where
  "declared_apps m = {..<m}"

text \<open>
  The table is memory indexed by application ids. The array declared in the source has \<open>CAPI_MAXAPPL\<close> elements
  (\<open>declared_apps\<close>), and neither \<^verbatim>\<open>add_app\<close> nor \<^verbatim>\<open>del_app\<close> compares an id with that: what is stored at a larger
  index is read back like any other entry, and what it destroys there is not modelled.
\<close>

definition add_app :: "u32 \<Rightarrow> app_table \<Rightarrow> app_table" where
  "add_app a l = l(unat a := 1)"

definition del_app :: "u32 \<Rightarrow> app_table \<Rightarrow> app_table" where
  "del_app a l = l(unat a := 0)"

function getfirst_loop :: "nat \<Rightarrow> nat \<Rightarrow> app_table \<Rightarrow> u32 \<times> app_table" where
  "getfirst_loop m i l =
     (if i \<le> m
      then if l i \<noteq> 0 then (of_nat i, l(i := 0)) else getfirst_loop m (Suc i) l
      else (0, l))"
  by pat_completeness auto
termination
  by (relation "measure (\<lambda>(m, i, l). Suc m - i)") auto

declare getfirst_loop.simps [simp del]

definition getfirst_app :: "nat \<Rightarrow> app_table \<Rightarrow> u32 \<times> app_table" where
  "getfirst_app m l = getfirst_loop m 1 l"

lemma getfirst_loop_cases:
  "(\<exists>k. i \<le> k \<and> k \<le> m \<and> l k \<noteq> 0 \<and> (\<forall>j. i \<le> j \<and> j < k \<longrightarrow> l j = 0) \<and>
      getfirst_loop m i l = (of_nat k, l(k := 0))) \<or>
   ((\<forall>j. i \<le> j \<and> j \<le> m \<longrightarrow> l j = 0) \<and> getfirst_loop m i l = (0, l))"
proof (induction m i l rule: getfirst_loop.induct)
  case (1 m i l)
  consider "m < i" | "i \<le> m" "l i \<noteq> 0" | "i \<le> m" "l i = 0" by linarith
  then show ?case
  proof cases
    case 3
    have eq: "getfirst_loop m i l = getfirst_loop m (Suc i) l"
      using 3 by (simp add: getfirst_loop.simps [of m i l])
    have split: "j = i \<or> Suc i \<le> j" if "i \<le> j" for j using that by auto
    have "(\<exists>k. Suc i \<le> k \<and> k \<le> m \<and> l k \<noteq> 0 \<and>
        (\<forall>j. Suc i \<le> j \<and> j < k \<longrightarrow> l j = 0) \<and> getfirst_loop m (Suc i) l = (of_nat k, l(k := 0))) \<or>
      ((\<forall>j. Suc i \<le> j \<and> j \<le> m \<longrightarrow> l j = 0) \<and> getfirst_loop m (Suc i) l = (0, l))"
      by (rule 1) (use 3 in simp_all)
    then show ?thesis
    proof (elim disjE exE conjE)
      fix k assume "Suc i \<le> k" "k \<le> m" "l k \<noteq> 0" "\<forall>j. Suc i \<le> j \<and> j < k \<longrightarrow> l j = 0"
        "getfirst_loop m (Suc i) l = (of_nat k, l(k := 0))"
      then show ?thesis
        using eq 3 split by (intro disjI1 exI [of _ k]) (auto dest!: split)
    next
      assume "\<forall>j. Suc i \<le> j \<and> j \<le> m \<longrightarrow> l j = 0" "getfirst_loop m (Suc i) l = (0, l)"
      then show ?thesis
        using eq 3 by (intro disjI2) (auto dest!: split)
    qed
  next
    case 2
    then show ?thesis
      by (intro disjI1 exI [of _ i]) (auto simp: getfirst_loop.simps [of m i l] fun_upd_def)
  qed (auto simp: getfirst_loop.simps [of m i l])
qed

function release_all :: "nat \<Rightarrow> (u32 \<Rightarrow> 'w \<Rightarrow> u32 \<times> 'w) \<Rightarrow> app_table \<Rightarrow> 'w \<Rightarrow> app_table \<times> 'w" where
  "release_all m rel l w =
     (let (app, l') = getfirst_app m l
      in if app \<noteq> 0 then release_all m rel l' (snd (rel app w)) else (l', w))"
  by pat_completeness auto
termination
proof (relation "measure (\<lambda>(m, rel, l, w). card {i. i \<le> m \<and> l i \<noteq> 0})", simp, clarsimp)
  fix m l and app :: u32 and l' and w :: 'w and rel :: "u32 \<Rightarrow> 'w \<Rightarrow> u32 \<times> 'w"
  assume "(app, l') = getfirst_app m l" "app \<noteq> 0"
  then obtain k where k: "k \<le> m" "l k \<noteq> 0" "l' = l(k := 0)"
    using getfirst_loop_cases [of 1 m l] by (auto simp: getfirst_app_def)
  have fin: "finite {i. i \<le> m \<and> l i \<noteq> 0}" by simp
  have "{i. i \<le> m \<and> l' i \<noteq> 0} \<subset> {i. i \<le> m \<and> l i \<noteq> 0}" using k by auto
  with fin show "card {i. i \<le> m \<and> l' i \<noteq> 0} < card {i. i \<le> m \<and> l i \<noteq> 0}"
    by (rule psubset_card_mono)
qed

declare release_all.simps [simp del]

definition apps_of :: "nat \<Rightarrow> app_table \<Rightarrow> u32 set" where
  "apps_of m l = {a. a \<noteq> 0 \<and> unat a \<le> m \<and> l (unat a) \<noteq> 0}"

lemma apps_of_finite: "finite (apps_of m l)"
  by simp

lemma u32_of_index:
  assumes "0 < k" and "k < 2 ^ 32"
  shows "(of_nat k :: u32) \<noteq> 0 \<and> unat (of_nat k :: u32) = k"
proof -
  have "unat (of_nat k :: u32) = k"
    using assms(2) by (simp add: unat_of_nat)
  with assms(1) show ?thesis by (metis less_numeral_extra(3) unat_0)
qed

text \<open>
  The index found is the least one; below 2 to the 32 it is the id itself, and every id
  is such an index.
\<close>

lemma getfirst_app_cases:
  assumes "m < 2 ^ 32"
  obtains (found) a where "a \<in> apps_of m l" "getfirst_app m l = (a, l(unat a := 0))"
      "\<forall>b \<in> apps_of m l. a \<le> b"
  | (empty) "apps_of m l = {}" "getfirst_app m l = (0, l)"
proof -
  have pos: "1 \<le> unat b" if "b \<noteq> 0" for b :: u32
    using that by (simp add: Suc_le_eq unat_gt_0)
  from getfirst_loop_cases [of 1 m l] show thesis
  proof (elim disjE exE conjE)
    fix k assume k: "1 \<le> k" "k \<le> m" "l k \<noteq> 0" "\<forall>j. 1 \<le> j \<and> j < k \<longrightarrow> l j = 0"
      "getfirst_loop m 1 l = (of_nat k, l(k := 0))"
    have least: "k \<le> unat b" if "b \<in> apps_of m l" for b
      using k(4) that pos [of b] by (auto simp: apps_of_def intro: leI)
    have "(of_nat k :: u32) \<noteq> 0" "unat (of_nat k :: u32) = k"
      using k(1,2) assms u32_of_index [of k] by auto
    then show thesis using k least
      by (intro found [of "of_nat k"]) (auto simp: apps_of_def getfirst_app_def word_le_nat_alt)
  next
    assume "\<forall>j. 1 \<le> j \<and> j \<le> m \<longrightarrow> l j = 0" "getfirst_loop m 1 l = (0, l)"
    with pos show thesis
      by (intro empty) (auto simp: apps_of_def getfirst_app_def)
  qed
qed

lemma apps_of_clear: "apps_of m (l(unat a := 0)) = apps_of m l - {a}"
  by (auto simp: apps_of_def word_unat_eq_iff)

lemma apps_of_del: "apps_of m (del_app a l) = apps_of m l - {a}"
  by (simp add: del_app_def apps_of_clear)

lemma apps_of_add:
  "a \<noteq> 0 \<Longrightarrow> unat a \<le> m \<Longrightarrow> apps_of m (add_app a l) = insert a (apps_of m l)"
  by (auto simp: apps_of_def add_app_def word_unat_eq_iff)

interpretation table: app_index "apps_of m" "\<lambda>_. m < 2 ^ 32" "\<lambda>a. a \<noteq> 0 \<and> unat a \<le> m"
  add_app del_app "getfirst_app m" rel "release_all m rel" for m rel
proof
  fix s assume m: "m < 2 ^ 32"
  show "0 \<notin> apps_of m s" by (simp add: apps_of_def)
next
  fix s and w :: 'a
  show "release_all m rel s w = (let (app, s') = getfirst_app m s
      in if app \<noteq> 0 then release_all m rel s' (snd (rel app w)) else (s', w))"
    by (rule release_all.simps)
next
  fix s assume m: "m < 2 ^ 32"
  show "apps_of m s = {} \<Longrightarrow>
      fst (getfirst_app m s) = 0 \<and> apps_of m (snd (getfirst_app m s)) = {}"
    by (rule getfirst_app_cases [OF m, of s]) auto
  show "apps_of m s \<noteq> {} \<Longrightarrow> fst (getfirst_app m s) \<in> apps_of m s \<and>
      apps_of m (snd (getfirst_app m s)) = apps_of m s - {fst (getfirst_app m s)} \<and> m < 2 ^ 32"
    by (rule getfirst_app_cases [OF m, of s]) (use m in \<open>auto simp: apps_of_clear\<close>)
qed (auto simp: apps_of_del apps_of_add)

section \<open>The linked list of the first server\<close>

text \<open>
  The nodes in list order. \<^verbatim>\<open>add_app\<close> walks to the last node and links a new one behind it,
  \<^verbatim>\<open>del_app\<close> unlinks and frees the first node with the id, \<^verbatim>\<open>getfirst_app\<close> pops the head. \<^verbatim>\<open>malloc\<close> is taken to
  succeed; \<^verbatim>\<open>add_app\<close> does not test its result.
\<close>

fun add_app_list :: "u32 \<Rightarrow> u32 list \<Rightarrow> u32 list" where
  "add_app_list a [] = [a]"
| "add_app_list a (x # xs) = x # add_app_list a xs"

fun del_app_list :: "u32 \<Rightarrow> u32 list \<Rightarrow> u32 list" where
  "del_app_list a [] = []"
| "del_app_list a (x # xs) = (if x = a then xs else x # del_app_list a xs)"

fun getfirst_app_list :: "u32 list \<Rightarrow> u32 \<times> u32 list" where
  "getfirst_app_list [] = (0, [])"
| "getfirst_app_list (x # xs) = (x, xs)"

fun release_all_list :: "(u32 \<Rightarrow> 'w \<Rightarrow> u32 \<times> 'w) \<Rightarrow> u32 list \<Rightarrow> 'w \<Rightarrow> u32 list \<times> 'w" where
  "release_all_list rel [] w = ([], w)"
| "release_all_list rel (x # xs) w =
     (if x \<noteq> 0 then release_all_list rel xs (snd (rel x w)) else (xs, w))"

lemma set_add_app_list: "set (add_app_list a xs) = insert a (set xs)"
  by (induction xs) auto

lemma distinct_add_app_list: "distinct xs \<Longrightarrow> a \<notin> set xs \<Longrightarrow> distinct (add_app_list a xs)"
  by (induction xs) (auto simp: set_add_app_list)

lemma del_app_list_distinct: "distinct xs \<Longrightarrow> del_app_list a xs = removeAll a xs"
  by (induction xs) auto

interpretation applist: app_index set "\<lambda>xs. distinct xs \<and> 0 \<notin> set xs" "\<lambda>a. a \<noteq> 0"
  add_app_list del_app_list getfirst_app_list rel "release_all_list rel" for rel
proof
  fix xs :: "u32 list" and w
  show "distinct xs \<and> 0 \<notin> set xs \<Longrightarrow> set xs \<noteq> {} \<Longrightarrow>
      fst (getfirst_app_list xs) \<in> set xs \<and>
      set (snd (getfirst_app_list xs)) = set xs - {fst (getfirst_app_list xs)} \<and>
      distinct (snd (getfirst_app_list xs)) \<and> 0 \<notin> set (snd (getfirst_app_list xs))"
    by (cases xs) auto
  show "release_all_list rel xs w = (let (app, s') = getfirst_app_list xs
      in if app \<noteq> 0 then release_all_list rel s' (snd (rel app w)) else (s', w))"
    by (cases xs) auto
qed (auto simp: del_app_list_distinct set_add_app_list distinct_add_app_list distinct_removeAll)

end
