(* ===== verification/ServerState.thy ===== *)
theory ServerState
  imports Protocol AppIndex
begin

text \<open>
  What the handlers of the Linux server \<^verbatim>\<open>capifwd\<close> work on: the globals of \<^verbatim>\<open>capifwd.h\<close>, the
  two packet buffers, the socket and process calls of the C library, and the CAPI library.

  The CAPI library \<^verbatim>\<open>libcapi20\<close> is not part of the repository. It is a parameter, a value of
  the record \<open>capi20\<close>: one function per entry point the server calls, on a state of
  arbitrary type \<open>'w\<close>. What a buffer argument receives is returned as the octets written.
  \<open>capi20_documented\<close> collects what the CAPI 2.0 documentation says about the results.

  The calls of the C library have scripted results: \<open>rx\<close> is what \<^verbatim>\<open>recv\<close> will deliver,
  \<open>send_rets\<close> and \<open>fork_rets\<close> what \<^verbatim>\<open>send\<close> and \<^verbatim>\<open>fork\<close> will return (an exhausted script
  stands for success). \<open>tx\<close> records every call of \<^verbatim>\<open>send\<close> with its return value. Calls of
  \<^verbatim>\<open>syslog\<close> are not recorded.
\<close>

section \<open>The CAPI library\<close>

record 'w capi20 =
  CAPI_MAXAPPL :: nat
  capi20_register :: "u32 \<Rightarrow> u32 \<Rightarrow> u32 \<Rightarrow> u32 \<Rightarrow> 'w \<Rightarrow> u32 \<times> u32 \<times> 'w"
  capi20_release :: "u32 \<Rightarrow> 'w \<Rightarrow> u32 \<times> 'w"
  capi20_put_message :: "u32 \<Rightarrow> u32 \<Rightarrow> buffer \<Rightarrow> 'w \<Rightarrow> u32 \<times> 'w"
  capi20_get_message :: "u32 \<Rightarrow> 'w \<Rightarrow> u32 \<times> u32 \<times> 'w"
  capi20_memory :: "'w \<Rightarrow> u32 \<Rightarrow> byte"
  capi20_waitformessage :: "u32 \<Rightarrow> 'w \<Rightarrow> u32 \<times> 'w"
  capi20_get_manufacturer :: "u32 \<Rightarrow> 'w \<Rightarrow> byte list \<times> 'w"
  capi20_get_version :: "u32 \<Rightarrow> 'w \<Rightarrow> byte list \<times> 'w"
  capi20_get_serial_number :: "u32 \<Rightarrow> 'w \<Rightarrow> byte list \<times> 'w"
  capi20_get_profile :: "u32 \<Rightarrow> 'w \<Rightarrow> u32 \<times> byte list \<times> 'w"
  capi20_isinstalled :: "'w \<Rightarrow> u32 \<times> 'w"

text \<open>The octets at an address of the library's memory.\<close>

definition capi20_bytes :: "('w, 'z) capi20_scheme \<Rightarrow> 'w \<Rightarrow> u32 \<Rightarrow> nat \<Rightarrow> byte list" where
  "capi20_bytes L w a n = map (\<lambda>i. capi20_memory L w (a + of_nat i)) [0..<n]"

lemma length_capi20_bytes [simp]: "length (capi20_bytes L w a n) = n"
  by (simp add: capi20_bytes_def)

definition capi20_documented :: "('w, 'z) capi20_scheme \<Rightarrow> bool" where
  "capi20_documented L \<longleftrightarrow>
     CAPI_MAXAPPL L < 2 ^ 32 \<and>
     (\<forall>c b l a w. fst (capi20_register L c b l a w) = 0 \<longrightarrow>
        fst (snd (capi20_register L c b l a w)) \<noteq> 0 \<and>
        unat (fst (snd (capi20_register L c b l a w))) \<le> CAPI_MAXAPPL L) \<and>
     (\<forall>c w. length (fst (capi20_get_manufacturer L c w)) = 64) \<and>
     (\<forall>c w. length (fst (capi20_get_version L c w)) = 16) \<and>
     (\<forall>c w. length (fst (capi20_get_serial_number L c w)) = 8) \<and>
     (\<forall>c w. length (fst (snd (capi20_get_profile L c w))) = 64)"

section \<open>State\<close>

definition PACKET_SIZE :: nat where "PACKET_SIZE = 10000"
definition MY_MAJOR :: u32 where "MY_MAJOR = 1"
definition MY_MINOR :: u32 where "MY_MINOR = 2"
definition STD_AUTH_REQUIRED :: u32 where "STD_AUTH_REQUIRED = 1"
definition STD_PORT :: int where "STD_PORT = 6674"

record client_info =
  ci_os :: u32
  ci_version :: version_t
  ci_name :: "byte list"
  ci_messageBufferLen :: u32

datatype recv_event = Data "byte list" | RecvError

record 'w server =
  sessionID :: u32
  auth_types :: u32
  local_version :: version_t
  client_info :: client_info
  out_packet :: buffer
  in_packet :: buffer
  in_addr :: u32
  stack_junk :: buffer
  registered_apps :: app_table
  numbytes :: int
  sc_open :: bool
  sock_open :: bool
  sockname :: "u32 option"
  rx :: "recv_event list"
  tx :: "(byte list \<times> int) list"
  send_rets :: "int list"
  fork_rets :: "int list"
  world :: 'w

text \<open>A process either goes on with a return value or has ended with an exit status.\<close>

datatype control = Returned int | Exited int

section \<open>Sockets and processes\<close>

text \<open>
  One call of \<^verbatim>\<open>recv\<close> with room for \<open>n\<close> octets on a stream: it returns what has arrived, at
  most \<open>n\<close> octets, and leaves the rest. A closed connection (no further events, or an
  empty one) gives 0, an error -1.
\<close>

fun sock_recv :: "recv_event list \<Rightarrow> nat \<Rightarrow> int \<times> byte list \<times> recv_event list" where
  "sock_recv [] n = (0, [], [])"
| "sock_recv (RecvError # es) n = (-1, [], es)"
| "sock_recv (Data bs # es) n =
     (int (min (length bs) n), take n bs, if length bs \<le> n then es else Data (drop n bs) # es)"

definition sock_send :: "byte list \<Rightarrow> 'w server \<Rightarrow> int \<times> 'w server" where
  "sock_send pkt s =
     (let (r, rs) = (case send_rets s of [] \<Rightarrow> (int (length pkt), []) | r # rs \<Rightarrow> (r, rs))
      in (r, s\<lparr>send_rets := rs, tx := tx s @ [(pkt, r)], numbytes := r\<rparr>))"

definition sys_fork :: "'w server \<Rightarrow> int \<times> 'w server" where
  "sys_fork s = (case fork_rets s of [] \<Rightarrow> (1, s) | r # rs \<Rightarrow> (r, s\<lparr>fork_rets := rs\<rparr>))"

section \<open>Composing and sending an answer\<close>

text \<open>Fields of the request in \<^verbatim>\<open>in_packet\<close>, and the write \<^verbatim>\<open>head->f = v\<close> to \<^verbatim>\<open>out_packet\<close>.\<close>

abbreviation req :: "'w server \<Rightarrow> request_header" where
  "req s \<equiv> request_header_at (in_packet s)"

definition set_head :: "nat \<Rightarrow> u32 \<Rightarrow> 'w server \<Rightarrow> 'w server" where
  "set_head off v s = s\<lparr>out_packet := put32 off v (out_packet s)\<rparr>"

text \<open>\<^verbatim>\<open>head->message_len = head->header_len + head->body_len + head->data_len\<close>\<close>

definition set_message_len :: "'w server \<Rightarrow> 'w server" where
  "set_message_len s = set_head AH_message_len
     (get32 (out_packet s) AH_header_len + get32 (out_packet s) AH_body_len +
      get32 (out_packet s) AH_data_len) s"

text \<open>\<^verbatim>\<open>numbytes = send(sock, out_packet, head->message_len, 0)\<close>\<close>

definition send_answer :: "'w server \<Rightarrow> (int \<times> 'w server) option" where
  "send_answer s =
     (case get_bytes_chk PACKET_SIZE (out_packet s) 0 (unat (get32 (out_packet s) AH_message_len)) of
        None \<Rightarrow> None
      | Some pkt \<Rightarrow> Some (sock_send pkt s))"

lemma set_head_simps [simp]:
  "out_packet (set_head off v s) = put32 off v (out_packet s)"
  "in_packet (set_head off v s) = in_packet s"
  "in_addr (set_head off v s) = in_addr s"
  "sessionID (set_head off v s) = sessionID s"
  "world (set_head off v s) = world s"
  "tx (set_head off v s) = tx s"
  "rx (set_head off v s) = rx s"
  "send_rets (set_head off v s) = send_rets s"
  "fork_rets (set_head off v s) = fork_rets s"
  "registered_apps (set_head off v s) = registered_apps s"
  "client_info (set_head off v s) = client_info s"
  "local_version (set_head off v s) = local_version s"
  "sockname (set_head off v s) = sockname s"
  "stack_junk (set_head off v s) = stack_junk s"
  "sock_open (set_head off v s) = sock_open s"
  "sc_open (set_head off v s) = sc_open s"
  "auth_types (set_head off v s) = auth_types s"
  "numbytes (set_head off v s) = numbytes s"
  "server.more (set_head off v s) = server.more s"
  by (simp_all add: set_head_def)

lemma set_message_len_simps [simp]:
  "in_packet (set_message_len s) = in_packet s"
  "in_addr (set_message_len s) = in_addr s"
  "sessionID (set_message_len s) = sessionID s"
  "world (set_message_len s) = world s"
  "tx (set_message_len s) = tx s"
  "rx (set_message_len s) = rx s"
  "send_rets (set_message_len s) = send_rets s"
  "fork_rets (set_message_len s) = fork_rets s"
  "registered_apps (set_message_len s) = registered_apps s"
  "client_info (set_message_len s) = client_info s"
  "local_version (set_message_len s) = local_version s"
  "sockname (set_message_len s) = sockname s"
  "stack_junk (set_message_len s) = stack_junk s"
  "sock_open (set_message_len s) = sock_open s"
  "sc_open (set_message_len s) = sc_open s"
  "auth_types (set_message_len s) = auth_types s"
  "numbytes (set_message_len s) = numbytes s"
  "server.more (set_message_len s) = server.more s"
  by (simp_all add: set_message_len_def)

lemma out_packet_set_message_len:
  "out_packet (set_message_len s) = put32 AH_message_len
     (get32 (out_packet s) AH_header_len + get32 (out_packet s) AH_body_len +
      get32 (out_packet s) AH_data_len) (out_packet s)"
  by (simp add: set_message_len_def)

text \<open>
  An answer that has been composed completely: its packet is the encoding of a header
  followed by a body, and \<^verbatim>\<open>send\<close> gets exactly these octets. \<open>answerI\<close> is the rule by which
  every handler is evaluated: \<open>F\<close> is the state before \<^verbatim>\<open>send\<close>, which may differ from the
  one we want to speak about only in \<^verbatim>\<open>out_packet\<close>.
\<close>

definition answer_packet :: "answer_header \<Rightarrow> byte list \<Rightarrow> byte list" where
  "answer_packet h body = encode_answer_header h @ body"

lemma length_answer_packet [simp]: "length (answer_packet h body) = 40 + length body"
  by (simp add: answer_packet_def)

lemma answer_header_at_packet: "answer_header_at (buffer_of (answer_packet h body)) = h"
  by (simp add: buffer_of_def answer_packet_def answer_header_at_encode)

lemma get_bytes_header: "40 \<le> n \<Longrightarrow>
  get_bytes b 0 n = encode_answer_header (answer_header_at b) @ get_bytes b 40 (n - 40)"
  using get_bytes_split [of 40 n b 0] by (simp add: encode_answer_header_at)

lemma send_answer_eq:
  assumes "get32 (out_packet s) AH_message_len = of_nat n" and "40 \<le> n" and "n \<le> PACKET_SIZE"
  shows "send_answer s = Some (sock_send (answer_packet (answer_header_at (out_packet s))
     (get_bytes (out_packet s) 40 (n - 40))) s)"
proof -
  have "unat (of_nat n :: u32) = n" using assms(3) by (simp add: unat_of_nat PACKET_SIZE_def)
  then show ?thesis using assms
    by (simp add: send_answer_def get_bytes_chk_def get_bytes_header answer_packet_def)
qed

lemma answerI:
  assumes "F = G (out_packet F)"
    and "get32 (out_packet F) AH_message_len = of_nat n" and "40 \<le> n" and "n \<le> PACKET_SIZE"
    and "answer_header_at (out_packet F) = h" and "get_bytes (out_packet F) 40 (n - 40) = body"
  shows "\<exists>p. send_answer F = Some (sock_send (answer_packet h body) (G p))"
  using send_answer_eq [OF assms(2-4)] assms(1,5,6) by metis

lemmas answer_simps =
  buf_simps out_packet_set_message_len sizeof_defs PACKET_SIZE_def answer_header_at_def

text \<open>What \<open>sock_send\<close> leaves alone.\<close>

lemma sock_send_cases:
  obtains r rs where "sock_send pkt s =
    (r, s\<lparr>send_rets := rs, tx := tx s @ [(pkt, r)], numbytes := r\<rparr>)"
  by (cases "send_rets s") (auto simp: sock_send_def)

lemma send_answer_cases:
  assumes "send_answer s = Some (r, s')"
  obtains pkt rs where "s' = s\<lparr>send_rets := rs, tx := tx s @ [(pkt, r)], numbytes := r\<rparr>"
    "pkt = get_bytes (out_packet s) 0 (unat (get32 (out_packet s) AH_message_len))"
    "length pkt \<le> PACKET_SIZE"
  using assms
  by (auto simp: send_answer_def sock_send_def get_bytes_chk_def Let_def
      split: option.splits if_splits list.splits prod.splits)

text \<open>The effect of a handler that ends by sending one answer.\<close>

lemma sent_effect:
  assumes "\<exists>p. r = Some (sock_send pkt (G p))"
    and "\<And>p. tx (G p) = tx s" and "\<And>p. world (G p) = w" and "\<And>p. registered_apps (G p) = A"
  shows "\<exists>n s'. r = Some (n, s') \<and> tx s' = tx s @ [(pkt, n)] \<and> world s' = w \<and> registered_apps s' = A"
proof -
  from assms(1) obtain p where r: "r = Some (sock_send pkt (G p))" by blast
  show ?thesis by (cases rule: sock_send_cases [of pkt "G p"]) (use r assms(2-4) in auto)
qed

end
