(* ===== verification/HandlerContract.thy ===== *)
theory HandlerContract
  imports ServerState
begin

text \<open>
  What the session loop of \<^verbatim>\<open>capifwd.c\<close> relies on when it calls a packet handler, as locales:

  \<^item> \<open>session_handler\<close>: the handler neither reads nor consumes the input stream, and leaves
    the identity of the session (session id, own version, sockets) alone;
  \<^item> \<open>answer_handler\<close>: under a precondition on the request it terminates normally, has sent
    exactly one answer, and that answer is framed correctly and echoes the message id;
  \<^item> \<open>capi_handler\<close>: moreover the answer carries the id of the session.

  The handlers are interpreted in the theories that define them.
\<close>

section \<open>Frames\<close>

definition session_frame :: "'w server \<Rightarrow> 'w server \<Rightarrow> bool" where
  "session_frame s s' \<longleftrightarrow> sessionID s' = sessionID s \<and> local_version s' = local_version s \<and>
     in_addr s' = in_addr s \<and> sockname s' = sockname s \<and> sock_open s' = sock_open s \<and>
     sc_open s' = sc_open s \<and> auth_types s' = auth_types s \<and>
     (\<exists>ps. tx s' = tx s @ ps \<and> length ps \<le> 1)"

lemma session_frame_refl [simp]: "session_frame s s"
  by (simp add: session_frame_def)

lemma session_frame_sock_send:
  assumes "session_frame s s1" and "tx s1 = tx s"
  shows "session_frame s (snd (sock_send p s1))"
  using assms by (cases rule: sock_send_cases [of p s1]) (auto simp: session_frame_def)

text \<open>Well-framed answers: the lengths in the header describe the packet that is sent.\<close>

definition well_framed :: "byte list \<Rightarrow> bool" where
  "well_framed p \<longleftrightarrow>
     (let h = answer_header_at (buffer_of p) in
      40 \<le> length p \<and> length p \<le> PACKET_SIZE \<and> unat (an_message_len h) = length p \<and>
      an_header_len h = 40 \<and> 40 + unat (an_body_len h) + unat (an_data_len h) = length p)"

lemma well_framed_answer_packet:
  "well_framed (answer_packet h body) \<longleftrightarrow>
     40 + length body \<le> PACKET_SIZE \<and> unat (an_message_len h) = 40 + length body \<and>
     an_header_len h = 40 \<and> unat (an_body_len h) + unat (an_data_len h) = length body"
  by (auto simp: well_framed_def answer_header_at_packet Let_def)

section \<open>Contracts\<close>

abbreviation (input) plain :: "(int \<times> 'w server) option \<Rightarrow> (control \<times> 'w server) option" where
  "plain r \<equiv> map_option (apfst Returned) r"

locale session_handler =
  fixes run :: "'w server \<Rightarrow> (control \<times> 'w server) option"
  assumes oblivious: "run (s\<lparr>rx := r\<rparr>) = map_option (apsnd (\<lambda>s'. s'\<lparr>rx := r\<rparr>)) (run s)"
    and frame: "run s = Some (c, s') \<Longrightarrow> session_frame s s'"
begin

lemma keeps_rx:
  assumes "run s = Some (c, s')"
  shows "rx s' = rx s"
proof -
  have "run s = map_option (apsnd (\<lambda>s'. s'\<lparr>rx := rx s\<rparr>)) (run s)"
    by (subst oblivious [symmetric]) simp
  then have "Some (c, s') = Some (c, s'\<lparr>rx := rx s\<rparr>)" unfolding assms by simp
  from arg_cong [OF this, of "\<lambda>x. rx (snd (the x))"] show ?thesis by simp
qed

lemma keeps_session: "run s = Some (c, s') \<Longrightarrow> sessionID s' = sessionID s"
  using frame by (simp add: session_frame_def)

end

locale answer_handler = session_handler +
  fixes ty :: u32 and pre :: "'a server \<Rightarrow> bool"
  assumes answers: "pre s \<Longrightarrow> \<exists>c p n s'. run s = Some (c, s') \<and> tx s' = tx s @ [(p, n)] \<and>
     well_framed p \<and> an_message_type (answer_header_at (buffer_of p)) = ty \<and>
     an_message_id (answer_header_at (buffer_of p)) = rq_message_id (req s)"
begin

lemma no_overrun: "pre s \<Longrightarrow> run s \<noteq> None"
  by (drule answers) auto

lemma answered:
  assumes "pre s" and "run s = Some (c, s')"
  obtains p n where "tx s' = tx s @ [(p, n)]" "well_framed p"
    "an_message_type (answer_header_at (buffer_of p)) = ty"
    "an_message_id (answer_header_at (buffer_of p)) = rq_message_id (req s)"
  using answers [OF assms(1)] assms(2) by auto

end

locale capi_handler = answer_handler +
  assumes own_session: "pre s \<Longrightarrow> run s = Some (c, s') \<Longrightarrow> tx s' = tx s @ [(p, n)] \<Longrightarrow>
     an_session_id (answer_header_at (buffer_of p)) = sessionID s"

section \<open>Discharging the contracts\<close>

text \<open>A handler whose result is \<open>sock_send\<close> of one composed packet meets the contracts.\<close>

definition answers_with :: "(control \<times> 'w server) option \<Rightarrow> 'w server \<Rightarrow> answer_header \<Rightarrow> byte list \<Rightarrow> bool" where
  "answers_with r s h body \<longleftrightarrow>
     (\<exists>k s1. r = Some (apfst k (sock_send (answer_packet h body) s1)) \<and> tx s1 = tx s)"

lemma answers_withI:
  "r = Some (sock_send (answer_packet h body) s1) \<Longrightarrow> tx s1 = tx s \<Longrightarrow> answers_with (plain r) s h body"
  by (auto simp: answers_with_def)

lemma answers_withD:
  assumes "answers_with r s h body"
  obtains c n s' where "r = Some (c, s')" "tx s' = tx s @ [(answer_packet h body, n)]"
proof -
  from assms obtain k s1 where r: "r = Some (apfst k (sock_send (answer_packet h body) s1))"
    and t: "tx s1 = tx s" by (auto simp: answers_with_def)
  then show thesis
    by (cases rule: sock_send_cases [of "answer_packet h body" s1]) (auto intro: that)
qed

lemma answer_handlerI:
  assumes "session_handler run"
    and "\<And>s. pre s \<Longrightarrow> \<exists>h body. answers_with (run s) s h body \<and> well_framed (answer_packet h body) \<and>
      an_message_type h = ty \<and> an_message_id h = rq_message_id (req s)"
  shows "answer_handler run ty pre"
  using assms(1)
proof (rule answer_handler.intro, unfold_locales)
  fix s assume p: "pre s"
  obtain h body where a: "answers_with (run s) s h body" "well_framed (answer_packet h body)"
      "an_message_type h = ty" "an_message_id h = rq_message_id (req s)"
    using assms(2) [OF p] by auto
  then show "\<exists>c p n s'. run s = Some (c, s') \<and> tx s' = tx s @ [(p, n)] \<and> well_framed p \<and>
      an_message_type (answer_header_at (buffer_of p)) = ty \<and>
      an_message_id (answer_header_at (buffer_of p)) = rq_message_id (req s)"
    by (elim answers_withD) (auto simp: answer_header_at_packet)
qed

definition answered_in_session :: "(control \<times> 'w server) option \<Rightarrow> 'w server \<Rightarrow> u32 \<Rightarrow> bool" where
  "answered_in_session r s ty \<longleftrightarrow>
     (\<exists>h body. answers_with r s h body \<and> well_framed (answer_packet h body) \<and>
        an_message_type h = ty \<and> an_message_id h = rq_message_id (req s) \<and>
        an_session_id h = sessionID s)"

lemma answered_in_sessionI:
  assumes "\<exists>p. r = Some (sock_send (answer_packet h body) (g p))" and "\<And>p. tx (g p) = tx s"
    and "well_framed (answer_packet h body)" and "an_message_type h = ty"
    and "an_message_id h = rq_message_id (req s)" and "an_session_id h = sessionID s"
  shows "answered_in_session (plain r) s ty"
  using assms unfolding answered_in_session_def by (blast intro: answers_withI)

lemma capi_handlerI:
  assumes "session_handler run"
    and "\<And>s. pre s \<Longrightarrow> answered_in_session (run s) s ty"
  shows "capi_handler run ty pre"
proof (rule capi_handler.intro)
  show "answer_handler run ty pre"
    by (rule answer_handlerI [OF assms(1)], drule assms(2), unfold answered_in_session_def,
        elim exE conjE, intro exI conjI)
  show "capi_handler_axioms run pre"
  proof
    fix s c s' q n assume p: "pre s" and r: "run s = Some (c, s')" "tx s' = tx s @ [(q, n)]"
    obtain h body where "answers_with (run s) s h body" "an_session_id h = sessionID s"
      using assms(2) [OF p] by (auto simp: answered_in_session_def)
    with r show "an_session_id (answer_header_at (buffer_of q)) = sessionID s"
      by (elim answers_withD) (auto simp: answer_header_at_packet)
  qed
qed

lemma plain_session_handler:
  assumes "\<And>s r. f (s\<lparr>rx := r\<rparr>) = map_option (apsnd (\<lambda>s'. s'\<lparr>rx := r\<rparr>)) (f s)"
    and "\<And>s n s'. f s = Some (n, s') \<Longrightarrow> session_frame s s'"
  shows "session_handler (\<lambda>s. plain (f s))"
proof
  fix s r c s'
  show "plain (f (s\<lparr>rx := r\<rparr>)) = map_option (apsnd (\<lambda>s'. s'\<lparr>rx := r\<rparr>)) (plain (f s))"
    using assms(1) [where s = s and r = r] by (cases "f s") auto
  show "plain (f s) = Some (c, s') \<Longrightarrow> session_frame s s'" using assms(2) by auto
qed

text \<open>Moving an update of the input stream outwards.\<close>

named_theorems rx_simps \<open>the input stream is not touched\<close>

lemma set_head_rx [rx_simps]: "set_head off v (s\<lparr>rx := r\<rparr>) = (set_head off v s)\<lparr>rx := r\<rparr>"
  by (simp add: set_head_def)

lemma set_message_len_rx [rx_simps]: "set_message_len (s\<lparr>rx := r\<rparr>) = (set_message_len s)\<lparr>rx := r\<rparr>"
  by (simp add: set_message_len_def set_head_rx)

lemma sock_send_rx: "sock_send p (s\<lparr>rx := r\<rparr>) = apsnd (\<lambda>s'. s'\<lparr>rx := r\<rparr>) (sock_send p s)"
  by (simp add: sock_send_def split: list.split)

lemma send_answer_rx [rx_simps]:
  "send_answer (s\<lparr>rx := r\<rparr>) = map_option (apsnd (\<lambda>s'. s'\<lparr>rx := r\<rparr>)) (send_answer s)"
  by (simp add: send_answer_def sock_send_rx split: option.split)

lemma sys_fork_rx [rx_simps]: "sys_fork (s\<lparr>rx := r\<rparr>) = apsnd (\<lambda>s'. s'\<lparr>rx := r\<rparr>) (sys_fork s)"
  by (simp add: sys_fork_def split: list.split)

lemma update_rx [rx_simps]:
  "s\<lparr>rx := r, world := w\<rparr> = s\<lparr>world := w\<rparr>\<lparr>rx := r\<rparr>"
  "s\<lparr>rx := r, registered_apps := a\<rparr> = s\<lparr>registered_apps := a\<rparr>\<lparr>rx := r\<rparr>"
  "s\<lparr>rx := r, client_info := ci\<rparr> = s\<lparr>client_info := ci\<rparr>\<lparr>rx := r\<rparr>"
  "s\<lparr>rx := r, in_packet := b\<rparr> = s\<lparr>in_packet := b\<rparr>\<lparr>rx := r\<rparr>"
  "s\<lparr>rx := r, out_packet := b\<rparr> = s\<lparr>out_packet := b\<rparr>\<lparr>rx := r\<rparr>"
  "s\<lparr>rx := r, numbytes := n\<rparr> = s\<lparr>numbytes := n\<rparr>\<lparr>rx := r\<rparr>"
  by simp_all

lemma session_frame_steps [simp]:
  "session_frame s (set_head off v t) \<longleftrightarrow> session_frame s t"
  "session_frame s (set_message_len t) \<longleftrightarrow> session_frame s t"
  "session_frame s (t\<lparr>world := w\<rparr>) \<longleftrightarrow> session_frame s t"
  "session_frame s (t\<lparr>registered_apps := a\<rparr>) \<longleftrightarrow> session_frame s t"
  "session_frame s (t\<lparr>client_info := ci\<rparr>) \<longleftrightarrow> session_frame s t"
  "session_frame s (t\<lparr>in_packet := b\<rparr>) \<longleftrightarrow> session_frame s t"
  "session_frame s (t\<lparr>out_packet := b\<rparr>) \<longleftrightarrow> session_frame s t"
  "session_frame s (t\<lparr>numbytes := n\<rparr>) \<longleftrightarrow> session_frame s t"
  "session_frame s (t\<lparr>fork_rets := fs\<rparr>) \<longleftrightarrow> session_frame s t"
  "session_frame s (t\<lparr>rx := r\<rparr>) \<longleftrightarrow> session_frame s t"
  by (simp_all add: session_frame_def)

lemma sys_fork_frame:
  "sys_fork t = (pid, t') \<Longrightarrow> session_frame s t' = session_frame s t \<and> tx t' = tx t"
  by (auto simp: sys_fork_def split: list.splits)

lemma send_answer_frame:
  assumes "send_answer F = Some (n, s')" and "session_frame s F" and "tx F = tx s"
  shows "session_frame s s'"
  using assms by (auto simp: session_frame_def elim!: send_answer_cases)

end
