(* ===== verification/Handlers.thy ===== *)
theory Handlers
  imports HandlerContract
begin

text \<open>
  The packet handlers of \<^verbatim>\<open>linux-server/src/capi/\<close>: each reads the request in \<^verbatim>\<open>in_packet\<close>,
  calls the CAPI library, composes an answer in \<^verbatim>\<open>out_packet\<close> and sends it. \<^verbatim>\<open>out_packet\<close> is
  a global that is never cleared, so a field a handler does not assign keeps the value it
  had in the answer before; the definitions assign exactly what the C code assigns, in its
  order.

  \<open>None\<close> is an access outside \<^verbatim>\<open>in_packet\<close> or \<^verbatim>\<open>out_packet\<close>.
\<close>

section \<open>Operations\<close>

subsection \<open>etc.c\<close>

definition SET_CTRL :: "nat \<Rightarrow> byte \<Rightarrow> buffer \<Rightarrow> buffer" where
  "SET_CTRL msg ctrl b = put32 (msg + 8) ((get32 b (msg + 8) AND 0xFFFFFF80) + ucast ctrl) b"

subsection \<open>register.c\<close>

definition exec_capi_register :: "'w capi20 \<Rightarrow> 'w server \<Rightarrow> (int \<times> 'w server) option" where
  "exec_capi_register L s = do {
     let vals = unat (rq_header_len (req s));
     c \<leftarrow> get32_chk PACKET_SIZE (in_packet s) (vals + 4);
     b \<leftarrow> get32_chk PACKET_SIZE (in_packet s) (vals + 8);
     l \<leftarrow> get32_chk PACKET_SIZE (in_packet s) (vals + 12);
     let (return_type, app, w) =
       capi20_register L c b l (get32 (out_packet s) AH_app_id) (world s);
     let s = set_head AH_app_id app (s\<lparr>world := w\<rparr>);
     let s = (if return_type = 0
              then s\<lparr>registered_apps := add_app (get32 (out_packet s) AH_app_id) (registered_apps s)\<rparr>
              else s);
     m \<leftarrow> get32_chk PACKET_SIZE (in_packet s) vals;
     let s = s\<lparr>client_info := (client_info s)\<lparr>ci_messageBufferLen := m\<rparr>\<rparr>;
     let s = set_head AH_header_len (of_nat sizeof_ANSWER_HEADER) s;
     let s = set_head AH_body_len 0 s;
     let s = set_head AH_data_len 0 s;
     let s = set_message_len s;
     let s = set_head AH_message_id (rq_message_id (req s)) s;
     let s = set_head AH_message_type TYPE_CAPI_REGISTER s;
     let s = set_head AH_session_id (sessionID s) s;
     let s = set_head AH_capi_error return_type s;
     let s = set_head AH_proxy_error 0 s;
     send_answer s
   }"

subsection \<open>release.c\<close>

definition exec_capi_release :: "'w capi20 \<Rightarrow> 'w server \<Rightarrow> (int \<times> 'w server) option" where
  "exec_capi_release L s = do {
     let (return_type, w) = capi20_release L (rq_app_id (req s)) (world s);
     let s = s\<lparr>world := w\<rparr>;
     let s = (if return_type = 0
              then s\<lparr>registered_apps := del_app (rq_app_id (req s)) (registered_apps s)\<rparr>
              else s);
     let s = set_head AH_header_len (of_nat sizeof_ANSWER_HEADER) s;
     let s = set_head AH_body_len 0 s;
     let s = set_head AH_data_len 0 s;
     let s = set_message_len s;
     let s = set_head AH_message_id (rq_message_id (req s)) s;
     let s = set_head AH_message_type TYPE_CAPI_RELEASE s;
     let s = set_head AH_app_id (rq_app_id (req s)) s;
     let s = set_head AH_session_id (sessionID s) s;
     let s = set_head AH_capi_error return_type s;
     let s = set_head AH_proxy_error 0 s;
     send_answer s
   }"

subsection \<open>getmessage.c\<close>

definition exec_capi_getmessage :: "'w capi20 \<Rightarrow> 'w server \<Rightarrow> (int \<times> 'w server) option" where
  "exec_capi_getmessage L s = do {
     let data = sizeof_ANSWER_HEADER;
     let (e, message, w) = capi20_get_message L (rq_app_id (req s)) (world s);
     let s = set_head AH_capi_error e (s\<lparr>world := w\<rparr>);
     let s = set_head AH_header_len (of_nat sizeof_ANSWER_HEADER) s;
     let s = set_head AH_body_len 0 s;
     let s = set_head AH_message_id (rq_message_id (req s)) s;
     let s = set_head AH_data_len 0 s;
     let s = set_head AH_message_type TYPE_CAPI_GETMESSAGE s;
     let s = set_head AH_app_id (rq_app_id (req s)) s;
     let s = set_head AH_session_id (sessionID s) s;
     let s = set_head AH_proxy_error 0 s;
     s \<leftarrow> (if get32 (out_packet s) AH_capi_error = 0 then do {
            let len1 = (word_le (capi20_bytes L w message 2) :: u32);
            p \<leftarrow> put_bytes_chk PACKET_SIZE data (capi20_bytes L w message (unat len1)) (out_packet s);
            let s = set_head AH_data_len len1 (s\<lparr>out_packet := p\<rparr>);
            let cmd1 = out_packet s (data + 4);
            let cmd2 = out_packet s (data + 5);
            if cmd1 = 0x86 \<and> cmd2 = 0x82 then
              if len1 < 18 then Some (set_head AH_proxy_error PERROR_PARSE_ERROR s)
              else do {
                let len2 = get16 (out_packet s) (data + 16);
                let pointer = get32 (out_packet s) (data + 12);
                p \<leftarrow> put_bytes_chk PACKET_SIZE (data + unat len1)
                       (capi20_bytes L w pointer (unat len2)) (out_packet s);
                let s = s\<lparr>out_packet := p\<rparr>;
                Some (set_head AH_data_len (get32 (out_packet s) AH_data_len + len2) s)
              }
            else Some s
          } else Some s);
     let s = set_message_len s;
     send_answer s
   }"

subsection \<open>putmessage.c\<close>

definition exec_capi_putmessage :: "'w capi20 \<Rightarrow> 'w server \<Rightarrow> (int \<times> 'w server) option" where
  "exec_capi_putmessage L s = do {
     let msg = unat (rq_header_len (req s) + rq_body_len (req s));
     let s = set_head AH_header_len (of_nat sizeof_ANSWER_HEADER) s;
     let s = set_head AH_body_len 0 s;
     let s = set_head AH_data_len 0 s;
     let s = set_message_len s;
     let s = set_head AH_message_id (rq_message_id (req s)) s;
     let s = set_head AH_message_type TYPE_CAPI_PUTMESSAGE s;
     let s = set_head AH_app_id (rq_app_id (req s)) s;
     let s = set_head AH_session_id (sessionID s) s;
     let s = set_head AH_proxy_error 0 s;
     s \<leftarrow> (if rq_data_len (req s) < 8 then Some (set_head AH_proxy_error PERROR_PARSE_ERROR s)
          else do {
            len1 \<leftarrow> get16_chk PACKET_SIZE (in_packet s) msg;
            if rq_data_len (req s) < len1 then Some (set_head AH_proxy_error PERROR_PARSE_ERROR s)
            else do {
              cmd1 \<leftarrow> get8_chk PACKET_SIZE (in_packet s) (msg + 4);
              cmd2 \<leftarrow> get8_chk PACKET_SIZE (in_packet s) (msg + 5);
              if cmd1 = 0x86 \<and> cmd2 = 0x80 then
                if len1 < 18 then Some (set_head AH_proxy_error PERROR_PARSE_ERROR s)
                else do {
                  len2 \<leftarrow> get16_chk PACKET_SIZE (in_packet s) (msg + 16);
                  if len1 + len2 > rq_data_len (req s)
                  then Some (set_head AH_proxy_error PERROR_PARSE_ERROR s)
                  else do {
                    let pointer = in_addr s + of_nat msg + len1;
                    p \<leftarrow> put_bytes_chk PACKET_SIZE (msg + 12) (bytes_le 4 pointer) (in_packet s);
                    let s = s\<lparr>in_packet := p\<rparr>;
                    let (e, w) = capi20_put_message L (rq_app_id (req s)) (in_addr s + of_nat msg)
                                   (\<lambda>i. in_packet s (msg + i)) (world s);
                    Some (set_head AH_capi_error e (s\<lparr>world := w\<rparr>))
                  }
                }
              else do {
                let (e, w) = capi20_put_message L (rq_app_id (req s)) (in_addr s + of_nat msg)
                               (\<lambda>i. in_packet s (msg + i)) (world s);
                Some (set_head AH_capi_error e (s\<lparr>world := w\<rparr>))
              }
            }
          });
     send_answer s
   }"

subsection \<open>waitforsignal.c\<close>

definition exec_capi_waitforsignal :: "'w capi20 \<Rightarrow> 'w server \<Rightarrow> (control \<times> 'w server) option" where
  "exec_capi_waitforsignal L s = do {
     let s = s\<lparr>numbytes := 1\<rparr>;
     let data_app_id = rq_app_id (req s);
     let data_message_id = rq_message_id (req s);
     let (pid, s) = sys_fork s;
     if pid \<noteq> 0 \<and> pid \<noteq> -1 then Some (Returned 1, s)
     else do {
       let s = (if pid = 0
                then let (e, w) = capi20_waitformessage L data_app_id (world s)
                     in set_head AH_proxy_error PERROR_NONE (set_head AH_capi_error e (s\<lparr>world := w\<rparr>))
                else set_head AH_proxy_error PERROR_NO_RESSOURCES (set_head AH_capi_error 0x1108 s));
       let s = set_head AH_header_len (of_nat sizeof_ANSWER_HEADER) s;
       let s = set_head AH_body_len 0 s;
       let s = set_head AH_data_len 0 s;
       let s = set_message_len s;
       let s = set_head AH_message_id data_message_id s;
       let s = set_head AH_message_type TYPE_CAPI_WAITFORSIGNAL s;
       let s = set_head AH_app_id data_app_id s;
       let s = set_head AH_session_id (sessionID s) s;
       (n, s) \<leftarrow> send_answer s;
       Some (if pid = 0 then Exited 0 else Returned n, s)
     }
   }"

subsection \<open>isinstalled.c, manufacturer.c, version.c, serial.c, profile.c\<close>

definition exec_capi_isinstalled :: "'w capi20 \<Rightarrow> 'w server \<Rightarrow> (int \<times> 'w server) option" where
  "exec_capi_isinstalled L s = do {
     let (return_type, w) = capi20_isinstalled L (world s);
     let s = s\<lparr>world := w\<rparr>;
     let s = set_head AH_header_len (of_nat sizeof_ANSWER_HEADER) s;
     let s = set_head AH_body_len 0 s;
     let s = set_head AH_data_len 0 s;
     let s = set_message_len s;
     let s = set_head AH_message_id (rq_message_id (req s)) s;
     let s = set_head AH_message_type TYPE_CAPI_INSTALLED s;
     let s = set_head AH_app_id (rq_app_id (req s)) s;
     let s = set_head AH_session_id (sessionID s) s;
     let s = set_head AH_capi_error return_type s;
     let s = set_head AH_proxy_error 0 s;
     send_answer s
   }"

definition exec_capi_manufacturer :: "'w capi20 \<Rightarrow> 'w server \<Rightarrow> (int \<times> 'w server) option" where
  "exec_capi_manufacturer L s = do {
     let (bs, w) = capi20_get_manufacturer L (rq_controller_id (req s)) (world s);
     p \<leftarrow> put_bytes_chk PACKET_SIZE sizeof_ANSWER_HEADER bs (out_packet s);
     let s = s\<lparr>world := w, out_packet := p\<rparr>;
     let s = set_head AH_header_len (of_nat sizeof_ANSWER_HEADER) s;
     let s = set_head AH_body_len (of_nat sizeof_ANSWER_CAPI_MANUFACTURER) s;
     let s = set_head AH_data_len 0 s;
     let s = set_message_len s;
     let s = set_head AH_message_id (rq_message_id (req s)) s;
     let s = set_head AH_message_type TYPE_CAPI_MANUFACTURER s;
     let s = set_head AH_app_id (rq_app_id (req s)) s;
     let s = set_head AH_session_id (sessionID s) s;
     let s = set_head AH_proxy_error 0 s;
     let s = set_head AH_capi_error 0 s;
     send_answer s
   }"

definition exec_capi_version :: "'w capi20 \<Rightarrow> 'w server \<Rightarrow> (int \<times> 'w server) option" where
  "exec_capi_version L s = do {
     let body = sizeof_ANSWER_HEADER;
     let (bs, w) = capi20_get_version L (rq_controller_id (req s)) (world s);
     buf \<leftarrow> put_bytes_chk 16 0 bs (stack_junk s);
     let s = s\<lparr>world := w\<rparr>;
     let s = set_head AH_header_len (of_nat sizeof_ANSWER_HEADER) s;
     let s = set_head AH_body_len (of_nat sizeof_ANSWER_CAPI_VERSION) s;
     let s = set_head AH_data_len 0 s;
     let s = set_message_len s;
     let s = set_head AH_message_id (rq_message_id (req s)) s;
     let s = set_head AH_message_type TYPE_CAPI_VERSION s;
     let s = set_head AH_app_id (rq_app_id (req s)) s;
     let s = set_head AH_session_id (sessionID s) s;
     let s = set_head AH_proxy_error 0 s;
     let s = set_head AH_capi_error 0 s;
     let s = set_head (body + 8) (get32 buf 0) s;
     let s = set_head (body + 12) (get32 buf 4) s;
     let s = set_head body (get32 buf 8) s;
     let s = set_head (body + 4) (get32 buf 12) s;
     send_answer s
   }"

definition exec_capi_serial :: "'w capi20 \<Rightarrow> 'w server \<Rightarrow> (int \<times> 'w server) option" where
  "exec_capi_serial L s = do {
     let (bs, w) = capi20_get_serial_number L (rq_controller_id (req s)) (world s);
     p \<leftarrow> put_bytes_chk PACKET_SIZE sizeof_ANSWER_HEADER bs (out_packet s);
     let s = s\<lparr>world := w, out_packet := p\<rparr>;
     let s = set_head AH_header_len (of_nat sizeof_ANSWER_HEADER) s;
     let s = set_head AH_body_len (of_nat sizeof_ANSWER_CAPI_SERIAL) s;
     let s = set_head AH_data_len 0 s;
     let s = set_message_len s;
     let s = set_head AH_message_id (rq_message_id (req s)) s;
     let s = set_head AH_message_type TYPE_CAPI_SERIAL s;
     let s = set_head AH_app_id (rq_app_id (req s)) s;
     let s = set_head AH_session_id (sessionID s) s;
     let s = set_head AH_proxy_error 0 s;
     let s = set_head AH_capi_error 0 s;
     send_answer s
   }"

definition exec_capi_profile :: "'w capi20 \<Rightarrow> 'w server \<Rightarrow> (int \<times> 'w server) option" where
  "exec_capi_profile L s = do {
     let (e, bs, w) = capi20_get_profile L (rq_controller_id (req s)) (world s);
     p \<leftarrow> put_bytes_chk PACKET_SIZE sizeof_ANSWER_HEADER bs (out_packet s);
     let s = set_head AH_capi_error e (s\<lparr>world := w, out_packet := p\<rparr>);
     let s = set_head AH_header_len (of_nat sizeof_ANSWER_HEADER) s;
     let s = set_head AH_body_len (of_nat sizeof_ANSWER_CAPI_PROFILE) s;
     let s = set_head AH_data_len 0 s;
     let s = set_message_len s;
     let s = set_head AH_message_id (rq_message_id (req s)) s;
     let s = set_head AH_message_type TYPE_CAPI_PROFILE s;
     let s = set_head AH_app_id (rq_app_id (req s)) s;
     let s = set_head AH_session_id (sessionID s) s;
     let s = set_head AH_proxy_error 0 s;
     send_answer s
   }"


section \<open>What the handlers do\<close>

lemma exec_capi_release_eq:
  assumes "capi20_release L (rq_app_id (req s)) (world s) = (e, w)"
  shows "\<exists>p. exec_capi_release L s = Some (sock_send (answer_packet
      \<lparr>an_message_len = 40, an_header_len = 40, an_body_len = 0, an_data_len = 0,
       an_message_id = rq_message_id (req s), an_message_type = TYPE_CAPI_RELEASE,
       an_app_id = rq_app_id (req s), an_session_id = sessionID s, an_proxy_error = 0,
       an_capi_error = e\<rparr> [])
     (s\<lparr>world := w, registered_apps := (if e = 0 then del_app (rq_app_id (req s)) (registered_apps s)
        else registered_apps s), out_packet := p\<rparr>))"
  unfolding exec_capi_release_def Let_def assms prod.case
  by (rule answerI [where n = 40]; (rule server.equality)?; simp add: answer_simps)

lemma exec_capi_isinstalled_eq:
  assumes "capi20_isinstalled L (world s) = (e, w)"
  shows "\<exists>p. exec_capi_isinstalled L s = Some (sock_send (answer_packet
      \<lparr>an_message_len = 40, an_header_len = 40, an_body_len = 0, an_data_len = 0,
       an_message_id = rq_message_id (req s), an_message_type = TYPE_CAPI_INSTALLED,
       an_app_id = rq_app_id (req s), an_session_id = sessionID s, an_proxy_error = 0,
       an_capi_error = e\<rparr> [])
     (s\<lparr>world := w, out_packet := p\<rparr>))"
  unfolding exec_capi_isinstalled_def Let_def assms prod.case
  by (rule answerI [where n = 40]; (rule server.equality)?; simp add: answer_simps)

lemma exec_capi_manufacturer_eq:
  assumes "capi20_get_manufacturer L (rq_controller_id (req s)) (world s) = (bs, w)"
    and "length bs = 64"
  shows "\<exists>p. exec_capi_manufacturer L s = Some (sock_send (answer_packet
      \<lparr>an_message_len = 104, an_header_len = 40, an_body_len = 64, an_data_len = 0,
       an_message_id = rq_message_id (req s), an_message_type = TYPE_CAPI_MANUFACTURER,
       an_app_id = rq_app_id (req s), an_session_id = sessionID s, an_proxy_error = 0,
       an_capi_error = 0\<rparr> bs)
     (s\<lparr>world := w, out_packet := p\<rparr>))"
proof -
  have "put_bytes_chk PACKET_SIZE sizeof_ANSWER_HEADER bs (out_packet s) =
      Some (put_bytes 40 bs (out_packet s))"
    using assms(2) by (simp add: put_bytes_chk_def sizeof_defs PACKET_SIZE_def)
  then show ?thesis
    unfolding exec_capi_manufacturer_def Let_def assms(1) prod.case
    using assms(2)
    by (simp only: bind.bind_lunit)
      (rule answerI [where n = 104]; (rule server.equality)?; simp add: answer_simps)
qed

lemma exec_capi_serial_eq:
  assumes "capi20_get_serial_number L (rq_controller_id (req s)) (world s) = (bs, w)"
    and "length bs = 8"
  shows "\<exists>p. exec_capi_serial L s = Some (sock_send (answer_packet
      \<lparr>an_message_len = 48, an_header_len = 40, an_body_len = 8, an_data_len = 0,
       an_message_id = rq_message_id (req s), an_message_type = TYPE_CAPI_SERIAL,
       an_app_id = rq_app_id (req s), an_session_id = sessionID s, an_proxy_error = 0,
       an_capi_error = 0\<rparr> bs)
     (s\<lparr>world := w, out_packet := p\<rparr>))"
proof -
  have "put_bytes_chk PACKET_SIZE sizeof_ANSWER_HEADER bs (out_packet s) =
      Some (put_bytes 40 bs (out_packet s))"
    using assms(2) by (simp add: put_bytes_chk_def sizeof_defs PACKET_SIZE_def)
  then show ?thesis
    unfolding exec_capi_serial_def Let_def assms(1) prod.case
    using assms(2)
    by (simp only: bind.bind_lunit)
      (rule answerI [where n = 48]; (rule server.equality)?; simp add: answer_simps)
qed

lemma exec_capi_profile_eq:
  assumes "capi20_get_profile L (rq_controller_id (req s)) (world s) = (e, bs, w)"
    and "length bs = 64"
  shows "\<exists>p. exec_capi_profile L s = Some (sock_send (answer_packet
      \<lparr>an_message_len = 104, an_header_len = 40, an_body_len = 64, an_data_len = 0,
       an_message_id = rq_message_id (req s), an_message_type = TYPE_CAPI_PROFILE,
       an_app_id = rq_app_id (req s), an_session_id = sessionID s, an_proxy_error = 0,
       an_capi_error = e\<rparr> bs)
     (s\<lparr>world := w, out_packet := p\<rparr>))"
proof -
  have "put_bytes_chk PACKET_SIZE sizeof_ANSWER_HEADER bs (out_packet s) =
      Some (put_bytes 40 bs (out_packet s))"
    using assms(2) by (simp add: put_bytes_chk_def sizeof_defs PACKET_SIZE_def)
  then show ?thesis
    unfolding exec_capi_profile_def Let_def assms(1) prod.case
    using assms(2)
    by (simp only: bind.bind_lunit)
      (rule answerI [where n = 104]; (rule server.equality)?; simp add: answer_simps)
qed

lemma exec_capi_version_eq:
  assumes "capi20_get_version L (rq_controller_id (req s)) (world s) = (bs, w)"
    and "length bs = 16"
  shows "\<exists>p. exec_capi_version L s = Some (sock_send (answer_packet
      \<lparr>an_message_len = 56, an_header_len = 40, an_body_len = 16, an_data_len = 0,
       an_message_id = rq_message_id (req s), an_message_type = TYPE_CAPI_VERSION,
       an_app_id = rq_app_id (req s), an_session_id = sessionID s, an_proxy_error = 0,
       an_capi_error = 0\<rparr> (drop 8 bs @ take 8 bs))
     (s\<lparr>world := w, out_packet := p\<rparr>))"
proof -
  let ?buf = "put_bytes 0 bs (stack_junk s)"
  have chk: "put_bytes_chk 16 0 bs (stack_junk s) = Some ?buf"
    using assms(2) by (simp add: put_bytes_chk_def)
  have "bytes_le 4 (get32 ?buf 8) @ bytes_le 4 (get32 ?buf 12) = drop 8 bs"
    using assms(2) append_take_drop_id [of 4 "drop 8 bs"]
    by (simp add: bytes_le_get32 get_bytes_put_bytes_inside)
  moreover have "bytes_le 4 (get32 ?buf 0) @ bytes_le 4 (get32 ?buf 4) = take 8 bs"
    using assms(2) append_take_drop_id [of 4 "take 8 bs"]
    by (simp add: bytes_le_get32 get_bytes_put_bytes_inside drop_take min_def)
  ultimately have body: "bytes_le 4 (get32 ?buf 8) @ bytes_le 4 (get32 ?buf 12) @
      bytes_le 4 (get32 ?buf 0) @ bytes_le 4 (get32 ?buf 4) = drop 8 bs @ take 8 bs"
    by (metis append.assoc)
  show ?thesis
    unfolding exec_capi_version_def Let_def assms(1) prod.case chk bind.bind_lunit
    by (rule answerI [where n = 56]; (rule server.equality)?;
        simp add: answer_simps get_bytes_4words body)
qed

lemma exec_capi_register_eq:
  fixes s :: "'w server"
  defines "v \<equiv> unat (rq_header_len (req s))"
  assumes "v + 16 \<le> PACKET_SIZE"
    and "capi20_register L (get32 (in_packet s) (v + 4)) (get32 (in_packet s) (v + 8))
           (get32 (in_packet s) (v + 12)) (get32 (out_packet s) AH_app_id) (world s) = (e, app, w)"
  shows "\<exists>p. exec_capi_register L s = Some (sock_send (answer_packet
      \<lparr>an_message_len = 40, an_header_len = 40, an_body_len = 0, an_data_len = 0,
       an_message_id = rq_message_id (req s), an_message_type = TYPE_CAPI_REGISTER,
       an_app_id = app, an_session_id = sessionID s, an_proxy_error = 0,
       an_capi_error = e\<rparr> [])
     (s\<lparr>world := w, registered_apps := (if e = 0 then add_app app (registered_apps s)
        else registered_apps s),
        client_info := (client_info s)\<lparr>ci_messageBufferLen := get32 (in_packet s) v\<rparr>,
        out_packet := p\<rparr>))"
proof -
  have bnd: "v + 4 \<le> PACKET_SIZE" "v + 4 + 4 \<le> PACKET_SIZE" "v + 8 + 4 \<le> PACKET_SIZE"
    "v + 12 + 4 \<le> PACKET_SIZE" using assms(2) by auto
  show ?thesis
    unfolding exec_capi_register_def Let_def v_def [symmetric] get32_chk_def bnd [THEN eqTrueI]
      if_True
    unfolding bind.bind_lunit assms(3) prod.case
    unfolding Let_def
    by (cases "e = 0"; simp add: bnd get32_chk_def; rule answerI [where n = 40];
        (rule server.equality)?; simp add: answer_simps)
qed


subsection \<open>GETMESSAGE\<close>

text \<open>
  The CAPI message at an address: its first two octets are its length. A \<^verbatim>\<open>DATA_B3_IND\<close>
  carries its data elsewhere: the server appends it, so the answer is self-contained.
\<close>

definition capi_message :: "'w capi20 \<Rightarrow> 'w \<Rightarrow> u32 \<Rightarrow> byte list" where
  "capi_message L w a = capi20_bytes L w a (unat (word_le (capi20_bytes L w a 2) :: u32))"

definition getmessage_data :: "'w capi20 \<Rightarrow> 'w \<Rightarrow> u32 \<Rightarrow> u32 \<times> byte list" where
  "getmessage_data L w a =
     (let m = capi_message L w a in
      if m ! 4 = 0x86 \<and> m ! 5 = 0x82 then
        if length m < 18 then (PERROR_PARSE_ERROR, m)
        else (0, m @ capi20_bytes L w (word_le (take 4 (drop 12 m)))
                       (unat (word_le (take 2 (drop 16 m)) :: u32)))
      else (0, m))"

lemma length_getmessage_data: "length (capi_message L w a) \<le> length (snd (getmessage_data L w a))"
  by (auto simp: getmessage_data_def Let_def)

lemma exec_capi_getmessage_error:
  assumes "capi20_get_message L (rq_app_id (req s)) (world s) = (e, a, w)" and "e \<noteq> 0"
  shows "\<exists>p. exec_capi_getmessage L s = Some (sock_send (answer_packet
      \<lparr>an_message_len = 40, an_header_len = 40, an_body_len = 0, an_data_len = 0,
       an_message_id = rq_message_id (req s), an_message_type = TYPE_CAPI_GETMESSAGE,
       an_app_id = rq_app_id (req s), an_session_id = sessionID s, an_proxy_error = 0,
       an_capi_error = e\<rparr> [])
     (s\<lparr>world := w, out_packet := p\<rparr>))"
  unfolding exec_capi_getmessage_def Let_def assms(1) prod.case
  by (insert assms(2); simp add: buf_simps; rule answerI [where n = 40]; (rule server.equality)?;
      simp add: answer_simps)

lemma exec_capi_getmessage_ok:
  assumes get: "capi20_get_message L (rq_app_id (req s)) (world s) = (0, a, w)"
    and len: "6 \<le> length (capi_message L w a)"
    and d: "getmessage_data L w a = (pe, d)" and fits: "40 + length d \<le> PACKET_SIZE"
  shows "\<exists>p. exec_capi_getmessage L s = Some (sock_send (answer_packet
      \<lparr>an_message_len = of_nat (40 + length d), an_header_len = 40, an_body_len = 0,
       an_data_len = of_nat (length d),
       an_message_id = rq_message_id (req s), an_message_type = TYPE_CAPI_GETMESSAGE,
       an_app_id = rq_app_id (req s), an_session_id = sessionID s, an_proxy_error = pe,
       an_capi_error = 0\<rparr> d)
     (s\<lparr>world := w, out_packet := p\<rparr>))"
proof -
  define m where "m = capi_message L w a"
  define len1 where "len1 = (word_le (capi20_bytes L w a 2) :: u32)"
  have m: "capi20_bytes L w a (unat len1) = m" and lm: "unat len1 = length m" "len1 = of_nat (length m)"
    by (simp_all add: m_def len1_def capi_message_def)
  have fm: "length m + 40 \<le> 10000" and lm6: "6 \<le> length m"
    using fits length_getmessage_data [of L w a] d len by (simp_all add: PACKET_SIZE_def m_def)
  have chk: "put_bytes_chk PACKET_SIZE 40 m b = Some (put_bytes 40 m b)" for b
    using fm by (simp add: put_bytes_chk_def PACKET_SIZE_def)
  have less: "len1 < 18 \<longleftrightarrow> length m < 18"
    by (simp add: word_less_nat_alt lm(1))
  consider (other) "\<not> (m ! 4 = 0x86 \<and> m ! 5 = 0x82)" | (short) "m ! 4 = 0x86" "m ! 5 = 0x82" "length m < 18"
    | (b3) "m ! 4 = 0x86" "m ! 5 = 0x82" "18 \<le> length m" by linarith
  then show ?thesis
  proof cases
    case other
    then have eqs: "pe = 0" "d = m" using d by (auto simp: getmessage_data_def Let_def m_def)
    show ?thesis
      unfolding exec_capi_getmessage_def Let_def get prod.case len1_def [symmetric] m
      by (insert other fm lm6; cases "m ! 4 = 0x86"; simp add: buf_simps chk sizeof_defs less; rule answerI [where n = "40 + length m"];
          (rule server.equality)?; simp add: answer_simps lm(2) eqs)
  next
    case short
    then have eqs: "pe = PERROR_PARSE_ERROR" "d = m"
      using d by (auto simp: getmessage_data_def Let_def m_def)
    show ?thesis
      unfolding exec_capi_getmessage_def Let_def get prod.case len1_def [symmetric] m
      by (insert short fm lm6; simp add: buf_simps chk sizeof_defs less; rule answerI [where n = "40 + length m"];
          (rule server.equality)?; simp add: answer_simps lm(2) eqs)
  next
    case b3
    define len2 where "len2 = (word_le (take 2 (drop 16 m)) :: u32)"
    define x where "x = capi20_bytes L w (word_le (take 4 (drop 12 m))) (unat len2)"
    have x: "length x = unat len2" by (simp add: x_def)
    have eqs: "pe = 0" "d = m @ x"
      using d b3 by (auto simp: getmessage_data_def Let_def m_def x_def len2_def)
    have fx: "length m + length x + 40 \<le> 10000" using fits eqs by (simp add: PACKET_SIZE_def)
    have chk2: "put_bytes_chk PACKET_SIZE (40 + length m) x b = Some (put_bytes (40 + length m) x b)" for b
      using fx by (simp add: put_bytes_chk_def PACKET_SIZE_def)
    show ?thesis
      unfolding exec_capi_getmessage_def Let_def get prod.case len1_def [symmetric] m
      by (insert b3 fm lm6 fx x; simp add: buf_simps chk sizeof_defs less len2_def [symmetric] chk2
          x_def [symmetric] lm(1); 
          rule answerI [where n = "40 + length m + length x"];
          (rule server.equality)?; simp add: answer_simps lm(2) eqs)
  qed
qed


subsection \<open>PUTMESSAGE\<close>

text \<open>
  \<open>put_msg s\<close> is where the CAPI message starts in \<^verbatim>\<open>in_packet\<close>, \<open>put_rejects s\<close> says that
  it does not fit the \<^verbatim>\<open>data_len\<close> octets of the request, \<open>put_b3 s\<close> that it is a
  \<^verbatim>\<open>DATA_B3_REQ\<close>, whose data pointer the server sets to the octets behind the message.
\<close>

definition put_msg :: "'w server \<Rightarrow> nat" where
  "put_msg s = unat (rq_header_len (req s) + rq_body_len (req s))"

definition put_b3 :: "'w server \<Rightarrow> bool" where
  "put_b3 s \<longleftrightarrow> in_packet s (put_msg s + 4) = 0x86 \<and> in_packet s (put_msg s + 5) = 0x80"

definition put_rejects :: "'w server \<Rightarrow> bool" where
  "put_rejects s \<longleftrightarrow> rq_data_len (req s) < 8 \<or>
     rq_data_len (req s) < get16 (in_packet s) (put_msg s) \<or>
     put_b3 s \<and> (get16 (in_packet s) (put_msg s) < 18 \<or>
       get16 (in_packet s) (put_msg s) + get16 (in_packet s) (put_msg s + 16) > rq_data_len (req s))"

definition put_patched :: "'w server \<Rightarrow> buffer" where
  "put_patched s = (if put_b3 s
     then put_bytes (put_msg s + 12)
            (bytes_le 4 (in_addr s + of_nat (put_msg s) + get16 (in_packet s) (put_msg s))) (in_packet s)
     else in_packet s)"

definition put_answer :: "'w server \<Rightarrow> u32 \<Rightarrow> u32 \<Rightarrow> answer_header" where
  "put_answer s perr cerr =
     \<lparr>an_message_len = 40, an_header_len = 40, an_body_len = 0, an_data_len = 0,
      an_message_id = rq_message_id (req s), an_message_type = TYPE_CAPI_PUTMESSAGE,
      an_app_id = rq_app_id (req s), an_session_id = sessionID s, an_proxy_error = perr,
      an_capi_error = cerr\<rparr>"

lemma put_msg_bounds:
  assumes "put_msg s + unat (rq_data_len (req s)) \<le> PACKET_SIZE"
  shows "\<not> rq_data_len (req s) < 8 \<Longrightarrow> put_msg s + 8 \<le> PACKET_SIZE"
    and "\<not> rq_data_len (req s) < l \<Longrightarrow> \<not> l < 18 \<Longrightarrow> put_msg s + 18 \<le> PACKET_SIZE"
  using assms by (auto simp: word_less_nat_alt)

text \<open>
  With the message inside the buffer the handler takes one of three ways: reject, forward
  as it is, or forward with the data pointer set.
\<close>

lemma exec_capi_putmessage_cases:
  fixes s :: "'w server" and L :: "'w capi20"
  assumes fits: "put_msg s + unat (rq_data_len (req s)) \<le> PACKET_SIZE"
  defines "F \<equiv> set_head AH_proxy_error 0 (set_head AH_session_id (sessionID s)
      (set_head AH_app_id (rq_app_id (req s)) (set_head AH_message_type TYPE_CAPI_PUTMESSAGE
      (set_head AH_message_id (rq_message_id (req s)) (set_message_len (set_head AH_data_len 0
      (set_head AH_body_len 0 (set_head AH_header_len (of_nat sizeof_ANSWER_HEADER) s))))))))"
  shows "exec_capi_putmessage L s = send_answer
    (if put_rejects s then set_head AH_proxy_error PERROR_PARSE_ERROR F
     else let G = F\<lparr>in_packet := put_patched s\<rparr>;
              (e, w) = capi20_put_message L (rq_app_id (req G)) (in_addr s + of_nat (put_msg s))
                         (\<lambda>i. in_packet G (put_msg s + i)) (world s)
          in set_head AH_capi_error e (G\<lparr>world := w\<rparr>))"
proof -
  let ?b = "in_packet s" and ?m = "put_msg s" and ?d = "rq_data_len (req s)"
  have F: "in_packet F = ?b" "in_addr F = in_addr s" "world F = world s" "req F = req s"
    by (simp_all add: F_def)
  have body: "exec_capi_putmessage L s =
      (if ?d < 8 then Some (set_head AH_proxy_error PERROR_PARSE_ERROR F)
       else do {
         len1 \<leftarrow> get16_chk PACKET_SIZE ?b ?m;
         if ?d < len1 then Some (set_head AH_proxy_error PERROR_PARSE_ERROR F)
         else do {
           cmd1 \<leftarrow> get8_chk PACKET_SIZE ?b (?m + 4);
           cmd2 \<leftarrow> get8_chk PACKET_SIZE ?b (?m + 5);
           if cmd1 = 0x86 \<and> cmd2 = 0x80 then
             if len1 < 18 then Some (set_head AH_proxy_error PERROR_PARSE_ERROR F)
             else do {
               len2 \<leftarrow> get16_chk PACKET_SIZE ?b (?m + 16);
               if len1 + len2 > ?d then Some (set_head AH_proxy_error PERROR_PARSE_ERROR F)
               else do {
                 p \<leftarrow> put_bytes_chk PACKET_SIZE (?m + 12) (bytes_le 4 (in_addr s + of_nat ?m + len1)) ?b;
                 let G = F\<lparr>in_packet := p\<rparr>;
                 let (e, w) = capi20_put_message L (rq_app_id (req G)) (in_addr s + of_nat ?m)
                                (\<lambda>i. p (?m + i)) (world s);
                 Some (set_head AH_capi_error e (G\<lparr>world := w\<rparr>))
               }
             }
           else do {
             let (e, w) = capi20_put_message L (rq_app_id (req s)) (in_addr s + of_nat ?m)
                            (\<lambda>i. ?b (?m + i)) (world s);
             Some (set_head AH_capi_error e (F\<lparr>world := w\<rparr>))
           }
         }
       }) \<bind> send_answer"
    unfolding exec_capi_putmessage_def put_msg_def [symmetric] Let_def
    by (simp add: F_def Let_def cong: if_cong)
  show ?thesis
  proof (cases "?d < 8 \<or> ?d < get16 ?b ?m")
    case True
    then show ?thesis
      using put_msg_bounds(1) [OF fits] by (auto simp: body chk_defs put_rejects_def)
  next
    case False
    then have b8: "?m + 8 \<le> PACKET_SIZE" using put_msg_bounds(1) [OF fits] by auto
    show ?thesis
    proof (cases "put_b3 s")
      case True
      then have b3: "?b (?m + 4) = 0x86" "?b (?m + 5) = 0x80" by (simp_all add: put_b3_def)
      show ?thesis
        using False True b3 b8 put_msg_bounds(2) [OF fits, of "get16 ?b ?m"]
        by (auto simp: body chk_defs put_rejects_def put_patched_def Let_def split: prod.splits)
    next
      case nb: False
      then have keep: "put_patched s = ?b" "F\<lparr>in_packet := ?b\<rparr> = F"
        by (simp_all add: put_patched_def F_def set_head_def set_message_len_def)
      have "\<not> put_rejects s" using False nb by (simp add: put_rejects_def)
      moreover have "?b (?m + 4) = 0x86 \<Longrightarrow> ?b (?m + 5) \<noteq> 0x80"
        using nb by (simp add: put_b3_def)
      ultimately show ?thesis
        using False b8 unfolding body
        by (cases "?b (?m + 4) = 0x86") (simp_all add: chk_defs keep F Let_def split: prod.split)
    qed
  qed
qed

lemma exec_capi_putmessage_rejected:
  assumes "put_msg s + unat (rq_data_len (req s)) \<le> PACKET_SIZE" and "put_rejects s"
  shows "\<exists>p. exec_capi_putmessage L s = Some (sock_send
     (answer_packet (put_answer s PERROR_PARSE_ERROR (get32 (out_packet s) AH_capi_error)) [])
     (s\<lparr>out_packet := p\<rparr>))"
  unfolding exec_capi_putmessage_cases [OF assms(1)] put_answer_def
  by (simp add: assms(2); rule answerI [where n = 40]; (rule server.equality)?;
      simp add: answer_simps)

lemma exec_capi_putmessage_accepted:
  assumes "put_msg s + unat (rq_data_len (req s)) \<le> PACKET_SIZE" and "\<not> put_rejects s"
    and "capi20_put_message L (rq_app_id (request_header_at (put_patched s)))
           (in_addr s + of_nat (put_msg s)) (\<lambda>i. put_patched s (put_msg s + i)) (world s) = (e, w)"
  shows "\<exists>p. exec_capi_putmessage L s = Some (sock_send
     (answer_packet (put_answer s 0 e) [])
     (s\<lparr>in_packet := put_patched s, world := w, out_packet := p\<rparr>))"
  unfolding exec_capi_putmessage_cases [OF assms(1)] put_answer_def
  by (simp add: assms(2,3); rule answerI [where n = 40]; (rule server.equality)?;
      simp add: answer_simps)

subsection \<open>WAITFORSIGNAL\<close>

definition wait_answer :: "'w server \<Rightarrow> u32 \<Rightarrow> u32 \<Rightarrow> answer_header" where
  "wait_answer s perr cerr =
     \<lparr>an_message_len = 40, an_header_len = 40, an_body_len = 0, an_data_len = 0,
      an_message_id = rq_message_id (req s), an_message_type = TYPE_CAPI_WAITFORSIGNAL,
      an_app_id = rq_app_id (req s), an_session_id = sessionID s, an_proxy_error = perr,
      an_capi_error = cerr\<rparr>"

lemma exec_capi_waitforsignal_parent:
  assumes "sys_fork (s\<lparr>numbytes := 1\<rparr>) = (pid, s1)" and "pid \<noteq> 0" and "pid \<noteq> -1"
  shows "exec_capi_waitforsignal L s = Some (Returned 1, s1)"
  using assms by (simp add: exec_capi_waitforsignal_def)


text \<open>In the child (\<open>pid = 0\<close>) and when \<^verbatim>\<open>fork\<close> has failed, an answer goes out.\<close>

definition wait_result :: "'w capi20 \<Rightarrow> int \<Rightarrow> 'w server \<Rightarrow> u32 \<times> u32 \<times> 'w" where
  "wait_result L pid s =
     (if pid = 0 then let (e, w) = capi20_waitformessage L (rq_app_id (req s)) (world s)
                      in (PERROR_NONE, e, w)
      else (PERROR_NO_RESSOURCES, 0x1108, world s))"

lemma exec_capi_waitforsignal_answer:
  assumes "sys_fork (s\<lparr>numbytes := 1\<rparr>) = (pid, s1)" and "pid = 0 \<or> pid = -1"
    and "wait_result L pid s = (pe, e, w)"
  shows "\<exists>p. exec_capi_waitforsignal L s =
     map_option (apfst (\<lambda>n. if pid = 0 then Exited 0 else Returned n))
       (Some (sock_send (answer_packet (wait_answer s pe e) []) (s1\<lparr>world := w, out_packet := p\<rparr>)))"
proof -
  obtain rs where s1: "s1 = s\<lparr>numbytes := 1, fork_rets := rs\<rparr>"
    using assms(1,2) by (auto simp: sys_fork_def split: list.splits)
  define F where "F = (\<lambda>pe e w. set_head AH_session_id (sessionID s)
      (set_head AH_app_id (rq_app_id (req s)) (set_head AH_message_type TYPE_CAPI_WAITFORSIGNAL
      (set_head AH_message_id (rq_message_id (req s)) (set_message_len (set_head AH_data_len 0
      (set_head AH_body_len 0 (set_head AH_header_len (of_nat sizeof_ANSWER_HEADER)
      (set_head AH_proxy_error pe (set_head AH_capi_error e (s1\<lparr>world := w\<rparr>)))))))))))"
  have "\<exists>p. send_answer (F pe e w) =
      Some (sock_send (answer_packet (wait_answer s pe e) []) (s1\<lparr>world := w, out_packet := p\<rparr>))"
    unfolding F_def s1 wait_answer_def
    by (rule answerI [where n = 40]; (rule server.equality)?; simp add: answer_simps)
  moreover have "s1\<lparr>world := world s\<rparr> = s1" by (simp add: s1)
  then have "exec_capi_waitforsignal L s = map_option
      (apfst (\<lambda>n. if pid = 0 then Exited 0 else Returned n)) (send_answer (F pe e w))"
    using assms(2,3) unfolding exec_capi_waitforsignal_def Let_def assms(1) prod.case F_def
    by (cases "send_answer (F pe e w)")
      (auto simp: wait_result_def F_def s1 Let_def split: prod.splits)
  ultimately show ?thesis by metis
qed

section \<open>The handlers meet their contracts\<close>

lemmas handler_defs =
  exec_capi_register_def exec_capi_release_def exec_capi_getmessage_def exec_capi_putmessage_def
  exec_capi_isinstalled_def exec_capi_manufacturer_def exec_capi_version_def exec_capi_serial_def
  exec_capi_profile_def

lemma handlers_oblivious:
  "exec_capi_register L (s\<lparr>rx := r\<rparr>) = map_option (apsnd (\<lambda>s'. s'\<lparr>rx := r\<rparr>)) (exec_capi_register L s)"
  "exec_capi_release L (s\<lparr>rx := r\<rparr>) = map_option (apsnd (\<lambda>s'. s'\<lparr>rx := r\<rparr>)) (exec_capi_release L s)"
  "exec_capi_getmessage L (s\<lparr>rx := r\<rparr>) = map_option (apsnd (\<lambda>s'. s'\<lparr>rx := r\<rparr>)) (exec_capi_getmessage L s)"
  "exec_capi_isinstalled L (s\<lparr>rx := r\<rparr>) = map_option (apsnd (\<lambda>s'. s'\<lparr>rx := r\<rparr>)) (exec_capi_isinstalled L s)"
  "exec_capi_manufacturer L (s\<lparr>rx := r\<rparr>) = map_option (apsnd (\<lambda>s'. s'\<lparr>rx := r\<rparr>)) (exec_capi_manufacturer L s)"
  "exec_capi_version L (s\<lparr>rx := r\<rparr>) = map_option (apsnd (\<lambda>s'. s'\<lparr>rx := r\<rparr>)) (exec_capi_version L s)"
  "exec_capi_serial L (s\<lparr>rx := r\<rparr>) = map_option (apsnd (\<lambda>s'. s'\<lparr>rx := r\<rparr>)) (exec_capi_serial L s)"
  "exec_capi_profile L (s\<lparr>rx := r\<rparr>) = map_option (apsnd (\<lambda>s'. s'\<lparr>rx := r\<rparr>)) (exec_capi_profile L s)"
  unfolding handler_defs Let_def
  by (simp_all add: rx_simps split: prod.split Option.bind_split)

lemma putmessage_oblivious:
  "exec_capi_putmessage L (s\<lparr>rx := r\<rparr>) = map_option (apsnd (\<lambda>s'. s'\<lparr>rx := r\<rparr>)) (exec_capi_putmessage L s)"
  unfolding exec_capi_putmessage_def Let_def
  by (auto simp: rx_simps split: prod.splits Option.bind_splits if_splits)

lemma handlers_frame:
  "exec_capi_register L s = Some (n, s') \<Longrightarrow> session_frame s s'"
  "exec_capi_release L s = Some (n, s') \<Longrightarrow> session_frame s s'"
  "exec_capi_getmessage L s = Some (n, s') \<Longrightarrow> session_frame s s'"
  "exec_capi_putmessage L s = Some (n, s') \<Longrightarrow> session_frame s s'"
  "exec_capi_isinstalled L s = Some (n, s') \<Longrightarrow> session_frame s s'"
  "exec_capi_manufacturer L s = Some (n, s') \<Longrightarrow> session_frame s s'"
  "exec_capi_version L s = Some (n, s') \<Longrightarrow> session_frame s s'"
  "exec_capi_serial L s = Some (n, s') \<Longrightarrow> session_frame s s'"
  "exec_capi_profile L s = Some (n, s') \<Longrightarrow> session_frame s s'"
  unfolding handler_defs Let_def
  by (auto split: prod.splits Option.bind_splits if_splits elim!: send_answer_frame)

lemma waitforsignal_handler: "session_handler (exec_capi_waitforsignal L)"
proof
  fix s r c s'
  show "exec_capi_waitforsignal L (s\<lparr>rx := r\<rparr>) =
      map_option (apsnd (\<lambda>s'. s'\<lparr>rx := r\<rparr>)) (exec_capi_waitforsignal L s)"
  proof -
    obtain pid t where f: "sys_fork (s\<lparr>numbytes := 1\<rparr>) = (pid, t)" by fastforce
    show ?thesis
      unfolding exec_capi_waitforsignal_def Let_def
      by (cases "capi20_waitformessage L (rq_app_id (req s)) (world t)")
        (simp add: rx_simps f split: Option.bind_split)
  qed
  show "exec_capi_waitforsignal L s = Some (c, s') \<Longrightarrow> session_frame s s'"
    unfolding exec_capi_waitforsignal_def Let_def
    by (auto split: prod.splits Option.bind_splits if_splits elim!: send_answer_frame
        dest!: sys_fork_frame [where s = s])
qed
text \<open>Preconditions under which a request is answered.\<close>

definition register_pre :: "'w server \<Rightarrow> bool" where
  "register_pre s \<longleftrightarrow> unat (rq_header_len (req s)) + 16 \<le> PACKET_SIZE"

definition getmessage_pre :: "'w capi20 \<Rightarrow> 'w server \<Rightarrow> bool" where
  "getmessage_pre L s \<longleftrightarrow>
     (case capi20_get_message L (rq_app_id (req s)) (world s) of (e, a, w) \<Rightarrow>
        e = 0 \<longrightarrow> 6 \<le> length (capi_message L w a) \<and>
                 40 + length (snd (getmessage_data L w a)) \<le> PACKET_SIZE)"

definition putmessage_pre :: "'w server \<Rightarrow> bool" where
  "putmessage_pre s \<longleftrightarrow> put_msg s + unat (rq_data_len (req s)) \<le> PACKET_SIZE"

definition waitforsignal_pre :: "'w server \<Rightarrow> bool" where
  "waitforsignal_pre s \<longleftrightarrow> fst (sys_fork s) \<in> {0, -1}"

lemma capi20_documentedD:
  assumes "capi20_documented L"
  shows "fst (capi20_get_manufacturer L c w) = bs \<Longrightarrow> length bs = 64"
    and "fst (capi20_get_version L c w) = bs \<Longrightarrow> length bs = 16"
    and "fst (capi20_get_serial_number L c w) = bs \<Longrightarrow> length bs = 8"
    and "fst (snd (capi20_get_profile L c w)) = bs \<Longrightarrow> length bs = 64"
    and "capi20_register L cn b l a w = (0, app, w') \<Longrightarrow> app \<noteq> 0 \<and> unat app \<le> CAPI_MAXAPPL L"
    and "CAPI_MAXAPPL L < 2 ^ 32"
  using assms unfolding capi20_documented_def by auto (metis fst_conv snd_conv)+

lemmas framing = well_framed_answer_packet PACKET_SIZE_def

interpretation register: capi_handler "\<lambda>s. plain (exec_capi_register L s)" TYPE_CAPI_REGISTER register_pre
  for L :: "'w capi20"
proof (rule capi_handlerI [OF plain_session_handler [OF handlers_oblivious(1) handlers_frame(1)]])
  fix s :: "'w server" assume pre: "register_pre s"
  let ?v = "unat (rq_header_len (req s))"
  obtain e a w where reg: "capi20_register L (get32 (in_packet s) (?v + 4)) (get32 (in_packet s) (?v + 8))
      (get32 (in_packet s) (?v + 12)) (get32 (out_packet s) AH_app_id) (world s) = (e, a, w)"
    by (metis prod_cases3)
  show "answered_in_session (plain (exec_capi_register L s)) s TYPE_CAPI_REGISTER"
    by (rule answered_in_sessionI [OF exec_capi_register_eq [OF pre [unfolded register_pre_def] reg]])
      (simp_all add: framing)
qed

interpretation release: capi_handler "\<lambda>s. plain (exec_capi_release L s)" TYPE_CAPI_RELEASE "\<lambda>_. True"
  for L :: "'w capi20"
proof (rule capi_handlerI [OF plain_session_handler [OF handlers_oblivious(2) handlers_frame(2)]])
  fix s :: "'w server"
  show "answered_in_session (plain (exec_capi_release L s)) s TYPE_CAPI_RELEASE"
    by (intro answered_in_sessionI [OF exec_capi_release_eq [where s = s and L = L, OF surjective_pairing]])
      (simp_all add: framing)
qed

interpretation isinstalled: capi_handler "\<lambda>s. plain (exec_capi_isinstalled L s)" TYPE_CAPI_INSTALLED
  "\<lambda>_. True" for L :: "'w capi20"
proof (rule capi_handlerI [OF plain_session_handler [OF handlers_oblivious(4) handlers_frame(5)]])
  fix s :: "'w server"
  show "answered_in_session (plain (exec_capi_isinstalled L s)) s TYPE_CAPI_INSTALLED"
    by (intro answered_in_sessionI [OF exec_capi_isinstalled_eq [where s = s and L = L, OF surjective_pairing]])
      (simp_all add: framing)
qed

interpretation manufacturer: capi_handler "\<lambda>s. plain (exec_capi_manufacturer L s)"
  TYPE_CAPI_MANUFACTURER "\<lambda>_. capi20_documented L" for L :: "'w capi20"
proof (rule capi_handlerI [OF plain_session_handler [OF handlers_oblivious(5) handlers_frame(6)]])
  fix s :: "'w server" assume doc: "capi20_documented L"
  show "answered_in_session (plain (exec_capi_manufacturer L s)) s TYPE_CAPI_MANUFACTURER"
    by (intro answered_in_sessionI [OF exec_capi_manufacturer_eq [where s = s and L = L, OF surjective_pairing]])
      (simp_all add: framing capi20_documentedD [OF doc])
qed

interpretation version: capi_handler "\<lambda>s. plain (exec_capi_version L s)"
  TYPE_CAPI_VERSION "\<lambda>_. capi20_documented L" for L :: "'w capi20"
proof (rule capi_handlerI [OF plain_session_handler [OF handlers_oblivious(6) handlers_frame(7)]])
  fix s :: "'w server" assume doc: "capi20_documented L"
  show "answered_in_session (plain (exec_capi_version L s)) s TYPE_CAPI_VERSION"
    by (intro answered_in_sessionI [OF exec_capi_version_eq [where s = s and L = L, OF surjective_pairing]])
      (simp_all add: framing capi20_documentedD [OF doc])
qed

interpretation serial: capi_handler "\<lambda>s. plain (exec_capi_serial L s)"
  TYPE_CAPI_SERIAL "\<lambda>_. capi20_documented L" for L :: "'w capi20"
proof (rule capi_handlerI [OF plain_session_handler [OF handlers_oblivious(7) handlers_frame(8)]])
  fix s :: "'w server" assume doc: "capi20_documented L"
  show "answered_in_session (plain (exec_capi_serial L s)) s TYPE_CAPI_SERIAL"
    by (intro answered_in_sessionI [OF exec_capi_serial_eq [where s = s and L = L, OF surjective_pairing]])
      (simp_all add: framing capi20_documentedD [OF doc])
qed

interpretation profile: capi_handler "\<lambda>s. plain (exec_capi_profile L s)"
  TYPE_CAPI_PROFILE "\<lambda>_. capi20_documented L" for L :: "'w capi20"
proof (rule capi_handlerI [OF plain_session_handler [OF handlers_oblivious(8) handlers_frame(9)]])
  fix s :: "'w server" assume doc: "capi20_documented L"
  obtain e bs w where q: "capi20_get_profile L (rq_controller_id (req s)) (world s) = (e, bs, w)"
    by (metis prod_cases3)
  have len: "length bs = 64"
    by (rule capi20_documentedD(4) [OF doc, of "rq_controller_id (req s)" "world s"]) (simp add: q)
  show "answered_in_session (plain (exec_capi_profile L s)) s TYPE_CAPI_PROFILE"
    by (rule answered_in_sessionI [OF exec_capi_profile_eq [OF q len]]) (simp_all add: framing len)
qed


interpretation getmessage: capi_handler "\<lambda>s. plain (exec_capi_getmessage L s)"
  TYPE_CAPI_GETMESSAGE "getmessage_pre L" for L :: "'w capi20"
proof (rule capi_handlerI [OF plain_session_handler [OF handlers_oblivious(3) handlers_frame(3)]])
  fix s :: "'w server" assume pre: "getmessage_pre L s"
  obtain e a w where q: "capi20_get_message L (rq_app_id (req s)) (world s) = (e, a, w)"
    by (metis prod_cases3)
  obtain pe d where d: "getmessage_data L w a = (pe, d)" by fastforce
  show "answered_in_session (plain (exec_capi_getmessage L s)) s TYPE_CAPI_GETMESSAGE"
  proof (cases "e = 0")
    case True
    then have f: "6 \<le> length (capi_message L w a)" "40 + length d \<le> PACKET_SIZE"
      using pre by (simp_all add: getmessage_pre_def q d)
    have "unat (of_nat (40 + length d) :: u32) = 40 + length d" "unat (of_nat (length d) :: u32) = length d"
      using f(2) by (simp_all only: unat_of_nat PACKET_SIZE_def) simp_all
    then show ?thesis
      using f(2) by (intro answered_in_sessionI [OF exec_capi_getmessage_ok [OF q [unfolded True] f(1) d f(2)]])
        (simp_all add: framing)
  next
    case False
    show ?thesis by (rule answered_in_sessionI [OF exec_capi_getmessage_error [OF q False]]) (simp_all add: framing)
  qed
qed

interpretation putmessage: capi_handler "\<lambda>s. plain (exec_capi_putmessage L s)"
  TYPE_CAPI_PUTMESSAGE putmessage_pre for L :: "'w capi20"
proof (rule capi_handlerI [OF plain_session_handler [OF putmessage_oblivious handlers_frame(4)]])
  fix s :: "'w server" assume "putmessage_pre s"
  then have pre: "put_msg s + unat (rq_data_len (req s)) \<le> PACKET_SIZE" by (simp add: putmessage_pre_def)
  show "answered_in_session (plain (exec_capi_putmessage L s)) s TYPE_CAPI_PUTMESSAGE"
  proof (cases "put_rejects s")
    case True
    show ?thesis
      by (rule answered_in_sessionI [OF exec_capi_putmessage_rejected [OF pre True]])
        (simp_all add: framing put_answer_def)
  next
    case False
    show ?thesis
      by (rule answered_in_sessionI [OF exec_capi_putmessage_accepted [OF pre False surjective_pairing]])
        (simp_all add: framing put_answer_def)
  qed
qed

interpretation waitforsignal: capi_handler "exec_capi_waitforsignal L"
  TYPE_CAPI_WAITFORSIGNAL waitforsignal_pre for L :: "'w capi20"
proof (rule capi_handlerI [OF waitforsignal_handler])
  fix s :: "'w server" assume pre: "waitforsignal_pre s"
  obtain pid s1 where f: "sys_fork (s\<lparr>numbytes := 1\<rparr>) = (pid, s1)" by fastforce
  have pid: "pid = 0 \<or> pid = -1" and tx: "tx s1 = tx s"
    using pre f by (auto simp: waitforsignal_pre_def sys_fork_def split: list.splits)
  obtain pe e w where q: "wait_result L pid s = (pe, e, w)" by (metis prod_cases3)
  from exec_capi_waitforsignal_answer [OF f pid q] obtain p where
    "exec_capi_waitforsignal L s = Some (apfst (\<lambda>n. if pid = 0 then Exited 0 else Returned n)
       (sock_send (answer_packet (wait_answer s pe e) []) (s1\<lparr>world := w, out_packet := p\<rparr>)))" by auto
  then have "answers_with (exec_capi_waitforsignal L s) s (wait_answer s pe e) []"
    unfolding answers_with_def by (intro exI conjI, assumption) (simp add: tx)
  then show "answered_in_session (exec_capi_waitforsignal L s) s TYPE_CAPI_WAITFORSIGNAL"
    unfolding answered_in_session_def by (intro exI conjI, assumption) (auto simp: framing wait_answer_def)
qed

section \<open>Setting the controller of a message\<close>

text \<open>
  For a controller number below 128 the sum in \<^verbatim>\<open>SET_CTRL\<close> has no carry: it replaces the
  seven controller bits and keeps the other 25 bits of the NCCI.
\<close>

lemma SET_CTRL_bits:
  assumes "ctrl < 128"
  shows "get32 (SET_CTRL msg ctrl b) (msg + 8) AND 0x7F = ucast ctrl"
    and "get32 (SET_CTRL msg ctrl b) (msg + 8) AND 0xFFFFFF80 = get32 b (msg + 8) AND 0xFFFFFF80"
  using replace_low_bits [OF assms, of "get32 b (msg + 8)"] by (simp_all add: SET_CTRL_def buf_simps)

end
