(* ===== verification/Proxy.thy ===== *)
theory Proxy
  imports HandlerContract
begin

text \<open>
  The proxy's own messages, \<^verbatim>\<open>capi/proxy.c\<close> (HELO, AUTH, SHUTDOWN), and the authentication
  sub-system \<^verbatim>\<open>auth/auth.c\<close>.

  \<^verbatim>\<open>getsockname\<close> is scripted by the field \<open>sockname\<close> of the state: \<open>None\<close> when the call
  fails, otherwise the address in host byte order.
\<close>

section \<open>Authentication (auth/auth.c)\<close>

definition sizeof_AUTH_USERPASS_DATA :: nat where "sizeof_AUTH_USERPASS_DATA = 8"

text \<open>
  \<open>indata\<close> is a heap block of \<open>n\<close> octets. The function copies user name and password and
  then refuses, whatever they are; \<open>None\<close> when a length makes it read past the block.
\<close>

definition up_auth :: "nat \<Rightarrow> buffer \<Rightarrow> int option" where
  "up_auth n indata = do {
     uname_len \<leftarrow> get32_chk n indata 0;
     passwd_len \<leftarrow> get32_chk n indata 4;
     uname \<leftarrow> get_bytes_chk n indata sizeof_AUTH_USERPASS_DATA (unat uname_len);
     passwd \<leftarrow> get_bytes_chk n indata (sizeof_AUTH_USERPASS_DATA + unat uname_len) (unat passwd_len);
     Some (-1)
   }"

definition ip_auth :: "'w server \<Rightarrow> int" where
  "ip_auth s =
     (case sockname s of
        None \<Rightarrow> -1
      | Some a \<Rightarrow> if a AND 0xFFFF0000 = 0xC0A80000 \<or> a AND 0xFF000000 = 0x0A000000 then 0 else -1)"

section \<open>Messages (capi/proxy.c)\<close>

definition SERVER_NAME :: "byte list" where
  "SERVER_NAME = string_bytes ''CAPI 2.0 Proxy Linux SERVER alpha''"

definition exec_proxy_helo :: "'w server \<Rightarrow> (int \<times> 'w server) option" where
  "exec_proxy_helo s = do {
     let helo_msg = unat (rq_header_len (req s));
     os \<leftarrow> get32_chk PACKET_SIZE (in_packet s) (helo_msg + 64);
     vmaj \<leftarrow> get32_chk PACKET_SIZE (in_packet s) (helo_msg + 68);
     vmin \<leftarrow> get32_chk PACKET_SIZE (in_packet s) (helo_msg + 72);
     name \<leftarrow> strcpy_chk 64 PACKET_SIZE (in_packet s) helo_msg;
     let s = s\<lparr>client_info := (client_info s)\<lparr>ci_os := os,
                  ci_version := \<lparr>major = vmaj, minor = vmin\<rparr>, ci_name := name\<rparr>\<rparr>;
     let s = set_head AH_message_len (of_nat (sizeof_ANSWER_HEADER + sizeof_ANSWER_PROXY_HELO)) s;
     let s = set_head AH_header_len (of_nat sizeof_ANSWER_HEADER) s;
     let s = set_head AH_body_len (of_nat sizeof_ANSWER_PROXY_HELO) s;
     let s = set_head AH_data_len 0 s;
     let s = set_head AH_message_id (rq_message_id (req s)) s;
     let s = set_head AH_message_type TYPE_PROXY_HELO s;
     let s = set_head AH_app_id 0 s;
     let s = set_head AH_session_id (sessionID s) s;
     let s = set_head AH_proxy_error (if STD_AUTH_REQUIRED \<noteq> 0 then PERROR_AUTH_REQUIRED else PERROR_NONE) s;
     let s = set_head AH_capi_error 0 s;
     let helo_re = sizeof_ANSWER_HEADER;
     let s = s\<lparr>out_packet := put_bytes helo_re (SERVER_NAME @ [0]) (out_packet s)\<rparr>;
     let s = set_head (helo_re + 64) OS_TYPE_LINUX s;
     let s = set_head (helo_re + 68) (major (local_version s)) s;
     let s = set_head (helo_re + 72) (minor (local_version s)) s;
     let s = set_head (helo_re + 76) AUTH_NO_AUTH s;
     send_answer s
   }"

definition exec_proxy_auth :: "'w server \<Rightarrow> (int \<times> 'w server) option" where
  "exec_proxy_auth s = do {
     auth_type \<leftarrow> get32_chk PACKET_SIZE (in_packet s) (unat (rq_header_len (req s)));
     s \<leftarrow> (if auth_type AND AUTH_USERPASS \<noteq> 0 then do {
            let n = unat (rq_data_len (req s));
            authdata \<leftarrow> get_bytes_chk PACKET_SIZE (in_packet s)
                          (unat (rq_header_len (req s) + rq_body_len (req s))) n;
            r \<leftarrow> up_auth n (buffer_of authdata);
            Some (set_head AH_proxy_error (if r \<noteq> -1 then PERROR_NONE else PERROR_ACCESS_DENIED) s)
          }
          else if auth_type AND AUTH_BY_IP \<noteq> 0 then
            Some (set_head AH_proxy_error (if ip_auth s \<noteq> -1 then PERROR_NONE else PERROR_ACCESS_DENIED) s)
          else Some (set_head AH_proxy_error PERROR_AUTH_TYPE_NOT_SUPPORTED s));
     let s = set_head AH_header_len (of_nat sizeof_ANSWER_HEADER) s;
     let s = set_head AH_body_len 0 s;
     let s = set_head AH_data_len 0 s;
     let s = set_message_len s;
     let s = set_head AH_message_id (rq_message_id (req s)) s;
     let s = set_head AH_message_type TYPE_PROXY_AUTH s;
     let s = set_head AH_app_id 0 s;
     let s = (if STD_AUTH_REQUIRED \<noteq> 0 \<and> get32 (out_packet s) AH_proxy_error \<noteq> PERROR_NONE
              then set_head AH_session_id 0 s else set_head AH_session_id (sessionID s) s);
     let s = set_head AH_capi_error 0 s;
     let s = s\<lparr>in_packet := put32 12 0 (in_packet s)\<rparr>;
     send_answer s
   }"

text \<open>\<open>excuse\<close> is the string without its terminator.\<close>

definition exec_proxy_shutdown :: "byte list \<Rightarrow> 'w server \<Rightarrow> (int \<times> 'w server) option" where
  "exec_proxy_shutdown excuse s = do {
     let s = set_head AH_message_len (of_nat (sizeof_ANSWER_HEADER + sizeof_ANSWER_PROXY_SHUTDOWN)) s;
     let s = set_head AH_header_len (of_nat sizeof_ANSWER_HEADER) s;
     let s = set_head AH_body_len (of_nat sizeof_ANSWER_PROXY_SHUTDOWN) s;
     let s = set_head AH_data_len 0 s;
     let s = set_head AH_message_id 0 s;
     let s = set_head AH_message_type TYPE_PROXY_SHUTDOWN s;
     let s = set_head AH_app_id 0 s;
     let s = set_head AH_session_id (sessionID s) s;
     let s = set_head AH_proxy_error 0 s;
     let s = set_head AH_capi_error 0 s;
     p \<leftarrow> put_bytes_chk PACKET_SIZE sizeof_ANSWER_HEADER (excuse @ [0]) (out_packet s);
     send_answer (s\<lparr>out_packet := p\<rparr>)
   }"

section \<open>What they do\<close>

definition helo_pre :: "'w server \<Rightarrow> bool" where
  "helo_pre s \<longleftrightarrow> unat (rq_header_len (req s)) + 76 \<le> PACKET_SIZE \<and>
     strcpy_chk 64 PACKET_SIZE (in_packet s) (unat (rq_header_len (req s))) \<noteq> None"

definition helo_client :: "'w server \<Rightarrow> client_info" where
  "helo_client s = (client_info s)\<lparr>ci_os := get32 (in_packet s) (unat (rq_header_len (req s)) + 64),
     ci_version := \<lparr>major = get32 (in_packet s) (unat (rq_header_len (req s)) + 68),
                    minor = get32 (in_packet s) (unat (rq_header_len (req s)) + 72)\<rparr>,
     ci_name := the (strcpy_chk 64 PACKET_SIZE (in_packet s) (unat (rq_header_len (req s))))\<rparr>"

text \<open>
  The body of the answer: the name padded with what the buffer held before, and a time-out
  field no assignment sets.
\<close>

definition helo_body :: "'w server \<Rightarrow> byte list" where
  "helo_body s = SERVER_NAME @ [0] @ get_bytes (out_packet s) 74 30 @ bytes_le 4 OS_TYPE_LINUX @
     bytes_le 4 (major (local_version s)) @ bytes_le 4 (minor (local_version s)) @
     bytes_le 4 AUTH_NO_AUTH @ get_bytes (out_packet s) 120 4"

lemma length_SERVER_NAME [simp]: "length SERVER_NAME = 33"
  by (simp add: SERVER_NAME_def)


lemma get_bytes_put_bytes_split:
  "off \<le> o' \<Longrightarrow> o' + length bs \<le> off + n \<Longrightarrow> get_bytes (put_bytes o' bs b) off n =
     get_bytes b off (o' - off) @ bs @ get_bytes b (o' + length bs) (off + n - (o' + length bs))"
  by (rule nth_equalityI) (auto simp: put_bytes_def nth_append add.commute)

lemma get_bytes_put32_split:
  "off \<le> o' \<Longrightarrow> o' + 4 \<le> off + n \<Longrightarrow> get_bytes (put32 o' w b) off n =
     get_bytes b off (o' - off) @ bytes_le 4 w @ get_bytes b (o' + 4) (off + n - (o' + 4))"
  by (simp add: put32_def get_bytes_put_bytes_split)

lemma exec_proxy_helo_eq:
  assumes "helo_pre s"
  shows "\<exists>p. exec_proxy_helo s = Some (sock_send (answer_packet
      \<lparr>an_message_len = 124, an_header_len = 40, an_body_len = 84, an_data_len = 0,
       an_message_id = rq_message_id (req s), an_message_type = TYPE_PROXY_HELO,
       an_app_id = 0, an_session_id = sessionID s, an_proxy_error = PERROR_AUTH_REQUIRED,
       an_capi_error = 0\<rparr> (helo_body s))
     (s\<lparr>client_info := helo_client s, out_packet := p\<rparr>))"
proof -
  let ?h = "unat (rq_header_len (req s))"
  have bnd: "?h + 64 + 4 \<le> PACKET_SIZE" "?h + 68 + 4 \<le> PACKET_SIZE" "?h + 72 + 4 \<le> PACKET_SIZE"
    using assms by (simp_all add: helo_pre_def)
  obtain name where n: "strcpy_chk 64 PACKET_SIZE (in_packet s) ?h = Some name"
    using assms by (auto simp: helo_pre_def)
  show ?thesis
    unfolding exec_proxy_helo_def Let_def get32_chk_def bnd [THEN eqTrueI] if_True bind.bind_lunit n
    by (rule answerI [where n = 124]; (rule server.equality)?;
        simp add: answer_simps helo_client_def n [unfolded PACKET_SIZE_def] STD_AUTH_REQUIRED_def
          helo_body_def get_bytes_put_bytes_split get_bytes_put32_split)
qed

lemma exec_proxy_shutdown_eq:
  assumes "length excuse < 128"
  shows "\<exists>p. exec_proxy_shutdown excuse s = Some (sock_send (answer_packet
      \<lparr>an_message_len = 168, an_header_len = 40, an_body_len = 128, an_data_len = 0,
       an_message_id = 0, an_message_type = TYPE_PROXY_SHUTDOWN,
       an_app_id = 0, an_session_id = sessionID s, an_proxy_error = 0, an_capi_error = 0\<rparr>
      (excuse @ [0] @ get_bytes (out_packet s) (41 + length excuse) (127 - length excuse)))
     (s\<lparr>out_packet := p\<rparr>))"
proof -
  have fits: "sizeof_ANSWER_HEADER + length (excuse @ [0]) \<le> PACKET_SIZE"
    using assms by (simp add: sizeof_defs PACKET_SIZE_def)
  show ?thesis
    unfolding exec_proxy_shutdown_def Let_def put_bytes_chk_def fits [THEN eqTrueI] if_True bind.bind_lunit
    by (insert assms; rule answerI [where n = 168]; (rule server.equality)?;
        simp add: answer_simps get_bytes_put_bytes_split get_bytes_put32_split)
qed


text \<open>The verdict of the authentication, \<open>None\<close> when user data makes it read outside its block.\<close>

definition auth_verdict :: "'w server \<Rightarrow> u32 option" where
  "auth_verdict s =
     (let t = get32 (in_packet s) (unat (rq_header_len (req s)));
          n = unat (rq_data_len (req s)) in
      if t AND AUTH_USERPASS \<noteq> 0 then do {
        d \<leftarrow> get_bytes_chk PACKET_SIZE (in_packet s) (unat (rq_header_len (req s) + rq_body_len (req s))) n;
        r \<leftarrow> up_auth n (buffer_of d);
        Some (if r \<noteq> -1 then PERROR_NONE else PERROR_ACCESS_DENIED)
      }
      else if t AND AUTH_BY_IP \<noteq> 0 then Some (if ip_auth s \<noteq> -1 then PERROR_NONE else PERROR_ACCESS_DENIED)
      else Some PERROR_AUTH_TYPE_NOT_SUPPORTED)"

definition auth_answer :: "'w server \<Rightarrow> u32 \<Rightarrow> answer_header" where
  "auth_answer s v =
     \<lparr>an_message_len = 40, an_header_len = 40, an_body_len = 0, an_data_len = 0,
      an_message_id = rq_message_id (req s), an_message_type = TYPE_PROXY_AUTH, an_app_id = 0,
      an_session_id = (if v = PERROR_NONE then sessionID s else 0), an_proxy_error = v,
      an_capi_error = 0\<rparr>"

definition auth_pre :: "'w server \<Rightarrow> bool" where
  "auth_pre s \<longleftrightarrow> unat (rq_header_len (req s)) + 4 \<le> PACKET_SIZE \<and> auth_verdict s \<noteq> None"

lemma exec_proxy_auth_eq:
  assumes "unat (rq_header_len (req s)) + 4 \<le> PACKET_SIZE" and "auth_verdict s = Some v"
  shows "\<exists>p. exec_proxy_auth s = Some (sock_send (answer_packet (auth_answer s v) [])
     (s\<lparr>in_packet := put32 12 0 (in_packet s), out_packet := p\<rparr>))"
proof -
  define F where "F = (\<lambda>t. t\<lparr>in_packet := put32 12 0 (in_packet t)\<rparr>) (set_head AH_capi_error 0
      (set_head AH_session_id (if v = PERROR_NONE then sessionID s else 0) (set_head AH_app_id 0
      (set_head AH_message_type TYPE_PROXY_AUTH (set_head AH_message_id (rq_message_id (req s))
      (set_message_len (set_head AH_data_len 0 (set_head AH_body_len 0
      (set_head AH_header_len (of_nat sizeof_ANSWER_HEADER) (set_head AH_proxy_error v s))))))))))"
  have "exec_proxy_auth s = send_answer F"
    using assms unfolding exec_proxy_auth_def auth_verdict_def Let_def F_def
    by (auto simp: get32_chk_def answer_simps STD_AUTH_REQUIRED_def
        split: if_splits Option.bind_splits)
  moreover have "\<exists>p. send_answer F = Some (sock_send (answer_packet (auth_answer s v) [])
     (s\<lparr>in_packet := put32 12 0 (in_packet s), out_packet := p\<rparr>))"
    unfolding F_def auth_answer_def
    by (rule answerI [where n = 40]; (rule server.equality)?; simp add: answer_simps)
  ultimately show ?thesis by simp
qed

lemma auth_verdict_userpass: "get32 (in_packet s) (unat (rq_header_len (req s))) AND AUTH_USERPASS \<noteq> 0 \<Longrightarrow>
  auth_verdict s = Some v \<Longrightarrow> v = PERROR_ACCESS_DENIED"
  by (auto simp: auth_verdict_def up_auth_def Let_def split: Option.bind_splits if_splits)

text \<open>The two network masks of \<open>ip_auth\<close> as prefixes of the address.\<close>

lemma network_prefix:
  fixes a :: u32
  shows "a AND 0xFFFF0000 = 0xC0A80000 \<longleftrightarrow> unat a div 2 ^ 16 = 0xC0A8"
    and "a AND 0xFF000000 = 0x0A000000 \<longleftrightarrow> unat a div 2 ^ 24 = 0x0A"
proof -
  have m: "(0xFFFF0000 :: u32) = NOT (mask 16)" "(0xFF000000 :: u32) = NOT (mask 24)"
    by (simp_all add: mask_eq_exp_minus_1)
  have p: "a AND NOT (mask n) = push_bit n (drop_bit n a)" for n
    by (rule bit_eqI) (auto simp: bit_simps)
  have d: "drop_bit n (push_bit n (drop_bit n a)) = drop_bit n a" for n
    by (rule bit_eqI) (auto simp: bit_simps dest: bit_imp_le_length)
  have u: "unat a div 2 ^ n = unat (drop_bit n a)" for n
  proof -
    have "take_bit 32 (unat a) = unat (take_bit 32 a)" by (simp only: unsigned_take_bit_eq)
    also have "\<dots> = unat a" by (simp add: take_bit_word_eq_self)
    finally show ?thesis by (simp only: drop_bit_eq_div [symmetric] unsigned_drop_bit_eq) simp
  qed
  have e: "unat w = k \<longleftrightarrow> w = of_nat k" if "k < 2 ^ 32" for w :: u32 and k
  proof -
    have "unat (of_nat k :: u32) = k" using that by (simp add: unat_of_nat)
    then show ?thesis by (metis word_unat_eq_iff)
  qed
  show "a AND 0xFFFF0000 = 0xC0A80000 \<longleftrightarrow> unat a div 2 ^ 16 = 0xC0A8"
    unfolding m p u using d [of 16] by (auto simp: e)
  show "a AND 0xFF000000 = 0x0A000000 \<longleftrightarrow> unat a div 2 ^ 24 = 0x0A"
    unfolding m p u using d [of 24] by (auto simp: e)
qed

section \<open>The contracts\<close>

lemma proxy_oblivious:
  "exec_proxy_helo (s\<lparr>rx := r\<rparr>) = map_option (apsnd (\<lambda>s'. s'\<lparr>rx := r\<rparr>)) (exec_proxy_helo s)"
  "exec_proxy_auth (s\<lparr>rx := r\<rparr>) = map_option (apsnd (\<lambda>s'. s'\<lparr>rx := r\<rparr>)) (exec_proxy_auth s)"
  unfolding exec_proxy_helo_def exec_proxy_auth_def Let_def
  by (auto simp: rx_simps ip_auth_def split: prod.splits Option.bind_splits if_splits)

lemma proxy_frame:
  "exec_proxy_helo s = Some (n, s') \<Longrightarrow> session_frame s s'"
  "exec_proxy_auth s = Some (n, s') \<Longrightarrow> session_frame s s'"
  unfolding exec_proxy_helo_def exec_proxy_auth_def Let_def
  by (auto split: prod.splits Option.bind_splits if_splits elim!: send_answer_frame)

interpretation helo: capi_handler "\<lambda>s. plain (exec_proxy_helo s)" TYPE_PROXY_HELO helo_pre
proof (rule capi_handlerI [OF plain_session_handler [OF proxy_oblivious(1) proxy_frame(1)]])
  fix s :: "'a server" assume pre: "helo_pre s"
  show "answered_in_session (plain (exec_proxy_helo s)) s TYPE_PROXY_HELO"
    by (rule answered_in_sessionI [OF exec_proxy_helo_eq [OF pre]])
      (simp_all add: well_framed_answer_packet PACKET_SIZE_def helo_body_def)
qed

interpretation auth: answer_handler "\<lambda>s. plain (exec_proxy_auth s)" TYPE_PROXY_AUTH auth_pre
proof (rule answer_handlerI [OF plain_session_handler [OF proxy_oblivious(2) proxy_frame(2)]])
  fix s :: "'a server" assume pre: "auth_pre s"
  then obtain v where "unat (rq_header_len (req s)) + 4 \<le> PACKET_SIZE" "auth_verdict s = Some v"
    by (auto simp: auth_pre_def)
  from exec_proxy_auth_eq [OF this] obtain p where
    "exec_proxy_auth s = Some (sock_send (answer_packet (auth_answer s v) [])
      (s\<lparr>in_packet := put32 12 0 (in_packet s), out_packet := p\<rparr>))" by blast
  from answers_withI [OF this, of s]
  show "\<exists>h body. answers_with (plain (exec_proxy_auth s)) s h body \<and> well_framed (answer_packet h body) \<and>
      an_message_type h = TYPE_PROXY_AUTH \<and> an_message_id h = rq_message_id (req s)"
    by (intro exI conjI, simp) (simp_all add: well_framed_answer_packet PACKET_SIZE_def auth_answer_def)
qed

end
