(* ===== verification/Session.thy ===== *)
theory Session
  imports Handlers Proxy
begin

text \<open>
  The session of one client, \<^verbatim>\<open>linux-server/src/capifwd.c\<close>: reading a request from the stream
  (\<^verbatim>\<open>recvn\<close>), the switch over its type, and the loop until the client is gone.

  The loop is a total function: every round that goes on has consumed a request header
  from the finite script \<open>rx\<close>. The end of the script is the end of the connection.
  \<open>serve\<close> is the specification of the loop on the octet stream alone; \<open>session_serve\<close>
  shows that the loop refines it, so the way the network cuts the stream into segments is
  irrelevant.
\<close>

section \<open>Receiving\<close>

text \<open>The total amount a receive script can still deliver, counting events.\<close>

fun rx_size :: "recv_event list \<Rightarrow> nat" where
  "rx_size [] = 0"
| "rx_size (RecvError # es) = Suc (rx_size es)"
| "rx_size (Data bs # es) = Suc (length bs) + rx_size es"

lemma sock_recv_size: "sock_recv es n = (r, bs, es') \<Longrightarrow> rx_size es' \<le> rx_size es"
  by (cases "(es, n)" rule: sock_recv.cases) (auto split: if_splits)

lemma sock_recv_progress: "sock_recv es n = (r, bs, es') \<Longrightarrow> 0 < r \<Longrightarrow> rx_size es' < rx_size es"
  by (cases "(es, n)" rule: sock_recv.cases) (auto split: if_splits)

lemma sock_recv_count: "sock_recv es n = (r, bs, es') \<Longrightarrow> 0 < r \<Longrightarrow> r = int (length bs) \<and> length bs \<le> n"
  by (cases "(es, n)" rule: sock_recv.cases) auto

text \<open>
  The loop of \<^verbatim>\<open>recvn\<close>: the first component is \<open>None\<close> when all octets have arrived and the
  return value of the failing \<^verbatim>\<open>recv\<close> otherwise; the second are the octets stored.
\<close>

function recvn_loop :: "recv_event list \<Rightarrow> nat \<Rightarrow> int option \<times> byte list \<times> recv_event list" where
  "recvn_loop es left =
     (if left = 0 then (None, [], es)
      else case sock_recv es left of (n, bs, es') \<Rightarrow>
        if n \<le> 0 then (Some n, [], es')
        else case recvn_loop es' (left - nat n) of (r, bs', es'') \<Rightarrow> (r, bs @ bs', es''))"
  by pat_completeness auto
termination
  by (relation "measure snd") auto

declare recvn_loop.simps [simp del]

definition recvn :: "recv_event list \<Rightarrow> u32 \<Rightarrow> int \<times> byte list \<times> recv_event list" where
  "recvn es sz = (case recvn_loop es (unat sz) of (r, bs, es') \<Rightarrow>
     (case r of None \<Rightarrow> sint sz | Some n \<Rightarrow> n, bs, es'))"

section \<open>Dispatching a request\<close>

definition dispatch :: "'w capi20 \<Rightarrow> 'w server \<Rightarrow> (control \<times> 'w server) option" where
  "dispatch L s =
     (let t = rq_message_type (req s);
          foreign = (rq_session_id (req s) \<noteq> sessionID s);
          ignore = Some (Returned 1, s) in
      if t = TYPE_PROXY_HELO then plain (exec_proxy_helo s)
      else if t = TYPE_PROXY_AUTH then plain (exec_proxy_auth s)
      else if t = TYPE_PROXY_KEEPALIVE then ignore
      else if t = TYPE_CAPI_REGISTER then if foreign then ignore else plain (exec_capi_register L s)
      else if t = TYPE_CAPI_RELEASE then if foreign then ignore else plain (exec_capi_release L s)
      else if t = TYPE_CAPI_INSTALLED then if foreign then ignore else plain (exec_capi_isinstalled L s)
      else if t = TYPE_CAPI_VERSION then if foreign then ignore else plain (exec_capi_version L s)
      else if t = TYPE_CAPI_SERIAL then if foreign then ignore else plain (exec_capi_serial L s)
      else if t = TYPE_CAPI_MANUFACTURER then if foreign then ignore else plain (exec_capi_manufacturer L s)
      else if t = TYPE_CAPI_PROFILE then if foreign then ignore else plain (exec_capi_profile L s)
      else if t = TYPE_CAPI_WAITFORSIGNAL then if foreign then ignore else exec_capi_waitforsignal L s
      else if t = TYPE_CAPI_GETMESSAGE then if foreign then ignore else plain (exec_capi_getmessage L s)
      else if t = TYPE_CAPI_PUTMESSAGE then if foreign then ignore else plain (exec_capi_putmessage L s)
      else ignore)"

section \<open>The loop\<close>

text \<open>What happens when \<^verbatim>\<open>recvn\<close> reports the end of the connection or an error.\<close>

definition hangup :: "'w capi20 \<Rightarrow> 'w server \<Rightarrow> control \<times> 'w server" where
  "hangup L s =
     (let s = s\<lparr>sock_open := False\<rparr>;
          (apps, w) = release_all (CAPI_MAXAPPL L) (capi20_release L) (registered_apps s) (world s)
      in (Exited 0, s\<lparr>registered_apps := apps, world := w\<rparr>))"

definition session_step :: "'w capi20 \<Rightarrow> 'w server \<Rightarrow> (control \<times> 'w server) option" where
  "session_step L s = do {
     let (n, bs, es) = recvn (rx s) (of_nat sizeof_REQUEST_HEADER);
     let s = s\<lparr>rx := es, in_packet := put_bytes 0 bs (in_packet s)\<rparr>;
     if n \<le> 0 then Some (hangup L s)
     else do {
       let (n, bs, es) = recvn (rx s) (rq_message_len (req s) - of_nat sizeof_REQUEST_HEADER);
       p \<leftarrow> put_bytes_chk PACKET_SIZE sizeof_REQUEST_HEADER bs (in_packet s);
       let s = s\<lparr>rx := es, in_packet := p\<rparr>;
       if n \<le> 0 then Some (hangup L s) else dispatch L s
     }
   }"

subsection \<open>Termination\<close>

lemma recvn_loop_size: "recvn_loop es n = (r, bs, es') \<Longrightarrow> rx_size es' \<le> rx_size es"
proof (induction es n arbitrary: r bs es' rule: recvn_loop.induct)
  case (1 es left)
  obtain k cs fs where f: "sock_recv es left = (k, cs, fs)" by (metis prod_cases3)
  show ?case
  proof (cases "left = 0 \<or> k \<le> 0")
    case True
    then show ?thesis using 1(2) f sock_recv_size [OF f]
      by (auto simp: recvn_loop.simps [of es left] split: if_splits)
  next
    case False
    obtain r1 b1 e1 where l: "recvn_loop fs (left - nat k) = (r1, b1, e1)" by (metis prod_cases3)
    have "es' = e1" using 1(2) f False l by (simp add: recvn_loop.simps [of es])
    moreover have "rx_size e1 \<le> rx_size fs"
      by (rule 1(1) [OF _ f [symmetric] refl _ l]) (use False in auto)
    ultimately show ?thesis using sock_recv_size [OF f] by simp
  qed
qed

lemma recvn_size: "recvn es n = (r, bs, es') \<Longrightarrow> rx_size es' \<le> rx_size es"
  using recvn_loop_size by (auto simp: recvn_def split: prod.splits)

lemma recvn_progress:
  assumes "recvn es n = (r, bs, es')" and "0 < r" and "n \<noteq> 0"
  shows "rx_size es' < rx_size es"
proof -
  obtain k cs fs where f: "sock_recv es (unat n) = (k, cs, fs)" by (metis prod_cases3)
  have n: "unat n \<noteq> 0" using assms(3) by (simp add: unat_eq_0)
  show ?thesis
  proof (cases "k \<le> 0")
    case True
    then show ?thesis using assms(1,2) n f by (simp add: recvn_def recvn_loop.simps [of es])
  next
    case False
    obtain r1 b1 e1 where l: "recvn_loop fs (unat n - nat k) = (r1, b1, e1)" by (metis prod_cases3)
    have "es' = e1" using assms(1) n f False l by (simp add: recvn_def recvn_loop.simps [of es])
    then show ?thesis
      using recvn_loop_size [OF l] sock_recv_progress [OF f] False by simp
  qed
qed


lemmas handler_oblivious =
  helo.oblivious auth.oblivious register.oblivious release.oblivious isinstalled.oblivious
  version.oblivious serial.oblivious manufacturer.oblivious profile.oblivious
  waitforsignal.oblivious getmessage.oblivious putmessage.oblivious

interpretation dispatching: session_handler "dispatch L" for L :: "'w capi20"
proof
  fix s :: "'w server" and r c s'
  show "dispatch L (s\<lparr>rx := r\<rparr>) = map_option (apsnd (\<lambda>s'. s'\<lparr>rx := r\<rparr>)) (dispatch L s)"
    by (simp add: dispatch_def Let_def handler_oblivious)
  show "dispatch L s = Some (c, s') \<Longrightarrow> session_frame s s'"
    unfolding dispatch_def Let_def by (auto split: if_splits dest: handlers_frame proxy_frame waitforsignal.frame)
qed

lemma session_step_continues:
  assumes "session_step L s = Some (Returned k, s')"
  shows "rx_size (rx s') < rx_size (rx s)"
proof -
  obtain n bs es where 1: "recvn (rx s) (of_nat sizeof_REQUEST_HEADER) = (n, bs, es)" by (metis prod_cases3)
  define s1 where "s1 = s\<lparr>rx := es, in_packet := put_bytes 0 bs (in_packet s)\<rparr>"
  obtain n2 bs2 es2 where 2: "recvn (rx s1) (rq_message_len (req s1) - of_nat sizeof_REQUEST_HEADER) = (n2, bs2, es2)"
    by (metis prod_cases3)
  have n: "0 < n" using assms
    by (auto simp: session_step_def 1 hangup_def Let_def split: if_splits prod.splits)
  have "\<exists>p. dispatch L (s1\<lparr>rx := es2, in_packet := p\<rparr>) = Some (Returned k, s')"
    using assms n unfolding session_step_def 1 Let_def prod.case s1_def [symmetric] 2
    by (auto simp: hangup_def Let_def split: if_splits prod.splits Option.bind_splits)
  then have "rx s' = es2" by (auto dest: dispatching.keeps_rx)
  then show ?thesis
    using recvn_progress [OF 1 n] recvn_size [OF 2] by (simp add: s1_def sizeof_defs)
qed

function session :: "'w capi20 \<Rightarrow> 'w server \<Rightarrow> (int \<times> 'w server) option" where
  "session L s =
     (case session_step L s of
        None \<Rightarrow> None
      | Some (Exited n, s') \<Rightarrow> Some (n, s')
      | Some (Returned _, s') \<Rightarrow> session L s')"
  by pat_completeness auto
termination
  by (relation "measure (\<lambda>(L, s). rx_size (rx s))") (auto dest: session_step_continues)

declare session.simps [simp del]

section \<open>The loop refines its specification on the octet stream\<close>

fun stream :: "recv_event list \<Rightarrow> byte list" where
  "stream [] = []"
| "stream (RecvError # es) = []"
| "stream (Data bs # es) = (if bs = [] then [] else bs @ stream es)"

fun stream_end :: "recv_event list \<Rightarrow> int" where
  "stream_end [] = 0"
| "stream_end (RecvError # es) = -1"
| "stream_end (Data bs # es) = (if bs = [] then 0 else stream_end es)"

lemma sock_recv_stream:
  assumes "sock_recv es n = (r, bs, es')" and "0 < n"
  shows "0 < r \<Longrightarrow> stream es = bs @ stream es' \<and> stream_end es' = stream_end es"
    and "r \<le> 0 \<Longrightarrow> stream es = [] \<and> r = stream_end es"
  using assms by (cases "(es, n)" rule: sock_recv.cases; auto split: if_splits)+

lemma recvn_loop_stream:
  "recvn_loop es n = (r, bs, es') \<Longrightarrow>
     if n \<le> length (stream es)
     then r = None \<and> bs = take n (stream es) \<and> stream es' = drop n (stream es) \<and> stream_end es' = stream_end es
     else r = Some (stream_end es) \<and> bs = stream es"
proof (induction es n arbitrary: r bs es' rule: recvn_loop.induct)
  case (1 es left)
  obtain k cs fs where f: "sock_recv es left = (k, cs, fs)" by (metis prod_cases3)
  consider "left = 0" | "left \<noteq> 0" "k \<le> 0" | "left \<noteq> 0" "0 < k" by linarith
  then show ?case
  proof cases
    case 3
    obtain r1 b1 e1 where l: "recvn_loop fs (left - nat k) = (r1, b1, e1)" by (metis prod_cases3)
    have eqs: "es' = e1" "r = r1" "bs = cs @ b1" using 1(2) f 3 l by (simp_all add: recvn_loop.simps [of es])
    note k = sock_recv_count [OF f 3(2)] and st = sock_recv_stream(1) [OF f _ 3(2)]
    have "if left - nat k \<le> length (stream fs)
      then r1 = None \<and> b1 = take (left - nat k) (stream fs) \<and> stream e1 = drop (left - nat k) (stream fs) \<and>
           stream_end e1 = stream_end fs
      else r1 = Some (stream_end fs) \<and> b1 = stream fs"
      by (rule 1(1) [OF _ f [symmetric] refl _ l]) (use 3 in auto)
    then show ?thesis using eqs k st 3 by (auto split: if_splits)
  next
    case 2
    then show ?thesis using 1(2) f sock_recv_stream(2) [OF f] by (auto simp: recvn_loop.simps [of es])
  qed (use 1(2) in \<open>auto simp: recvn_loop.simps [of es]\<close>)
qed

lemma stream_end_le: "stream_end es \<le> 0"
  by (induction es rule: stream_end.induct) auto

lemma recvn_stream:
  assumes "recvn es n = (r, bs, es')"
  shows "if unat n \<le> length (stream es)
     then r = sint n \<and> bs = take (unat n) (stream es) \<and> stream es' = drop (unat n) (stream es) \<and>
          stream_end es' = stream_end es
     else r = stream_end es \<and> bs = stream es"
proof -
  obtain r1 b1 e1 where l: "recvn_loop es (unat n) = (r1, b1, e1)" by (metis prod_cases3)
  from recvn_loop_stream [OF l] assms show ?thesis by (auto simp: recvn_def l split: if_splits)
qed


text \<open>
  The specification: cut the first request off the stream, dispatch it, go on with the
  rest. \<open>input\<close> is the state with the octets of a request stored in \<^verbatim>\<open>in_packet\<close>.
\<close>

definition input :: "byte list \<Rightarrow> 'w server \<Rightarrow> 'w server" where
  "input bs s = s\<lparr>in_packet := put_bytes 0 bs (in_packet s)\<rparr>"

lemma input_simps [simp]:
  "sessionID (input bs s) = sessionID s" "tx (input bs s) = tx s" "rx (input bs s) = rx s"
  "world (input bs s) = world s" "fork_rets (input bs s) = fork_rets s"
  "registered_apps (input bs s) = registered_apps s" "out_packet (input bs s) = out_packet s"
  "sockname (input bs s) = sockname s" "in_addr (input bs s) = in_addr s"
  "client_info (input bs s) = client_info s" "local_version (input bs s) = local_version s"
  by (simp_all add: input_def)

lemma in_packet_input: "in_packet (input bs s) = put_bytes 0 bs (in_packet s)"
  by (simp add: input_def)

function serve :: "'w capi20 \<Rightarrow> 'w server \<Rightarrow> byte list \<Rightarrow> (int \<times> 'w server) option" where
  "serve L s bs =
     (if length bs < 36 then case hangup L (input bs s) of (_, s') \<Rightarrow> Some (0, s')
      else let n = unat (rq_message_len (req (input (take 36 bs) s)) - 36);
               s1 = input (take (36 + n) bs) s in
           if PACKET_SIZE < min (length bs) (36 + n) then None
           else if n = 0 \<or> length bs < 36 + n then case hangup L s1 of (_, s') \<Rightarrow> Some (0, s')
           else case dispatch L s1 of
                  None \<Rightarrow> None
                | Some (Exited k, s') \<Rightarrow> Some (k, s')
                | Some (Returned _, s') \<Rightarrow> serve L s' (drop (36 + n) bs))"
  by pat_completeness auto
termination
  by (relation "measure (\<lambda>(L, s, bs). length bs)") auto

declare serve.simps [simp del]

definition detach :: "'w server \<Rightarrow> 'w server" where
  "detach s = s\<lparr>rx := []\<rparr>"

lemma detach_simps [simp]:
  "detach (s\<lparr>rx := r\<rparr>) = detach s"
  "detach (s\<lparr>in_packet := b\<rparr>) = (detach s)\<lparr>in_packet := b\<rparr>"
  "in_packet (detach s) = in_packet s"
  "sessionID (detach s) = sessionID s"
  "tx (detach s) = tx s" "sock_open (detach s) = sock_open s" "world (detach s) = world s"
  "fork_rets (detach s) = fork_rets s" "registered_apps (detach s) = registered_apps s"
  by (simp_all add: detach_def)

lemma dispatch_detach: "dispatch L (detach s) = map_option (apsnd detach) (dispatch L s)"
  unfolding detach_def by (rule dispatching.oblivious)

lemma hangup_detach: "hangup L (detach s) = apsnd detach (hangup L s)"
  by (simp add: hangup_def detach_def Let_def split: prod.split)

lemma hangup_Exited: "hangup L s = (Exited 0, snd (hangup L s))"
  by (simp add: hangup_def Let_def split: prod.split)

lemma hangup_keeps:
  "tx (snd (hangup L s)) = tx s" "sock_open (snd (hangup L s)) = False"
  by (simp_all add: hangup_def Let_def case_prod_beta)

lemma put_bytes_input: "put_bytes (length xs) ys (put_bytes 0 xs b) = put_bytes 0 (xs @ ys) b"
  using put_bytes_append [of 0 xs ys b] by simp

text \<open>One round of the loop, by the stream that is left.\<close>

lemma sint_small: "unat n < 10000 \<Longrightarrow> sint (n :: u32) = int (unat n)"
proof -
  assume a: "unat n < 10000"
  then have "int (unat n) < 10000" by linarith
  then have "- (2 ^ 31) \<le> uint n" "uint n < 2 ^ 31" by (simp_all add: order.trans [of _ 0])
  then have "signed_take_bit 31 (uint n) = uint n" by (rule signed_take_bit_int_eq_self)
  then show ?thesis by (simp add: sint_uint)
qed

lemma sint_pos: "unat n < 10000 \<Longrightarrow> 0 < unat n \<Longrightarrow> 0 < sint (n :: u32)"
  by (subst sint_small) (simp_all only: of_nat_0_less_iff)

lemma session_step_stream:
  fixes s :: "'w server"
  defines "bs \<equiv> stream (rx s)"
  defines "n \<equiv> unat (rq_message_len (req (input (take 36 bs) s)) - 36)"
  shows "length bs < 36 \<Longrightarrow> \<exists>es. session_step L s = Some (hangup L (input bs s\<lparr>rx := es\<rparr>))"
    and "36 \<le> length bs \<Longrightarrow> PACKET_SIZE < min (length bs) (36 + n) \<Longrightarrow> session_step L s = None"
    and "36 \<le> length bs \<Longrightarrow> min (length bs) (36 + n) \<le> PACKET_SIZE \<Longrightarrow> n = 0 \<or> length bs < 36 + n \<Longrightarrow>
      \<exists>es. session_step L s = Some (hangup L (input (take (36 + n) bs) s\<lparr>rx := es\<rparr>))"
    and "36 \<le> length bs \<Longrightarrow> min (length bs) (36 + n) \<le> PACKET_SIZE \<Longrightarrow> n \<noteq> 0 \<Longrightarrow> 36 + n \<le> length bs \<Longrightarrow>
      \<exists>es. stream es = drop (36 + n) bs \<and>
        session_step L s = dispatch L (input (take (36 + n) bs) s\<lparr>rx := es\<rparr>)"
proof -
  obtain k cs es where r1: "recvn (rx s) 36 = (k, cs, es)" by (metis prod_cases3)
  note st1 = recvn_stream [OF r1, folded bs_def]
  {
    assume "length bs < 36"
    then show "\<exists>es. session_step L s = Some (hangup L (input bs s\<lparr>rx := es\<rparr>))"
      using st1 stream_end_le [of "rx s"]
      by (intro exI [of _ es]) (simp add: session_step_def sizeof_defs r1 input_def rx_simps)
  }
  assume len: "36 \<le> length bs"
  with st1 have k: "k = 36" "cs = take 36 bs" "stream es = drop 36 bs" by (simp_all add: sint_small)
  define m where "m = rq_message_len (req (input (take 36 bs) s)) - 36"
  obtain j ds fs where r2: "recvn es m = (j, ds, fs)" by (metis prod_cases3)
  note st2 = recvn_stream [OF r2, unfolded k(3)]
  have n: "unat m = n" by (simp add: m_def n_def)
  have ds: "take 36 bs @ ds = take (36 + n) bs"
    using st2 n by (auto simp: take_add split: if_splits)
  have put: "put_bytes 36 ds (put_bytes 0 (take 36 bs) (in_packet s)) =
      put_bytes 0 (take (36 + n) bs) (in_packet s)"
    using put_bytes_input [of "take 36 bs" ds] len ds by (simp add: min_absorb2)
  have lds: "36 + length ds = min (length bs) (36 + n)"
    using arg_cong [OF ds, of length] len by simp
  have step: "session_step L s =
      (if PACKET_SIZE < min (length bs) (36 + n) then None
       else if j \<le> 0 then Some (hangup L (input (take (36 + n) bs) s\<lparr>rx := fs\<rparr>))
       else dispatch L (input (take (36 + n) bs) s\<lparr>rx := fs\<rparr>))"
    unfolding session_step_def Let_def sizeof_defs
    using r2 by (simp add: r1 k(1,2) put_bytes_chk_def lds put input_def m_def rx_simps) linarith
  show "PACKET_SIZE < min (length bs) (36 + n) \<Longrightarrow> session_step L s = None"
    by (simp add: step)
  show "\<exists>es. session_step L s = Some (hangup L (input (take (36 + n) bs) s\<lparr>rx := es\<rparr>))"
    if "min (length bs) (36 + n) \<le> PACKET_SIZE" "n = 0 \<or> length bs < 36 + n"
  proof -
    have "j \<le> 0"
    proof (cases "n = 0")
      case True
      then have "m = 0" using n by (simp add: unat_eq_0)
      with st2 show ?thesis by (simp add: True)
    next
      case False
      with that(2) len n have "\<not> unat m \<le> length (drop 36 bs)" by auto
      with st2 stream_end_le [of es] show ?thesis by simp
    qed
    then show ?thesis using that(1) by (intro exI [of _ fs]) (auto simp: step)
  qed
  show "\<exists>es. stream es = drop (36 + n) bs \<and>
        session_step L s = dispatch L (input (take (36 + n) bs) s\<lparr>rx := es\<rparr>)"
    if "min (length bs) (36 + n) \<le> PACKET_SIZE" "n \<noteq> 0" "36 + n \<le> length bs"
    using that st2 sint_pos [of m] n
    by (intro exI [of _ fs]) (auto simp: step PACKET_SIZE_def add.commute split: if_splits)
qed

lemma input_detach: "detach (input bs s\<lparr>rx := es\<rparr>) = input bs (detach s)"
  by (simp add: input_def)

lemma session_serve:
  "map_option (apsnd detach) (session L s) = serve L (detach s) (stream (rx s))"
proof (induction L s rule: session.induct)
  case (1 L s)
  let ?bs = "stream (rx s)"
  let ?n = "unat (rq_message_len (req (input (take 36 ?bs) s)) - 36)"
  have n: "?n = unat (rq_message_len (req (input (take 36 ?bs) (detach s))) - 36)"
    by (simp add: input_def)
  have up: "map_option (apsnd detach) (session L s) = Some (0, snd (hangup L (input cs (detach s))))"
    if "session_step L s = Some (hangup L (input cs s\<lparr>rx := es\<rparr>))" for cs es
  proof -
    obtain t where t: "hangup L (input cs s\<lparr>rx := es\<rparr>) = (Exited 0, t)" using hangup_Exited by blast
    then have "hangup L (input cs (detach s)) = (Exited 0, detach t)"
      using hangup_detach [of L "input cs s\<lparr>rx := es\<rparr>"] by (simp add: input_detach del: detach_simps)
    then show ?thesis using that t by (simp add: session.simps [of L s])
  qed
  note sv = serve.simps [of L "detach s" ?bs, folded n]
  consider (short) "length ?bs < 36"
    | (over) "36 \<le> length ?bs" "PACKET_SIZE < min (length ?bs) (36 + ?n)"
    | (part) "36 \<le> length ?bs" "min (length ?bs) (36 + ?n) \<le> PACKET_SIZE" "?n = 0 \<or> length ?bs < 36 + ?n"
    | (full) "36 \<le> length ?bs" "min (length ?bs) (36 + ?n) \<le> PACKET_SIZE" "?n \<noteq> 0" "36 + ?n \<le> length ?bs"
    by linarith
  then show ?case
  proof cases
    case short
    then show ?thesis
      using session_step_stream(1) [of s L] by (auto simp: sv case_prod_beta dest!: up)
  next
    case over
    then show ?thesis
      using session_step_stream(2) [of s L] by (simp add: session.simps [of L s] sv)
  next
    case part
    then show ?thesis
      using session_step_stream(3) [of s L] by (auto simp: sv Let_def case_prod_beta dest!: up)
  next
    case full
    obtain es where es: "stream es = drop (36 + ?n) ?bs"
        "session_step L s = dispatch L (input (take (36 + ?n) ?bs) s\<lparr>rx := es\<rparr>)"
      using session_step_stream(4) [of s L] full by auto
    let ?d = "dispatch L (input (take (36 + ?n) ?bs) s\<lparr>rx := es\<rparr>)"
    have d: "dispatch L (input (take (36 + ?n) ?bs) (detach s)) = map_option (apsnd detach) ?d"
      using dispatch_detach [of L "input (take (36 + ?n) ?bs) s\<lparr>rx := es\<rparr>"] by (simp only: input_detach)
    have sv': "serve L (detach s) ?bs =
        (case map_option (apsnd detach) ?d of None \<Rightarrow> None | Some (Exited k, s') \<Rightarrow> Some (k, s')
         | Some (Returned _, s') \<Rightarrow> serve L s' (drop (36 + ?n) ?bs))"
      using full unfolding sv Let_def d by auto
    show ?thesis
    proof (cases ?d)
      case None
      then show ?thesis unfolding sv' by (simp add: session.simps [of L s] es(2))
    next
      case (Some a)
      then obtain c s' where a: "?d = Some (c, s')" by (cases a) auto
      show ?thesis
      proof (cases c)
        case (Returned k)
        have "rx s' = es" using dispatching.keeps_rx [OF a] by simp
        moreover have "map_option (apsnd detach) (session L s') = serve L (detach s') (stream (rx s'))"
          by (rule 1) (use a es(2) Returned in auto)
        ultimately show ?thesis unfolding sv' using a Returned es by (simp add: session.simps [of L s])
      next
        case (Exited k)
        then show ?thesis unfolding sv' using a es by (simp add: session.simps [of L s])
      qed
    qed
  qed
qed


text \<open>
  Requests as a client frames them: \<^verbatim>\<open>message_len\<close> is the length of the packet, which has
  more than a header and fits the buffer.
\<close>

definition wf_request :: "byte list \<Rightarrow> bool" where
  "wf_request p \<longleftrightarrow> 36 < length p \<and> length p \<le> PACKET_SIZE \<and>
     unat (rq_message_len (request_header_at (buffer_of p))) = length p"

text \<open>Handling a list of requests one after the other, then the end of the connection.\<close>

fun handle_all :: "'w capi20 \<Rightarrow> 'w server \<Rightarrow> byte list list \<Rightarrow> (int \<times> 'w server) option" where
  "handle_all L s [] = (case hangup L s of (_, s') \<Rightarrow> Some (0, s'))"
| "handle_all L s (p # ps) =
     (case dispatch L (input p s) of
        None \<Rightarrow> None
      | Some (Exited k, s') \<Rightarrow> Some (k, s')
      | Some (Returned _, s') \<Rightarrow> handle_all L s' ps)"

lemma request_header_at_cong:
  assumes "\<And>i. i < 36 \<Longrightarrow> b i = c i"
  shows "request_header_at b = request_header_at c"
proof -
  have "get32 b off = get32 c off" if "off + 4 \<le> 36" for off
    unfolding get32_def using that by (intro arg_cong [where f = word_le] get_bytes_eqI assms) auto
  then show ?thesis by (simp add: request_header_at_def)
qed

lemma input_header:
  assumes "36 \<le> length p" and "take 36 q = take 36 p"
  shows "req (input q s) = request_header_at (buffer_of p)"
proof -
  have len: "36 \<le> length q" using assms by (metis length_take min.absorb_iff2 min.commute)
  have "put_bytes 0 q (in_packet s) i = put_bytes 0 p (\<lambda>_. 0) i" if "i < 36" for i
    using that assms len nth_take [of i 36 q] nth_take [of i 36 p] by (simp add: put_bytes_def)
  then show ?thesis by (auto simp: input_def buffer_of_def intro: request_header_at_cong)
qed

lemma serve_requests:
  "\<forall>p \<in> set ps. wf_request p \<Longrightarrow> serve L s (concat ps) = handle_all L s ps"
proof (induction ps arbitrary: s)
  case Nil
  have "input [] s = s" by (simp add: input_def)
  then show ?case by (simp add: serve.simps)
next
  case (Cons p ps)
  then have p: "36 < length p" "length p \<le> PACKET_SIZE"
    "unat (rq_message_len (request_header_at (buffer_of p))) = length p"
    by (simp_all add: wf_request_def)
  have "req (input (take 36 p) s) = request_header_at (buffer_of p)"
    using p(1) by (intro input_header) auto
  then have n: "unat (rq_message_len (req (input (take 36 p) s)) - 36) = length p - 36"
    using p by (simp add: unat_sub word_le_nat_alt)
  show ?case
    using p Cons by (subst serve.simps) (simp add: n Let_def split: option.split control.split)
qed

section \<open>Which requests are answered\<close>

definition capi_types :: "u32 list" where
  "capi_types = [TYPE_CAPI_REGISTER, TYPE_CAPI_RELEASE, TYPE_CAPI_INSTALLED, TYPE_CAPI_VERSION,
     TYPE_CAPI_SERIAL, TYPE_CAPI_MANUFACTURER, TYPE_CAPI_PROFILE, TYPE_CAPI_WAITFORSIGNAL,
     TYPE_CAPI_GETMESSAGE, TYPE_CAPI_PUTMESSAGE]"

definition served :: "'w server \<Rightarrow> bool" where
  "served s \<longleftrightarrow> rq_message_type (req s) \<in> {TYPE_PROXY_HELO, TYPE_PROXY_AUTH} \<or>
     rq_message_type (req s) \<in> set capi_types \<and> rq_session_id (req s) = sessionID s"

text \<open>The precondition of the handler the switch selects.\<close>

definition request_pre :: "'w capi20 \<Rightarrow> 'w server \<Rightarrow> bool" where
  "request_pre L s \<longleftrightarrow>
     (let t = rq_message_type (req s) in
      (t = TYPE_PROXY_HELO \<longrightarrow> helo_pre s) \<and> (t = TYPE_PROXY_AUTH \<longrightarrow> auth_pre s) \<and>
      (t = TYPE_CAPI_REGISTER \<longrightarrow> register_pre s) \<and> (t = TYPE_CAPI_GETMESSAGE \<longrightarrow> getmessage_pre L s) \<and>
      (t = TYPE_CAPI_PUTMESSAGE \<longrightarrow> putmessage_pre s) \<and>
      (t = TYPE_CAPI_WAITFORSIGNAL \<longrightarrow> waitforsignal_pre s))"

lemma type_distinct [simp]:
  "distinct ([TYPE_PROXY_HELO, TYPE_PROXY_AUTH, TYPE_PROXY_KEEPALIVE] @ capi_types)"
  by (simp add: capi_types_def proto_consts)

lemma dispatch_cases:
  assumes "served s"
  obtains
    (helo) "rq_message_type (req s) = TYPE_PROXY_HELO" "dispatch L s = plain (exec_proxy_helo s)"
  | (auth) "rq_message_type (req s) = TYPE_PROXY_AUTH" "dispatch L s = plain (exec_proxy_auth s)"
  | (register) "rq_message_type (req s) = TYPE_CAPI_REGISTER" "dispatch L s = plain (exec_capi_register L s)"
  | (release) "rq_message_type (req s) = TYPE_CAPI_RELEASE" "dispatch L s = plain (exec_capi_release L s)"
  | (installed) "rq_message_type (req s) = TYPE_CAPI_INSTALLED" "dispatch L s = plain (exec_capi_isinstalled L s)"
  | (version) "rq_message_type (req s) = TYPE_CAPI_VERSION" "dispatch L s = plain (exec_capi_version L s)"
  | (serial) "rq_message_type (req s) = TYPE_CAPI_SERIAL" "dispatch L s = plain (exec_capi_serial L s)"
  | (manufacturer) "rq_message_type (req s) = TYPE_CAPI_MANUFACTURER" "dispatch L s = plain (exec_capi_manufacturer L s)"
  | (profile) "rq_message_type (req s) = TYPE_CAPI_PROFILE" "dispatch L s = plain (exec_capi_profile L s)"
  | (wait) "rq_message_type (req s) = TYPE_CAPI_WAITFORSIGNAL" "dispatch L s = exec_capi_waitforsignal L s"
  | (get) "rq_message_type (req s) = TYPE_CAPI_GETMESSAGE" "dispatch L s = plain (exec_capi_getmessage L s)"
  | (put) "rq_message_type (req s) = TYPE_CAPI_PUTMESSAGE" "dispatch L s = plain (exec_capi_putmessage L s)"
  using assms unfolding served_def capi_types_def
  by (auto simp: dispatch_def Let_def proto_consts)

lemma dispatch_silent: "\<not> served s \<Longrightarrow> dispatch L s = Some (Returned 1, s)"
  unfolding served_def capi_types_def dispatch_def Let_def by auto

lemma dispatch_answers:
  assumes "capi20_documented L" and "served s" and "request_pre L s"
  shows "\<exists>c p n s'. dispatch L s = Some (c, s') \<and> tx s' = tx s @ [(p, n)] \<and> well_framed p \<and>
     an_message_type (answer_header_at (buffer_of p)) = rq_message_type (req s) \<and>
     an_message_id (answer_header_at (buffer_of p)) = rq_message_id (req s)"
  using assms(2)
proof (cases rule: dispatch_cases [where L = L])
  case helo
  then show ?thesis using helo.answers [of s] assms(3) by (simp add: request_pre_def)
next
  case auth
  then show ?thesis using auth.answers [of s] assms(3) by (simp add: request_pre_def)
next
  case register
  then show ?thesis using register.answers [where s = s and L = L] assms(3) by (simp add: request_pre_def)
next
  case release
  then show ?thesis using release.answers [where s = s and L = L] by simp
next
  case installed
  then show ?thesis using isinstalled.answers [where s = s and L = L] by simp
next
  case version
  then show ?thesis using version.answers [OF assms(1), where s = s] by simp
next
  case serial
  then show ?thesis using serial.answers [OF assms(1), where s = s] by simp
next
  case manufacturer
  then show ?thesis using manufacturer.answers [OF assms(1), where s = s] by simp
next
  case profile
  then show ?thesis using profile.answers [OF assms(1), where s = s] by simp
next
  case wait
  then show ?thesis using waitforsignal.answers [where s = s and L = L] assms(3) by (simp add: request_pre_def)
next
  case get
  then show ?thesis using getmessage.answers [where s = s and L = L] assms(3) by (simp add: request_pre_def)
next
  case put
  then show ?thesis using putmessage.answers [where s = s and L = L] assms(3) by (simp add: request_pre_def)
qed

section \<open>A handler that returns has answered\<close>

text \<open>
  Without any condition on the request: whenever a handler returns, it has sent one framed
  answer, the parent of a forked \<^verbatim>\<open>WAITFORSIGNAL\<close> request excepted.
\<close>

definition answered :: "'w server \<Rightarrow> 'w server \<Rightarrow> u32 \<Rightarrow> u32 \<Rightarrow> bool" where
  "answered s s' ty mid \<longleftrightarrow> (\<exists>p n. tx s' = tx s @ [(p, n)] \<and> well_framed p \<and>
     an_message_type (answer_header_at (buffer_of p)) = ty \<and>
     an_message_id (answer_header_at (buffer_of p)) = mid)"

definition framed_head :: "buffer \<Rightarrow> u32 \<Rightarrow> u32 \<Rightarrow> bool" where
  "framed_head b ty mid \<longleftrightarrow> get32 b AH_header_len = 40 \<and>
     40 + unat (get32 b AH_body_len) + unat (get32 b AH_data_len) = unat (get32 b AH_message_len) \<and>
     get32 b AH_message_type = ty \<and> get32 b AH_message_id = mid"

lemma send_answer_framed:
  assumes "send_answer F = Some (n, s')" and "tx F = tx s" and "framed_head (out_packet F) ty mid"
  shows "answered s s' ty mid"
proof -
  let ?l = "unat (get32 (out_packet F) AH_message_len)"
  have l: "40 \<le> ?l" using assms(3) by (auto simp: framed_head_def)
  from assms(1) obtain rs where s': "tx s' = tx F @ [(get_bytes (out_packet F) 0 ?l, n)]"
    and b: "?l \<le> PACKET_SIZE" by (auto elim!: send_answer_cases)
  moreover have "answer_header_at (buffer_of (get_bytes (out_packet F) 0 ?l)) = answer_header_at (out_packet F)"
    by (rule answer_header_of_sent [OF l])
  ultimately show ?thesis using assms(2,3) l
    by (auto simp: answered_def well_framed_def framed_head_def answer_header_at_def Let_def)
qed

lemma put_bytes_chk_iff: "put_bytes_chk n off bs b = Some p \<longleftrightarrow> off + length bs \<le> n \<and> p = put_bytes off bs b"
  by (auto simp: put_bytes_chk_def)

lemma getmessage_answered:
  assumes "exec_capi_getmessage L s = Some (n, s')"
  shows "answered s s' TYPE_CAPI_GETMESSAGE (rq_message_id (req s))"
proof -
  obtain e a w where q: "capi20_get_message L (rq_app_id (req s)) (world s) = (e, a, w)"
    by (metis prod_cases3)
  have sum: "unat (x + y :: u32) = unat x + unat y" if "unat x + unat y \<le> PACKET_SIZE" for x y :: u32
    using that by (simp add: unat_add_lem [THEN iffD1] PACKET_SIZE_def)
  have s40: "unat (40 + x :: u32) = 40 + unat x" if "40 + unat x \<le> PACKET_SIZE" for x :: u32
    using sum [of 40 x] that by simp
  have s40': "unat (40 + x + y :: u32) = 40 + unat x + unat y" if "40 + unat x + unat y \<le> PACKET_SIZE" for x y :: u32
    using sum [of "40 + x" y] s40 [of x] that by simp
  show ?thesis
    using assms unfolding exec_capi_getmessage_def Let_def q prod.case
    by (auto split: Option.bind_splits if_splits simp: put_bytes_chk_iff framed_head_def answer_simps s40 s40' sum
        elim!: send_answer_framed)
qed

lemma putmessage_answered:
  assumes "exec_capi_putmessage L s = Some (n, s')"
  shows "answered s s' TYPE_CAPI_PUTMESSAGE (rq_message_id (req s))"
  using assms unfolding exec_capi_putmessage_def Let_def
  by (auto split: prod.splits Option.bind_splits if_splits elim!: send_answer_framed simp: framed_head_def answer_simps)

lemma answered_of:
  assumes "answer_handler run ty pre" and "pre s" and "run s = Some (c, s')"
  shows "answered s s' ty (rq_message_id (req s))"
  by (rule answer_handler.answered [OF assms]) (unfold answered_def, blast)

lemma plain_answered:
  assumes "answer_handler (\<lambda>s. plain (f s)) ty pre" and "\<And>r. f s = Some r \<Longrightarrow> pre s" and "plain (f s) = Some (c, s')"
  shows "answered s s' ty (rq_message_id (req s))"
  by (rule answered_of [OF assms(1) _ assms(3)]) (use assms(2,3) in auto)

lemma waitforsignal_answered:
  assumes "exec_capi_waitforsignal L s = Some (c, s')"
  shows "if fst (sys_fork s) \<in> {0, -1} then answered s s' TYPE_CAPI_WAITFORSIGNAL (rq_message_id (req s))
     else tx s' = tx s \<and> c = Returned 1"
proof (cases "waitforsignal_pre s")
  case True
  then show ?thesis
    using answered_of [OF waitforsignal.answer_handler_axioms True assms] by (simp add: waitforsignal_pre_def)
next
  case False
  obtain pid s1 where f: "sys_fork (s\<lparr>numbytes := 1\<rparr>) = (pid, s1)" by fastforce
  have pid: "pid = fst (sys_fork s)" and tx: "tx s1 = tx s"
    using f by (auto simp: sys_fork_def split: list.splits)
  have "exec_capi_waitforsignal L s = Some (Returned 1, s1)"
    by (rule exec_capi_waitforsignal_parent [OF f]) (use False pid in \<open>auto simp: waitforsignal_pre_def\<close>)
  then show ?thesis using assms False tx by (auto simp: waitforsignal_pre_def)
qed

lemma returns_pre:
  "exec_proxy_helo s = Some r \<Longrightarrow> helo_pre s"
  "exec_proxy_auth s = Some r \<Longrightarrow> auth_pre s"
  "exec_capi_register L s = Some r \<Longrightarrow> register_pre s"
  by (auto simp: exec_proxy_helo_def exec_proxy_auth_def auth_verdict_def helo_pre_def auth_pre_def Let_def
      exec_capi_register_def register_pre_def get32_chk_def split: Option.bind_splits if_splits prod.splits)

text \<open>
  The parent of a forked \<^verbatim>\<open>WAITFORSIGNAL\<close> request: it goes on without an answer.
\<close>

definition leaves_to_child :: "'w server \<Rightarrow> bool" where
  "leaves_to_child s \<longleftrightarrow> rq_message_type (req s) = TYPE_CAPI_WAITFORSIGNAL \<and> fst (sys_fork s) \<notin> {0, -1}"

lemma dispatch_answered:
  assumes "capi20_documented L" and "served s" and d: "dispatch L s = Some (c, s')"
  shows "if leaves_to_child s then tx s' = tx s else answered s s' (rq_message_type (req s)) (rq_message_id (req s))"
  using assms(2)
proof (cases rule: dispatch_cases [where L = L])
  case helo
  show ?thesis
    using plain_answered [OF helo.answer_handler_axioms returns_pre(1) d [unfolded helo(2)]] helo(1)
    by (simp add: leaves_to_child_def proto_consts)
next
  case auth
  show ?thesis
    using plain_answered [OF auth.answer_handler_axioms returns_pre(2) d [unfolded auth(2)]] auth(1)
    by (simp add: leaves_to_child_def proto_consts)
next
  case register
  show ?thesis
    using plain_answered [OF register.answer_handler_axioms returns_pre(3) d [unfolded register(2)]] register(1)
    by (simp add: leaves_to_child_def proto_consts)
next
  case release
  show ?thesis
    using plain_answered [OF release.answer_handler_axioms TrueI d [unfolded release(2)]] release(1)
    by (simp add: leaves_to_child_def proto_consts)
next
  case installed
  show ?thesis
    using plain_answered [OF isinstalled.answer_handler_axioms TrueI d [unfolded installed(2)]] installed(1)
    by (simp add: leaves_to_child_def proto_consts)
next
  case version
  show ?thesis
    using plain_answered [OF version.answer_handler_axioms assms(1) d [unfolded version(2)]] version(1)
    by (simp add: leaves_to_child_def proto_consts)
next
  case serial
  show ?thesis
    using plain_answered [OF serial.answer_handler_axioms assms(1) d [unfolded serial(2)]] serial(1)
    by (simp add: leaves_to_child_def proto_consts)
next
  case manufacturer
  show ?thesis
    using plain_answered [OF manufacturer.answer_handler_axioms assms(1) d [unfolded manufacturer(2)]] manufacturer(1)
    by (simp add: leaves_to_child_def proto_consts)
next
  case profile
  show ?thesis
    using plain_answered [OF profile.answer_handler_axioms assms(1) d [unfolded profile(2)]] profile(1)
    by (simp add: leaves_to_child_def proto_consts)
next
  case wait
  then show ?thesis using d waitforsignal_answered [of L s c s']
    by (simp add: leaves_to_child_def)
next
  case get
  then obtain n where "exec_capi_getmessage L s = Some (n, s')" using d by (cases "exec_capi_getmessage L s") auto
  from getmessage_answered [OF this] show ?thesis using get(1) by (simp add: leaves_to_child_def proto_consts)
next
  case put
  then obtain n where "exec_capi_putmessage L s = Some (n, s')" using d by (cases "exec_capi_putmessage L s") auto
  from putmessage_answered [OF this] show ?thesis using put(1) by (simp add: leaves_to_child_def proto_consts)
qed

text \<open>
  What a request must satisfy for its handler to stay within the buffers: the body a handler
  reads lies in \<^verbatim>\<open>in_packet\<close>, the user data of an \<^verbatim>\<open>AUTH\<close> request lies in its block, and a
  message the library delivers fits \<^verbatim>\<open>out_packet\<close>.
\<close>

definition request_fits :: "'w capi20 \<Rightarrow> 'w server \<Rightarrow> bool" where
  "request_fits L s \<longleftrightarrow>
     (let t = rq_message_type (req s) in
      (t = TYPE_PROXY_HELO \<longrightarrow> helo_pre s) \<and> (t = TYPE_PROXY_AUTH \<longrightarrow> auth_pre s) \<and>
      (t = TYPE_CAPI_REGISTER \<longrightarrow> register_pre s) \<and> (t = TYPE_CAPI_GETMESSAGE \<longrightarrow> getmessage_pre L s) \<and>
      (t = TYPE_CAPI_PUTMESSAGE \<longrightarrow> putmessage_pre s))"

lemma waitforsignal_returns: "exec_capi_waitforsignal L s \<noteq> None"
proof (cases "waitforsignal_pre s")
  case True
  then show ?thesis by (rule waitforsignal.no_overrun)
next
  case False
  obtain pid s1 where f: "sys_fork (s\<lparr>numbytes := 1\<rparr>) = (pid, s1)" by fastforce
  have "exec_capi_waitforsignal L s = Some (Returned 1, s1)"
    by (rule exec_capi_waitforsignal_parent [OF f])
      (use False f in \<open>auto simp: waitforsignal_pre_def sys_fork_def split: list.splits\<close>)
  then show ?thesis by simp
qed

lemma dispatch_returns:
  assumes "capi20_documented L" and "served s" and "request_fits L s"
  shows "dispatch L s \<noteq> None"
proof (cases "rq_message_type (req s) = TYPE_CAPI_WAITFORSIGNAL")
  case True
  from assms(2) have "dispatch L s = exec_capi_waitforsignal L s"
    by (cases rule: dispatch_cases [where L = L]) (simp_all add: True proto_consts)
  then show ?thesis using waitforsignal_returns by simp
next
  case False
  then have "request_pre L s" using assms(3) by (simp add: request_fits_def request_pre_def Let_def)
  from dispatch_answers [OF assms(1,2) this] show ?thesis by auto
qed

section \<open>Which applications a session owns\<close>

lemma send_answer_keeps:
  "send_answer F = Some (n, s') \<Longrightarrow>
     registered_apps s' = registered_apps F \<and> fork_rets s' = fork_rets F \<and> world s' = world F"
  by (auto elim!: send_answer_cases)

lemma handlers_keep_apps:
  "exec_proxy_helo s = Some (n, s') \<Longrightarrow> registered_apps s' = registered_apps s"
  "exec_proxy_auth s = Some (n, s') \<Longrightarrow> registered_apps s' = registered_apps s"
  "exec_capi_getmessage L s = Some (n, s') \<Longrightarrow> registered_apps s' = registered_apps s"
  "exec_capi_putmessage L s = Some (n, s') \<Longrightarrow> registered_apps s' = registered_apps s"
  "exec_capi_isinstalled L s = Some (n, s') \<Longrightarrow> registered_apps s' = registered_apps s"
  "exec_capi_manufacturer L s = Some (n, s') \<Longrightarrow> registered_apps s' = registered_apps s"
  "exec_capi_version L s = Some (n, s') \<Longrightarrow> registered_apps s' = registered_apps s"
  "exec_capi_serial L s = Some (n, s') \<Longrightarrow> registered_apps s' = registered_apps s"
  "exec_capi_profile L s = Some (n, s') \<Longrightarrow> registered_apps s' = registered_apps s"
  unfolding exec_proxy_helo_def exec_proxy_auth_def handler_defs Let_def
  by (auto split: prod.splits Option.bind_splits if_splits dest!: send_answer_keeps)

lemma sys_fork_keeps: "sys_fork s = (pid, s') \<Longrightarrow> registered_apps s' = registered_apps s"
  by (auto simp: sys_fork_def split: list.splits)

lemma waitforsignal_keeps_apps:
  "exec_capi_waitforsignal L s = Some (c, s') \<Longrightarrow> registered_apps s' = registered_apps s"
  unfolding exec_capi_waitforsignal_def Let_def
  by (auto split: prod.splits Option.bind_splits if_splits dest!: send_answer_keeps sys_fork_keeps)


datatype app_event = Registered u32 | Released u32

text \<open>What a request does to the applications of the session, from the results of the library.\<close>

definition app_effect :: "'w capi20 \<Rightarrow> 'w server \<Rightarrow> app_event list" where
  "app_effect L s =
     (let t = rq_message_type (req s); v = unat (rq_header_len (req s)) in
      if rq_session_id (req s) \<noteq> sessionID s then []
      else if t = TYPE_CAPI_REGISTER then
        (case capi20_register L (get32 (in_packet s) (v + 4)) (get32 (in_packet s) (v + 8))
                (get32 (in_packet s) (v + 12)) (get32 (out_packet s) AH_app_id) (world s) of
           (e, a, _) \<Rightarrow> if e = 0 then [Registered a] else [])
      else if t = TYPE_CAPI_RELEASE then
        (if fst (capi20_release L (rq_app_id (req s)) (world s)) = 0 then [Released (rq_app_id (req s))]
         else [])
      else [])"

fun apply_event :: "app_event \<Rightarrow> u32 set \<Rightarrow> u32 set" where
  "apply_event (Registered a) A = insert a A"
| "apply_event (Released a) A = A - {a}"

definition owned :: "'w capi20 \<Rightarrow> 'w server \<Rightarrow> u32 set" where
  "owned L s = apps_of (CAPI_MAXAPPL L) (registered_apps s)"

lemma register_apps:
  assumes "exec_capi_register L s = Some (n, s')"
    and "capi20_register L (get32 (in_packet s) (unat (rq_header_len (req s)) + 4))
           (get32 (in_packet s) (unat (rq_header_len (req s)) + 8))
           (get32 (in_packet s) (unat (rq_header_len (req s)) + 12))
           (get32 (out_packet s) AH_app_id) (world s) = (e, a, w)"
  shows "registered_apps s' = (if e = 0 then add_app a (registered_apps s) else registered_apps s)"
  using assms unfolding exec_capi_register_def Let_def
  by (auto split: Option.bind_splits if_splits dest!: send_answer_keeps simp: get32_chk_def buf_simps)

lemma release_apps:
  assumes "exec_capi_release L s = Some (n, s')"
  shows "registered_apps s' = (if fst (capi20_release L (rq_app_id (req s)) (world s)) = 0
     then del_app (rq_app_id (req s)) (registered_apps s) else registered_apps s)"
  using assms unfolding exec_capi_release_def Let_def
  by (auto split: prod.splits if_splits dest!: send_answer_keeps)

lemma dispatch_owned:
  assumes doc: "capi20_documented L" and d: "dispatch L s = Some (c, s')"
  shows "owned L s' = fold apply_event (app_effect L s) (owned L s)"
proof (cases "served s")
  case False
  then have "s' = s" using d by (simp add: dispatch_silent)
  moreover have "app_effect L s = []"
    using False by (auto simp: served_def capi_types_def app_effect_def Let_def)
  ultimately show ?thesis by simp
next
  case True
  have keep: ?thesis if "registered_apps s' = registered_apps s"
    "rq_message_type (req s) \<noteq> TYPE_CAPI_REGISTER" "rq_message_type (req s) \<noteq> TYPE_CAPI_RELEASE"
    using that by (simp add: owned_def app_effect_def Let_def)
  from True show ?thesis
  proof (cases rule: dispatch_cases [where L = L])
    case register
    let ?v = "unat (rq_header_len (req s))"
    have own: "rq_session_id (req s) = sessionID s"
      using True register(1) by (simp add: served_def proto_consts)
    obtain n where n: "exec_capi_register L s = Some (n, s')" using d register by auto
    obtain e a w where q: "capi20_register L (get32 (in_packet s) (?v + 4)) (get32 (in_packet s) (?v + 8))
        (get32 (in_packet s) (?v + 12)) (get32 (out_packet s) AH_app_id) (world s) = (e, a, w)"
      by (metis prod_cases3)
    show ?thesis
    proof (cases "e = 0")
      case True
      with capi20_documentedD(5) [OF doc] q have "a \<noteq> 0" "unat a \<le> CAPI_MAXAPPL L" by blast+
      then show ?thesis using register_apps [OF n q] True own register(1)
        by (simp add: owned_def app_effect_def Let_def q apps_of_add)
    next
      case False
      then show ?thesis using register_apps [OF n q] own register(1)
        by (simp add: owned_def app_effect_def Let_def q)
    qed
  next
    case release
    have own: "rq_session_id (req s) = sessionID s"
      using True release(1) by (simp add: served_def proto_consts)
    obtain n where n: "exec_capi_release L s = Some (n, s')" using d release by auto
    show ?thesis using release_apps [OF n] own release(1)
      by (simp add: owned_def app_effect_def Let_def apps_of_del proto_consts)
  qed (rule keep; insert d;
       auto dest: handlers_keep_apps waitforsignal_keeps_apps
         simp: proto_consts eq_commute [of "Some (c, s')"])+
qed

section \<open>The end of a session\<close>

lemma handlers_keep_forks:
  "exec_proxy_helo s = Some (n, s') \<Longrightarrow> fork_rets s' = fork_rets s"
  "exec_proxy_auth s = Some (n, s') \<Longrightarrow> fork_rets s' = fork_rets s"
  "exec_capi_register L s = Some (n, s') \<Longrightarrow> fork_rets s' = fork_rets s"
  "exec_capi_release L s = Some (n, s') \<Longrightarrow> fork_rets s' = fork_rets s"
  "exec_capi_getmessage L s = Some (n, s') \<Longrightarrow> fork_rets s' = fork_rets s"
  "exec_capi_putmessage L s = Some (n, s') \<Longrightarrow> fork_rets s' = fork_rets s"
  "exec_capi_isinstalled L s = Some (n, s') \<Longrightarrow> fork_rets s' = fork_rets s"
  "exec_capi_manufacturer L s = Some (n, s') \<Longrightarrow> fork_rets s' = fork_rets s"
  "exec_capi_version L s = Some (n, s') \<Longrightarrow> fork_rets s' = fork_rets s"
  "exec_capi_serial L s = Some (n, s') \<Longrightarrow> fork_rets s' = fork_rets s"
  "exec_capi_profile L s = Some (n, s') \<Longrightarrow> fork_rets s' = fork_rets s"
  unfolding exec_proxy_helo_def exec_proxy_auth_def handler_defs Let_def
  by (auto split: prod.splits Option.bind_splits if_splits dest!: send_answer_keeps)

lemma sys_fork_script:
  "sys_fork s = (pid, s') \<Longrightarrow> set (fork_rets s') \<subseteq> set (fork_rets s) \<and> (pid = 0 \<longrightarrow> 0 \<in> set (fork_rets s))"
  by (auto simp: sys_fork_def split: list.splits)

lemma waitforsignal_forks:
  assumes "exec_capi_waitforsignal L s = Some (c, s')"
  shows "set (fork_rets s') \<subseteq> set (fork_rets s) \<and> (\<forall>k. c = Exited k \<longrightarrow> 0 \<in> set (fork_rets s))"
proof -
  obtain pid t where f: "sys_fork (s\<lparr>numbytes := 1\<rparr>) = (pid, t)" by fastforce
  have "fork_rets s' = fork_rets t \<and> (\<forall>k. c = Exited k \<longrightarrow> pid = 0)"
    using assms unfolding exec_capi_waitforsignal_def Let_def f prod.case
    by (auto split: prod.splits Option.bind_splits if_splits dest!: send_answer_keeps)
  then show ?thesis using sys_fork_script [OF f] by auto
qed

lemma dispatch_forks:
  assumes d: "dispatch L s = Some (c, s')"
  shows "set (fork_rets s') \<subseteq> set (fork_rets s) \<and> (\<forall>k. c = Exited k \<longrightarrow> 0 \<in> set (fork_rets s))"
proof (cases "served s")
  case True
  then show ?thesis
    by (cases rule: dispatch_cases [where L = L])
      (use d in \<open>auto dest: handlers_keep_forks waitforsignal_forks simp: eq_commute [of "Some (c, s')"]\<close>)
qed (use d in \<open>auto simp: dispatch_silent\<close>)

text \<open>
  The applications registered and released while a list of requests is handled, in
  order.
\<close>

fun app_log :: "'w capi20 \<Rightarrow> 'w server \<Rightarrow> byte list list \<Rightarrow> app_event list" where
  "app_log L s [] = []"
| "app_log L s (p # ps) = app_effect L (input p s) @
     (case dispatch L (input p s) of Some (Returned _, s') \<Rightarrow> app_log L s' ps | _ \<Rightarrow> [])"

text \<open>The state in which the client hangs up.\<close>

fun state_after :: "'w capi20 \<Rightarrow> 'w server \<Rightarrow> byte list list \<Rightarrow> 'w server option" where
  "state_after L s [] = Some s"
| "state_after L s (p # ps) =
     (case dispatch L (input p s) of Some (Returned _, s') \<Rightarrow> state_after L s' ps | _ \<Rightarrow> None)"

lemma hangup_releases:
  assumes "CAPI_MAXAPPL L < 2 ^ 32"
  shows "\<exists>apps. distinct apps \<and> set apps = owned L s \<and>
     world (snd (hangup L s)) = fold (\<lambda>a v. snd (capi20_release L a v)) apps (world s) \<and>
     owned L (snd (hangup L s)) = {} \<and> \<not> sock_open (snd (hangup L s)) \<and> fst (hangup L s) = Exited 0"
  using table.rel_all_exact [OF assms, of "registered_apps s" "capi20_release L" "world s"]
  by (auto simp: hangup_def Let_def owned_def split: prod.splits)

lemma owned_input [simp]: "owned L (input p s) = owned L s"
  by (simp add: owned_def input_def)

lemma handle_all_releases:
  assumes doc: "capi20_documented L" and "handle_all L s ps = Some (k, s')" and "0 \<notin> set (fork_rets s)"
  shows "\<exists>t apps. state_after L s ps = Some t \<and> distinct apps \<and> set apps = fold apply_event (app_log L s ps) (owned L s) \<and>
     world s' = fold (\<lambda>a v. snd (capi20_release L a v)) apps (world t) \<and>
     owned L s' = {} \<and> \<not> sock_open s' \<and> k = 0"
  using assms(2,3)
proof (induction ps arbitrary: s)
  case Nil
  then have "s' = snd (hangup L s)" "k = 0" by (auto split: prod.splits)
  moreover obtain apps where "distinct apps" "set apps = owned L s"
     "world (snd (hangup L s)) = fold (\<lambda>a v. snd (capi20_release L a v)) apps (world s)"
     "owned L (snd (hangup L s)) = {}" "\<not> sock_open (snd (hangup L s))"
    using hangup_releases [OF capi20_documentedD(6) [OF doc], of s] by auto
  ultimately show ?case by (intro exI [of _ s] exI [of _ apps]) simp
next
  case (Cons p ps)
  obtain c t where d: "dispatch L (input p s) = Some (c, t)"
    using Cons.prems(1) by (auto split: option.splits)
  have forks: "fork_rets (input p s) = fork_rets s" by (simp add: input_def)
  obtain n where c: "c = Returned n"
    using dispatch_forks [OF d] Cons.prems(2) forks by (cases c) auto
  have "handle_all L t ps = Some (k, s')" "0 \<notin> set (fork_rets t)"
    using Cons.prems d c dispatch_forks [OF d] forks by auto
  from Cons.IH [OF this] show ?case
    using dispatch_owned [OF doc d] d c by simp
qed

text \<open>A request that is a header only ends the session.\<close>

lemma header_only_session:
  assumes "36 \<le> length (stream (rx s))"
    and "rq_message_len (request_header_at (buffer_of (stream (rx s)))) = 36"
  shows "\<exists>s'. session L s = Some (0, s') \<and> tx s' = tx s \<and> \<not> sock_open s'"
proof -
  let ?bs = "stream (rx s)"
  have h: "req (input (take 36 ?bs) (detach s)) = request_header_at (buffer_of ?bs)"
    using assms(1) by (intro input_header) auto
  have "map_option (apsnd detach) (session L s) = Some (0, snd (hangup L (input (take 36 ?bs) (detach s))))"
    using assms unfolding session_serve
    by (subst serve.simps) (simp add: h PACKET_SIZE_def case_prod_beta)
  then obtain s' where s': "session L s = Some (0, s')"
      "detach s' = snd (hangup L (input (take 36 ?bs) (detach s)))"
    by auto
  have "tx (detach s') = tx s" "\<not> sock_open (detach s')" unfolding s'(2) by (simp_all add: hangup_keeps)
  with s'(1) show ?thesis by simp
qed

end
