(* ===== verification/Unix.thy ===== *)
theory Unix
  imports Proxy
begin

text \<open>
  Process control of the server, \<^verbatim>\<open>linux-server/src/unix.c\<close>: leaving, the signal handlers and
  turning into a daemon.

  What \<^verbatim>\<open>become_daemon\<close> changes is kept in the record \<open>process\<close>. \<^verbatim>\<open>fork\<close> returns in two
  processes: the script \<open>forks\<close> says which of them the model follows (0 the child, a
  positive number the parent, -1 that the call failed). A child of \<^verbatim>\<open>fork\<close> leads neither a
  session nor a process group; \<^verbatim>\<open>setsid\<close> fails for a group leader.
\<close>

section \<open>Leaving\<close>

definition quit :: "int \<Rightarrow> 'w server \<Rightarrow> control \<times> 'w server" where
  "quit ret s = (Exited ret, s\<lparr>sc_open := False\<rparr>)"

definition xquit :: "int \<Rightarrow> byte list \<Rightarrow> 'w server \<Rightarrow> (control \<times> 'w server) option" where
  "xquit ret excuse s =
     (case exec_proxy_shutdown excuse s of
        None \<Rightarrow> None
      | Some (_, s) \<Rightarrow> Some (Exited 0, s\<lparr>sock_open := False\<rparr>))"

section \<open>Signals\<close>

datatype signal = SIGINT | SIGTERM | SIGHUP | SIGUSR1 | SIGCHLD | SIG_OTHER nat

definition sigparent :: "signal \<Rightarrow> 'w server \<Rightarrow> control \<times> 'w server" where
  "sigparent sig s =
     (case sig of
        SIGINT \<Rightarrow> (Exited 0, s\<lparr>sc_open := False\<rparr>)
      | SIGTERM \<Rightarrow> (Exited 0, s\<lparr>sc_open := False\<rparr>)
      | _ \<Rightarrow> (Returned 0, s))"

definition sigchild :: "signal \<Rightarrow> 'w server \<Rightarrow> control \<times> 'w server" where
  "sigchild sig s =
     (case sig of
        SIGINT \<Rightarrow> (Exited 0, s\<lparr>sock_open := False\<rparr>)
      | SIGTERM \<Rightarrow> (Exited 0, s\<lparr>sock_open := False\<rparr>)
      | _ \<Rightarrow> (Returned 0, s))"

text \<open>
  \<^verbatim>\<open>sigchld\<close> collects children until \<^verbatim>\<open>waitpid\<close> has no more: the list is what the calls of
  \<^verbatim>\<open>waitpid\<close> return, 0 once it is exhausted. The result are the process ids collected and
  the rest of the script.
\<close>

fun sigchld :: "int list \<Rightarrow> int list \<times> int list" where
  "sigchld [] = ([], [])"
| "sigchld (pid # pids) =
     (if pid > 0 then let (got, rest) = sigchld pids in (pid # got, rest) else ([], pids))"

section \<open>Becoming a daemon\<close>

datatype handler = SIG_DFL | H_sigparent | H_sigchild | H_sigchld

record process =
  session_leader :: bool
  group_leader :: bool
  ctty :: bool
  cwd :: string
  umask_bits :: nat
  std_open :: bool
  handlers :: "signal \<Rightarrow> handler"
  forks :: "int list"

definition sys_fork_proc :: "process \<Rightarrow> int \<times> process" where
  "sys_fork_proc p =
     (let (r, rs) = (case forks p of [] \<Rightarrow> (0, []) | r # rs \<Rightarrow> (r, rs));
          p = p\<lparr>forks := rs\<rparr>
      in (r, if r = 0 then p\<lparr>session_leader := False, group_leader := False\<rparr> else p))"

definition setsid :: "process \<Rightarrow> process" where
  "setsid p = (if group_leader p then p
               else p\<lparr>session_leader := True, group_leader := True, ctty := False\<rparr>)"

definition signal_to :: "signal \<Rightarrow> handler \<Rightarrow> process \<Rightarrow> process" where
  "signal_to sig h p = p\<lparr>handlers := (handlers p)(sig := h)\<rparr>"

definition become_daemon :: "process \<Rightarrow> control \<times> process" where
  "become_daemon p =
     (let (r, p) = sys_fork_proc p in
      if r = -1 then (Exited 1, p)
      else if r \<noteq> 0 then (Exited 0, p)
      else let p = setsid p; (r, p) = sys_fork_proc p in
        if r = -1 then (Exited 1, p)
        else if r \<noteq> 0 then (Exited 0, p)
        else let p = p\<lparr>cwd := ''/''\<rparr>;
                 p = p\<lparr>umask_bits := 0\<rparr>;
                 p = p\<lparr>std_open := False\<rparr>;
                 p = signal_to SIGINT H_sigparent p;
                 p = signal_to SIGHUP H_sigparent p;
                 p = signal_to SIGTERM H_sigparent p;
                 p = signal_to SIGUSR1 H_sigparent p;
                 p = signal_to SIGCHLD H_sigchld p
             in (Returned 0, p))"

section \<open>What the functions guarantee\<close>

lemma xquit_says_goodbye:
  assumes "length excuse < 128"
  shows "\<exists>n s' h rest. xquit ret excuse s = Some (Exited 0, s') \<and> \<not> sock_open s' \<and>
     tx s' = tx s @ [(answer_packet h (excuse @ [0] @ rest), n)] \<and>
     an_message_type h = TYPE_PROXY_SHUTDOWN \<and> length (excuse @ [0] @ rest) = 128"
proof -
  obtain h rest where h: "an_message_type h = TYPE_PROXY_SHUTDOWN" "length (excuse @ [0] @ rest) = 128"
    and e: "\<exists>p. exec_proxy_shutdown excuse s =
      Some (sock_send (answer_packet h (excuse @ [0] @ rest)) (s\<lparr>out_packet := p\<rparr>))"
    using assms by (intro that [OF _ _ exec_proxy_shutdown_eq [OF assms]]) auto
  from e obtain p where e: "exec_proxy_shutdown excuse s =
      Some (sock_send (answer_packet h (excuse @ [0] @ rest)) (s\<lparr>out_packet := p\<rparr>))" by blast
  show ?thesis
    by (cases rule: sock_send_cases [of "answer_packet h (excuse @ [0] @ rest)" "s\<lparr>out_packet := p\<rparr>"])
      (use h e in \<open>auto simp: xquit_def\<close>)
qed

lemma sigchld_reaps:
  "sigchld pids = (got, rest) \<Longrightarrow> got = takeWhile (\<lambda>p. 0 < p) pids"
  by (induction pids arbitrary: got rest) (auto split: prod.splits if_splits)

lemma become_daemon_detached:
  assumes "become_daemon p = (Returned r, p')"
  shows "r = 0 \<and> \<not> session_leader p' \<and> \<not> group_leader p' \<and> \<not> ctty p' \<and> cwd p' = ''/'' \<and>
     umask_bits p' = 0 \<and> \<not> std_open p' \<and>
     (\<forall>sig \<in> {SIGINT, SIGHUP, SIGTERM, SIGUSR1}. handlers p' sig = H_sigparent) \<and>
     handlers p' SIGCHLD = H_sigchld"
  using assms
  by (auto simp: become_daemon_def sys_fork_proc_def setsid_def signal_to_def Let_def
      split: list.splits if_splits prod.splits)

lemma become_daemon_exits:
  assumes "become_daemon p = (Exited r, p')"
  shows "(r = 0 \<or> r = 1) \<and> handlers p' = handlers p \<and> std_open p' = std_open p"
  using assms
  by (auto simp: become_daemon_def sys_fork_proc_def setsid_def signal_to_def Let_def
      split: list.splits if_splits prod.splits)

end
