(* ===== verification/Cmdline.thy ===== *)
theory Cmdline
  imports Prelude
begin

text \<open>
  The command line of the server, \<^verbatim>\<open>linux-server/src/config/cmdline.c\<close>.

  \<^verbatim>\<open>argv\<close> is the list of the arguments; \<^verbatim>\<open>argv[argc]\<close> is the null pointer. \<open>None\<close> is undefined
  behaviour: handing the null pointer to \<^verbatim>\<open>strcmp\<close>, \<^verbatim>\<open>strlen\<close> or \<^verbatim>\<open>atoi\<close>, or \<^verbatim>\<open>atoi\<close> of a number
  outside the range of \<^verbatim>\<open>int\<close>.
\<close>

section \<open>Data\<close>

record config =
  debug :: bool
  port :: int
  configfile_size :: nat

datatype outcome = Parsed config | Usage

definition argv_at :: "string list \<Rightarrow> nat \<Rightarrow> string option" where
  "argv_at argv i = (if i < length argv then Some (argv ! i) else None)"

section \<open>atoi\<close>

definition is_space :: "char \<Rightarrow> bool" where
  "is_space c \<longleftrightarrow> of_char c \<in> {9, 10, 11, 12, 13, 32 :: nat}"

definition is_digit :: "char \<Rightarrow> bool" where
  "is_digit c \<longleftrightarrow> 48 \<le> (of_char c :: nat) \<and> (of_char c :: nat) \<le> 57"

definition digits_value :: "string \<Rightarrow> int" where
  "digits_value ds = foldl (\<lambda>v c. 10 * v + (of_char c - 48)) 0 ds"

definition atoi :: "string \<Rightarrow> int option" where
  "atoi str =
     (let t = dropWhile is_space str;
          (neg, t) = (case t of [] \<Rightarrow> (False, t)
                      | c # cs \<Rightarrow> if c = CHR ''-'' then (True, cs)
                                 else if c = CHR ''+'' then (False, cs) else (False, t));
          v = digits_value (takeWhile is_digit t);
          v = (if neg then - v else v)
      in if - (2 ^ 31) \<le> v \<and> v < 2 ^ 31 then Some v else None)"

section \<open>The option loop\<close>

function eval_loop :: "string list \<Rightarrow> nat \<Rightarrow> config \<Rightarrow> outcome option" where
  "eval_loop argv i c =
     (if i < length argv then do {
        let (i, c) = (if argv ! i = ''-d'' \<or> argv ! i = ''--debug'' then (Suc i, c\<lparr>debug := True\<rparr>) else (i, c));
        a \<leftarrow> argv_at argv i;
        if a = ''-f'' \<or> a = ''--file'' then do {
          f \<leftarrow> argv_at argv (Suc i);
          eval_loop argv (Suc (Suc i)) (c\<lparr>configfile_size := length f\<rparr>)
        }
        else if a = ''-p'' \<or> a = ''--port'' then do {
          v \<leftarrow> argv_at argv (Suc i);
          d \<leftarrow> atoi v;
          eval_loop argv (Suc (Suc i)) (if d = 0 then c else c\<lparr>port := d\<rparr>)
        }
        else if a = ''-v'' \<or> argv ! 1 = ''-h'' \<or> argv ! 1 = ''--version'' \<or> a = ''--help''
        then Some Usage
        else eval_loop argv (Suc i) c
      }
      else Some (Parsed c))"
  by pat_completeness auto
termination
  by (relation "measure (\<lambda>(argv, i, c). length argv - i)") (auto simp: argv_at_def split: if_splits)

declare eval_loop.simps [simp del]

definition eval_cmdline :: "string list \<Rightarrow> config \<Rightarrow> outcome option" where
  "eval_cmdline argv c = (if length argv = 1 then Some (Parsed c) else eval_loop argv 1 c)"

text \<open>The port the socket is bound to: \<^verbatim>\<open>htons\<close> takes the low 16 bits.\<close>

definition bound_port :: "config \<Rightarrow> nat" where
  "bound_port c = unat (word_of_int (port c) :: u16)"

section \<open>Well-formed command lines\<close>

text \<open>
  Options as the usage text describes them: a port or a file name, each possibly after a
  debug flag. (A debug flag is only recognised in front of another argument.)
\<close>

datatype option_arg = Port string | File string

type_synonym cmd_option = "bool \<times> option_arg"

definition render :: "cmd_option \<Rightarrow> string list" where
  "render x = (if fst x then [''-d''] else []) @
     (case snd x of Port v \<Rightarrow> [''-p'', v] | File f \<Rightarrow> [''-f'', f])"

definition effect :: "cmd_option \<Rightarrow> config \<Rightarrow> config" where
  "effect x c =
     (let c = (if fst x then c\<lparr>debug := True\<rparr> else c) in
      case snd x of
        Port v \<Rightarrow> (case atoi v of Some d \<Rightarrow> if d = 0 then c else c\<lparr>port := d\<rparr> | None \<Rightarrow> c)
      | File f \<Rightarrow> c\<lparr>configfile_size := length f\<rparr>)"

definition option_ok :: "cmd_option \<Rightarrow> bool" where
  "option_ok x = (case snd x of Port v \<Rightarrow> atoi v \<noteq> None | File _ \<Rightarrow> True)"

lemma argv_at_append: "argv_at (pre @ x # xs) (length pre) = Some x"
  by (simp add: argv_at_def)

lemma argv_at_append_Suc: "argv_at (pre @ x # y # xs) (Suc (length pre)) = Some y"
  by (simp add: argv_at_def nth_append)

lemma argv_at_append_Suc2: "argv_at (pre @ x # y # z # xs) (Suc (Suc (length pre))) = Some z"
  by (simp add: argv_at_def nth_append)

lemmas argv_simps = argv_at_append argv_at_append_Suc argv_at_append_Suc2

text \<open>One option is consumed by one round of the loop.\<close>

lemma eval_loop_option:
  assumes "option_ok opt"
  shows "eval_loop (pre @ render opt @ rest) (length pre) c =
     eval_loop (pre @ render opt @ rest) (length pre + length (render opt)) (effect opt c)"
proof (cases opt)
  case (Pair d a)
  show ?thesis
    using assms
    by (cases d; cases a; subst eval_loop.simps)
      (auto simp: Pair render_def effect_def option_ok_def argv_simps nth_append Let_def)
qed

lemma eval_loop_options:
  assumes "\<forall>opt \<in> set opts. option_ok opt"
  shows "eval_loop (pre @ concat (map render opts) @ rest) (length pre) c =
     eval_loop (pre @ concat (map render opts) @ rest) (length pre + length (concat (map render opts)))
       (fold effect opts c)"
  using assms
proof (induction opts arbitrary: pre c)
  case (Cons opt opts)
  have "eval_loop (pre @ render opt @ concat (map render opts) @ rest) (length pre) c =
      eval_loop ((pre @ render opt) @ concat (map render opts) @ rest) (length (pre @ render opt)) (effect opt c)"
    using eval_loop_option [of opt pre "concat (map render opts) @ rest" c] Cons.prems by simp
  also have "\<dots> = eval_loop ((pre @ render opt) @ concat (map render opts) @ rest)
      (length (pre @ render opt) + length (concat (map render opts))) (fold effect opts (effect opt c))"
    by (rule Cons.IH) (use Cons.prems in simp)
  finally show ?case by (simp add: add.assoc)
qed simp

lemma eval_loop_end: "length argv \<le> i \<Longrightarrow> eval_loop argv i c = Some (Parsed c)"
  by (simp add: eval_loop.simps)

lemma length_render: "2 \<le> length (render opt)"
  by (simp add: render_def split: option_arg.split)

lemma eval_cmdline_parsed:
  assumes "\<forall>opt \<in> set opts. option_ok opt"
  shows "eval_cmdline (prog # concat (map render opts)) c = Some (Parsed (fold effect opts c))"
proof (cases opts)
  case (Cons opt opts2)
  have "concat (map render opts) \<noteq> []" using length_render [of opt] by (auto simp: Cons)
  then show ?thesis
    using eval_loop_options [OF assms, of "[prog]" "[]" c]
    by (auto simp: eval_cmdline_def eval_loop_end)
qed (simp add: eval_cmdline_def)

lemma eval_cmdline_debug_last:
  assumes "\<forall>opt \<in> set opts. option_ok opt"
  shows "eval_cmdline (prog # concat (map render opts) @ [''-d'']) c = None"
  using eval_loop_options [OF assms, of "[prog]" "[''-d'']" c]
  by (simp add: eval_cmdline_def eval_loop.simps [of _ "Suc (length (concat (map render opts)))"]
      argv_at_def nth_append)

lemma bound_port_mod: "int (bound_port c) = port c mod 65536"
  by (simp add: bound_port_def unsigned_of_int take_bit_eq_mod)

end
