(* ===== verification/Main_Server.thy ===== *)
theory Main_Server
  imports Session Unix Cmdline
begin

text \<open>
  \<^verbatim>\<open>main\<close> of \<^verbatim>\<open>linux-server/src/capifwd.c\<close>: the command line, the daemon, the listening socket
  and the loop that accepts connections.

  The results of \<^verbatim>\<open>socket\<close>, \<^verbatim>\<open>bind\<close>, \<^verbatim>\<open>listen\<close> and of every \<^verbatim>\<open>accept\<close> and \<^verbatim>\<open>fork\<close> are scripted by
  \<open>environment\<close>. A successful \<^verbatim>\<open>fork\<close> returns twice: the child runs a session, whose result is
  collected, and the parent goes on. The end of the script of connections is the parent
  waiting in \<^verbatim>\<open>accept\<close>. The processes are modelled as independent once forked: a session
  starts from the library state of the parent.
\<close>

section \<open>The accept loop\<close>

record connection =
  conn_rx :: "recv_event list"
  conn_send_rets :: "int list"
  conn_fork_rets :: "int list"
  conn_sockname :: "u32 option"
  conn_in_addr :: u32
  conn_in_packet :: buffer
  conn_fork_ok :: bool

datatype accept_result = Accepted connection | AcceptError

text \<open>The parent: its globals, and how many connection sockets it holds open.\<close>

record 'w listener =
  lst_server :: "'w server"
  lst_socks :: nat

definition start_session :: "connection \<Rightarrow> 'w server \<Rightarrow> 'w server" where
  "start_session c s = s\<lparr>rx := conn_rx c, send_rets := conn_send_rets c, fork_rets := conn_fork_rets c,
     sockname := conn_sockname c, in_addr := conn_in_addr c, in_packet := conn_in_packet c\<rparr>"

text \<open>
  One entry per session: the session id and what became of it. In debug mode the server
  does not fork: it serves the first client itself and exits with it.
\<close>

fun accept_loop :: "'w capi20 \<Rightarrow> bool \<Rightarrow> 'w listener \<Rightarrow> accept_result list \<Rightarrow>
    (u32 \<times> (int \<times> 'w server) option) list \<times> control \<times> 'w listener" where
  "accept_loop L dbg l [] = ([], Returned 0, l)"
| "accept_loop L dbg l (AcceptError # as) =
     ([], Exited 1, l\<lparr>lst_server := (lst_server l)\<lparr>sc_open := False\<rparr>\<rparr>)"
| "accept_loop L dbg l (Accepted c # as) =
     (let s = (lst_server l)\<lparr>sock_open := True\<rparr>;
          s = s\<lparr>sessionID := sessionID s + 1\<rparr>;
          l = l\<lparr>lst_server := s, lst_socks := Suc (lst_socks l)\<rparr>;
          outcome = (sessionID s, session L (start_session c s))
      in if dbg then
           (case snd outcome of
              None \<Rightarrow> ([outcome], Returned 0, l)
            | Some (k, s') \<Rightarrow> ([outcome], Exited k, l\<lparr>lst_server := s'\<rparr>))
         else if \<not> conn_fork_ok c then
           ([], Exited 1, l\<lparr>lst_server := s\<lparr>sc_open := False, sock_open := False\<rparr>,
                           lst_socks := lst_socks l - 1\<rparr>)
         else let (outs, c, l') = accept_loop L dbg l as in (outcome # outs, c, l'))"

section \<open>main\<close>

record environment =
  env_process :: process
  env_socket_ok :: bool
  env_bind_ok :: bool
  env_listen_ok :: bool
  env_accepts :: "accept_result list"

definition initial_config :: config where
  "initial_config = \<lparr>debug = False, port = STD_PORT, configfile_size = 0\<rparr>"

text \<open>\<^verbatim>\<open>memset(registered_apps, 0, CAPI_MAXAPPL+1)\<close>\<close>

definition clear_apps :: "nat \<Rightarrow> app_table \<Rightarrow> app_table" where
  "clear_apps m l = (\<lambda>i. if i < m + 1 then 0 else l i)"

definition main_server :: "'w capi20 \<Rightarrow> environment \<Rightarrow> string list \<Rightarrow> 'w server \<Rightarrow>
    ((u32 \<times> (int \<times> 'w server) option) list \<times> control \<times> 'w listener) option" where
  "main_server L env argv s = do {
     let s = s\<lparr>auth_types := AUTH_BY_IP, local_version := \<lparr>major = MY_MAJOR, minor = MY_MINOR\<rparr>\<rparr>;
     oc \<leftarrow> eval_cmdline argv initial_config;
     case oc of
       Usage \<Rightarrow> Some ([], Exited 0, \<lparr>lst_server = s, lst_socks = 0\<rparr>)
     | Parsed cfg \<Rightarrow>
         let (d, proc) = (if debug cfg then (Returned 0, env_process env) else become_daemon (env_process env)) in
         case d of
           Exited k \<Rightarrow> Some ([], Exited k, \<lparr>lst_server = s, lst_socks = 0\<rparr>)
         | Returned _ \<Rightarrow>
             let s = s\<lparr>registered_apps := clear_apps (CAPI_MAXAPPL L) (registered_apps s)\<rparr> in
             if \<not> env_socket_ok env then Some ([], Exited 1, \<lparr>lst_server = s, lst_socks = 0\<rparr>)
             else if \<not> env_bind_ok env \<or> \<not> env_listen_ok env then
               Some ([], Exited 1, \<lparr>lst_server = s\<lparr>sc_open := False\<rparr>, lst_socks = 0\<rparr>)
             else Some (accept_loop L (debug cfg)
                    \<lparr>lst_server = s\<lparr>sc_open := True, sessionID := 2\<rparr>, lst_socks = 0\<rparr> (env_accepts env))
   }"

section \<open>Session ids\<close>

text \<open>The sessions get consecutive ids, one more than the last.\<close>

lemma accept_loop_length: "length (fst (accept_loop L False l as)) \<le> length as"
proof (induction as arbitrary: l)
  case (Cons a as)
  then show ?case by (cases a) (auto simp: Let_def case_prod_beta)
qed simp

lemma accept_loop_ids:
  "map fst (fst (accept_loop L False l as)) =
     map (\<lambda>i. sessionID (lst_server l) + 1 + of_nat i) [0..<length (fst (accept_loop L False l as))]"
proof (induction as arbitrary: l)
  case (Cons a as)
  show ?case
  proof (cases a)
    case (Accepted c)
    show ?thesis
    proof (cases "conn_fork_ok c")
      case True
      let ?s = "(lst_server l)\<lparr>sock_open := True, sessionID := sessionID (lst_server l) + 1\<rparr>"
      let ?l = "l\<lparr>lst_server := ?s, lst_socks := Suc (lst_socks l)\<rparr>"
      let ?r = "accept_loop L False ?l as"
      have o: "fst (accept_loop L False l (a # as)) =
          (sessionID (lst_server l) + 1, session L (start_session c ?s)) # fst ?r"
        using Accepted True by (simp add: Let_def case_prod_beta)
      have "map fst (fst ?r) = map ((\<lambda>i. sessionID (lst_server l) + 1 + of_nat i) \<circ> Suc) [0..<length (fst ?r)]"
        using Cons.IH [of ?l] by (simp add: comp_def add.assoc)
      then show ?thesis unfolding o
        by (simp add: upt_conv_Cons map_Suc_upt [symmetric] del: upt_Suc)
    qed (simp add: Accepted Let_def)
  qed simp
qed simp

text \<open>Nothing is closed in the parent when a child has been forked.\<close>

lemma accept_loop_socks:
  "\<forall>a \<in> set as. \<exists>c. a = Accepted c \<and> conn_fork_ok c \<Longrightarrow>
     lst_socks (snd (snd (accept_loop L False l as))) = lst_socks l + length as"
proof (induction as arbitrary: l)
  case (Cons a as)
  then obtain c where "a = Accepted c" "conn_fork_ok c" by auto
  then show ?case using Cons by (simp add: Let_def case_prod_beta)
qed simp

lemma of_nat_u32_inj: "i < 2 ^ 32 \<Longrightarrow> j < 2 ^ 32 \<Longrightarrow> (of_nat i :: u32) = of_nat j \<longleftrightarrow> i = j"
proof -
  assume "i < 2 ^ 32" "j < 2 ^ 32"
  then have "unat (of_nat i :: u32) = i" "unat (of_nat j :: u32) = j" by (simp_all add: unat_of_nat)
  then show ?thesis by metis
qed

lemma accept_loop_distinct:
  assumes "length as \<le> 2 ^ 32"
  shows "distinct (map fst (fst (accept_loop L False l as)))"
  using accept_loop_length [of L l as] assms
  by (subst accept_loop_ids) (auto simp: distinct_map inj_on_def of_nat_u32_inj)

text \<open>Starting from 2, the ids 0, 1 and 2 come up only after nearly 2 to the 32 connections.\<close>

lemma accept_loop_fresh:
  assumes "length as < 2 ^ 32 - 3" and "sessionID (lst_server l) = 2"
    and "sid \<in> set (map fst (fst (accept_loop L False l as)))"
  shows "sid \<notin> {0, 1, 2}"
proof -
  let ?n = "length (fst (accept_loop L False l as))"
  have "sid \<in> (\<lambda>i. 3 + of_nat i) ` {0..<?n}"
    using assms(2,3) by (subst (asm) accept_loop_ids) auto
  then obtain i where "i < ?n" "sid = 3 + of_nat i" by auto
  with accept_loop_length [of L l as] have i: "i < length as" "sid = 3 + of_nat i" by linarith+
  then have "sid = of_nat (i + 3)" by simp
  moreover have "i + 3 < 2 ^ 32" using i(1) assms(1) by linarith
  ultimately show ?thesis
    using of_nat_u32_inj [of "i + 3" 0] of_nat_u32_inj [of "i + 3" 1] of_nat_u32_inj [of "i + 3" 2] by auto
qed

end
