(* ===== verification/Example.thy ===== *)
theory Example
  imports Main_Server
begin

text \<open>
  A small CAPI library, a server state and requests, on which the properties of the
  development are instantiated: the library has one controller, gives every application the
  id 1 and always has the same eight octets as next message.
\<close>

definition demo_capi :: "unit capi20" where
  "demo_capi = \<lparr>CAPI_MAXAPPL = 240,
     capi20_register = (\<lambda>c b l a w. (0, 1, w)),
     capi20_release = (\<lambda>a w. (0, w)),
     capi20_put_message = (\<lambda>a p m w. (0, w)),
     capi20_get_message = (\<lambda>a w. (0, 0, w)),
     capi20_memory = (\<lambda>w a. if a = 0 then 8 else 0),
     capi20_waitformessage = (\<lambda>a w. (0, w)),
     capi20_get_manufacturer = (\<lambda>c w. (replicate 64 1, w)),
     capi20_get_version = (\<lambda>c w. (replicate 16 2, w)),
     capi20_get_serial_number = (\<lambda>c w. (replicate 8 3, w)),
     capi20_get_profile = (\<lambda>c w. (0, replicate 64 4, w)),
     capi20_isinstalled = (\<lambda>w. (0, w))\<rparr>"

definition demo_server :: "unit server" where
  "demo_server = \<lparr>sessionID = 3, auth_types = AUTH_BY_IP, local_version = \<lparr>major = 1, minor = 2\<rparr>,
     client_info = \<lparr>ci_os = 0, ci_version = \<lparr>major = 0, minor = 0\<rparr>, ci_name = [], ci_messageBufferLen = 0\<rparr>,
     out_packet = (\<lambda>_. 0), in_packet = (\<lambda>_. 0), in_addr = 4096, stack_junk = (\<lambda>_. 0),
     registered_apps = (\<lambda>_. 0), numbytes = 0, sc_open = True, sock_open = True,
     sockname = Some 0xC0A80001, rx = [], tx = [], send_rets = [], fork_rets = [], world = ()\<rparr>"

definition demo_header :: "u32 \<Rightarrow> u32 \<Rightarrow> u32 \<Rightarrow> request_header" where
  "demo_header ty bl dl = \<lparr>rq_message_len = 36 + bl + dl, rq_header_len = 36, rq_body_len = bl,
     rq_data_len = dl, rq_message_id = 7, rq_message_type = ty, rq_app_id = 1, rq_controller_id = 1,
     rq_session_id = 3\<rparr>"

definition demo_request :: "u32 \<Rightarrow> byte list \<Rightarrow> byte list \<Rightarrow> byte list" where
  "demo_request ty body data =
     encode_request_header (demo_header ty (of_nat (length body)) (of_nat (length data))) @ body @ data"

lemma demo_documented [simp]: "capi20_documented demo_capi"
  by (simp add: capi20_documented_def demo_capi_def)

declare in_packet_input [simp]

lemma req_demo [simp]:
  "request_header_at (put_bytes 0 (demo_request ty body data) b) =
     demo_header ty (of_nat (length body)) (of_nat (length data))"
  by (simp add: demo_request_def request_header_at_encode)

lemma length_demo_request [simp]: "length (demo_request ty body data) = 36 + length body + length data"
  by (simp add: demo_request_def)

lemma demo_server_simps [simp]:
  "sessionID demo_server = 3" "fork_rets demo_server = []" "rx demo_server = []" "world demo_server = ()"
  "registered_apps demo_server = (\<lambda>_. 0)" "out_packet demo_server = (\<lambda>_. 0)"
  "in_packet demo_server = (\<lambda>_. 0)" "sockname demo_server = Some 0xC0A80001" "tx demo_server = []"
  by (simp_all add: demo_server_def)

lemma wf_demo_request:
  assumes "0 < length body + length data" and "36 + length body + length data \<le> PACKET_SIZE"
  shows "wf_request (demo_request ty body data)"
proof -
  have h: "request_header_at (buffer_of (demo_request ty body data)) =
      demo_header ty (of_nat (length body)) (of_nat (length data))"
    by (simp add: buffer_of_def demo_request_def request_header_at_encode)
  have "(36 + of_nat (length body) + of_nat (length data) :: u32) = of_nat (36 + length body + length data)"
    by simp
  then show ?thesis
    unfolding wf_request_def h using assms
    by (simp add: demo_header_def PACKET_SIZE_def unat_of_nat del: of_nat_add of_nat_numeral)
qed

lemma helo_pre_demo: "helo_pre (input (demo_request TYPE_PROXY_HELO (replicate 76 0) []) demo_server)"
proof -
  let ?s = "input (demo_request TYPE_PROXY_HELO (replicate 76 0) []) demo_server"
  have "in_packet ?s 36 = 0"
    by (simp add: demo_request_def put_bytes_def nth_append)
  moreover have "cstring room b off = Some []" if "0 < room" "b off = 0" for room b off
    using that by (cases room) auto
  ultimately have n: "strcpy_chk 64 PACKET_SIZE (in_packet ?s) (unat (rq_header_len (req ?s))) = Some []"
    by (simp add: strcpy_chk_def PACKET_SIZE_def demo_header_def del: in_packet_input) (simp add: demo_header_def)
  then show ?thesis
    by (simp add: helo_pre_def demo_header_def PACKET_SIZE_def del: in_packet_input) (simp add: demo_header_def)
qed

end
