(* ===== verification/CapiUtil.thy ===== *)
theory CapiUtil
  imports Prelude
begin

text \<open>
  What the Linux client takes from the kernel headers \<^verbatim>\<open>linux/capi.h\<close>, \<^verbatim>\<open>capiutil.h\<close> and
  \<^verbatim>\<open>capicmd.h\<close>, which are not part of the repository: the accessors of CAPI messages and a
  few constants, as a record that the definitions take as a parameter.

  \<open>capiutil_documented\<close> states the layout of a message header in the CAPI 2.0
  specification (total length at offset 0, application id at 2, command and subcommand at 4
  and 5, controller or NCCI at 8, all little endian) and the sizes of the information blocks.
  \<open>capi_layout\<close> is a concrete instance.
\<close>

record capiutil =
  CAPIMSG_APPID :: "buffer \<Rightarrow> u16"
  CAPIMSG_COMMAND :: "buffer \<Rightarrow> byte"
  CAPIMSG_SUBCOMMAND :: "buffer \<Rightarrow> byte"
  CAPIMSG_NCCI :: "buffer \<Rightarrow> u32"
  CAPIMSG_U32 :: "buffer \<Rightarrow> nat \<Rightarrow> u32"
  CAPIMSG_SETLEN :: "u16 \<Rightarrow> buffer \<Rightarrow> buffer"
  CAPIMSG_SETAPPID :: "u16 \<Rightarrow> buffer \<Rightarrow> buffer"
  CAPIMSG_SETCOMMAND :: "byte \<Rightarrow> buffer \<Rightarrow> buffer"
  CAPIMSG_SETSUBCOMMAND :: "byte \<Rightarrow> buffer \<Rightarrow> buffer"
  CAPIMSG_SETCONTROL :: "u32 \<Rightarrow> buffer \<Rightarrow> buffer"
  capimsg_setu32 :: "nat \<Rightarrow> u32 \<Rightarrow> buffer \<Rightarrow> buffer"
  K_MAXAPPL :: nat
  K_MANUFACTURER_LEN :: nat
  K_SERIAL_LEN :: nat
  K_sizeof_version :: nat
  K_sizeof_profile :: nat
  K_MAXDATAWINDOW :: u32
  K_CONNECT_B3_CONF :: nat
  K_CONNECT_B3_IND :: nat
  K_DISCONNECT_B3_RESP :: nat

text \<open>Extensions of the accessors in \<^verbatim>\<open>linux-client/module/capi20proxy.h\<close>.\<close>

definition CAPIMSG_L3C :: "capiutil \<Rightarrow> buffer \<Rightarrow> u32" where "CAPIMSG_L3C U m = CAPIMSG_U32 U m 6"
definition CAPIMSG_DBC :: "capiutil \<Rightarrow> buffer \<Rightarrow> u32" where "CAPIMSG_DBC U m = CAPIMSG_U32 U m 10"
definition CAPIMSG_DBL :: "capiutil \<Rightarrow> buffer \<Rightarrow> u32" where "CAPIMSG_DBL U m = CAPIMSG_U32 U m 14"
definition CAPIMSG_SETL3C :: "capiutil \<Rightarrow> u32 \<Rightarrow> buffer \<Rightarrow> buffer" where "CAPIMSG_SETL3C U v = capimsg_setu32 U 6 v"
definition CAPIMSG_SETDBC :: "capiutil \<Rightarrow> u32 \<Rightarrow> buffer \<Rightarrow> buffer" where "CAPIMSG_SETDBC U v = capimsg_setu32 U 10 v"
definition CAPIMSG_SETDBL :: "capiutil \<Rightarrow> u32 \<Rightarrow> buffer \<Rightarrow> buffer" where "CAPIMSG_SETDBL U v = capimsg_setu32 U 14 v"

definition TYPE_PROXY :: byte where "TYPE_PROXY = 0"
definition TYPE_MESSAGE :: byte where "TYPE_MESSAGE = 1"
definition TYPE_REGISTER_APP :: byte where "TYPE_REGISTER_APP = 2"
definition TYPE_RELEASE_APP :: byte where "TYPE_RELEASE_APP = 3"
definition TYPE_SHUTDOWN :: byte where "TYPE_SHUTDOWN = 4"

definition IOCTL_SET_DATA :: nat where "IOCTL_SET_DATA = 1"
definition IOCTL_ERROR_REGFAIL :: nat where "IOCTL_ERROR_REGFAIL = 2"
definition IOCTL_APPL_REGISTERED :: nat where "IOCTL_APPL_REGISTERED = 3"

text \<open>The third argument of an ioctl: an address in user memory, with what is there, or a number.\<close>

datatype ioctl_arg = Pointer "byte list" | Value u32

lemmas node_consts = TYPE_PROXY_def TYPE_MESSAGE_def TYPE_REGISTER_APP_def TYPE_RELEASE_APP_def
  TYPE_SHUTDOWN_def IOCTL_SET_DATA_def IOCTL_ERROR_REGFAIL_def IOCTL_APPL_REGISTERED_def

definition capiutil_documented :: "capiutil \<Rightarrow> bool" where
  "capiutil_documented U \<longleftrightarrow>
     (\<forall>b. CAPIMSG_APPID U b = word_le (get_bytes b 2 2)) \<and>
     (\<forall>b. CAPIMSG_COMMAND U b = b 4) \<and> (\<forall>b. CAPIMSG_SUBCOMMAND U b = b 5) \<and>
     (\<forall>b. CAPIMSG_NCCI U b = get32 b 8) \<and> (\<forall>b off. CAPIMSG_U32 U b off = get32 b off) \<and>
     (\<forall>v b. CAPIMSG_SETLEN U v b = put_bytes 0 (bytes_le 2 v) b) \<and>
     (\<forall>v b. CAPIMSG_SETAPPID U v b = put_bytes 2 (bytes_le 2 v) b) \<and>
     (\<forall>v b. CAPIMSG_SETCOMMAND U v b = put_bytes 4 [v] b) \<and>
     (\<forall>v b. CAPIMSG_SETSUBCOMMAND U v b = put_bytes 5 [v] b) \<and>
     (\<forall>v b. CAPIMSG_SETCONTROL U v b = put32 8 v b) \<and>
     (\<forall>off v b. capimsg_setu32 U off v b = put32 off v b) \<and>
     0 < K_MAXAPPL U \<and> K_MAXAPPL U < 65536 \<and> K_MANUFACTURER_LEN U = 64 \<and> K_SERIAL_LEN U = 8 \<and>
     K_sizeof_version U = 16 \<and> K_sizeof_profile U = 64 \<and>
     256 \<le> K_CONNECT_B3_CONF U \<and> 256 \<le> K_CONNECT_B3_IND U \<and> 256 \<le> K_DISCONNECT_B3_RESP U"

definition capi_layout :: capiutil where
  "capi_layout = \<lparr>CAPIMSG_APPID = (\<lambda>b. word_le (get_bytes b 2 2)), CAPIMSG_COMMAND = (\<lambda>b. b 4),
     CAPIMSG_SUBCOMMAND = (\<lambda>b. b 5), CAPIMSG_NCCI = (\<lambda>b. get32 b 8), CAPIMSG_U32 = get32,
     CAPIMSG_SETLEN = (\<lambda>v. put_bytes 0 (bytes_le 2 v)), CAPIMSG_SETAPPID = (\<lambda>v. put_bytes 2 (bytes_le 2 v)),
     CAPIMSG_SETCOMMAND = (\<lambda>v. put_bytes 4 [v]), CAPIMSG_SETSUBCOMMAND = (\<lambda>v. put_bytes 5 [v]),
     CAPIMSG_SETCONTROL = put32 8, capimsg_setu32 = put32, K_MAXAPPL = 240, K_MANUFACTURER_LEN = 64,
     K_SERIAL_LEN = 8, K_sizeof_version = 16, K_sizeof_profile = 64, K_MAXDATAWINDOW = 8,
     K_CONNECT_B3_CONF = 0x8281, K_CONNECT_B3_IND = 0x8282, K_DISCONNECT_B3_RESP = 0x8483\<rparr>"

lemma capi_layout_documented [simp]: "capiutil_documented capi_layout"
  by (simp add: capiutil_documented_def capi_layout_def)

text \<open>What the accessors do, under the documented layout.\<close>

lemma capiutil_laws:
  assumes "capiutil_documented U"
  shows "CAPIMSG_APPID U b = word_le (get_bytes b 2 2)" and "CAPIMSG_COMMAND U b = b 4"
    and "CAPIMSG_SUBCOMMAND U b = b 5" and "CAPIMSG_NCCI U b = get32 b 8"
    and "CAPIMSG_U32 U b off = get32 b off"
    and "CAPIMSG_SETLEN U l b = put_bytes 0 (bytes_le 2 l) b"
    and "CAPIMSG_SETAPPID U a b = put_bytes 2 (bytes_le 2 a) b"
    and "CAPIMSG_SETCOMMAND U v b = put_bytes 4 [v] b"
    and "CAPIMSG_SETSUBCOMMAND U v b = put_bytes 5 [v] b"
    and "CAPIMSG_SETCONTROL U w b = put32 8 w b" and "capimsg_setu32 U off w b = put32 off w b"
    and "K_MANUFACTURER_LEN U = 64" and "K_SERIAL_LEN U = 8" and "K_sizeof_version U = 16"
    and "K_sizeof_profile U = 64" and "K_MAXAPPL U < 65536"
    and "256 \<le> K_CONNECT_B3_CONF U" and "256 \<le> K_CONNECT_B3_IND U" and "256 \<le> K_DISCONNECT_B3_RESP U"
  using assms by (simp_all add: capiutil_documented_def)

lemma appid_roundtrip: "word_le (get_bytes (put_bytes 2 (bytes_le 2 (a :: u16)) b) 2 2) = a"
  by (simp add: put_bytes_same word_le_bytes_le)

end
