(* ===== verification/Daemon.thy ===== *)
theory Daemon
  imports Session Unix CapiUtil
begin

text \<open>
  The Linux client daemon, \<^verbatim>\<open>linux-client/daemon/src/c2pclient.c\<close>: it turns the messages of the
  kernel module into requests to the server and the answers of the server into messages for
  the module, translating application ids with the two tables \<^verbatim>\<open>applmap_rtl\<close> and
  \<^verbatim>\<open>applmap_ltr\<close>.

  State: the static variables of the file, the socket (what \<^verbatim>\<open>recv\<close> will deliver, a log of
  what was sent and scripted results of \<^verbatim>\<open>send\<close>) and the device node (what \<^verbatim>\<open>read\<close> will
  deliver, a log of the writes and ioctls). A \<^verbatim>\<open>recv\<close> in non-blocking mode with nothing to
  read is the event \<open>RecvError\<close>. Output on the terminal is not modelled. \<open>None\<close> is an access
  outside a buffer or a table.
\<close>

section \<open>State\<close>

datatype node_event = NodeOpen | NodeWrite "byte list" | NodeIoctl nat ioctl_arg | NodeClose

record client =
  sendbuffer :: buffer
  recvbuffer :: buffer
  c2p_shutdown :: bool
  msgid :: u32
  session_id :: u32
  applmap_rtl :: "nat \<Rightarrow> u16"
  applmap_ltr :: "nat \<Rightarrow> u16"
  c_rx :: "recv_event list"
  c_tx :: "(byte list \<times> int) list"
  c_send_rets :: "int list"
  node_reads :: "byte list option list"
  node_log :: "node_event list"
  node_write_rets :: "int list"

definition BUFFER_SIZE :: nat where "BUFFER_SIZE = 10000"

section \<open>Socket and node\<close>

definition client_recv :: "client \<Rightarrow> int \<times> client" where
  "client_recv c = (case sock_recv (c_rx c) BUFFER_SIZE of (n, bs, es) \<Rightarrow>
     (n, c\<lparr>c_rx := es, recvbuffer := put_bytes 0 bs (recvbuffer c)\<rparr>))"

text \<open>\<^verbatim>\<open>send(sc, sendbuffer, rheader->message_len, 0)\<close>\<close>

definition client_send :: "client \<Rightarrow> (int \<times> client) option" where
  "client_send c = do {
     pkt \<leftarrow> get_bytes_chk BUFFER_SIZE (sendbuffer c) 0 (unat (get32 (sendbuffer c) 0));
     let (r, rs) = (case c_send_rets c of [] \<Rightarrow> (int (length pkt), []) | r # rs \<Rightarrow> (r, rs));
     Some (r, c\<lparr>c_send_rets := rs, c_tx := c_tx c @ [(pkt, r)]\<rparr>)
   }"

definition node_write :: "byte list \<Rightarrow> client \<Rightarrow> int \<times> client" where
  "node_write bs c =
     (let (r, rs) = (case node_write_rets c of [] \<Rightarrow> (int (length bs), []) | r # rs \<Rightarrow> (r, rs))
      in (r, c\<lparr>node_write_rets := rs, node_log := node_log c @ [NodeWrite bs]\<rparr>))"

definition node_ioctl :: "nat \<Rightarrow> ioctl_arg \<Rightarrow> client \<Rightarrow> client" where
  "node_ioctl num arg c = c\<lparr>node_log := node_log c @ [NodeIoctl num arg]\<rparr>"

text \<open>A message longer than the buffer stays in the module (\<^verbatim>\<open>-EMSGSIZE\<close>).\<close>

definition node_read :: "client \<Rightarrow> int \<times> client" where
  "node_read c =
     (case node_reads c of
        [] \<Rightarrow> (0, c)
      | None # rs \<Rightarrow> (-1, c\<lparr>node_reads := rs\<rparr>)
      | Some bs # rs \<Rightarrow>
          if length bs \<le> BUFFER_SIZE
          then (int (length bs), c\<lparr>node_reads := rs, recvbuffer := put_bytes 0 bs (recvbuffer c)\<rparr>)
          else (-1, c))"

section \<open>Composing requests\<close>

definition set_req :: "nat \<Rightarrow> u32 \<Rightarrow> client \<Rightarrow> client" where
  "set_req off v c = c\<lparr>sendbuffer := put32 off v (sendbuffer c)\<rparr>"

text \<open>
  The assignments to \<^verbatim>\<open>rheader\<close> that every request starts with, in their order; the
  arguments are the values that differ from request to request.
\<close>

definition compose :: "u32 \<Rightarrow> u32 \<Rightarrow> u32 \<Rightarrow> u32 \<Rightarrow> u32 \<Rightarrow> u32 \<Rightarrow> client \<Rightarrow> client" where
  "compose bl dl ty app ctrl sess c =
     (let c = set_req 4 (of_nat sizeof_REQUEST_HEADER) c;
          c = set_req 8 bl c;
          c = set_req 12 dl c;
          c = set_req 0 (get32 (sendbuffer c) 4 + get32 (sendbuffer c) 8 + get32 (sendbuffer c) 12) c;
          c = c\<lparr>msgid := msgid c + 1\<rparr>;
          c = set_req 16 (msgid c) c;
          c = set_req 20 ty c;
          c = set_req 24 app c;
          c = set_req 28 ctrl c;
          c = set_req 32 sess c
      in c)"

abbreviation ans :: "client \<Rightarrow> answer_header" where
  "ans c \<equiv> answer_header_at (recvbuffer c)"

section \<open>Handling what the server sends\<close>

definition remote_waitforsignal :: "u16 \<Rightarrow> client \<Rightarrow> (int \<times> client) option" where
  "remote_waitforsignal appl c = do {
     let c = compose 0 0 TYPE_CAPI_WAITFORSIGNAL (ucast appl) 1 (session_id c) c;
     (ret, c) \<leftarrow> client_send c;
     Some (if ret < 1 then 0 else 1, c)
   }"

definition remote_get_message :: "u16 \<Rightarrow> client \<Rightarrow> (int \<times> client) option" where
  "remote_get_message appl c = do {
     let c = compose 0 0 TYPE_CAPI_GETMESSAGE (ucast appl) 1 (session_id c) c;
     (ret, c) \<leftarrow> client_send c;
     Some (if ret < 1 then 0 else 1, c)
   }"

definition send_to_module :: "capiutil \<Rightarrow> client \<Rightarrow> (int \<times> client) option" where
  "send_to_module U c = do {
     let data_offset = (ucast (an_header_len (ans c) + an_body_len (ans c)) :: u16);
     let n = unat (an_data_len (ans c));
     bs \<leftarrow> get_bytes_chk BUFFER_SIZE (recvbuffer c) (unat data_offset) n;
     b \<leftarrow> put_bytes_chk BUFFER_SIZE 0 bs (sendbuffer c);
     let i = unat (CAPIMSG_APPID U b);
     if i \<le> K_MAXAPPL U then do {
       let c = c\<lparr>sendbuffer := CAPIMSG_SETAPPID U (applmap_rtl c i) b\<rparr>;
       let (r, c) = node_write (get_bytes (sendbuffer c) 0 n) c;
       Some (if r < 1 then 0 else 1, c)
     } else None
   }"

definition handle_serverpacket :: "capiutil \<Rightarrow> client \<Rightarrow> (int \<times> client) option" where
  "handle_serverpacket U c =
     (if an_message_type (ans c) = TYPE_CAPI_WAITFORSIGNAL
      then remote_get_message (ucast (an_app_id (ans c))) c
      else if an_message_type (ans c) = TYPE_CAPI_GETMESSAGE
      then do { (r, c) \<leftarrow> send_to_module U c; remote_waitforsignal (ucast (an_app_id (ans c))) c }
      else Some (0, c))"

lemma compose_keeps:
  "recvbuffer (compose bl dl ty app ctrl sess c) = recvbuffer c"
  "c_rx (compose bl dl ty app ctrl sess c) = c_rx c"
  "c_tx (compose bl dl ty app ctrl sess c) = c_tx c"
  "c_send_rets (compose bl dl ty app ctrl sess c) = c_send_rets c"
  "session_id (compose bl dl ty app ctrl sess c) = session_id c"
  "applmap_rtl (compose bl dl ty app ctrl sess c) = applmap_rtl c"
  "applmap_ltr (compose bl dl ty app ctrl sess c) = applmap_ltr c"
  "node_log (compose bl dl ty app ctrl sess c) = node_log c"
  "node_reads (compose bl dl ty app ctrl sess c) = node_reads c"
  "node_write_rets (compose bl dl ty app ctrl sess c) = node_write_rets c"
  "c2p_shutdown (compose bl dl ty app ctrl sess c) = c2p_shutdown c"
  "msgid (compose bl dl ty app ctrl sess c) = msgid c + 1"
  by (simp_all add: compose_def set_req_def Let_def)

lemma client_send_cases:
  assumes "client_send c = Some (r, c')"
  obtains rs where "c' = c\<lparr>c_send_rets := rs,
      c_tx := c_tx c @ [(get_bytes (sendbuffer c) 0 (unat (get32 (sendbuffer c) 0)), r)]\<rparr>"
  using assms by (auto simp: client_send_def get_bytes_chk_def Let_def split: if_splits list.splits)

lemma handle_serverpacket_keeps:
  assumes "handle_serverpacket U c = Some (r, c')"
  shows "c_rx c' = c_rx c \<and> recvbuffer c' = recvbuffer c \<and> session_id c' = session_id c \<and>
     applmap_rtl c' = applmap_rtl c \<and> applmap_ltr c' = applmap_ltr c \<and> node_reads c' = node_reads c"
  using assms
  by (auto simp: handle_serverpacket_def remote_get_message_def remote_waitforsignal_def
      send_to_module_def node_write_def Let_def compose_keeps
      split: if_splits Option.bind_splits list.splits prod.splits elim!: client_send_cases)

section \<open>Waiting for an answer\<close>

lemma client_recv_progress:
  "client_recv c = (n, c') \<Longrightarrow> \<not> n < 1 \<Longrightarrow> rx_size (c_rx c') < rx_size (c_rx c)"
  by (auto simp: client_recv_def split: prod.splits dest: sock_recv_progress)

function wait_for_answer :: "capiutil \<Rightarrow> u32 \<Rightarrow> client \<Rightarrow> client option" where
  "wait_for_answer U ty c =
     (case client_recv c of (len, c) \<Rightarrow>
        if len < 1 then Some c
        else if an_message_type (ans c) \<noteq> ty then
          (case handle_serverpacket U c of
             None \<Rightarrow> None
           | Some (_, c) \<Rightarrow> if an_message_type (ans c) \<noteq> ty then wait_for_answer U ty c else Some c)
        else Some c)"
  by pat_completeness auto
termination
  by (relation "measure (\<lambda>(U, ty, c). rx_size (c_rx c))")
    (auto dest!: handle_serverpacket_keeps client_recv_progress [OF sym])

declare wait_for_answer.simps [simp del]

section \<open>Queries\<close>

text \<open>
  The four queries of the module's data differ in the message type and in the number of
  octets they copy from the answer.
\<close>

definition remote_query :: "capiutil \<Rightarrow> u32 \<Rightarrow> nat \<Rightarrow> client \<Rightarrow> (int \<times> byte list \<times> client) option" where
  "remote_query U ty n c = do {
     let c = compose 0 0 ty 0 1 (session_id c) c;
     (ret, c) \<leftarrow> client_send c;
     if ret < 1 then Some (0, [], c)
     else do {
       c \<leftarrow> wait_for_answer U ty c;
       if an_proxy_error (ans c) \<noteq> PERROR_NONE then Some (0, [], c)
       else do {
         bs \<leftarrow> get_bytes_chk BUFFER_SIZE (recvbuffer c) (unat (an_header_len (ans c))) n;
         Some (1, bs, c)
       }
     }
   }"

definition remote_get_manufacturer :: "capiutil \<Rightarrow> client \<Rightarrow> (int \<times> byte list \<times> client) option" where
  "remote_get_manufacturer U c = remote_query U TYPE_CAPI_MANUFACTURER (K_MANUFACTURER_LEN U) c"

definition remote_get_version :: "capiutil \<Rightarrow> client \<Rightarrow> (int \<times> byte list \<times> client) option" where
  "remote_get_version U c = remote_query U TYPE_CAPI_VERSION (K_sizeof_version U) c"

definition remote_get_serial :: "capiutil \<Rightarrow> client \<Rightarrow> (int \<times> byte list \<times> client) option" where
  "remote_get_serial U c = remote_query U TYPE_CAPI_SERIAL (K_SERIAL_LEN U) c"

definition remote_get_profile :: "capiutil \<Rightarrow> client \<Rightarrow> (int \<times> byte list \<times> client) option" where
  "remote_get_profile U c = remote_query U TYPE_CAPI_PROFILE (K_sizeof_profile U) c"

section \<open>Applications\<close>

definition remote_register_appl :: "capiutil \<Rightarrow> u32 \<Rightarrow> u32 \<Rightarrow> u32 \<Rightarrow> client \<Rightarrow> (int \<times> u16 \<times> client) option" where
  "remote_register_appl U level3 blocks blklen c = do {
     let c = compose (of_nat sizeof_REQUEST_CAPI_REGISTER) 0 TYPE_CAPI_REGISTER 0 1 (session_id c) c;
     let c = set_req 36 (1024 * level3) c;
     let c = set_req 40 level3 c;
     let c = set_req 44 blocks c;
     let c = set_req 48 blklen c;
     (ret, c) \<leftarrow> client_send c;
     if ret < 1 then Some (0, 0, c)
     else do {
       c \<leftarrow> wait_for_answer U TYPE_CAPI_REGISTER c;
       if an_proxy_error (ans c) \<noteq> PERROR_NONE then Some (0, 0, c)
       else do {
         let appl = (ucast (an_app_id (ans c)) :: u16);
         (r, c) \<leftarrow> remote_waitforsignal appl c;
         Some (1, appl, c)
       }
     }
   }"

definition remote_release_appl :: "capiutil \<Rightarrow> u16 \<Rightarrow> client \<Rightarrow> (int \<times> client) option" where
  "remote_release_appl U appl c = do {
     let c = compose 0 0 TYPE_CAPI_RELEASE (ucast appl) 1 (session_id c) c;
     (ret, c) \<leftarrow> client_send c;
     if ret < 1 then Some (0, c)
     else do {
       c \<leftarrow> wait_for_answer U TYPE_CAPI_RELEASE c;
       Some (if an_proxy_error (ans c) \<noteq> PERROR_NONE then 0 else 1, c)
     }
   }"

definition local_register_appl :: "capiutil \<Rightarrow> u16 \<Rightarrow> client \<Rightarrow> (int \<times> client) option" where
  "local_register_appl U local_appid c = do {
     (ok, remote_appid, c) \<leftarrow> remote_register_appl U (CAPIMSG_L3C U (recvbuffer c))
        (CAPIMSG_DBC U (recvbuffer c)) (CAPIMSG_DBL U (recvbuffer c)) c;
     if ok = 0 then Some (0, c)
     else if unat remote_appid \<le> K_MAXAPPL U \<and> unat local_appid \<le> K_MAXAPPL U then
       Some (1, c\<lparr>applmap_rtl := (applmap_rtl c)(unat remote_appid := local_appid),
                  applmap_ltr := (applmap_ltr c)(unat local_appid := remote_appid)\<rparr>)
     else None
   }"

definition local_release_appl :: "capiutil \<Rightarrow> u16 \<Rightarrow> client \<Rightarrow> (int \<times> client) option" where
  "local_release_appl U appl c = remote_release_appl U appl c"

definition send_to_server :: "capiutil \<Rightarrow> nat \<Rightarrow> client \<Rightarrow> (int \<times> client) option" where
  "send_to_server U len c = do {
     let i = unat (CAPIMSG_APPID U (recvbuffer c));
     if i \<le> K_MAXAPPL U then do {
       let c = c\<lparr>recvbuffer := CAPIMSG_SETAPPID U (applmap_ltr c i) (recvbuffer c)\<rparr>;
       let ncci = CAPIMSG_NCCI U (recvbuffer c);
       let ncci = ncci AND 0xFFFFFF80;
       let ncci = ncci + 1;
       let c = c\<lparr>recvbuffer := CAPIMSG_SETCONTROL U ncci (recvbuffer c)\<rparr>;
       let c = compose 0 (of_nat len) TYPE_CAPI_PUTMESSAGE
                 (ucast (CAPIMSG_APPID U (recvbuffer c))) 1 (session_id c) c;
       let data_offset = (ucast (get32 (sendbuffer c) 4 + get32 (sendbuffer c) 8) :: u16);
       bs \<leftarrow> get_bytes_chk BUFFER_SIZE (recvbuffer c) 0 len;
       b \<leftarrow> put_bytes_chk BUFFER_SIZE (unat data_offset) bs (sendbuffer c);
       (ret, c) \<leftarrow> client_send (c\<lparr>sendbuffer := b\<rparr>);
       if ret < 1 then Some (0, c)
       else do {
         c \<leftarrow> wait_for_answer U TYPE_CAPI_PUTMESSAGE c;
         Some (if an_proxy_error (ans c) \<noteq> PERROR_NONE then 0 else 1, c)
       }
     } else None
   }"

section \<open>Start and main loop\<close>

definition init_module :: "capiutil \<Rightarrow> client \<Rightarrow> (int \<times> client) option" where
  "init_module U c = do {
     (r, manu, c) \<leftarrow> remote_get_manufacturer U c;
     if r = 0 then Some (0, c) else do {
       (r, ver, c) \<leftarrow> remote_get_version U c;
       if r = 0 then Some (0, c) else do {
         (r, ser, c) \<leftarrow> remote_get_serial U c;
         if r = 0 then Some (0, c) else do {
           (r, prof, c) \<leftarrow> remote_get_profile U c;
           if r = 0 then Some (0, c) else do {
             let len = K_MANUFACTURER_LEN U + K_sizeof_version U + K_SERIAL_LEN U + K_sizeof_profile U;
             let c = c\<lparr>node_log := node_log c @ [NodeOpen]\<rparr>;
             let c = node_ioctl IOCTL_SET_DATA (Pointer (bytes_le 4 (of_nat len :: u32) @ manu @ ver @ ser @ prof)) c;
             Some (1, c)
           }
         }
       }
     }
   }"

definition init_socket :: "bool \<Rightarrow> bool \<Rightarrow> client \<Rightarrow> (int \<times> client) option" where
  "init_socket socket_ok connect_ok c =
     (if \<not> socket_ok \<or> \<not> connect_ok then Some (0, c)
      else do {
        let c = compose (of_nat sizeof_REQUEST_PROXY_HELO) 0 TYPE_PROXY_HELO 0 0 0 c;
        let c = c\<lparr>sendbuffer := put_bytes 36 (string_bytes ''Freddy'' @ [0]) (sendbuffer c)\<rparr>;
        let c = set_req 100 OS_TYPE_LINUX c;
        let c = set_req 104 1 c;
        let c = set_req 108 1 c;
        (ret, c) \<leftarrow> client_send c;
        if ret < 1 then Some (0, c)
        else do {
          let (ret, c) = client_recv c;
          if ret < 1 then Some (0, c)
          else if an_proxy_error (ans c) \<noteq> PERROR_NONE then Some (0, c)
          else Some (1, c\<lparr>session_id := an_session_id (ans c)\<rparr>)
        }
      })"

text \<open>One round of the loop in \<^verbatim>\<open>main\<close>.\<close>

definition main_round :: "capiutil \<Rightarrow> client \<Rightarrow> client option" where
  "main_round U c = do {
     let (len, c) = client_recv c;
     c \<leftarrow> (if \<not> len < 0 then map_option snd (handle_serverpacket U c) else Some c);
     let (len, c) = node_read c;
     if len \<le> 0 then Some c
     else do {
       let appl = CAPIMSG_APPID U (recvbuffer c);
       if CAPIMSG_COMMAND U (recvbuffer c) = TYPE_PROXY then
         if CAPIMSG_SUBCOMMAND U (recvbuffer c) = TYPE_REGISTER_APP then do {
           (ret, c) \<leftarrow> local_register_appl U appl c;
           Some (node_ioctl (if ret \<noteq> 0 then IOCTL_APPL_REGISTERED else IOCTL_ERROR_REGFAIL)
                  (Value (ucast appl)) c)
         }
         else if CAPIMSG_SUBCOMMAND U (recvbuffer c) = TYPE_RELEASE_APP then
           map_option snd (local_release_appl U appl c)
         else if CAPIMSG_SUBCOMMAND U (recvbuffer c) = TYPE_SHUTDOWN then Some (c\<lparr>c2p_shutdown := True\<rparr>)
         else Some c
       else map_option snd (send_to_server U (nat len) c)
     }
   }"

text \<open>
  The loop runs until it is told to stop: at most \<open>n\<close> rounds of it. The result says
  whether it has ended; then the node and the socket have been closed.
\<close>

fun main_loop :: "capiutil \<Rightarrow> nat \<Rightarrow> client \<Rightarrow> (bool \<times> client) option" where
  "main_loop U n c =
     (if c2p_shutdown c then Some (True, c\<lparr>node_log := node_log c @ [NodeClose]\<rparr>)
      else case n of 0 \<Rightarrow> Some (False, c)
           | Suc n \<Rightarrow> (case main_round U c of None \<Rightarrow> None | Some c \<Rightarrow> main_loop U n c))"

declare main_loop.simps [simp del]

definition main_client :: "capiutil \<Rightarrow> bool \<Rightarrow> bool \<Rightarrow> nat \<Rightarrow> client \<Rightarrow> (bool \<times> client) option" where
  "main_client U socket_ok connect_ok n c = do {
     (r, c) \<leftarrow> init_socket socket_ok connect_ok c;
     (r, c) \<leftarrow> init_module U c;
     main_loop U n c
   }"

definition sighandler :: "signal \<Rightarrow> client \<Rightarrow> client" where
  "sighandler sig c = (if sig = SIGINT then c\<lparr>c2p_shutdown := True\<rparr> else c)"

text \<open>
  \<^verbatim>\<open>become_daemon\<close> of \<^verbatim>\<open>linux-client/daemon/src/unix.c\<close>: as in the server, but without signal handlers.
  The program does not call it.
\<close>

definition become_daemon_client :: "process \<Rightarrow> control \<times> process" where
  "become_daemon_client p =
     (let (r, p) = sys_fork_proc p in
      if r = -1 then (Exited 1, p)
      else if r \<noteq> 0 then (Exited 0, p)
      else let p = setsid p; (r, p) = sys_fork_proc p in
        if r = -1 then (Exited 1, p)
        else if r \<noteq> 0 then (Exited 0, p)
        else (Returned 0, p\<lparr>cwd := ''/'', umask_bits := 0, std_open := False\<rparr>))"

section \<open>What the daemon sends\<close>

text \<open>The header of a composed request, and the packet \<open>client_send\<close> puts on the wire.\<close>

definition request_head :: "u32 \<Rightarrow> u32 \<Rightarrow> u32 \<Rightarrow> u32 \<Rightarrow> u32 \<Rightarrow> u32 \<Rightarrow> client \<Rightarrow> request_header" where
  "request_head bl dl ty app ctrl sess c =
     \<lparr>rq_message_len = 36 + bl + dl, rq_header_len = 36, rq_body_len = bl, rq_data_len = dl,
      rq_message_id = msgid c + 1, rq_message_type = ty, rq_app_id = app, rq_controller_id = ctrl,
      rq_session_id = sess\<rparr>"

lemma request_header_compose:
  "request_header_at (sendbuffer (compose bl dl ty app ctrl sess c)) = request_head bl dl ty app ctrl sess c"
  by (simp add: request_header_at_def compose_def set_req_def Let_def buf_simps request_head_def sizeof_defs)

lemma compose_outside: "36 \<le> i \<Longrightarrow> sendbuffer (compose bl dl ty app ctrl sess c) i = sendbuffer c i"
  by (simp add: compose_def set_req_def Let_def buf_simps)

lemma get_bytes_request: "36 \<le> n \<Longrightarrow>
  get_bytes b 0 n = encode_request_header (request_header_at b) @ get_bytes b 36 (n - 36)"
  using get_bytes_split [of 36 n b 0] by (simp add: encode_request_header_at)

text \<open>
  What is sent when the buffer holds a header and a body behind it. \<open>B\<close> is the buffer
  after the body has been written: the header in it is the composed one.
\<close>

lemma client_send_eq:
  assumes "request_header_at (sendbuffer c) = h" and "unat (rq_message_len h) = n"
    and "36 \<le> n" and "n \<le> BUFFER_SIZE"
  shows "\<exists>r rs. client_send c = Some (r, c\<lparr>c_send_rets := rs,
     c_tx := c_tx c @ [(encode_request_header h @ get_bytes (sendbuffer c) 36 (n - 36), r)]\<rparr>)"
proof -
  have "get32 (sendbuffer c) 0 = rq_message_len h" using assms(1) by (auto simp: request_header_at_def)
  then show ?thesis
    using assms by (auto simp: client_send_def get_bytes_chk_def get_bytes_request Let_def split: list.split)
qed

lemma remote_waitforsignal_sends:
  "\<exists>r ret c'. remote_waitforsignal appl c = Some (ret, c') \<and>
     c_tx c' = c_tx c @ [(encode_request_header
       (request_head 0 0 TYPE_CAPI_WAITFORSIGNAL (ucast appl) 1 (session_id c) c), r)] \<and>
     msgid c' = msgid c + 1 \<and> recvbuffer c' = recvbuffer c"
  using client_send_eq [OF request_header_compose, of 0 0 TYPE_CAPI_WAITFORSIGNAL "ucast appl" 1 "session_id c" c 36]
  by (auto simp: remote_waitforsignal_def request_head_def BUFFER_SIZE_def compose_keeps)

subsection \<open>Message ids and the shape of the requests\<close>

text \<open>
  Every request gets a fresh id: the ids of the requests sent so far are consecutive, and
  \<^verbatim>\<open>msgid\<close> is the last one. \<open>base\<close> is the value of \<^verbatim>\<open>msgid\<close> before the first request. And every request
  is a header with what follows it, without a body unless it is the greeting or a registration.
\<close>

definition daemon_head :: "request_header \<Rightarrow> bool" where
  "daemon_head h \<longleftrightarrow> rq_body_len h = 0 \<or> rq_message_type h \<in> {TYPE_PROXY_HELO, TYPE_CAPI_REGISTER}"

definition daemon_packet :: "byte list \<Rightarrow> bool" where
  "daemon_packet p \<longleftrightarrow> (\<exists>h rest. p = encode_request_header h @ rest \<and> daemon_head h \<and> length p \<le> BUFFER_SIZE)"

definition sent_ids :: "client \<Rightarrow> u32 list" where
  "sent_ids c = map (\<lambda>(p, r). rq_message_id (request_header_at (buffer_of p))) (c_tx c)"

lemma daemon_packetI: "daemon_head h \<Longrightarrow> 36 + length rest \<le> BUFFER_SIZE \<Longrightarrow> daemon_packet (encode_request_header h @ rest)"
  by (auto simp: daemon_packet_def)

definition ids_ok :: "u32 \<Rightarrow> client \<Rightarrow> bool" where
  "ids_ok base c \<longleftrightarrow> sent_ids c = map (\<lambda>i. base + 1 + of_nat i) [0..<length (c_tx c)] \<and>
     msgid c = base + of_nat (length (c_tx c)) \<and> (\<forall>(p, r) \<in> set (c_tx c). daemon_packet p)"

lemma ids_ok_send:
  assumes "ids_ok base c" and "request_header_at (sendbuffer c1) = h"
    and "rq_message_id h = msgid c + 1" and "36 \<le> unat (rq_message_len h)" and "unat (rq_message_len h) \<le> BUFFER_SIZE"
    and "c_tx c1 = c_tx c" and "msgid c1 = msgid c + 1" and "daemon_head h" and "client_send c1 = Some (r, c')"
  shows "ids_ok base c'"
proof -
  obtain rs r' where s: "client_send c1 = Some (r', c1\<lparr>c_send_rets := rs, c_tx := c_tx c1 @
      [(encode_request_header h @ get_bytes (sendbuffer c1) 36 (unat (rq_message_len h) - 36), r')]\<rparr>)"
    using client_send_eq [OF assms(2) refl assms(4,5)] by blast
  moreover have "daemon_packet (encode_request_header h @ get_bytes (sendbuffer c1) 36 (unat (rq_message_len h) - 36))"
    using assms(4,5,8) by (intro daemon_packetI) simp_all
  ultimately show ?thesis
    using assms by (auto simp: ids_ok_def sent_ids_def buffer_of_def request_header_at_encode add.commute add.left_commute)
qed

lemma ids_ok_frame: "ids_ok base c \<Longrightarrow> c_tx c' = c_tx c \<Longrightarrow> msgid c' = msgid c \<Longrightarrow> ids_ok base c'"
  by (simp add: ids_ok_def sent_ids_def)

lemma ids_ok_compose:
  assumes "ids_ok base c" and "client_send (compose bl dl ty app ctrl sess c) = Some (r, c')"
    and "36 \<le> unat (36 + bl + dl)" and "unat (36 + bl + dl) \<le> BUFFER_SIZE" and "bl = 0"
  shows "ids_ok base c'"
  by (rule ids_ok_send [OF assms(1) request_header_compose _ _ _ _ _ _ assms(2)])
    (use assms(3-5) in \<open>simp_all add: request_head_def compose_keeps daemon_head_def\<close>)

lemma ids_ok_header_only:
  assumes "client_send (compose 0 0 ty app ctrl sess c) = Some (r, c')" and "ids_ok base c"
  shows "ids_ok base c'"
proof -
  have "36 \<le> unat (36 + 0 + 0 :: u32)" "unat (36 + 0 + 0 :: u32) \<le> BUFFER_SIZE"
    by (simp_all add: BUFFER_SIZE_def)
  from ids_ok_compose [OF assms(2,1) this refl] show ?thesis .
qed

lemma remote_waitforsignal_ids:
  "remote_waitforsignal a c = Some (r, c') \<Longrightarrow> ids_ok base c \<Longrightarrow> ids_ok base c'"
  by (auto simp: remote_waitforsignal_def split: Option.bind_splits dest: ids_ok_header_only)

lemma remote_get_message_ids:
  "remote_get_message a c = Some (r, c') \<Longrightarrow> ids_ok base c \<Longrightarrow> ids_ok base c'"
  by (auto simp: remote_get_message_def split: Option.bind_splits dest: ids_ok_header_only)

lemma send_to_module_ids:
  "send_to_module U c = Some (r, c') \<Longrightarrow> ids_ok base c \<Longrightarrow> ids_ok base c'"
  by (auto simp: send_to_module_def Let_def node_write_def split: Option.bind_splits if_splits prod.splits list.splits
      elim!: ids_ok_frame)

lemma handle_serverpacket_ids:
  "handle_serverpacket U c = Some (r, c') \<Longrightarrow> ids_ok base c \<Longrightarrow> ids_ok base c'"
  by (auto simp: handle_serverpacket_def split: if_splits Option.bind_splits
      dest: remote_get_message_ids send_to_module_ids remote_waitforsignal_ids)

lemma client_recv_ids: "client_recv c = (n, c') \<Longrightarrow> ids_ok base c \<Longrightarrow> ids_ok base c'"
  by (auto simp: client_recv_def split: prod.splits elim!: ids_ok_frame)

text \<open>An invariant of receiving and handling packets is an invariant of waiting.\<close>

lemma wait_for_answer_invariant:
  assumes recv: "\<And>c n c'. I c \<Longrightarrow> client_recv c = (n, c') \<Longrightarrow> I c'"
    and handle: "\<And>c r c'. I c \<Longrightarrow> handle_serverpacket U c = Some (r, c') \<Longrightarrow> I c'"
  shows "I c \<Longrightarrow> wait_for_answer U ty c = Some c' \<Longrightarrow> I c'"
proof (induction "rx_size (c_rx c)" arbitrary: c rule: less_induct)
  case less
  obtain n d where d: "client_recv c = (n, d)" by fastforce
  note dok = recv [OF less.prems(1) d]
  show ?case
  proof (cases "n < 1 \<or> an_message_type (ans d) = ty")
    case True
    then show ?thesis using less.prems(2) dok unfolding wait_for_answer.simps [of U ty c] d prod.case
      by (auto split: if_splits)
  next
    case False
    then obtain r e where e: "handle_serverpacket U d = Some (r, e)"
      using less.prems(2) d by (auto simp: wait_for_answer.simps [of U ty c] split: option.splits)
    note eok = handle [OF dok e]
    have "recvbuffer e = recvbuffer d" "rx_size (c_rx e) < rx_size (c_rx c)"
      using handle_serverpacket_keeps [OF e] client_recv_progress [OF d] False by auto
    moreover from this(1) have "wait_for_answer U ty e = Some c'"
      using less.prems(2) d e False by (auto simp: wait_for_answer.simps [of U ty c])
    ultimately show ?thesis using less.hyps eok by blast
  qed
qed

lemma wait_for_answer_ids: "wait_for_answer U ty c = Some c' \<Longrightarrow> ids_ok base c \<Longrightarrow> ids_ok base c'"
  by (rule wait_for_answer_invariant [where I = "ids_ok base", rotated 2])
    (auto intro: client_recv_ids handle_serverpacket_ids)

text \<open>When the wait is over, the answer is there or the connection is not.\<close>

lemma wait_for_answer_result:
  "wait_for_answer U ty c = Some c' \<Longrightarrow>
     an_message_type (ans c') = ty \<or> (\<exists>d n. client_recv d = (n, c') \<and> n < 1)"
proof (induction "rx_size (c_rx c)" arbitrary: c rule: less_induct)
  case less
  obtain n d where d: "client_recv c = (n, d)" by fastforce
  show ?case
  proof (cases "n < 1 \<or> an_message_type (ans d) = ty")
    case True
    then have "c' = d" using less.prems unfolding wait_for_answer.simps [of U ty c] d prod.case
      by (auto split: if_splits)
    then show ?thesis using True d by auto
  next
    case False
    then obtain r e where e: "handle_serverpacket U d = Some (r, e)"
      using less.prems d by (auto simp: wait_for_answer.simps [of U ty c] split: option.splits)
    have "recvbuffer e = recvbuffer d" "rx_size (c_rx e) < rx_size (c_rx c)"
      using handle_serverpacket_keeps [OF e] client_recv_progress [OF d] False by auto
    moreover from this(1) have "wait_for_answer U ty e = Some c'"
      using less.prems d e False by (auto simp: wait_for_answer.simps [of U ty c])
    ultimately show ?thesis using less.hyps by blast
  qed
qed

lemma remote_query_ids: "remote_query U ty n c = Some (r, bs, c') \<Longrightarrow> ids_ok base c \<Longrightarrow> ids_ok base c'"
  unfolding remote_query_def Let_def
  by (auto split: Option.bind_splits if_splits) (blast intro: ids_ok_header_only wait_for_answer_ids)+

lemma set_req_keeps:
  "recvbuffer (set_req off v c) = recvbuffer c" "c_tx (set_req off v c) = c_tx c"
  "c_rx (set_req off v c) = c_rx c" "msgid (set_req off v c) = msgid c" "session_id (set_req off v c) = session_id c"
  "sendbuffer (set_req off v c) = put32 off v (sendbuffer c)"
  "applmap_rtl (set_req off v c) = applmap_rtl c" "applmap_ltr (set_req off v c) = applmap_ltr c"
  by (simp_all add: set_req_def)

lemma request_header_put32: "36 \<le> off \<Longrightarrow> request_header_at (put32 off v b) = request_header_at b"
  by (simp add: request_header_at_def buf_simps)

lemma request_header_put_bytes: "36 \<le> off \<Longrightarrow> request_header_at (put_bytes off bs b) = request_header_at b"
  by (simp add: request_header_at_def buf_simps)

lemma remote_register_ids:
  assumes "ids_ok base c" and "remote_register_appl U l b n c = Some (r, a, c')"
  shows "ids_ok base c'"
proof -
  define c1 where "c1 = set_req 48 n (set_req 44 b (set_req 40 l (set_req 36 (1024 * l)
     (compose (of_nat sizeof_REQUEST_CAPI_REGISTER) 0 TYPE_CAPI_REGISTER 0 1 (session_id c) c))))"
  have send: "ids_ok base d" if "client_send c1 = Some (ret, d)" for ret d
    by (rule ids_ok_send [OF assms(1) _ _ _ _ _ _ _ that, where h =
          "request_head (of_nat sizeof_REQUEST_CAPI_REGISTER) 0 TYPE_CAPI_REGISTER 0 1 (session_id c) c"])
      (simp_all add: c1_def set_req_keeps request_header_put32 request_header_compose compose_keeps
        request_head_def sizeof_defs BUFFER_SIZE_def daemon_head_def)
  show ?thesis
    using assms(2) unfolding remote_register_appl_def Let_def c1_def [symmetric]
    by (auto split: Option.bind_splits if_splits dest!: send)
      (blast intro: remote_waitforsignal_ids wait_for_answer_ids)+
qed

lemma remote_release_ids: "remote_release_appl U a c = Some (r, c') \<Longrightarrow> ids_ok base c \<Longrightarrow> ids_ok base c'"
  unfolding remote_release_appl_def Let_def
  by (auto split: Option.bind_splits if_splits) (blast intro: ids_ok_header_only wait_for_answer_ids)+

subsection \<open>The packets of a request\<close>

definition server_message :: "capiutil \<Rightarrow> client \<Rightarrow> buffer" where
  "server_message U c =
     (let b = CAPIMSG_SETAPPID U (applmap_ltr c (unat (CAPIMSG_APPID U (recvbuffer c)))) (recvbuffer c)
      in CAPIMSG_SETCONTROL U ((CAPIMSG_NCCI U b AND 0xFFFFFF80) + 1) b)"

definition put_request :: "capiutil \<Rightarrow> nat \<Rightarrow> client \<Rightarrow> byte list" where
  "put_request U len c = encode_request_header (request_head 0 (of_nat len) TYPE_CAPI_PUTMESSAGE
     (ucast (CAPIMSG_APPID U (server_message U c))) 1 (session_id c) c) @ get_bytes (server_message U c) 0 len"

lemma unat_36: "36 + len \<le> BUFFER_SIZE \<Longrightarrow> unat (36 + 0 + of_nat len :: u32) = 36 + len"
proof -
  assume a: "36 + len \<le> BUFFER_SIZE"
  have "(36 + 0 + of_nat len :: u32) = of_nat (36 + len)" by simp
  also have "unat \<dots> = 36 + len" using a by (simp only: unat_of_nat BUFFER_SIZE_def) simp
  finally show ?thesis .
qed

text \<open>The composed request is what goes on the wire.\<close>

lemma send_to_server_eq:
  assumes "unat (CAPIMSG_APPID U (recvbuffer c)) \<le> K_MAXAPPL U" and "36 + len \<le> BUFFER_SIZE"
  shows "\<exists>r d. send_to_server U len c =
      (if r < 1 then Some (0, d)
       else do { c \<leftarrow> wait_for_answer U TYPE_CAPI_PUTMESSAGE d;
                 Some (if an_proxy_error (ans c) \<noteq> PERROR_NONE then 0 else 1, c) }) \<and>
     c_tx d = c_tx c @ [(put_request U len c, r)] \<and> msgid d = msgid c + 1 \<and> recvbuffer d = server_message U c"
proof -
  let ?h = "request_head 0 (of_nat len) TYPE_CAPI_PUTMESSAGE (ucast (CAPIMSG_APPID U (server_message U c))) 1 (session_id c) c"
  define c1 where "c1 = compose 0 (of_nat len) TYPE_CAPI_PUTMESSAGE
      (ucast (CAPIMSG_APPID U (server_message U c))) 1 (session_id c) (c\<lparr>recvbuffer := server_message U c\<rparr>)"
  define c2 where "c2 = c1\<lparr>sendbuffer := put_bytes 36 (get_bytes (server_message U c) 0 len) (sendbuffer c1)\<rparr>"
  have h1: "request_header_at (sendbuffer c1) = ?h"
    by (simp add: c1_def request_header_compose request_head_def)
  then have h: "request_header_at (sendbuffer c2) = ?h" by (simp add: c2_def request_header_put_bytes)
  have len: "unat (rq_message_len ?h) = 36 + len" using unat_36 [OF assms(2)] by (simp add: request_head_def)
  obtain r rs where s: "client_send c2 = Some (r, c2\<lparr>c_send_rets := rs,
      c_tx := c_tx c2 @ [(encode_request_header ?h @ get_bytes (sendbuffer c2) 36 (36 + len - 36), r)]\<rparr>)"
    using client_send_eq [OF h len] assms(2) by auto
  have pkt: "encode_request_header ?h @ get_bytes (sendbuffer c2) 36 (36 + len - 36) = put_request U len c"
    by (simp add: c2_def put_bytes_same put_request_def)
  have off: "unat (ucast (get32 (sendbuffer c1) 4 + get32 (sendbuffer c1) 8) :: u16) = 36"
    using h1 by (simp add: request_header_at_def request_head_def)
  have sm: "CAPIMSG_SETCONTROL U ((CAPIMSG_NCCI U (CAPIMSG_SETAPPID U
      (applmap_ltr c (unat (CAPIMSG_APPID U (recvbuffer c)))) (recvbuffer c)) AND 0xFFFFFF80) + 1)
      (CAPIMSG_SETAPPID U (applmap_ltr c (unat (CAPIMSG_APPID U (recvbuffer c)))) (recvbuffer c)) = server_message U c"
    by (simp add: server_message_def Let_def)
  have rb: "recvbuffer c1 = server_message U c" by (simp add: c1_def compose_keeps)
  define d where "d = c2\<lparr>c_send_rets := rs, c_tx := c_tx c2 @ [(put_request U len c, r)]\<rparr>"
  have "send_to_server U len c =
      (if r < 1 then Some (0, d)
       else do { c \<leftarrow> wait_for_answer U TYPE_CAPI_PUTMESSAGE d;
                 Some (if an_proxy_error (ans c) \<noteq> PERROR_NONE then 0 else 1, c) })"
    using assms unfolding send_to_server_def Let_def
    by (simp add: sm compose_keeps c1_def [symmetric] off rb get_bytes_chk_def put_bytes_chk_def)
      (simp add: c2_def [symmetric] s pkt [simplified] d_def)
  moreover have "c_tx d = c_tx c @ [(put_request U len c, r)]" "msgid d = msgid c + 1" "recvbuffer d = server_message U c"
    by (simp_all add: d_def c2_def c1_def compose_keeps)
  ultimately show ?thesis by blast
qed

text \<open>What has been sent stays sent.\<close>

lemma wait_for_answer_tx:
  assumes "wait_for_answer U ty c = Some c'"
  shows "\<exists>rest. c_tx c' = c_tx c @ rest"
proof (rule wait_for_answer_invariant [where I = "\<lambda>d. \<exists>rest. c_tx d = c_tx c @ rest" and c = c and U = U and ty = ty])
  fix d n d' assume "\<exists>rest. c_tx d = c_tx c @ rest" "client_recv d = (n, d')"
  then show "\<exists>rest. c_tx d' = c_tx c @ rest" by (auto simp: client_recv_def split: prod.splits)
next
  fix d r d' assume "\<exists>rest. c_tx d = c_tx c @ rest" "handle_serverpacket U d = Some (r, d')"
  then show "\<exists>rest. c_tx d' = c_tx c @ rest"
    by (auto simp: handle_serverpacket_def remote_get_message_def remote_waitforsignal_def
        send_to_module_def node_write_def Let_def compose_keeps
        split: if_splits Option.bind_splits list.splits prod.splits elim!: client_send_cases)
qed (use assms in auto)

lemma remote_query_sends:
  assumes "remote_query U ty n c = Some (k, bs, c')"
  shows "\<exists>r rest. c_tx c' = c_tx c @ (encode_request_header (request_head 0 0 ty 0 1 (session_id c) c), r) # rest"
proof -
  let ?c = "compose 0 0 ty 0 1 (session_id c) c"
  obtain r rs where s: "client_send ?c = Some (r, ?c\<lparr>c_send_rets := rs, c_tx := c_tx c @
      [(encode_request_header (request_head 0 0 ty 0 1 (session_id c) c), r)]\<rparr>)"
    using client_send_eq [OF request_header_compose, of 0 0 ty 0 1 "session_id c" c 36]
    by (auto simp: request_head_def BUFFER_SIZE_def compose_keeps)
  show ?thesis
    using assms unfolding remote_query_def Let_def s
    by (auto split: if_splits Option.bind_splits dest!: wait_for_answer_tx)
qed

definition register_request :: "u32 \<Rightarrow> u32 \<Rightarrow> u32 \<Rightarrow> client \<Rightarrow> byte list" where
  "register_request l b n c = encode_request_header
     (request_head 16 0 TYPE_CAPI_REGISTER 0 1 (session_id c) c) @
     bytes_le 4 (1024 * l) @ bytes_le 4 l @ bytes_le 4 b @ bytes_le 4 n"

lemma remote_register_sends:
  assumes "remote_register_appl U l b n c = Some (k, a, c')"
  shows "\<exists>r rest. c_tx c' = c_tx c @ (register_request l b n c, r) # rest"
proof -
  define c1 where "c1 = set_req 48 n (set_req 44 b (set_req 40 l (set_req 36 (1024 * l)
     (compose (of_nat sizeof_REQUEST_CAPI_REGISTER) 0 TYPE_CAPI_REGISTER 0 1 (session_id c) c))))"
  let ?h = "request_head 16 0 TYPE_CAPI_REGISTER 0 1 (session_id c) c"
  have h: "request_header_at (sendbuffer c1) = ?h"
    by (simp add: c1_def set_req_keeps request_header_put32 request_header_compose sizeof_defs)
  have "get_bytes (sendbuffer c1) 36 16 = bytes_le 4 (1024 * l) @ bytes_le 4 l @ bytes_le 4 b @ bytes_le 4 n"
    by (simp add: c1_def set_req_keeps get_bytes_4words buf_simps)
  then obtain r rs where s: "client_send c1 = Some (r, c1\<lparr>c_send_rets := rs, c_tx := c_tx c @ [(register_request l b n c, r)]\<rparr>)"
    using client_send_eq [OF h, of 52]
    by (auto simp: request_head_def BUFFER_SIZE_def c1_def set_req_keeps compose_keeps register_request_def)
  show ?thesis
    using assms unfolding remote_register_appl_def Let_def c1_def [symmetric] s
    by (auto simp: remote_waitforsignal_def compose_keeps split: if_splits Option.bind_splits
        dest!: wait_for_answer_tx elim!: client_send_cases)
qed

subsection \<open>Application ids\<close>

lemma wait_for_answer_maps:
  assumes "wait_for_answer U ty c = Some c'"
  shows "applmap_rtl c' = applmap_rtl c \<and> applmap_ltr c' = applmap_ltr c \<and> session_id c' = session_id c"
proof (rule wait_for_answer_invariant [where c = c and U = U and ty = ty and
      I = "\<lambda>d. applmap_rtl d = applmap_rtl c \<and> applmap_ltr d = applmap_ltr c \<and> session_id d = session_id c"])
qed (use assms in \<open>auto simp: client_recv_def split: prod.splits dest: handle_serverpacket_keeps\<close>)

lemma remote_register_maps:
  "remote_register_appl U l b n c = Some (k, a, c') \<Longrightarrow>
     applmap_rtl c' = applmap_rtl c \<and> applmap_ltr c' = applmap_ltr c"
  unfolding remote_register_appl_def Let_def
  by (auto simp: remote_waitforsignal_def compose_keeps set_req_keeps split: if_splits Option.bind_splits
      dest!: wait_for_answer_maps elim!: client_send_cases)

lemma local_register_appl_maps:
  assumes "local_register_appl U a c = Some (1, c')"
  shows "\<exists>r. applmap_ltr c' = (applmap_ltr c)(unat a := r) \<and> applmap_rtl c' = (applmap_rtl c)(unat r := a)"
  using assms
  by (auto simp: local_register_appl_def split: if_splits Option.bind_splits dest!: remote_register_maps) blast

text \<open>
  The two tables are inverse to each other on a set of registered pairs, as long as the
  server does not hand out an id that is in use.
\<close>

definition maps_inverse :: "u16 set \<Rightarrow> client \<Rightarrow> bool" where
  "maps_inverse A c \<longleftrightarrow> (\<forall>a \<in> A. applmap_rtl c (unat (applmap_ltr c (unat a))) = a)"

lemma local_register_appl_inverse:
  assumes "local_register_appl U a c = Some (1, c')" and "maps_inverse A c"
    and "\<forall>b \<in> A - {a}. applmap_ltr c' (unat a) \<noteq> applmap_ltr c (unat b)"
  shows "maps_inverse (insert a A) c'"
proof -
  obtain r where r: "applmap_ltr c' = (applmap_ltr c)(unat a := r)" "applmap_rtl c' = (applmap_rtl c)(unat r := a)"
    using local_register_appl_maps [OF assms(1)] by blast
  have inj: "unat x = unat y \<longleftrightarrow> x = y" for x y :: u16 by (metis word_unat_eq_iff)
  show ?thesis using assms(2,3) unfolding maps_inverse_def r by (auto simp: inj)
qed

subsection \<open>Message ids over the whole run\<close>

lemma ids_ok_sent:
  assumes "ids_ok base c" and "c_tx d = c_tx c @ [(encode_request_header h @ bs, r)]"
    and "rq_message_id h = msgid c + 1" and "msgid d = msgid c + 1" and "daemon_head h" and "36 + length bs \<le> BUFFER_SIZE"
  shows "ids_ok base d"
  using assms daemon_packetI [of h bs] by (auto simp: ids_ok_def sent_ids_def buffer_of_def request_header_at_encode add.commute add.left_commute)

lemma send_to_server_ids:
  assumes "ids_ok base c" and "send_to_server U len c = Some (k, c')"
  shows "ids_ok base c'"
proof -
  have i: "unat (CAPIMSG_APPID U (recvbuffer c)) \<le> K_MAXAPPL U"
    using assms(2) by (auto simp: send_to_server_def Let_def split: if_splits)
  have len: "36 + len \<le> BUFFER_SIZE"
  proof (rule ccontr)
    assume n: "\<not> 36 + len \<le> BUFFER_SIZE"
    have o: "unat (ucast (get32 (sendbuffer (compose 0 x ty app ct se e)) 4 +
        get32 (sendbuffer (compose 0 x ty app ct se e)) 8) :: u16) = 36" for x ty app ct se e
      using request_header_compose [of 0 x ty app ct se e] by (simp add: request_header_at_def request_head_def)
    show False using assms(2) n i
      by (auto simp: send_to_server_def Let_def o get_bytes_chk_def put_bytes_chk_def split: if_splits)
  qed
  from send_to_server_eq [OF i len] obtain r d where d: "send_to_server U len c =
      (if r < 1 then Some (0, d)
       else do { c \<leftarrow> wait_for_answer U TYPE_CAPI_PUTMESSAGE d;
                 Some (if an_proxy_error (ans c) \<noteq> PERROR_NONE then 0 else 1, c) })"
    "c_tx d = c_tx c @ [(put_request U len c, r)]" "msgid d = msgid c + 1" by blast
  have "ids_ok base d"
    by (rule ids_ok_sent [OF assms(1) d(2) [unfolded put_request_def]]) (simp_all add: request_head_def d(3) daemon_head_def len)
  then show ?thesis
    using assms(2) d(1) by (auto split: if_splits Option.bind_splits intro: wait_for_answer_ids)
qed

lemma ids_ok_update:
  "ids_ok base (c\<lparr>applmap_rtl := f, applmap_ltr := g\<rparr>) \<longleftrightarrow> ids_ok base c"
  "ids_ok base (c\<lparr>node_log := es\<rparr>) \<longleftrightarrow> ids_ok base c"
  by (simp_all add: ids_ok_def sent_ids_def)

lemma local_register_ids:
  "local_register_appl U a c = Some (k, c') \<Longrightarrow> ids_ok base c \<Longrightarrow> ids_ok base c'"
  by (auto simp: local_register_appl_def ids_ok_update split: if_splits Option.bind_splits)
    (blast intro: remote_register_ids)+

lemma node_ops_ids:
  "node_read c = (n, c') \<Longrightarrow> ids_ok base c \<Longrightarrow> ids_ok base c'"
  "ids_ok base (node_ioctl k arg c) \<longleftrightarrow> ids_ok base c"
  by (auto simp: node_read_def node_ioctl_def ids_ok_def sent_ids_def split: list.splits option.splits if_splits)

lemma init_socket_ids:
  assumes "init_socket so co c = Some (k, c')" and "ids_ok base c"
  shows "ids_ok base c'"
proof (cases "so \<and> co")
  case True
  define c1 where "c1 = set_req 108 1 (set_req 104 1 (set_req 100 OS_TYPE_LINUX
     ((\<lambda>c. c\<lparr>sendbuffer := put_bytes 36 (string_bytes ''Freddy'' @ [0]) (sendbuffer c)\<rparr>)
        (compose (of_nat sizeof_REQUEST_PROXY_HELO) 0 TYPE_PROXY_HELO 0 0 0 c))))"
  have send: "ids_ok base d" if "client_send c1 = Some (ret, d)" for ret d
    by (rule ids_ok_send [OF assms(2) _ _ _ _ _ _ _ that, where h =
          "request_head (of_nat sizeof_REQUEST_PROXY_HELO) 0 TYPE_PROXY_HELO 0 0 0 c"])
      (simp_all add: c1_def set_req_keeps request_header_put32 request_header_put_bytes
        request_header_compose compose_keeps request_head_def sizeof_defs BUFFER_SIZE_def daemon_head_def)
  have "ids_ok base d \<Longrightarrow> ids_ok base (d\<lparr>session_id := x\<rparr>)" for d x by (erule ids_ok_frame) simp_all
  then show ?thesis
    using assms True unfolding init_socket_def Let_def
    by (auto simp: c1_def [symmetric] split: Option.bind_splits if_splits prod.splits
        dest!: send client_recv_ids)
qed (use assms in \<open>auto simp: init_socket_def\<close>)

lemma init_module_ids:
  "init_module U c = Some (k, c') \<Longrightarrow> ids_ok base c \<Longrightarrow> ids_ok base c'"
  unfolding init_module_def remote_get_manufacturer_def remote_get_version_def remote_get_serial_def
    remote_get_profile_def
  by (auto simp: node_ops_ids ids_ok_update Let_def split: Option.bind_splits if_splits)
    (blast intro: remote_query_ids)+

lemma main_round_ids:
  assumes "main_round U c = Some c'" and "ids_ok base c"
  shows "ids_ok base c'"
proof -
  obtain n d where d: "client_recv c = (n, d)" by fastforce
  have "ids_ok base d" by (rule client_recv_ids [OF d assms(2)])
  then obtain e where e: "ids_ok base e"
      "(if \<not> n < 0 then map_option snd (handle_serverpacket U d) else Some d) = Some e"
    using assms(1) d by (auto simp: main_round_def split: if_splits Option.bind_splits intro: handle_serverpacket_ids)
  obtain m f where f: "node_read e = (m, f)" by fastforce
  have fok: "ids_ok base f" by (rule node_ops_ids(1) [OF f e(1)])
  then have "ids_ok base (f\<lparr>c2p_shutdown := True\<rparr>)" by (rule ids_ok_frame) simp_all
  with fok show ?thesis
    using assms(1) unfolding main_round_def Let_def d prod.case e(2) bind.bind_lunit f
    by (auto simp: node_ops_ids local_release_appl_def split: if_splits Option.bind_splits
        dest: local_register_ids remote_release_ids send_to_server_ids)
qed

lemma main_loop_ids: "main_loop U n c = Some (b, c') \<Longrightarrow> ids_ok base c \<Longrightarrow> ids_ok base c'"
proof (induction n arbitrary: c)
  case 0
  then show ?case by (subst (asm) main_loop.simps) (auto split: if_splits elim!: ids_ok_frame)
next
  case (Suc n)
  then show ?case
    by (subst (asm) main_loop.simps)
      (auto split: if_splits option.splits intro: ids_ok_frame dest: main_round_ids)
qed

lemma main_client_ids: "main_client U so co n c = Some (b, c') \<Longrightarrow> ids_ok base c \<Longrightarrow> ids_ok base c'"
  unfolding main_client_def
  by (auto split: Option.bind_splits dest!: init_socket_ids init_module_ids main_loop_ids)

subsection \<open>Runs that succeed\<close>

text \<open>Greeting and registering never leave the buffers.\<close>

lemma init_socket_total: "\<exists>k c'. init_socket so co c = Some (k, c')"
proof (cases "so \<and> co")
  case True
  define c1 where "c1 = set_req 108 1 (set_req 104 1 (set_req 100 OS_TYPE_LINUX
     ((\<lambda>c. c\<lparr>sendbuffer := put_bytes 36 (string_bytes ''Freddy'' @ [0]) (sendbuffer c)\<rparr>)
        (compose (of_nat sizeof_REQUEST_PROXY_HELO) 0 TYPE_PROXY_HELO 0 0 0 c))))"
  have "request_header_at (sendbuffer c1) = request_head 76 0 TYPE_PROXY_HELO 0 0 0 c"
    by (simp add: c1_def set_req_keeps request_header_put32 request_header_put_bytes request_header_compose sizeof_defs)
  from client_send_eq [OF this, of 112] obtain r d where "client_send c1 = Some (r, d)"
    by (auto simp: request_head_def BUFFER_SIZE_def)
  then show ?thesis using True unfolding init_socket_def Let_def
    by (simp add: c1_def split: prod.splits)
qed (auto simp: init_socket_def)

lemma waitforsignal_total: "\<exists>k c'. remote_waitforsignal a c = Some (k, c') \<and> applmap_ltr c' = applmap_ltr c"
proof -
  let ?h = "request_head 0 0 TYPE_CAPI_WAITFORSIGNAL (ucast a) 1 (session_id c) c"
  let ?c = "compose 0 0 TYPE_CAPI_WAITFORSIGNAL (ucast a) 1 (session_id c) c"
  from client_send_eq [OF request_header_compose [of 0 0 TYPE_CAPI_WAITFORSIGNAL "ucast a" 1 "session_id c" c], of 36]
  obtain r rs tx where "client_send ?c = Some (r, ?c\<lparr>c_send_rets := rs, c_tx := tx\<rparr>)"
    by (auto simp: request_head_def BUFFER_SIZE_def)
  then show ?thesis unfolding remote_waitforsignal_def Let_def by (simp add: compose_keeps)
qed

lemma remote_register_answered:
  assumes "c_rx c = [Data (answer_packet h [])]" and "an_message_type h = TYPE_CAPI_REGISTER"
    and "an_proxy_error h = PERROR_NONE" and "c_send_rets c = []"
  shows "\<exists>c'. remote_register_appl U l b n c = Some (1, ucast (an_app_id h), c')"
proof -
  define c1 where "c1 = set_req 48 n (set_req 44 b (set_req 40 l (set_req 36 (1024 * l)
     (compose (of_nat sizeof_REQUEST_CAPI_REGISTER) 0 TYPE_CAPI_REGISTER 0 1 (session_id c) c))))"
  let ?h = "request_head 16 0 TYPE_CAPI_REGISTER 0 1 (session_id c) c"
  have hd: "request_header_at (sendbuffer c1) = ?h"
    by (simp add: c1_def set_req_keeps request_header_put32 request_header_compose sizeof_defs)
  have len: "get32 (sendbuffer c1) 0 = 52" using hd by (simp add: request_header_at_def request_head_def)
  have rets: "c_send_rets c1 = []" "c_rx c1 = c_rx c"
    using assms(4) by (simp_all add: c1_def set_req_def compose_def Let_def)
  have s: "client_send c1 = Some (52, c1\<lparr>c_tx := c_tx c1 @ [(get_bytes (sendbuffer c1) 0 52, 52)]\<rparr>)"
    (is "_ = Some (52, ?d)")
    using rets by (simp add: client_send_def len get_bytes_chk_def BUFFER_SIZE_def)
  let ?e = "?d\<lparr>c_rx := [], recvbuffer := put_bytes 0 (answer_packet h []) (recvbuffer ?d)\<rparr>"
  have hh: "ans ?e = h" using answer_header_at_encode [of h "[]"] by (simp add: answer_packet_def)
  have w: "wait_for_answer U TYPE_CAPI_REGISTER ?d = Some ?e"
    using assms(1,2) hh
    by (subst wait_for_answer.simps) (simp add: client_recv_def rets BUFFER_SIZE_def)
  obtain k c' where "remote_waitforsignal (ucast (an_app_id h)) ?e = Some (k, c')"
    using waitforsignal_total by blast
  with w hh s show ?thesis
    using assms(3) unfolding remote_register_appl_def Let_def c1_def [symmetric] by simp
qed

lemma remote_query_data:
  "remote_query U ty n c = Some (k, bs, c') \<Longrightarrow> k \<noteq> 0 \<Longrightarrow> length bs = n"
  unfolding remote_query_def Let_def
  by (auto simp: get_bytes_chk_def split: Option.bind_splits if_splits)

lemma init_module_data:
  assumes "capiutil_documented U" and "init_module U c = Some (1, c')"
  shows "\<exists>ma ve se pr. last (node_log c') = NodeIoctl IOCTL_SET_DATA
       (Pointer (bytes_le 4 (152 :: u32) @ ma @ ve @ se @ pr)) \<and>
     length ma = 64 \<and> length ve = 16 \<and> length se = 8 \<and> length pr = 64"
  using assms(2) unfolding init_module_def node_ioctl_def remote_get_manufacturer_def remote_get_version_def
    remote_get_serial_def remote_get_profile_def
  by (auto simp: Let_def capiutil_laws [OF assms(1)] split: Option.bind_splits if_splits)
    (blast dest: remote_query_data)

text \<open>
  A connection that has ended is not noticed: the query is taken as answered by what
  the buffer held before.
\<close>

definition unanswered :: "client \<Rightarrow> bool" where
  "unanswered c \<longleftrightarrow> c_rx c = [] \<and> c_send_rets c = [] \<and> recvbuffer c = (\<lambda>_. 0)"

lemma remote_query_unanswered:
  assumes "unanswered c" and "n \<le> BUFFER_SIZE"
  shows "\<exists>c'. remote_query U ty n c = Some (1, replicate n 0, c') \<and> unanswered c'"
proof -
  let ?d = "compose 0 0 ty 0 1 (session_id c) c"
  have h: "get32 (sendbuffer ?d) 0 = 36"
    using request_header_compose [of 0 0 ty 0 1 "session_id c" c]
    by (simp add: request_header_at_def request_head_def)
  have z: "get32 (\<lambda>_. 0) off = 0" for off by (simp add: get32_def get_bytes_def word_le_def upt_rec)
  then have a: "answer_header_at (\<lambda>_. 0) = \<lparr>an_message_len = 0, an_header_len = 0, an_body_len = 0, an_data_len = 0,
      an_message_id = 0, an_message_type = 0, an_app_id = 0, an_session_id = 0, an_proxy_error = 0, an_capi_error = 0\<rparr>"
    by (simp add: answer_header_at_def)
  have g: "get_bytes (\<lambda>_. 0) 0 n = replicate n 0" by (simp add: get_bytes_def map_replicate_const)
  have w: "wait_for_answer U ty e = Some e" if "unanswered e" for e
    using that by (subst wait_for_answer.simps) (simp add: client_recv_def unanswered_def)
  have "client_send ?d = Some (36, ?d\<lparr>c_tx := c_tx c @ [(get_bytes (sendbuffer ?d) 0 36, 36)]\<rparr>)" (is "_ = Some (36, ?e)")
    using assms(1) by (simp add: client_send_def h get_bytes_chk_def BUFFER_SIZE_def compose_keeps unanswered_def)
  moreover have u: "unanswered ?e" using assms(1) by (simp add: unanswered_def compose_keeps)
  ultimately show ?thesis
    using w [OF u] u assms(2) unfolding remote_query_def Let_def
    by (simp add: unanswered_def compose_keeps a g PERROR_NONE_def get_bytes_chk_def)
qed

lemma init_module_unanswered:
  assumes "c_rx c = []" and "c_send_rets c = []" and "recvbuffer c = (\<lambda>_. 0)"
    and "K_MANUFACTURER_LEN U \<le> BUFFER_SIZE" and "K_sizeof_version U \<le> BUFFER_SIZE"
    and "K_SERIAL_LEN U \<le> BUFFER_SIZE" and "K_sizeof_profile U \<le> BUFFER_SIZE"
  shows "\<exists>c'. init_module U c = Some (1, c')"
proof -
  have "unanswered c" using assms(1-3) by (simp add: unanswered_def)
  then obtain c1 where 1: "remote_get_manufacturer U c = Some (1, replicate (K_MANUFACTURER_LEN U) 0, c1)" "unanswered c1"
    unfolding remote_get_manufacturer_def using remote_query_unanswered assms(4) by blast
  then obtain c2 where 2: "remote_get_version U c1 = Some (1, replicate (K_sizeof_version U) 0, c2)" "unanswered c2"
    unfolding remote_get_version_def using remote_query_unanswered assms(5) by blast
  then obtain c3 where 3: "remote_get_serial U c2 = Some (1, replicate (K_SERIAL_LEN U) 0, c3)" "unanswered c3"
    unfolding remote_get_serial_def using remote_query_unanswered assms(6) by blast
  then obtain c4 where "remote_get_profile U c3 = Some (1, replicate (K_sizeof_profile U) 0, c4)"
    unfolding remote_get_profile_def using remote_query_unanswered assms(7) by blast
  with 1 2 3 show ?thesis by (simp add: init_module_def Let_def)
qed

end
