(* ===== verification/Module.thy ===== *)
theory Module
  imports CapiUtil
begin

text \<open>
  The Linux kernel module, \<^verbatim>\<open>linux-client/module/capi20proxy.c\<close>: a driver that gives the kernel's
  CAPI layer up to four virtual controllers (cards). Messages of the CAPI layer go into the
  queue of the card, from which the daemon reads them through the device node; what the daemon
  writes to the node is handed to the CAPI layer.

  State: the static variables of the file, a log of the calls into the CAPI layer and of the
  freed socket buffers, and scripts of what the kernel answers: the results of \<^verbatim>\<open>alloc_skb\<close> (the
  contents of the memory, or a failure), of \<^verbatim>\<open>attach_ctr\<close> and of \<^verbatim>\<open>copy_to_user\<close>. A queue of
  socket buffers is a list. The argument \<^verbatim>\<open>ctrl\<close> of the driver callbacks is given by the index of
  the card that is its \<^verbatim>\<open>driverdata\<close>. Output with \<^verbatim>\<open>printk\<close> and the locks are not modelled: the
  functions are taken to run one after the other. \<open>None\<close> is an access outside a table or through
  a null pointer.
\<close>

section \<open>State\<close>

record sk_buff =
  sk_data :: buffer
  sk_len :: nat
  sk_tail :: nat

record capi_ctr =
  cnr :: u32
  manu :: "byte list"
  capi_version :: "byte list"
  serial :: "byte list"
  profile :: "byte list"

record card =
  status :: byte
  ctrl :: "capi_ctr option"
  outgoing_queue :: "sk_buff list"
  cardname :: string
  versionlen :: int
  version :: string
  in_sk :: int
  out_sk :: int
  sk_pending :: int
  applications :: "nat \<Rightarrow> byte"

datatype kcapi_event =
    appl_registered nat u16 | appl_released nat u16 | reseted nat | ready nat | suspend_output nat
  | new_ncci nat u16 u32 u32 | free_ncci nat u16 u32 | handle_capimsg nat u16 sk_buff
  | attach_ctr nat | detach_ctr nat | attach_capi_driver | detach_capi_driver
  | register_chrdev | unregister_chrdev | wake_up nat | queue_task | kfree_skb sk_buff

record kmodule =
  cards :: "nat \<Rightarrow> card"
  di :: bool
  klog :: "kcapi_event list"
  skb_mem :: "buffer option list"
  attach_rets :: "capi_ctr option list"
  copy_rets :: "nat list"

definition CAPIPROXY_MAXCONTR :: nat where "CAPIPROXY_MAXCONTR = 4"
definition CAPIPROXY_VERSIONLEN :: int where "CAPIPROXY_VERSIONLEN = 8"
definition MAX_SK_PENDING :: int where "MAX_SK_PENDING = 32"

definition APPL_FREE :: byte where "APPL_FREE = 0"
definition APPL_CONFIRMED :: byte where "APPL_CONFIRMED = 1"
definition APPL_WAITING :: byte where "APPL_WAITING = 2"
definition APPL_REVOKED :: byte where "APPL_REVOKED = 3"

definition CARD_FREE :: byte where "CARD_FREE = 0"
definition CARD_RUNNING :: byte where "CARD_RUNNING = 1"
definition CARD_REMOVING :: byte where "CARD_REMOVING = 2"
definition CARD_NOT_READY :: byte where "CARD_NOT_READY = 3"

text \<open>Error numbers: \<^verbatim>\<open>ENOTREG\<close> of \<^verbatim>\<open>capi20proxy.h\<close>, the others of the kernel on i386.\<close>

definition ENOTREG :: int where "ENOTREG = 1"
definition EINTR :: int where "EINTR = 4"
definition EIO :: int where "EIO = 5"
definition EAGAIN :: int where "EAGAIN = 11"
definition EMSGSIZE :: int where "EMSGSIZE = 90"

lemmas appl_consts = APPL_FREE_def APPL_CONFIRMED_def APPL_WAITING_def APPL_REVOKED_def
lemmas card_consts = CARD_FREE_def CARD_RUNNING_def CARD_REMOVING_def CARD_NOT_READY_def
lemmas errno_defs = ENOTREG_def EINTR_def EIO_def EAGAIN_def EMSGSIZE_def

section \<open>Kernel services\<close>

definition log :: "kcapi_event \<Rightarrow> kmodule \<Rightarrow> kmodule" where
  "log e m = m\<lparr>klog := klog m @ [e]\<rparr>"

definition set_card :: "nat \<Rightarrow> card \<Rightarrow> kmodule \<Rightarrow> kmodule" where
  "set_card i k m = m\<lparr>cards := (cards m)(i := k)\<rparr>"

text \<open>
  \<^verbatim>\<open>alloc_skb\<close> gives an empty buffer; \<^verbatim>\<open>skb_put\<close> extends the used area by \<open>n\<close> octets, which
  increases the length and moves the tail, and returns the old tail.
\<close>

definition alloc_skb :: "kmodule \<Rightarrow> sk_buff option \<times> kmodule" where
  "alloc_skb m = (case skb_mem m of
       [] \<Rightarrow> (None, m)
     | b # bs \<Rightarrow> (map_option (\<lambda>b. \<lparr>sk_data = b, sk_len = 0, sk_tail = 0\<rparr>) b, m\<lparr>skb_mem := bs\<rparr>))"

definition skb_put :: "nat \<Rightarrow> sk_buff \<Rightarrow> nat \<times> sk_buff" where
  "skb_put n skb = (sk_tail skb, skb\<lparr>sk_tail := sk_tail skb + n, sk_len := sk_len skb + n\<rparr>)"

text \<open>
  \<open>copy_from_user mem off n\<close> fetches \<open>n\<close> octets at \<open>off\<close> of the user's memory; octets that
  are not accessible come as zeros.
\<close>

definition copy_from_user :: "byte list \<Rightarrow> nat \<Rightarrow> nat \<Rightarrow> byte list" where
  "copy_from_user mem off n = take n (drop off mem @ replicate n 0)"

lemma length_copy_from_user [simp]: "length (copy_from_user mem off n) = n"
  by (simp add: copy_from_user_def)

section \<open>The table of applications\<close>

text \<open>The macro \<^verbatim>\<open>APPL\<close>: \<open>None\<close> for an id without an entry.\<close>

definition appl_index :: "capiutil \<Rightarrow> u16 \<Rightarrow> nat option" where
  "appl_index U a = (if 0 < unat a \<and> unat a \<le> K_MAXAPPL U then Some (unat a - 1) else None)"

definition APPL :: "capiutil \<Rightarrow> card \<Rightarrow> u16 \<Rightarrow> byte option" where
  "APPL U k a = map_option (applications k) (appl_index U a)"

definition appl_mark :: "byte \<Rightarrow> capiutil \<Rightarrow> card \<Rightarrow> u16 \<Rightarrow> card option" where
  "appl_mark v U k a = map_option (\<lambda>i. k\<lparr>applications := (applications k)(i := v)\<rparr>) (appl_index U a)"

definition APPL_IS_FREE :: "capiutil \<Rightarrow> card \<Rightarrow> u16 \<Rightarrow> bool option" where
  "APPL_IS_FREE U k a = map_option (\<lambda>v. v = APPL_FREE) (APPL U k a)"

definition APPL_MARK_FREE :: "capiutil \<Rightarrow> card \<Rightarrow> u16 \<Rightarrow> card option" where
  "APPL_MARK_FREE = appl_mark APPL_FREE"

definition APPL_MARK_WAITING :: "capiutil \<Rightarrow> card \<Rightarrow> u16 \<Rightarrow> card option" where
  "APPL_MARK_WAITING = appl_mark APPL_WAITING"

definition APPL_MARK_CONFIRMED :: "capiutil \<Rightarrow> card \<Rightarrow> u16 \<Rightarrow> card option" where
  "APPL_MARK_CONFIRMED = appl_mark APPL_CONFIRMED"

definition APPL_MARK_REVOKED :: "capiutil \<Rightarrow> card \<Rightarrow> u16 \<Rightarrow> card option" where
  "APPL_MARK_REVOKED = appl_mark APPL_REVOKED"

definition VALID_APPLID :: "capiutil \<Rightarrow> card \<Rightarrow> u16 \<Rightarrow> bool" where
  "VALID_APPLID U k a \<longleftrightarrow> a \<noteq> 0 \<and> unat a \<le> K_MAXAPPL U \<and> APPL U k a \<noteq> Some 0"

section \<open>Messages to the daemon\<close>

definition capiproxy_flush_queue :: "nat \<Rightarrow> kmodule \<Rightarrow> kmodule" where
  "capiproxy_flush_queue i m =
     (let m = fold (\<lambda>skb m. log (kfree_skb skb) m) (outgoing_queue (cards m i)) m
      in set_card i ((cards m i)\<lparr>outgoing_queue := [], sk_pending := 0\<rparr>) m)"

definition capiproxy_send_message :: "capiutil \<Rightarrow> nat \<Rightarrow> sk_buff \<Rightarrow> kmodule \<Rightarrow> kmodule" where
  "capiproxy_send_message U i skb m =
     (if status (cards m i) = CARD_FREE then log (kfree_skb skb) m
      else
        let applid = CAPIMSG_APPID U (sk_data skb);
            m = (if unat (CAPIMSG_COMMAND U (sk_data skb)) = K_DISCONNECT_B3_RESP U
                 then log (free_ncci i applid (CAPIMSG_NCCI U (sk_data skb))) m else m)
        in if sk_pending (cards m i) > MAX_SK_PENDING then log (kfree_skb skb) m
           else
             let k = cards m i;
                 m = set_card i (k\<lparr>outgoing_queue := outgoing_queue k @ [skb], sk_pending := sk_pending k + 1\<rparr>) m
             in log queue_task m)"

text \<open>
  A control message for the daemon: the length, the application, the command and the
  subcommand are stored in a fresh buffer, whose length field is set by hand.
\<close>

definition control_message :: "capiutil \<Rightarrow> u16 \<Rightarrow> u16 \<Rightarrow> byte \<Rightarrow> sk_buff \<Rightarrow> sk_buff" where
  "control_message U len appl subcommand skb =
     skb\<lparr>sk_len := unat len,
         sk_data := CAPIMSG_SETSUBCOMMAND U subcommand (CAPIMSG_SETCOMMAND U TYPE_PROXY
           (CAPIMSG_SETAPPID U appl (CAPIMSG_SETLEN U len (sk_data skb))))\<rparr>"

definition capiproxy_remove_ctr :: "capiutil \<Rightarrow> nat \<Rightarrow> kmodule \<Rightarrow> kmodule" where
  "capiproxy_remove_ctr U i m =
     (case alloc_skb m of
        (None, m) \<Rightarrow> m
      | (Some skb, m) \<Rightarrow>
          let skb = control_message U 6 0 TYPE_SHUTDOWN skb;
              m = log (suspend_output i) m;
              m = capiproxy_flush_queue i m;
              m = set_card i ((cards m i)\<lparr>status := CARD_REMOVING\<rparr>) m
          in capiproxy_send_message U i skb m)"

definition capiproxy_reset_ctr :: "nat \<Rightarrow> kmodule \<Rightarrow> kmodule" where
  "capiproxy_reset_ctr i m = log (reseted i) (capiproxy_flush_queue i m)"

record capi_register_params =
  level3cnt :: u32
  datablkcnt :: u32
  datablklen :: u32

definition capiproxy_register_internal ::
  "capiutil \<Rightarrow> nat \<Rightarrow> u16 \<Rightarrow> capi_register_params \<Rightarrow> kmodule \<Rightarrow> kmodule" where
  "capiproxy_register_internal U i appl rp m =
     (case alloc_skb m of
        (None, m) \<Rightarrow> m
      | (Some skb, m) \<Rightarrow>
          let skb = control_message U 18 appl TYPE_REGISTER_APP skb;
              skb = skb\<lparr>sk_data := CAPIMSG_SETL3C U (level3cnt rp) (sk_data skb)\<rparr>;
              skb = skb\<lparr>sk_data := CAPIMSG_SETDBC U (datablkcnt rp) (sk_data skb)\<rparr>;
              skb = skb\<lparr>sk_data := CAPIMSG_SETDBL U (datablklen rp) (sk_data skb)\<rparr>
          in capiproxy_send_message U i skb m)"

definition capiproxy_register_appl ::
  "capiutil \<Rightarrow> nat \<Rightarrow> u16 \<Rightarrow> capi_register_params \<Rightarrow> kmodule \<Rightarrow> kmodule option" where
  "capiproxy_register_appl U i appl rp m =
     (if status (cards m i) = CARD_FREE then Some (log (appl_released i appl) m)
      else do {
        free \<leftarrow> APPL_IS_FREE U (cards m i) appl;
        if \<not> free then Some m
        else do {
          let arp = \<lparr>level3cnt = level3cnt rp,
                datablkcnt = (if datablkcnt rp > K_MAXDATAWINDOW U then K_MAXDATAWINDOW U else datablkcnt rp),
                datablklen = (if datablklen rp > 1024 then 1024 else datablklen rp)\<rparr>;
          let m = capiproxy_register_internal U i appl arp m;
          k \<leftarrow> APPL_MARK_WAITING U (cards m i) appl;
          Some (set_card i k m)
        }
      })"

definition capiproxy_release_internal :: "capiutil \<Rightarrow> nat \<Rightarrow> u16 \<Rightarrow> kmodule \<Rightarrow> kmodule" where
  "capiproxy_release_internal U i appl m =
     (case alloc_skb m of
        (None, m) \<Rightarrow> m
      | (Some skb, m) \<Rightarrow> capiproxy_send_message U i (control_message U 6 appl TYPE_RELEASE_APP skb) m)"

definition capiproxy_release_appl :: "capiutil \<Rightarrow> nat \<Rightarrow> u16 \<Rightarrow> kmodule \<Rightarrow> kmodule option" where
  "capiproxy_release_appl U i appl m = do {
     stop \<leftarrow> (if \<not> VALID_APPLID U (cards m i) appl then Some True else APPL_IS_FREE U (cards m i) appl);
     if stop then Some (log (appl_released i appl) m)
     else do {
       let m = capiproxy_release_internal U i appl m;
       k \<leftarrow> APPL_MARK_FREE U (cards m i) appl;
       Some (log (appl_released i appl) (set_card i k m))
     }
   }"

definition capiproxy_load_firmware :: "nat \<Rightarrow> kmodule \<Rightarrow> int \<times> kmodule" where
  "capiproxy_load_firmware i m = (0, m)"

section \<open>Information for the proc file system\<close>

fun hex_digits :: "nat \<Rightarrow> nat \<Rightarrow> string" where
  "hex_digits 0 n = []"
| "hex_digits (Suc k) n = (if n < 16 then [''0123456789abcdef'' ! n]
     else hex_digits k (n div 16) @ [''0123456789abcdef'' ! (n mod 16)])"

text \<open>\<^verbatim>\<open>%x\<close> of a 32-bit number: at most eight digits.\<close>

definition hex32 :: "u32 \<Rightarrow> string" where "hex32 w = hex_digits 8 (unat w)"

definition pad16 :: "string \<Rightarrow> string" where "pad16 s = s @ replicate (16 - length s) CHR '' ''"

text \<open>\<open>addr\<close> is the address of the card.\<close>

definition capiproxy_procinfo :: "u32 \<Rightarrow> nat \<Rightarrow> kmodule \<Rightarrow> string" where
  "capiproxy_procinfo addr i m =
     (let k = cards m i in
      (if cardname k \<noteq> [] then cardname k else ''-'') @ '' '' @
      (if version k \<noteq> [] then version k else ''-'') @ '' 0x'' @ hex32 addr)"

definition newline :: string where "newline = [CHR 0x0A]"

definition proc_page :: "card \<Rightarrow> string" where
  "proc_page k =
     pad16 ''name'' @ '' '' @ cardname k @ newline @
     pad16 ''io'' @ '' 0x0'' @ newline @
     pad16 ''irq'' @ '' -'' @ newline @
     pad16 ''type'' @ '' Virtual Card :-)'' @ newline @
     (if version k \<noteq> [] then pad16 ''ver_driver'' @ '' '' @ version k @ newline else []) @
     pad16 ''cardname'' @ '' '' @ cardname k @ newline"

text \<open>The result: what is returned, whether \<^verbatim>\<open>*end\<close> is set, and the text at \<^verbatim>\<open>*start\<close>.\<close>

definition capiproxy_read_proc :: "nat \<Rightarrow> nat \<Rightarrow> nat \<Rightarrow> kmodule \<Rightarrow> nat \<times> bool \<times> string" where
  "capiproxy_read_proc off count i m =
     (let page = proc_page (cards m i);
          len = length page;
          eof = (off + count \<ge> len)
      in if len < off then (0, eof, [])
         else let n = (if count < len - off then count else len - off)
              in (n, eof, take n (drop off page)))"

section \<open>The device node\<close>

definition push_user_buffer :: "byte list \<Rightarrow> nat \<Rightarrow> nat \<Rightarrow> byte list \<times> nat" where
  "push_user_buffer mem src len = (copy_from_user mem src len, src + len)"

definition capiproxy_ioctl :: "capiutil \<Rightarrow> nat \<Rightarrow> nat \<Rightarrow> ioctl_arg \<Rightarrow> kmodule \<Rightarrow> (int \<times> kmodule) option" where
  "capiproxy_ioctl U i ioctl_num arg m = do {
     c \<leftarrow> ctrl (cards m i);
     if ioctl_num = IOCTL_SET_DATA then
       (case arg of Value _ \<Rightarrow> None
        | Pointer mem \<Rightarrow>
            let len = (word_le (copy_from_user mem 0 4) :: u32) in
            if len < of_nat (K_MANUFACTURER_LEN U + K_sizeof_version U + K_SERIAL_LEN U + K_sizeof_profile U)
            then Some (- EMSGSIZE, m)
            else
              let (ma, temp) = push_user_buffer mem 4 (K_MANUFACTURER_LEN U);
                  (ve, temp) = push_user_buffer mem temp (K_sizeof_version U);
                  (se, temp) = push_user_buffer mem temp (K_SERIAL_LEN U);
                  (pr, temp) = push_user_buffer mem temp (K_sizeof_profile U);
                  m = set_card i ((cards m i)\<lparr>ctrl := Some (c\<lparr>manu := ma, capi_version := ve, serial := se, profile := pr\<rparr>)\<rparr>) m;
                  m = log (ready i) m
              in Some (0, set_card i ((cards m i)\<lparr>status := CARD_RUNNING\<rparr>) m))
     else
       case arg of Pointer _ \<Rightarrow> if ioctl_num = IOCTL_ERROR_REGFAIL \<or> ioctl_num = IOCTL_APPL_REGISTERED then None
                                else Some (- EIO, m)
       | Value v \<Rightarrow>
           let appl = (ucast v :: u16) in
           if ioctl_num = IOCTL_ERROR_REGFAIL then do {
             k \<leftarrow> APPL_MARK_REVOKED U (cards m i) appl;
             Some (0, log (appl_released i appl) (set_card i k m))
           } else if ioctl_num = IOCTL_APPL_REGISTERED then do {
             let m = log (appl_registered i appl) m;
             k \<leftarrow> APPL_MARK_CONFIRMED U (cards m i) appl;
             Some (0, set_card i k m)
           } else Some (- EIO, m)
   }"

definition handle_send_msg :: "kmodule \<Rightarrow> kmodule" where
  "handle_send_msg m = fold (\<lambda>i m.
      if status (cards m i) = CARD_FREE then m
      else if sk_pending (cards m i) \<noteq> 0 then log (wake_up i) m
      else m) [0..<CAPIPROXY_MAXCONTR] m"

text \<open>
  A blocking read sleeps until it is woken up: a \<open>wakeup\<close> is what the CAPI layer has sent to the
  card in the meantime and whether a signal is pending. When the script ends the reader
  is still asleep.
\<close>

datatype read_result = Returns int "byte list" | Asleep

type_synonym wakeup = "sk_buff list \<times> bool"

fun sleep_loop :: "capiutil \<Rightarrow> nat \<Rightarrow> wakeup list \<Rightarrow> kmodule \<Rightarrow> bool \<times> wakeup list \<times> kmodule" where
  "sleep_loop U i [] m = (False, [], m)"
| "sleep_loop U i ((skbs, sig) # ws) m =
     (let m = fold (capiproxy_send_message U i) skbs m
      in if sk_pending (cards m i) \<noteq> 0 then (True, ws, m)
         else if sig then (True, ws, m)
         else sleep_loop U i ws m)"

definition copy_to_user :: "kmodule \<Rightarrow> nat \<times> kmodule" where
  "copy_to_user m = (case copy_rets m of [] \<Rightarrow> (0, m) | r # rs \<Rightarrow> (r, m\<lparr>copy_rets := rs\<rparr>))"

lemma sleep_loop_shorter: "sleep_loop U i ws m = (True, ws', m') \<Longrightarrow> length ws' < length ws"
proof (induction ws arbitrary: m)
  case (Cons w ws)
  then show ?case by (cases w) (fastforce simp: Let_def split: if_splits)
qed simp

text \<open>
  \<open>nonblock\<close> is the flag \<^verbatim>\<open>O_NONBLOCK\<close> of the file and \<open>len\<close> the size of the user's buffer. A message
  that does not fit or cannot be copied goes back to the head of the queue.
\<close>

function capiproxy_read :: "capiutil \<Rightarrow> nat \<Rightarrow> bool \<Rightarrow> nat \<Rightarrow> wakeup list \<Rightarrow> kmodule \<Rightarrow> (read_result \<times> kmodule) option" where
  "capiproxy_read U i nonblock len ws m =
     (if sk_pending (cards m i) = 0 \<and> nonblock then Some (Returns (- EAGAIN) [], m)
      else
        case (if sk_pending (cards m i) = 0 then sleep_loop U i ws m else (True, ws, m)) of
          (woken, ws, m) \<Rightarrow>
            if \<not> woken then Some (Asleep, m)
            else if sk_pending (cards m i) = 0 then Some (Returns (- EINTR) [], m)
            else
              case outgoing_queue (cards m i) of
                [] \<Rightarrow> None
              | skb # q \<Rightarrow>
                  if sk_len skb > len then Some (Returns (- EMSGSIZE) [], m)
                  else if sk_len skb < 6 then
                    capiproxy_read U i nonblock len ws
                      (set_card i ((cards m i)\<lparr>outgoing_queue := q, sk_pending := sk_pending (cards m i) - 1\<rparr>) m)
                  else
                    case copy_to_user m of (r, m) \<Rightarrow>
                      if r \<noteq> 0 then Some (Returns (int r) [], m)
                      else
                        let m = log (kfree_skb skb) m;
                            k = cards m i
                        in Some (Returns (int (sk_len skb)) (get_bytes (sk_data skb) 0 (sk_len skb)),
                             set_card i (k\<lparr>outgoing_queue := q, sk_pending := sk_pending k - 1, out_sk := out_sk k + 1\<rparr>) m))"
  by pat_completeness auto
termination
  by (relation "(\<lambda>(U, i, nonblock, len, ws, m). length ws) <*mlex*>
        measure (\<lambda>(U, i, nonblock, len, ws, m). length (outgoing_queue (cards m i)))")
    (auto simp: wf_mlex mlex_prod_def set_card_def split: if_splits dest: sleep_loop_shorter [OF sym])

declare capiproxy_read.simps [simp del]

definition capiproxy_write :: "capiutil \<Rightarrow> nat \<Rightarrow> byte list \<Rightarrow> kmodule \<Rightarrow> (int \<times> kmodule) option" where
  "capiproxy_write U i buf m =
     (if status (cards m i) \<noteq> CARD_RUNNING then
        (case ctrl (cards m i) of None \<Rightarrow> None | Some _ \<Rightarrow> Some (-1, m))
      else
        case alloc_skb m of
          (None, m) \<Rightarrow> (case ctrl (cards m i) of None \<Rightarrow> None | Some _ \<Rightarrow> Some (-1, m))
        | (Some skb, m) \<Rightarrow> do {
            let skb = skb\<lparr>sk_len := length buf\<rparr>;
            let (writepos, skb) = skb_put (length buf) skb;
            let skb = skb\<lparr>sk_data := put_bytes writepos buf (sk_data skb)\<rparr>;
            let appl = CAPIMSG_APPID U (sk_data skb);
            let ncci = CAPIMSG_NCCI U (sk_data skb);
            let ncci = ncci AND 0xFFFFFF80;
            c \<leftarrow> ctrl (cards m i);
            let ncci = ncci + cnr c;
            let cmd = unat (CAPIMSG_COMMAND U (sk_data skb));
            let m = (if cmd = K_CONNECT_B3_CONF U \<or> cmd = K_CONNECT_B3_IND U
                     then log (new_ncci i appl ncci (K_MAXDATAWINDOW U)) m else m);
            let m = set_card i ((cards m i)\<lparr>in_sk := in_sk (cards m i) + 1\<rparr>) m;
            Some (int (length buf), log (handle_capimsg i appl skb) m)
          })"

fun find_free_loop :: "kmodule \<Rightarrow> nat list \<Rightarrow> int" where
  "find_free_loop m [] = -1"
| "find_free_loop m (i # is) = (if status (cards m i) = CARD_FREE then int i else find_free_loop m is)"

definition capiproxy_find_free_id :: "kmodule \<Rightarrow> int" where
  "capiproxy_find_free_id m = find_free_loop m [0..<CAPIPROXY_MAXCONTR]"

definition capiproxy_init_appls :: "nat \<Rightarrow> kmodule \<Rightarrow> kmodule" where
  "capiproxy_init_appls i m = set_card i ((cards m i)\<lparr>applications := (\<lambda>_. APPL_FREE)\<rparr>) m"

text \<open>
  The result carries the index of the card, which becomes the \<^verbatim>\<open>private_data\<close> of the file. The
  first statement reads \<^verbatim>\<open>card->ctrl\<close> through the pointer \<^verbatim>\<open>card\<close>, which is not yet set; \<open>readable\<close> says whether there is memory
  where it happens to point. The value is never used.
\<close>

definition capiproxy_open :: "bool \<Rightarrow> kmodule \<Rightarrow> (int \<times> nat option \<times> kmodule) option" where
  "capiproxy_open readable m =
     (let id = capiproxy_find_free_id m in
      if \<not> readable then None
      else if id = -1 then Some (-1, None, m)
      else
        let i = nat id;
            m = capiproxy_init_appls i m;
            m = capiproxy_flush_queue i m;
            m = set_card i ((cards m i)\<lparr>status := CARD_NOT_READY, outgoing_queue := [],
                  cardname := ''CAPI Virtual Card'', versionlen := CAPIPROXY_VERSIONLEN, version := ''0.6.1''\<rparr>) m
        in if \<not> di m then None
           else
             let m = log (attach_ctr i) m;
                 (c, m) = (case attach_rets m of [] \<Rightarrow> (None, m) | c # cs \<Rightarrow> (c, m\<lparr>attach_rets := cs\<rparr>))
             in Some (0, Some i, set_card i ((cards m i)\<lparr>ctrl := c\<rparr>) m))"

definition capiproxy_release :: "nat \<Rightarrow> kmodule \<Rightarrow> (int \<times> kmodule) option" where
  "capiproxy_release i m = do {
     c \<leftarrow> ctrl (cards m i);
     let m = log (suspend_output i) m;
     let m = capiproxy_flush_queue i m;
     let m = log (detach_ctr i) m;
     Some (0, set_card i ((cards m i)\<lparr>status := CARD_FREE, ctrl := None\<rparr>) m)
   }"

section \<open>Loading and unloading\<close>

definition zero_card :: card where
  "zero_card = \<lparr>status = 0, ctrl = None, outgoing_queue = [], cardname = [], versionlen = 0, version = [],
     in_sk = 0, out_sk = 0, sk_pending = 0, applications = (\<lambda>_. 0)\<rparr>"

definition capiproxy_init_cards :: "kmodule \<Rightarrow> kmodule" where
  "capiproxy_init_cards m =
     fold (\<lambda>i m. set_card i (zero_card\<lparr>status := CARD_FREE, ctrl := None\<rparr>) m) [0..<CAPIPROXY_MAXCONTR] m"

text \<open>\<open>attached\<close> says whether \<^verbatim>\<open>attach_capi_driver\<close> succeeds.\<close>

definition capiproxy_init :: "bool \<Rightarrow> kmodule \<Rightarrow> int \<times> kmodule" where
  "capiproxy_init attached m =
     (let m = capiproxy_init_cards m;
          m = log register_chrdev m;
          m = (log attach_capi_driver m)\<lparr>di := attached\<rparr>
      in if \<not> di m then (-1, m) else (0, m))"

definition capiproxy_exit :: "capiutil \<Rightarrow> kmodule \<Rightarrow> kmodule" where
  "capiproxy_exit U m =
     (let m = fold (\<lambda>i m.
            if status (cards m i) = CARD_FREE then m
            else case ctrl (cards m i) of None \<Rightarrow> m | Some _ \<Rightarrow> capiproxy_remove_ctr U i m)
            [0..<CAPIPROXY_MAXCONTR] m;
          m = handle_send_msg m;
          m = log unregister_chrdev m
      in log detach_capi_driver m)"

section \<open>Invariant of the queues\<close>

text \<open>
  The counter \<^verbatim>\<open>sk_pending\<close> is the length of the queue, and the queue never holds more than
  \<open>MAX_SK_PENDING + 1\<close> messages.
\<close>

definition card_ok :: "card \<Rightarrow> bool" where
  "card_ok k \<longleftrightarrow> sk_pending k = int (length (outgoing_queue k)) \<and> length (outgoing_queue k) \<le> 33"

definition queues_ok :: "kmodule \<Rightarrow> bool" where
  "queues_ok m \<longleftrightarrow> (\<forall>i. card_ok (cards m i))"

lemma cards_log [simp]: "cards (log e m) = cards m" "klog (log e m) = klog m @ [e]"
  "skb_mem (log e m) = skb_mem m" "copy_rets (log e m) = copy_rets m"
  by (simp_all add: log_def)

lemma set_card_simps [simp]: "cards (set_card i k m) = (cards m)(i := k)" "klog (set_card i k m) = klog m"
  "skb_mem (set_card i k m) = skb_mem m" "copy_rets (set_card i k m) = copy_rets m"
  by (simp_all add: set_card_def)

lemma queues_ok_log [simp]: "queues_ok (log e m) \<longleftrightarrow> queues_ok m"
  by (simp add: queues_ok_def)

lemma queues_ok_card [intro!]: "queues_ok m \<Longrightarrow> card_ok (cards m i)"
  by (simp add: queues_ok_def)

lemma queues_ok_set_card [intro!]: "queues_ok m \<Longrightarrow> card_ok k \<Longrightarrow> queues_ok (set_card i k m)"
  by (simp add: queues_ok_def)

lemma card_ok_update [simp]:
  "card_ok (k\<lparr>status := s\<rparr>) \<longleftrightarrow> card_ok k" "card_ok (k\<lparr>ctrl := c\<rparr>) \<longleftrightarrow> card_ok k"
  "card_ok (k\<lparr>applications := a\<rparr>) \<longleftrightarrow> card_ok k" "card_ok (k\<lparr>in_sk := n\<rparr>) \<longleftrightarrow> card_ok k"
  "card_ok (k\<lparr>status := s, ctrl := c\<rparr>) \<longleftrightarrow> card_ok k"
  by (simp_all add: card_ok_def)

lemma queues_ok_update [simp]:
  "queues_ok (m\<lparr>skb_mem := x\<rparr>) \<longleftrightarrow> queues_ok m" "queues_ok (m\<lparr>attach_rets := y\<rparr>) \<longleftrightarrow> queues_ok m"
  "queues_ok (m\<lparr>copy_rets := z\<rparr>) \<longleftrightarrow> queues_ok m" "queues_ok (m\<lparr>di := d\<rparr>) \<longleftrightarrow> queues_ok m"
  by (simp_all add: queues_ok_def)

lemma alloc_skb_ok: "alloc_skb m = (r, m') \<Longrightarrow> queues_ok m \<Longrightarrow> queues_ok m'"
  by (auto simp: alloc_skb_def split: list.splits)

lemma appl_mark_ok: "appl_mark v U k a = Some k' \<Longrightarrow> card_ok k \<Longrightarrow> card_ok k'"
  by (auto simp: appl_mark_def)

lemmas appl_marks = APPL_MARK_FREE_def APPL_MARK_WAITING_def APPL_MARK_CONFIRMED_def APPL_MARK_REVOKED_def

lemma cards_fold_log [simp]: "cards (fold (\<lambda>x m. log (f x) m) xs m) = cards m"
  by (induction xs arbitrary: m) simp_all

lemma flush_queue_ok [intro!]: "queues_ok m \<Longrightarrow> queues_ok (capiproxy_flush_queue i m)"
  by (auto simp: capiproxy_flush_queue_def Let_def queues_ok_def card_ok_def)

lemma send_message_ok [intro!]: "queues_ok m \<Longrightarrow> queues_ok (capiproxy_send_message U i skb m)"
  by (auto simp: capiproxy_send_message_def Let_def queues_ok_def card_ok_def MAX_SK_PENDING_def)

lemma remove_ctr_ok [intro!]: "queues_ok m \<Longrightarrow> queues_ok (capiproxy_remove_ctr U i m)"
  by (auto simp: capiproxy_remove_ctr_def Let_def split: prod.splits option.splits dest!: alloc_skb_ok)

lemma reset_ctr_ok [intro!]: "queues_ok m \<Longrightarrow> queues_ok (capiproxy_reset_ctr i m)"
  by (auto simp: capiproxy_reset_ctr_def)

lemma register_internal_ok [intro!]: "queues_ok m \<Longrightarrow> queues_ok (capiproxy_register_internal U i a rp m)"
  by (auto simp: capiproxy_register_internal_def Let_def split: prod.splits option.splits dest!: alloc_skb_ok)

lemma release_internal_ok [intro!]: "queues_ok m \<Longrightarrow> queues_ok (capiproxy_release_internal U i a m)"
  by (auto simp: capiproxy_release_internal_def split: prod.splits option.splits dest!: alloc_skb_ok)

lemma register_appl_ok: "capiproxy_register_appl U i a rp m = Some m' \<Longrightarrow> queues_ok m \<Longrightarrow> queues_ok m'"
  unfolding capiproxy_register_appl_def
  by (auto simp: Let_def appl_marks split: if_splits Option.bind_splits elim!: appl_mark_ok)

lemma release_appl_ok: "capiproxy_release_appl U i a m = Some m' \<Longrightarrow> queues_ok m \<Longrightarrow> queues_ok m'"
  unfolding capiproxy_release_appl_def
  by (auto simp: Let_def appl_marks split: if_splits Option.bind_splits elim!: appl_mark_ok)

lemma ioctl_ok: "capiproxy_ioctl U i n arg m = Some (r, m') \<Longrightarrow> queues_ok m \<Longrightarrow> queues_ok m'"
  unfolding capiproxy_ioctl_def
  by (auto simp: Let_def appl_marks push_user_buffer_def split: if_splits Option.bind_splits ioctl_arg.splits
      elim!: appl_mark_ok)

lemma sleep_loop_ok: "sleep_loop U i ws m = (b, ws', m') \<Longrightarrow> queues_ok m \<Longrightarrow> queues_ok m'"
proof (induction ws arbitrary: m)
  case (Cons w ws)
  have "queues_ok m \<Longrightarrow> queues_ok (fold (capiproxy_send_message U i) xs m)" for xs
    by (induction xs arbitrary: m) auto
  with Cons show ?case by (cases w) (fastforce simp: Let_def split: if_splits)
qed simp

text \<open>A read keeps the invariant, and under it does not take a message from an empty queue.\<close>

lemma read_ok:
  "queues_ok m \<Longrightarrow> \<exists>r m'. capiproxy_read U i nb len ws m = Some (r, m') \<and> queues_ok m'"
proof (induction U i nb len ws m rule: capiproxy_read.induct)
  case (1 U i nb len ws m)
  define w where "w = (if sk_pending (cards m i) = 0 then sleep_loop U i ws m else (True, ws, m))"
  obtain b ws' m' where w': "w = (b, ws', m')" by (cases w) auto
  have ok: "queues_ok m'"
    using w' 1(2) sleep_loop_ok unfolding w_def by (auto split: if_splits)
  show ?case
  proof (cases "(sk_pending (cards m i) = 0 \<and> nb) \<or> \<not> b \<or> sk_pending (cards m' i) = 0")
    case True
    then show ?thesis
      using 1(2) ok w' unfolding w_def by (subst capiproxy_read.simps) auto
  next
    case False
    then obtain skb q where q: "outgoing_queue (cards m' i) = skb # q"
      using queues_ok_card [OF ok, of i] by (cases "outgoing_queue (cards m' i)") (auto simp: card_ok_def)
    have dq: "card_ok ((cards m' i)\<lparr>outgoing_queue := q, sk_pending := sk_pending (cards m' i) - 1\<rparr>)"
      "card_ok ((cards m' i)\<lparr>outgoing_queue := q, sk_pending := sk_pending (cards m' i) - 1, out_sk := n\<rparr>)" for n
      using queues_ok_card [OF ok, of i] q by (auto simp: card_ok_def)
    note IH = 1(1) [OF _ w' [unfolded w_def, symmetric] refl _ _ q]
    show ?thesis
      using False IH q dq ok w' [unfolded w_def]
      by (subst capiproxy_read.simps)
        (auto simp: copy_to_user_def Let_def split: list.splits prod.splits)
  qed
qed

lemma write_ok: "capiproxy_write U i buf m = Some (r, m') \<Longrightarrow> queues_ok m \<Longrightarrow> queues_ok m'"
  unfolding capiproxy_write_def
  by (auto simp: Let_def skb_put_def split: if_splits Option.bind_splits prod.splits option.splits
      dest!: alloc_skb_ok)

lemma open_ok: "capiproxy_open readable m = Some (r, k, m') \<Longrightarrow> queues_ok m \<Longrightarrow> queues_ok m'"
  unfolding capiproxy_open_def capiproxy_init_appls_def capiproxy_flush_queue_def
  by (auto simp: Let_def queues_ok_def card_ok_def split: if_splits list.splits prod.splits)

lemma release_ok: "capiproxy_release i m = Some (r, m') \<Longrightarrow> queues_ok m \<Longrightarrow> queues_ok m'"
  unfolding capiproxy_release_def
  by (auto simp: Let_def split: Option.bind_splits)

section \<open>The module as a state machine\<close>

text \<open>One call of an entry point of the module, by the CAPI layer or by the daemon.\<close>

inductive kstep :: "capiutil \<Rightarrow> kmodule \<Rightarrow> kmodule \<Rightarrow> bool" for U where
  k_send: "kstep U m (capiproxy_send_message U i skb m)"
| k_remove: "kstep U m (capiproxy_remove_ctr U i m)"
| k_reset: "kstep U m (capiproxy_reset_ctr i m)"
| k_register: "capiproxy_register_appl U i a rp m = Some m' \<Longrightarrow> kstep U m m'"
| k_release: "capiproxy_release_appl U i a m = Some m' \<Longrightarrow> kstep U m m'"
| k_ioctl: "capiproxy_ioctl U i n arg m = Some (r, m') \<Longrightarrow> kstep U m m'"
| k_bottom_half: "kstep U m (handle_send_msg m)"
| k_read: "capiproxy_read U i nb len ws m = Some (res, m') \<Longrightarrow> kstep U m m'"
| k_write: "capiproxy_write U i buf m = Some (r, m') \<Longrightarrow> kstep U m m'"
| k_open: "capiproxy_open readable m = Some (r, k, m') \<Longrightarrow> kstep U m m'"
| k_close: "capiproxy_release i m = Some (r, m') \<Longrightarrow> kstep U m m'"

inductive kreachable :: "capiutil \<Rightarrow> kmodule \<Rightarrow> bool" for U where
  k_init: "(\<And>i. i \<ge> CAPIPROXY_MAXCONTR \<Longrightarrow> cards m i = zero_card) \<Longrightarrow> kreachable U (snd (capiproxy_init att m))"
| k_step: "kreachable U m \<Longrightarrow> kstep U m m' \<Longrightarrow> kreachable U m'"

lemma cards_init_cards:
  "cards (capiproxy_init_cards m) i = (if i < CAPIPROXY_MAXCONTR then zero_card else cards m i)"
proof -
  have z: "zero_card\<lparr>status := CARD_FREE, ctrl := None\<rparr> = zero_card"
    by (simp add: zero_card_def CARD_FREE_def)
  have "cards (fold (\<lambda>i m. set_card i zero_card m) is m) i = (if i \<in> set is then zero_card else cards m i)" for "is" m
    by (induction "is" arbitrary: m) auto
  then show ?thesis by (simp add: capiproxy_init_cards_def z)
qed

lemma handle_send_msg_cards [simp]: "cards (handle_send_msg m) = cards m"
proof -
  have "cards (fold (\<lambda>i m. if status (cards m i) = CARD_FREE then m
      else if sk_pending (cards m i) \<noteq> 0 then log (wake_up i) m else m) is m) = cards m" for "is" m
    by (induction "is" arbitrary: m) auto
  then show ?thesis by (simp add: handle_send_msg_def)
qed

lemma kstep_queues_ok: "kstep U m m' \<Longrightarrow> queues_ok m \<Longrightarrow> queues_ok m'"
proof (induction rule: kstep.induct)
  case (k_read i nb len ws m res m')
  then show ?case using read_ok [OF k_read(2), of U i nb len ws] by auto
next
  case (k_bottom_half m)
  then show ?case by (simp add: queues_ok_def)
qed (auto intro: register_appl_ok release_appl_ok ioctl_ok write_ok open_ok release_ok)

lemma kreachable_queues_ok: "kreachable U m \<Longrightarrow> queues_ok m"
proof (induction rule: kreachable.induct)
  case (k_init m att)
  have "queues_ok (capiproxy_init_cards m)"
    using k_init by (auto simp: queues_ok_def cards_init_cards card_ok_def zero_card_def)
  then show ?case by (simp add: capiproxy_init_def Let_def)
qed (rule kstep_queues_ok)

section \<open>Bounded queues\<close>

text \<open>
  What a client of a bounded queue relies on: \<open>put\<close> appends while there is room and drops the
  item otherwise, \<open>get\<close> hands out the oldest item.
\<close>

locale bounded_fifo =
  fixes inv :: "'s \<Rightarrow> bool" and contents :: "'s \<Rightarrow> 'a list" and good :: "'a \<Rightarrow> bool" and cap :: nat
    and put :: "'a \<Rightarrow> 's \<Rightarrow> 's" and get :: "'s \<Rightarrow> ('b \<times> 's) option" and view :: "'a \<Rightarrow> 'b"
  assumes put_inv: "inv s \<Longrightarrow> good x \<Longrightarrow> inv (put x s)"
    and put_contents: "inv s \<Longrightarrow> good x \<Longrightarrow>
      contents (put x s) = (if length (contents s) < cap then contents s @ [x] else contents s)"
    and get_next: "inv s \<Longrightarrow> contents s = x # xs \<Longrightarrow> \<exists>s'. get s = Some (view x, s') \<and> contents s' = xs \<and> inv s'"
begin

fun drain :: "nat \<Rightarrow> 's \<Rightarrow> ('b list \<times> 's) option" where
  "drain 0 s = Some ([], s)"
| "drain (Suc n) s = (case get s of None \<Rightarrow> None
     | Some (y, s) \<Rightarrow> (case drain n s of None \<Rightarrow> None | Some (ys, s) \<Rightarrow> Some (y # ys, s)))"

lemma fold_put:
  "inv s \<Longrightarrow> \<forall>x \<in> set xs. good x \<Longrightarrow>
     inv (fold put xs s) \<and> contents (fold put xs s) = contents s @ take (cap - length (contents s)) xs"
proof (induction xs arbitrary: s)
  case (Cons x xs)
  have "inv (put x s)" using Cons.prems by (simp add: put_inv)
  note IH = Cons.IH [OF this]
  show ?case
  proof (cases "length (contents s) < cap")
    case True
    then have "cap - length (contents s) = Suc (cap - Suc (length (contents s)))" by simp
    with True IH Cons.prems show ?thesis by (simp add: put_contents)
  qed (use IH Cons.prems in \<open>simp add: put_contents\<close>)
qed simp

lemma drain_contents:
  "inv s \<Longrightarrow> \<exists>s'. drain (length (contents s)) s = Some (map view (contents s), s') \<and> contents s' = [] \<and> inv s'"
proof (induction "contents s" arbitrary: s)
  case (Cons x xs)
  obtain s1 where s1: "get s = Some (view x, s1)" "contents s1 = xs" "inv s1"
    using get_next [OF Cons.prems Cons.hyps(2) [symmetric]] by blast
  from Cons.hyps(1) [OF s1(2) [symmetric] s1(3)] s1 Cons.hyps(2) [symmetric] show ?case by auto
qed auto

lemma put_then_drain:
  assumes "inv s" and "contents s = []" and "\<forall>x \<in> set xs. good x"
  shows "\<exists>s'. drain (min cap (length xs)) (fold put xs s) = Some (map view (take cap xs), s')"
proof -
  have f: "inv (fold put xs s)" "contents (fold put xs s) = take cap xs"
    using fold_put [OF assms(1,3)] assms(2) by auto
  then show ?thesis using drain_contents [OF f(1)] by (auto simp: min.commute)
qed

end

section \<open>The queue of a card as a bounded queue\<close>

text \<open>Reads of the daemon: non-blocking, into a buffer of \<open>len\<close> octets.\<close>

definition read_next :: "capiutil \<Rightarrow> nat \<Rightarrow> nat \<Rightarrow> kmodule \<Rightarrow> (byte list \<times> kmodule) option" where
  "read_next U i len m = (case capiproxy_read U i True len [] m of
     Some (Returns n bs, m) \<Rightarrow> if n = int (length bs) then Some (bs, m) else None
   | _ \<Rightarrow> None)"

definition deliverable :: "nat \<Rightarrow> sk_buff \<Rightarrow> bool" where
  "deliverable len skb \<longleftrightarrow> 6 \<le> sk_len skb \<and> sk_len skb \<le> len"

definition in_service :: "nat \<Rightarrow> nat \<Rightarrow> kmodule \<Rightarrow> bool" where
  "in_service i len m \<longleftrightarrow> card_ok (cards m i) \<and> status (cards m i) \<noteq> CARD_FREE \<and> copy_rets m = [] \<and>
     (\<forall>skb \<in> set (outgoing_queue (cards m i)). deliverable len skb)"

definition octets :: "sk_buff \<Rightarrow> byte list" where
  "octets skb = get_bytes (sk_data skb) 0 (sk_len skb)"

lemma send_message_queue:
  assumes "in_service i len m"
  shows "outgoing_queue (cards (capiproxy_send_message U i skb m) i) =
    (if length (outgoing_queue (cards m i)) < 33 then outgoing_queue (cards m i) @ [skb] else outgoing_queue (cards m i))"
    and "deliverable len skb \<Longrightarrow> in_service i len (capiproxy_send_message U i skb m)"
  using assms
  by (auto simp: in_service_def card_ok_def capiproxy_send_message_def Let_def MAX_SK_PENDING_def)

lemma read_next_queue:
  assumes "in_service i len m" and "outgoing_queue (cards m i) = skb # q"
  shows "\<exists>m'. read_next U i len m = Some (octets skb, m') \<and> outgoing_queue (cards m' i) = q \<and> in_service i len m'"
  using assms unfolding read_next_def
  by (subst capiproxy_read.simps)
    (auto simp: in_service_def card_ok_def deliverable_def copy_to_user_def octets_def Let_def)

interpretation card_queue: bounded_fifo
  "in_service i len" "\<lambda>m. outgoing_queue (cards m i)" "deliverable len" 33
  "capiproxy_send_message U i" "read_next U i len" octets for U i len
  by unfold_locales (auto simp: send_message_queue read_next_queue)

text \<open>\<open>read_all U i len n\<close>: \<open>n\<close> reads in a row.\<close>

fun read_all :: "capiutil \<Rightarrow> nat \<Rightarrow> nat \<Rightarrow> nat \<Rightarrow> kmodule \<Rightarrow> (byte list list \<times> kmodule) option" where
  "read_all U i len 0 m = Some ([], m)"
| "read_all U i len (Suc n) m = (case read_next U i len m of None \<Rightarrow> None
     | Some (y, m) \<Rightarrow> (case read_all U i len n m of None \<Rightarrow> None | Some (ys, m) \<Rightarrow> Some (y # ys, m)))"

lemma read_all_drain: "read_all U i len n m = card_queue.drain U i len n m"
  by (induction n arbitrary: m) (auto split: option.splits)

section \<open>Messages to the daemon\<close>

lemma control_message_fields:
  assumes "capiutil_documented U"
  shows "sk_len (control_message U len a sub skb) = unat len"
    and "CAPIMSG_APPID U (sk_data (control_message U len a sub skb)) = a"
    and "CAPIMSG_COMMAND U (sk_data (control_message U len a sub skb)) = TYPE_PROXY"
    and "CAPIMSG_SUBCOMMAND U (sk_data (control_message U len a sub skb)) = sub"
  by (simp_all add: control_message_def capiutil_laws [OF assms] buf_simps word_le_bytes_le)

definition register_message :: "capiutil \<Rightarrow> u16 \<Rightarrow> capi_register_params \<Rightarrow> sk_buff \<Rightarrow> sk_buff" where
  "register_message U appl rp skb =
     (let skb = control_message U 18 appl TYPE_REGISTER_APP skb
      in skb\<lparr>sk_data := CAPIMSG_SETDBL U (datablklen rp) (CAPIMSG_SETDBC U (datablkcnt rp)
                 (CAPIMSG_SETL3C U (level3cnt rp) (sk_data skb)))\<rparr>)"

definition clipped :: "capiutil \<Rightarrow> capi_register_params \<Rightarrow> capi_register_params" where
  "clipped U rp = rp\<lparr>datablkcnt := min (datablkcnt rp) (K_MAXDATAWINDOW U), datablklen := min (datablklen rp) 1024\<rparr>"

lemma register_message_fields:
  assumes "capiutil_documented U"
  shows "sk_len (register_message U a rp skb) = 18"
    and "CAPIMSG_APPID U (sk_data (register_message U a rp skb)) = a"
    and "CAPIMSG_COMMAND U (sk_data (register_message U a rp skb)) = TYPE_PROXY"
    and "CAPIMSG_SUBCOMMAND U (sk_data (register_message U a rp skb)) = TYPE_REGISTER_APP"
    and "CAPIMSG_L3C U (sk_data (register_message U a rp skb)) = level3cnt rp"
    and "CAPIMSG_DBC U (sk_data (register_message U a rp skb)) = datablkcnt rp"
    and "CAPIMSG_DBL U (sk_data (register_message U a rp skb)) = datablklen rp"
  by (simp_all add: register_message_def Let_def control_message_def CAPIMSG_SETL3C_def CAPIMSG_SETDBC_def
      CAPIMSG_SETDBL_def CAPIMSG_L3C_def CAPIMSG_DBC_def CAPIMSG_DBL_def capiutil_laws [OF assms] buf_simps word_le_bytes_le)

lemma register_appl_sends:
  assumes "status (cards m i) \<noteq> CARD_FREE" and "APPL_IS_FREE U (cards m i) a = Some True"
    and "skb_mem m = Some b # bs" and "card_ok (cards m i)" and "length (outgoing_queue (cards m i)) < 33"
    and "capiutil_documented U"
  shows "\<exists>m'. capiproxy_register_appl U i a rp m = Some m' \<and>
     outgoing_queue (cards m' i) = outgoing_queue (cards m i) @
       [register_message U a (clipped U rp) \<lparr>sk_data = b, sk_len = 0, sk_tail = 0\<rparr>] \<and>
     APPL U (cards m' i) a = Some APPL_WAITING"
proof -
  have arp: "\<lparr>level3cnt = level3cnt rp,
      datablkcnt = (if datablkcnt rp > K_MAXDATAWINDOW U then K_MAXDATAWINDOW U else datablkcnt rp),
      datablklen = (if datablklen rp > 1024 then 1024 else datablklen rp)\<rparr> = clipped U rp" 
    by (simp add: clipped_def min_def not_le)
  obtain j where "appl_index U a = Some j" using assms(2) by (auto simp: APPL_IS_FREE_def APPL_def)
  then show ?thesis
    using assms(1-5)
    by (auto simp: capiproxy_register_appl_def capiproxy_register_internal_def capiproxy_send_message_def
        alloc_skb_def arp register_message_def Let_def appl_marks appl_mark_def APPL_def card_ok_def
        MAX_SK_PENDING_def)
qed

section \<open>Registration that fails or comes late\<close>

lemma ucast_u16 [simp]: "ucast (ucast (a :: u16) :: u32) = a"
  by (rule bit_eqI) (auto simp: bit_simps)

lemma register_refused:
  assumes "status (cards m i) \<noteq> CARD_FREE" and "APPL_IS_FREE U (cards m i) a = Some False"
  shows "capiproxy_register_appl U i a rp m = Some m"
  using assms by (simp add: capiproxy_register_appl_def)

lemma regfail_marks:
  assumes "capiproxy_ioctl U i IOCTL_ERROR_REGFAIL (Value (ucast a)) m = Some (r, m')"
  shows "APPL U (cards m' i) a = Some APPL_REVOKED \<and> status (cards m' i) = status (cards m i)"
  using assms
  by (auto simp: capiproxy_ioctl_def IOCTL_SET_DATA_def IOCTL_ERROR_REGFAIL_def appl_marks appl_mark_def
      APPL_def Let_def split: Option.bind_splits)

lemma confirm_marks:
  assumes "ctrl (cards m i) = Some c" and "0 < unat a" and "unat a \<le> K_MAXAPPL U"
  shows "\<exists>m'. capiproxy_ioctl U i IOCTL_APPL_REGISTERED (Value (ucast a)) m = Some (0, m') \<and>
    klog m' = klog m @ [appl_registered i a] \<and> APPL U (cards m' i) a = Some APPL_CONFIRMED \<and>
    status (cards m' i) = status (cards m i)"
  using assms
  by (auto simp: capiproxy_ioctl_def node_consts appl_marks appl_mark_def appl_index_def APPL_def Let_def)

section \<open>Data of the controller\<close>

text \<open>The layout of \<^verbatim>\<open>struct _c2p_init_data\<close>: a length and the four blocks.\<close>

lemma ioctl_set_data:
  assumes "capiutil_documented U" and "ctrl (cards m i) = Some c"
    and "length ma = 64" "length ve = 16" "length se = 8" "length pr = 64"
  shows "\<exists>m'. capiproxy_ioctl U i IOCTL_SET_DATA (Pointer (bytes_le 4 (152 :: u32) @ ma @ ve @ se @ pr)) m = Some (0, m') \<and>
    ctrl (cards m' i) = Some (c\<lparr>manu := ma, capi_version := ve, serial := se, profile := pr\<rparr>) \<and>
    status (cards m' i) = CARD_RUNNING \<and> klog m' = klog m @ [ready i]"
  using assms(2-)
  by (simp add: capiproxy_ioctl_def capiutil_laws [OF assms(1)] Let_def push_user_buffer_def copy_from_user_def
      word_le_bytes_le)

section \<open>Reading the proc file\<close>

text \<open>A reader that asks for \<open>count\<close> octets at a time until the end is reported.\<close>

function read_proc_from :: "nat \<Rightarrow> nat \<Rightarrow> nat \<Rightarrow> kmodule \<Rightarrow> string" where
  "read_proc_from off count i m =
     (case capiproxy_read_proc off (Suc count) i m of (n, eof, text) \<Rightarrow>
        if eof \<or> n = 0 then text else text @ read_proc_from (off + n) count i m)"
  by pat_completeness auto
termination
  by (relation "measure (\<lambda>(off, count, i, m). length (proc_page (cards m i)) - off)")
    (auto simp: capiproxy_read_proc_def Let_def split: if_splits)

declare read_proc_from.simps [simp del]

lemma read_proc_rest:
  "off \<le> length (proc_page (cards m i)) \<Longrightarrow> read_proc_from off count i m = drop off (proc_page (cards m i))"
proof (induction off count i m rule: read_proc_from.induct)
  case (1 off count i m)
  let ?p = "proc_page (cards m i)"
  show ?case
  proof (cases "off + Suc count \<ge> length ?p")
    case True
    then show ?thesis using 1(2)
      by (subst read_proc_from.simps) (auto simp: capiproxy_read_proc_def Let_def)
  next
    case False
    then have r: "capiproxy_read_proc off (Suc count) i m = (Suc count, False, take (Suc count) (drop off ?p))"
      by (auto simp: capiproxy_read_proc_def Let_def)
    have "read_proc_from (off + Suc count) count i m = drop (off + Suc count) ?p"
      using 1(1) [OF r [symmetric] refl] False by simp
    then show ?thesis
      by (subst read_proc_from.simps)
        (simp add: r, metis append_take_drop_id add.commute add_Suc drop_drop)
  qed
qed

section \<open>What the daemon writes\<close>

lemma write_message:
  assumes "capiutil_documented U" and "capiproxy_write U i buf m = Some (r, m')" and "0 \<le> r"
  shows "\<exists>skb b. klog m' = klog m @ [handle_capimsg i (CAPIMSG_APPID U (sk_data skb)) skb] \<and>
     sk_data skb = put_bytes 0 buf b \<and> sk_len skb = 2 * length buf \<and> r = int (length buf)"
proof -
  have "unat (x :: byte) < 256" for x using unsigned_less [of x] by simp
  then have small: "unat (x :: byte) \<noteq> K_CONNECT_B3_CONF U" "unat (x :: byte) \<noteq> K_CONNECT_B3_IND U" for x
    using capiutil_laws(17,18) [OF assms(1)] by (metis not_less)+
  show ?thesis
    using assms(2,3) unfolding capiproxy_write_def
    by (auto simp: Let_def skb_put_def alloc_skb_def small split: if_splits Option.bind_splits list.splits option.splits)
qed

end
