(* ===== verification/ClientProperties.thy ===== *)
theory ClientProperties
  imports Example Daemon Module
begin

text \<open>
  Properties of the Linux client: of the daemon alone, of the daemon together with the server,
  of the kernel module and of the two together, with the states they are instantiated on.
\<close>

section \<open>Example states\<close>

definition demo_client :: client where
  "demo_client = \<lparr>sendbuffer = (\<lambda>_. 0), recvbuffer = (\<lambda>_. 0), c2p_shutdown = False, msgid = 0, session_id = 3,
     applmap_rtl = (\<lambda>_. 0), applmap_ltr = (\<lambda>_. 0), c_rx = [], c_tx = [], c_send_rets = [], node_reads = [],
     node_log = [], node_write_rets = []\<rparr>"

lemma demo_client_simps [simp]:
  "session_id demo_client = 3" "msgid demo_client = 0" "c_tx demo_client = []" "c_rx demo_client = []"
  "c2p_shutdown demo_client = False" "c_send_rets demo_client = []"
  by (simp_all add: demo_client_def)

text \<open>The answer of a server that has registered an application under the id 9.\<close>

definition demo_registered :: answer_header where
  "demo_registered = \<lparr>an_message_len = 40, an_header_len = 40, an_body_len = 0, an_data_len = 0, an_message_id = 1,
     an_message_type = TYPE_CAPI_REGISTER, an_app_id = 9, an_session_id = 3, an_proxy_error = PERROR_NONE, an_capi_error = 0\<rparr>"

definition demo_module :: kmodule where
  "demo_module = \<lparr>cards = (\<lambda>_. zero_card), di = False, klog = [], skb_mem = [], attach_rets = [], copy_rets = []\<rparr>"

definition demo_ctr :: capi_ctr where
  "demo_ctr = \<lparr>cnr = 1, manu = [], capi_version = [], serial = [], profile = []\<rparr>"

text \<open>A module whose first card is in use.\<close>

definition demo_running :: kmodule where
  "demo_running = demo_module\<lparr>cards := (\<lambda>_. zero_card\<lparr>status := CARD_RUNNING, ctrl := Some demo_ctr\<rparr>),
     skb_mem := [Some (\<lambda>_. 0)]\<rparr>"

section \<open>The daemon\<close>

text \<open>
  When the wait of the daemon for an answer is over, the buffer holds an answer of the
  expected type, or the last \<^verbatim>\<open>recv\<close> has delivered nothing.
\<close>

theorem daemon_waits_for_answer:
  assumes "wait_for_answer U ty c = Some c'"
  shows "an_message_type (ans c') = ty \<or> (\<exists>d. fst (client_recv d) < 1 \<and> c' = snd (client_recv d))"
  using wait_for_answer_result [OF assms] by (metis fst_conv snd_conv)

theorem daemon_waits_for_answer_witness:
  "an_message_type (ans demo_client) = 1 \<or> (\<exists>d. fst (client_recv d) < 1 \<and> demo_client = snd (client_recv d))"
proof (rule daemon_waits_for_answer [where U = capi_layout and c = demo_client])
  show "wait_for_answer capi_layout 1 demo_client = Some demo_client"
    by (subst wait_for_answer.simps) (simp add: client_recv_def demo_client_def)
qed

text \<open>
  C32. All requests of a run of the daemon carry consecutive message ids, one more each time,
  starting behind the value \<^verbatim>\<open>msgid\<close> had at the start.
\<close>

theorem daemon_message_ids_consecutive:
  assumes "main_client U socket_ok connect_ok n c = Some (b, c')" and "c_tx c = []"
  shows "map (\<lambda>(p, r). rq_message_id (request_header_at (buffer_of p))) (c_tx c') =
     map (\<lambda>i. msgid c + 1 + of_nat i) [0..<length (c_tx c')]"
proof -
  have "ids_ok (msgid c) c" using assms(2) by (simp add: ids_ok_def sent_ids_def)
  from main_client_ids [OF assms(1) this] show ?thesis by (simp add: ids_ok_def sent_ids_def)
qed

theorem daemon_message_ids_consecutive_witness:
  "\<exists>b c'. main_client capi_layout False False 0 (demo_client\<lparr>c_send_rets := [0]\<rparr>) = Some (b, c') \<and> length (c_tx c') = 1 \<and>
     map (\<lambda>(p, r). rq_message_id (request_header_at (buffer_of p))) (c_tx c') = [1]"
proof -
  let ?c = "demo_client\<lparr>c_send_rets := [0]\<rparr>"
  let ?d = "compose 0 0 TYPE_CAPI_MANUFACTURER 0 1 3 ?c"
  have h: "get32 (sendbuffer ?d) 0 = 36"
    using request_header_compose [of 0 0 TYPE_CAPI_MANUFACTURER 0 1 3 ?c]
    by (simp add: request_header_at_def request_head_def)
  have m: "main_client capi_layout False False 0 ?c = Some (False, ?d\<lparr>c_send_rets := [], c_tx := [(get_bytes (sendbuffer ?d) 0 36, 0)]\<rparr>)"
    unfolding main_client_def init_socket_def init_module_def remote_get_manufacturer_def remote_query_def
      client_send_def Let_def
    by (simp add: h get_bytes_chk_def BUFFER_SIZE_def compose_keeps main_loop.simps)
  from daemon_message_ids_consecutive [OF m] m show ?thesis by auto
qed

text \<open>
  C34. As long as the server does not hand out an id that is in use, the two tables of the
  daemon are inverse to each other: after a successful registration every registered local
  id, mapped to the server's id and back, is itself.
\<close>

theorem daemon_ids_map_back:
  assumes "local_register_appl U a c = Some (1, c')"
    and "\<forall>x \<in> A. applmap_rtl c (unat (applmap_ltr c (unat x))) = x"
    and "\<forall>x \<in> A - {a}. applmap_ltr c' (unat a) \<noteq> applmap_ltr c (unat x)"
  shows "\<forall>x \<in> insert a A. applmap_rtl c' (unat (applmap_ltr c' (unat x))) = x"
  using local_register_appl_inverse [OF assms(1), of A] assms(2,3) by (simp add: maps_inverse_def)

theorem daemon_ids_map_back_witness:
  "\<exists>c'. local_register_appl capi_layout 5 (demo_client\<lparr>c_rx := [Data (answer_packet demo_registered [])]\<rparr>) = Some (1, c') \<and>
     applmap_rtl c' (unat (applmap_ltr c' 5)) = 5"
proof -
  let ?c = "demo_client\<lparr>c_rx := [Data (answer_packet demo_registered [])]\<rparr>"
  obtain d where "remote_register_appl capi_layout (CAPIMSG_L3C capi_layout (recvbuffer ?c))
      (CAPIMSG_DBC capi_layout (recvbuffer ?c)) (CAPIMSG_DBL capi_layout (recvbuffer ?c)) ?c = Some (1, 9, d)"
    using remote_register_answered [of ?c demo_registered capi_layout "CAPIMSG_L3C capi_layout (recvbuffer ?c)"
        "CAPIMSG_DBC capi_layout (recvbuffer ?c)" "CAPIMSG_DBL capi_layout (recvbuffer ?c)"] by (auto simp: demo_registered_def)
  then obtain c' where c: "local_register_appl capi_layout 5 ?c = Some (1, c')"
    by (auto simp: local_register_appl_def capi_layout_def)
  with daemon_ids_map_back [OF c, of "{}"] show ?thesis by simp
qed

text \<open>
  C38. The daemon does not get past the greeting of this server: whatever the HELO answer of
  the server is for its request, \<^verbatim>\<open>init_socket\<close> fails and the daemon keeps its session id.
\<close>

theorem daemon_rejects_greeting:
  assumes "helo_pre s" and "exec_proxy_helo s = Some (n, s')" and "tx s = []"
    and "c_rx c = [Data (fst (hd (tx s')))]" and "init_socket True True c = Some (k, c')"
  shows "k = 0 \<and> session_id c' = session_id c"
proof -
  from exec_proxy_helo_eq [OF assms(1)] obtain p where e: "exec_proxy_helo s = Some (sock_send (answer_packet
      \<lparr>an_message_len = 124, an_header_len = 40, an_body_len = 84, an_data_len = 0,
       an_message_id = rq_message_id (req s), an_message_type = TYPE_PROXY_HELO,
       an_app_id = 0, an_session_id = sessionID s, an_proxy_error = PERROR_AUTH_REQUIRED,
       an_capi_error = 0\<rparr> (helo_body s)) (s\<lparr>client_info := helo_client s, out_packet := p\<rparr>))" (is "_ = Some (sock_send (answer_packet ?h _) ?s)")
    by blast
  have "fst (hd (tx s')) = answer_packet ?h (helo_body s)"
    by (cases rule: sock_send_cases [of "answer_packet ?h (helo_body s)" ?s]) (use e assms(2,3) in auto)
  note pkt = assms(4) [unfolded this]
  have rej: "an_proxy_error (answer_header_at (put_bytes 0 bs (recvbuffer c))) \<noteq> PERROR_NONE"
    if "sock_recv (c_rx c) BUFFER_SIZE = (r, bs, es)" for r bs es
  proof -
    have "length (answer_packet ?h (helo_body s)) \<le> BUFFER_SIZE"
      by (simp add: helo_body_def BUFFER_SIZE_def)
    with that pkt have "bs = answer_packet ?h (helo_body s)" by simp
    then show ?thesis by (simp add: answer_packet_def answer_header_at_encode PERROR_AUTH_REQUIRED_def PERROR_NONE_def)
  qed
  show ?thesis
    using assms(5) unfolding init_socket_def Let_def
    by (auto simp: rej set_req_keeps compose_keeps client_recv_def split: Option.bind_splits if_splits prod.splits elim!: client_send_cases dest: rej)
qed

theorem daemon_rejects_greeting_witness:
  "\<exists>n s' k c'. exec_proxy_helo (input (demo_request TYPE_PROXY_HELO (replicate 76 0) []) demo_server) = Some (n, s') \<and>
     init_socket True True (demo_client\<lparr>c_rx := [Data (fst (hd (tx s')))]\<rparr>) = Some (k, c') \<and> k = 0"
proof -
  let ?s = "input (demo_request TYPE_PROXY_HELO (replicate 76 0) []) demo_server"
  obtain n s' where s: "exec_proxy_helo ?s = Some (n, s')"
    using exec_proxy_helo_eq [OF helo_pre_demo] by (metis surj_pair)
  let ?c = "demo_client\<lparr>c_rx := [Data (fst (hd (tx s')))]\<rparr>"
  obtain k c' where c: "init_socket True True ?c = Some (k, c')" using init_socket_total by blast
  have "k = 0 \<and> session_id c' = session_id ?c"
    by (rule daemon_rejects_greeting [OF helo_pre_demo s _ _ c]) simp_all
  with s c show ?thesis by blast
qed

text \<open>
  C39. The queries of the daemon end the session: a query is a request that consists of a
  header only, on which the session of the server hangs up without an answer.
\<close>

theorem daemon_query_hangs_up:
  assumes "remote_query U ty k c = Some (n, bs, c')"
  shows "\<exists>pkt r rest. c_tx c' = c_tx c @ (pkt, r) # rest \<and>
     (\<exists>s'. session L (s\<lparr>rx := [Data pkt]\<rparr>) = Some (0, s') \<and> tx s' = tx s \<and> \<not> sock_open s')"
proof -
  let ?h = "request_head 0 0 ty 0 1 (session_id c) c"
  obtain r rest where tx: "c_tx c' = c_tx c @ (encode_request_header ?h, r) # rest"
    using remote_query_sends [OF assms] by blast
  have hd: "request_header_at (buffer_of (encode_request_header ?h)) = ?h"
    using request_header_at_encode [of ?h "[]"] by (simp add: buffer_of_def)
  have ne: "encode_request_header ?h \<noteq> []" by (metis length_encode_request_header list.size(3) zero_neq_numeral)
  have "\<exists>s'. session L (s\<lparr>rx := [Data (encode_request_header ?h)]\<rparr>) = Some (0, s') \<and> tx s' = tx s \<and> \<not> sock_open s'"
    using header_only_session [of "s\<lparr>rx := [Data (encode_request_header ?h)]\<rparr>" L] hd ne
    by (simp add: request_head_def)
  with tx show ?thesis by blast
qed

theorem daemon_query_hangs_up_witness:
  "\<exists>n bs c' pkt r rest. remote_query capi_layout TYPE_CAPI_PROFILE 64 (demo_client\<lparr>c_send_rets := [0]\<rparr>) = Some (n, bs, c') \<and>
     c_tx c' = (pkt, r) # rest \<and>
     (\<exists>s'. session demo_capi (demo_server\<lparr>rx := [Data pkt]\<rparr>) = Some (0, s') \<and> tx s' = [])"
proof -
  let ?c = "demo_client\<lparr>c_send_rets := [0]\<rparr>"
  let ?d = "compose 0 0 TYPE_CAPI_PROFILE 0 1 3 ?c"
  have h: "get32 (sendbuffer ?d) 0 = 36"
    using request_header_compose [of 0 0 TYPE_CAPI_PROFILE 0 1 3 ?c]
    by (simp add: request_header_at_def request_head_def)
  then have "\<exists>c'. remote_query capi_layout TYPE_CAPI_PROFILE 64 ?c = Some (0, [], c')"
    unfolding remote_query_def client_send_def Let_def
    by (simp add: get_bytes_chk_def BUFFER_SIZE_def compose_keeps)
  then obtain c' where c: "remote_query capi_layout TYPE_CAPI_PROFILE 64 ?c = Some (0, [], c')" by blast
  from daemon_query_hangs_up [OF c, of demo_capi demo_server] c show ?thesis by auto
qed

section \<open>The kernel module\<close>

text \<open>
  C15. In every state the module can get into, the counter of pending messages of each card is
  the length of its queue, the queue holds at most 33 messages, and a read never takes a
  message from an empty queue (which would be a null pointer).
\<close>

theorem module_queue_invariant:
  assumes "kreachable U m"
  shows "sk_pending (cards m i) = int (length (outgoing_queue (cards m i))) \<and>
     length (outgoing_queue (cards m i)) \<le> 33 \<and> capiproxy_read U i nonblock len ws m \<noteq> None"
  using kreachable_queues_ok [OF assms] read_ok [OF kreachable_queues_ok [OF assms], of U i nonblock len ws]
  by (auto simp: queues_ok_def card_ok_def)

theorem module_queue_invariant_witness:
  "kreachable capi_layout (snd (capiproxy_init True demo_module)) \<and>
   capiproxy_read capi_layout 0 False 10 [] (snd (capiproxy_init True demo_module)) \<noteq> None"
proof -
  have "kreachable capi_layout (snd (capiproxy_init True demo_module))"
    by (rule k_init) (simp add: demo_module_def)
  with module_queue_invariant [OF this, of 0 False 10 "[]"] show ?thesis by blast
qed

text \<open>
  C16. The node delivers the messages of the CAPI layer in the order they were sent, each
  exactly once and unchanged, up to the capacity of the queue; what exceeds it is dropped. The status of
  the application plays no part: the code that dropped the messages of an application the server has refused and put back those
  of one still waiting, which \<^verbatim>\<open>readme.txt\<close> describes, is commented out.
\<close>

theorem module_delivers_in_order:
  assumes "in_service i len m" and "outgoing_queue (cards m i) = []" and "\<forall>skb \<in> set skbs. deliverable len skb"
  shows "\<exists>m'. read_all U i len (min 33 (length skbs)) (fold (capiproxy_send_message U i) skbs m) =
     Some (map octets (take 33 skbs), m')"
  using card_queue.put_then_drain [OF assms] by (simp add: read_all_drain)

theorem module_delivers_in_order_witness:
  "\<exists>m'. read_all capi_layout 0 100 2 (fold (capiproxy_send_message capi_layout 0)
       [\<lparr>sk_data = (\<lambda>_. 1), sk_len = 8, sk_tail = 8\<rparr>, \<lparr>sk_data = (\<lambda>_. 2), sk_len = 9, sk_tail = 9\<rparr>] demo_running) =
     Some ([replicate 8 1, replicate 9 2], m')"
proof -
  let ?x = "\<lparr>sk_data = (\<lambda>_. 1), sk_len = 8, sk_tail = 8\<rparr>" and ?y = "\<lparr>sk_data = (\<lambda>_. 2), sk_len = 9, sk_tail = 9\<rparr>"
  have s: "in_service 0 100 demo_running" "outgoing_queue (cards demo_running 0) = []"
    by (simp_all add: in_service_def demo_running_def demo_module_def zero_card_def card_ok_def card_consts)
  have "\<forall>skb \<in> set [?x, ?y]. deliverable 100 skb" by (simp add: deliverable_def)
  from module_delivers_in_order [OF s this, of capi_layout] show ?thesis
    by (simp add: octets_def get_bytes_def numeral_eq_Suc)
qed

text \<open>
  Registering an application on a card in use marks it as waiting and queues a control
  message in which the daemon finds the application id and the parameters, with the block
  count limited to the maximal window and the block length to 1024.
\<close>

theorem module_register_message:
  assumes "capiutil_documented U" and "card_ok (cards m i)" and "status (cards m i) \<noteq> CARD_FREE"
    and "APPL_IS_FREE U (cards m i) a = Some True" and "skb_mem m = Some b # bs"
    and "length (outgoing_queue (cards m i)) < 33"
  shows "\<exists>m' skb. capiproxy_register_appl U i a rp m = Some m' \<and>
     outgoing_queue (cards m' i) = outgoing_queue (cards m i) @ [skb] \<and>
     APPL U (cards m' i) a = Some APPL_WAITING \<and> sk_len skb = 18 \<and>
     CAPIMSG_APPID U (sk_data skb) = a \<and> CAPIMSG_COMMAND U (sk_data skb) = TYPE_PROXY \<and>
     CAPIMSG_SUBCOMMAND U (sk_data skb) = TYPE_REGISTER_APP \<and>
     CAPIMSG_L3C U (sk_data skb) = level3cnt rp \<and>
     CAPIMSG_DBC U (sk_data skb) = min (datablkcnt rp) (K_MAXDATAWINDOW U) \<and>
     CAPIMSG_DBL U (sk_data skb) = min (datablklen rp) 1024"
proof -
  let ?skb = "register_message U a (clipped U rp) \<lparr>sk_data = b, sk_len = 0, sk_tail = 0\<rparr>"
  obtain m' where "capiproxy_register_appl U i a rp m = Some m'"
      "outgoing_queue (cards m' i) = outgoing_queue (cards m i) @ [?skb]"
      "APPL U (cards m' i) a = Some APPL_WAITING"
    using register_appl_sends [OF assms(3,4,5,2,6,1)] by blast
  then show ?thesis
    by (intro exI [of _ m'] exI [of _ ?skb]) (simp add: register_message_fields [OF assms(1)] clipped_def)
qed

theorem module_register_message_witness:
  "\<exists>m' skb. capiproxy_register_appl capi_layout 0 5 \<lparr>level3cnt = 2, datablkcnt = 100, datablklen = 4096\<rparr> demo_running = Some m' \<and>
     outgoing_queue (cards m' 0) = [skb] \<and> CAPIMSG_APPID capi_layout (sk_data skb) = 5 \<and>
     CAPIMSG_DBC capi_layout (sk_data skb) = 8 \<and> CAPIMSG_DBL capi_layout (sk_data skb) = 1024"
proof -
  have "card_ok (cards demo_running 0)" "status (cards demo_running 0) \<noteq> CARD_FREE"
    "APPL_IS_FREE capi_layout (cards demo_running 0) 5 = Some True" "skb_mem demo_running = Some (\<lambda>_. 0) # []"
    "length (outgoing_queue (cards demo_running 0)) < 33"
    by (simp_all add: demo_running_def zero_card_def card_ok_def card_consts APPL_IS_FREE_def APPL_def
        appl_index_def capi_layout_def appl_consts)
  from module_register_message [OF capi_layout_documented this, of "\<lparr>level3cnt = 2, datablkcnt = 100, datablklen = 4096\<rparr>"]
  show ?thesis by (fastforce simp: demo_running_def zero_card_def capi_layout_def)
qed

text \<open>
  The data block the daemon passes with \<^verbatim>\<open>IOCTL_SET_DATA\<close> after its four queries is what the
  module expects: the controller gets the four parts and is reported ready.
\<close>

theorem module_takes_controller_data:
  assumes "capiutil_documented U" and "ctrl (cards m i) = Some c" and "init_module U d = Some (1, d')"
  shows "\<exists>arg ma ve se pr m'. last (node_log d') = NodeIoctl IOCTL_SET_DATA arg \<and>
    capiproxy_ioctl U i IOCTL_SET_DATA arg m = Some (0, m') \<and>
    arg = Pointer (bytes_le 4 (152 :: u32) @ ma @ ve @ se @ pr) \<and>
    ctrl (cards m' i) = Some (c\<lparr>manu := ma, capi_version := ve, serial := se, profile := pr\<rparr>) \<and>
    status (cards m' i) = CARD_RUNNING \<and> klog m' = klog m @ [ready i]"
proof -
  obtain ma ve se pr where l: "last (node_log d') = NodeIoctl IOCTL_SET_DATA (Pointer (bytes_le 4 (152 :: u32) @ ma @ ve @ se @ pr))"
    "length ma = 64" "length ve = 16" "length se = 8" "length pr = 64"
    using init_module_data [OF assms(1,3)] by blast
  then show ?thesis using ioctl_set_data [OF assms(1,2) l(2-5)] by blast
qed

theorem module_takes_controller_data_witness:
  "\<exists>d' m' arg. init_module capi_layout demo_client = Some (1, d') \<and> last (node_log d') = NodeIoctl IOCTL_SET_DATA arg \<and>
     capiproxy_ioctl capi_layout 0 IOCTL_SET_DATA arg demo_running = Some (0, m') \<and> status (cards m' 0) = CARD_RUNNING"
proof -
  obtain d' where d: "init_module capi_layout demo_client = Some (1, d')"
    using init_module_unanswered [of demo_client capi_layout] by (auto simp: capi_layout_def demo_client_def BUFFER_SIZE_def)
  have "ctrl (cards demo_running 0) = Some demo_ctr" by (simp add: demo_running_def)
  from module_takes_controller_data [OF capi_layout_documented this d] d show ?thesis by blast
qed

text \<open>
  C37. What the daemon writes is handed to the CAPI layer unchanged and under its application
  id, but the socket buffer claims twice its length, since the length is set by hand and
  then increased again by \<^verbatim>\<open>skb_put\<close>. No NCCI is ever announced: the command, one octet, is
  compared with constants above 255. Unchanged includes the number of the controller, which the comments of the module
  say it adjusts: the mapped number is computed for the NCCI alone and goes nowhere.
\<close>

theorem module_write_hands_over:
  assumes "capiutil_documented U" and "capiproxy_write U i buf m = Some (r, m')" and "0 \<le> r"
  shows "\<exists>skb b. klog m' = klog m @ [handle_capimsg i (CAPIMSG_APPID U (sk_data skb)) skb] \<and>
     sk_data skb = put_bytes 0 buf b \<and> sk_len skb = 2 * length buf \<and> r = int (length buf)"
  by (rule write_message [OF assms])

theorem module_write_hands_over_witness:
  "\<exists>m' skb. capiproxy_write capi_layout 0 (replicate 12 7) demo_running = Some (12, m') \<and>
     last (klog m') = handle_capimsg 0 (CAPIMSG_APPID capi_layout (sk_data skb)) skb \<and> sk_len skb = 24"
proof -
  have "\<exists>m'. capiproxy_write capi_layout 0 (replicate 12 7) demo_running = Some (12, m')"
    by (simp add: capiproxy_write_def demo_running_def alloc_skb_def skb_put_def Let_def)
  then obtain m' where w: "capiproxy_write capi_layout 0 (replicate 12 7) demo_running = Some (12, m')" by blast
  then obtain skb b where "klog m' = klog demo_running @ [handle_capimsg 0 (CAPIMSG_APPID capi_layout (sk_data skb)) skb]"
      "sk_len skb = 2 * length (replicate 12 (7 :: byte))"
    using module_write_hands_over [OF capi_layout_documented w] by auto
  with w show ?thesis by (intro exI [of _ m'] exI [of _ skb]) simp
qed

text \<open>
  An application whose registration the daemon has reported as failed cannot be
  registered on the card again: the next attempt is ignored, without a message to the daemon
  and without a report to the CAPI layer.
\<close>

theorem module_failed_registration_blocks:
  assumes "status (cards m i) \<noteq> CARD_FREE"
    and "capiproxy_ioctl U i IOCTL_ERROR_REGFAIL (Value (ucast a)) m = Some (r, m')"
  shows "capiproxy_register_appl U i a rp m' = Some m'"
  using regfail_marks [OF assms(2)] assms(1)
  by (intro register_refused) (simp_all add: APPL_IS_FREE_def appl_consts)

theorem module_failed_registration_blocks_witness:
  "\<exists>m'. capiproxy_ioctl capi_layout 0 IOCTL_ERROR_REGFAIL (Value (ucast (5 :: u16))) demo_running = Some (0, m') \<and>
     capiproxy_register_appl capi_layout 0 5 \<lparr>level3cnt = 2, datablkcnt = 7, datablklen = 2048\<rparr> m' = Some m'"
proof -
  have "\<exists>m'. capiproxy_ioctl capi_layout 0 IOCTL_ERROR_REGFAIL (Value (ucast (5 :: u16))) demo_running = Some (0, m')"
    unfolding capiproxy_ioctl_def ioctl_arg.case Let_def ucast_u16
    by (simp add: demo_running_def node_consts appl_marks appl_mark_def appl_index_def capi_layout_def)
  then obtain m' where f: "capiproxy_ioctl capi_layout 0 IOCTL_ERROR_REGFAIL (Value (ucast (5 :: u16))) demo_running = Some (0, m')"
    by blast
  have "status (cards demo_running 0) \<noteq> CARD_FREE" by (simp add: demo_running_def card_consts)
  from module_failed_registration_blocks [OF this f] f show ?thesis by blast
qed

text \<open>
  Reading the proc file in pieces of any size gives its text, nothing twice and nothing
  left out.
\<close>

theorem module_proc_file_complete:
  "read_proc_from 0 count i m = proc_page (cards m i)"
  by (simp add: read_proc_rest)

end
