(* ===== verification/DaemonGreeting.thy ===== *)
theory DaemonGreeting
  imports Daemon Proxy
begin

text \<open>
  What the daemon says first, \<^verbatim>\<open>init_socket\<close> in \<^verbatim>\<open>linux-client/daemon/src/main.c\<close>, and which answers it takes: the two
  sides of the greeting that the properties of several servers share.
\<close>

lemma get32_put_get_bytes: "off + 4 \<le> n \<Longrightarrow> get32 (put_bytes 0 (get_bytes b 0 n) b') off = get32 b off"
  unfolding get32_def by (rule arg_cong [where f = word_le], rule get_bytes_eqI) (auto simp: put_bytes_def)

text \<open>The request as it is composed, and the packet.\<close>

definition composed_greeting :: "client \<Rightarrow> client" where
  "composed_greeting c = set_req 108 1 (set_req 104 1 (set_req 100 OS_TYPE_LINUX
     ((\<lambda>c. c\<lparr>sendbuffer := put_bytes 36 (string_bytes ''Freddy'' @ [0]) (sendbuffer c)\<rparr>)
        (compose (of_nat sizeof_REQUEST_PROXY_HELO) 0 TYPE_PROXY_HELO 0 0 0 c))))"

definition greeting :: "client \<Rightarrow> byte list" where
  "greeting c = get_bytes (sendbuffer (composed_greeting c)) 0 112"

definition greeting_head :: "client \<Rightarrow> request_header" where
  "greeting_head c = request_head 76 0 TYPE_PROXY_HELO 0 0 0 c"

lemma composed_greeting_keeps:
  "c_send_rets (composed_greeting c) = c_send_rets c" "c_rx (composed_greeting c) = c_rx c"
  "c_tx (composed_greeting c) = c_tx c"
  by (simp_all add: composed_greeting_def set_req_def compose_keeps)

lemma composed_greeting_rx: "composed_greeting (c\<lparr>c_rx := r\<rparr>) = (composed_greeting c)\<lparr>c_rx := r\<rparr>"
  by (simp add: composed_greeting_def set_req_def compose_def Let_def)

lemma composed_greeting_head: "request_header_at (sendbuffer (composed_greeting c)) = greeting_head c"
  by (simp add: composed_greeting_def set_req_keeps request_header_put32 request_header_put_bytes
      request_header_compose sizeof_defs greeting_head_def)

lemma length_greeting [simp]: "length (greeting c) = 112"
  by (simp add: greeting_def)

lemma greeting_header [simp]: "request_header_at (put_bytes 0 (greeting c) b) = greeting_head c"
  unfolding composed_greeting_head [symmetric] by (simp add: request_header_at_def greeting_def get32_put_get_bytes)

lemma greeting_fields:
  "get32 (put_bytes 0 (greeting c) b) 100 = OS_TYPE_LINUX" "get32 (put_bytes 0 (greeting c) b) 104 = 1"
  "get32 (put_bytes 0 (greeting c) b) 108 = 1"
  by (simp_all add: greeting_def get32_put_get_bytes) (simp_all add: composed_greeting_def set_req_keeps buf_simps)

lemma greeting_name: "strcpy_chk 64 PACKET_SIZE (put_bytes 0 (greeting c) b) 36 = Some (string_bytes ''Freddy'')"
proof -
  let ?n = "string_bytes ''Freddy''"
  have n: "0 \<notin> set ?n" by (simp add: string_bytes_def)
  have "put_bytes 0 (greeting c) b (36 + i) = (?n @ [0]) ! i" if "i < 7" for i
  proof -
    have "put_bytes 0 (greeting c) b (36 + i) = sendbuffer (composed_greeting c) (36 + i)"
      using that by (simp add: put_bytes_def greeting_def)
    also have "\<dots> = (?n @ [0]) ! i"
      using that by (simp add: composed_greeting_def set_req_def buf_simps put32_def put_bytes_def)
    finally show ?thesis .
  qed
  from this [of 6] this have "cstring (PACKET_SIZE - 36) (put_bytes 0 (greeting c) b) 36 = Some ?n"
    using n by (intro cstring_name) (simp_all add: nth_append PACKET_SIZE_def)
  then show ?thesis by (simp add: strcpy_chk_def)
qed

text \<open>Any answer without a proxy error is accepted.\<close>

lemma greeting_accepted:
  assumes "c_send_rets c = []" and "an_proxy_error h = PERROR_NONE" and "length body = 84"
  shows "\<exists>c'. init_socket True True (c\<lparr>c_rx := [Data (answer_packet h body)]\<rparr>) = Some (1, c') \<and>
     c_tx c' = c_tx c @ [(greeting c, 112)] \<and> session_id c' = an_session_id h"
proof -
  define c1 where "c1 = composed_greeting (c\<lparr>c_rx := [Data (answer_packet h body)]\<rparr>)"
  have keep: "c_send_rets c1 = []" "c_rx c1 = [Data (answer_packet h body)]" "c_tx c1 = c_tx c"
      "get_bytes (sendbuffer c1) 0 112 = greeting c"
    using assms(1) by (simp_all add: c1_def composed_greeting_keeps) (simp add: composed_greeting_rx greeting_def)
  have "get32 (sendbuffer c1) 0 = 112"
    using composed_greeting_head [of "c\<lparr>c_rx := [Data (answer_packet h body)]\<rparr>"]
    by (simp add: c1_def request_header_at_def request_head_def greeting_head_def)
  then have snd: "client_send c1 = Some (112, c1\<lparr>c_tx := c_tx c @ [(greeting c, 112)]\<rparr>)"
    using keep by (simp add: client_send_def get_bytes_chk_def BUFFER_SIZE_def)
  let ?c2 = "c1\<lparr>c_tx := c_tx c @ [(greeting c, 112)], c_rx := [],
      recvbuffer := put_bytes 0 (answer_packet h body) (recvbuffer c1)\<rparr>"
  have rcv: "client_recv (c1\<lparr>c_tx := c_tx c @ [(greeting c, 112)]\<rparr>) = (124, ?c2)"
    using keep assms(3) by (simp add: client_recv_def BUFFER_SIZE_def)
  have "ans ?c2 = h" by (simp add: answer_packet_def answer_header_at_encode)
  then have "init_socket True True (c\<lparr>c_rx := [Data (answer_packet h body)]\<rparr>) = Some (1, ?c2\<lparr>session_id := an_session_id h\<rparr>)"
    unfolding init_socket_def Let_def using snd rcv assms(2) by (simp add: c1_def [unfolded composed_greeting_def, symmetric])
  then show ?thesis by simp
qed

end
