(* ===== verification/Win32Client.thy ===== *)
theory Win32Client
  imports Session
begin

text \<open>
  The Windows client, \<^verbatim>\<open>win32-client/capi2032.cpp\<close> and \<^verbatim>\<open>capi2032.h\<close>: a library with the entry
  points of the CAPI that sends a request to the server for each call and waits until the
  dispatcher thread has delivered the answer.

  State: the globals of the file, the table \<^verbatim>\<open>hash_start\<close> of waiting calls, the socket with
  scripted results as in the server, and the results of \<^verbatim>\<open>malloc\<close> (true by default) and
  \<^verbatim>\<open>GlobalAlloc\<close> (an address, 0 for \<^verbatim>\<open>NULL\<close>). The variable \<^verbatim>\<open>answer\<close> of a call is a slot; a slot is
  live until its call returns. \<open>None\<close> is a crash: an access outside a buffer, through a null
  pointer, or to a slot that is not live any more.

  The dispatcher thread runs while a call waits; the critical sections are not modelled.
  The code is C++, where a structure without members has the size 1.
\<close>

section \<open>Data\<close>

definition MSG_BUFFER :: nat where "MSG_BUFFER = 10000"
definition VERSION_MAJOR :: u32 where "VERSION_MAJOR = 1"
definition VERSION_MINOR :: u32 where "VERSION_MINOR = 3"
definition AUTH_DESIRED :: bool where "AUTH_DESIRED = False"
definition DEFAULT_PORT :: u32 where "DEFAULT_PORT = 6674"

record appl_list =
  ApplID :: u32
  appl_data :: u32

datatype answer_ptr = NULL_ANSWER | ILLEGAL_ANSWER | Answer buffer

record w32 =
  w_status :: int
  msg_id :: u32
  max_timeout :: u32
  w_session :: u32
  hash_start :: "(u32 \<times> nat) list"
  slots :: "nat \<Rightarrow> answer_ptr"
  live :: "nat list"
  w_apps :: "appl_list list"
  receiver :: bool
  socke_open :: bool
  w_rx :: "recv_event list"
  w_tx :: "(byte list \<times> int) list"
  w_send_rets :: "int list"
  mallocs :: "bool list"
  galloc :: "u32 list"
  gfreed :: "u32 list"

definition sizeof_empty :: nat where "sizeof_empty = 1"

definition rbodysize :: "u32 \<Rightarrow> int" where
  "rbodysize ty =
     (if ty = TYPE_CAPI_REGISTER then int sizeof_REQUEST_CAPI_REGISTER
      else if ty = TYPE_CAPI_RELEASE then int sizeof_empty
      else if ty = TYPE_CAPI_PUTMESSAGE then int sizeof_empty
      else if ty = TYPE_CAPI_GETMESSAGE then int sizeof_empty
      else if ty = TYPE_CAPI_WAITFORSIGNAL then int sizeof_empty
      else if ty = TYPE_CAPI_MANUFACTURER then int sizeof_empty
      else if ty = TYPE_CAPI_VERSION then int sizeof_empty
      else if ty = TYPE_CAPI_SERIAL then int sizeof_empty
      else if ty = TYPE_CAPI_PROFILE then int sizeof_empty
      else if ty = TYPE_CAPI_INSTALLED then int sizeof_empty
      else if ty = TYPE_PROXY_HELO then int sizeof_REQUEST_PROXY_HELO
      else if ty = TYPE_PROXY_AUTH then int sizeof_REQUEST_PROXY_AUTH
      else if ty = TYPE_PROXY_KEEPALIVE then int sizeof_empty
      else if ty = TYPE_PROXY_SHUTDOWN then 0
      else -1)"

definition abodysize :: "u32 \<Rightarrow> int" where
  "abodysize ty =
     (if ty = TYPE_CAPI_REGISTER then int sizeof_empty
      else if ty = TYPE_CAPI_RELEASE then int sizeof_empty
      else if ty = TYPE_CAPI_PUTMESSAGE then int sizeof_empty
      else if ty = TYPE_CAPI_GETMESSAGE then int sizeof_empty
      else if ty = TYPE_CAPI_WAITFORSIGNAL then int sizeof_empty
      else if ty = TYPE_CAPI_MANUFACTURER then int sizeof_ANSWER_CAPI_MANUFACTURER
      else if ty = TYPE_CAPI_VERSION then int sizeof_ANSWER_CAPI_VERSION
      else if ty = TYPE_CAPI_SERIAL then int sizeof_ANSWER_CAPI_SERIAL
      else if ty = TYPE_CAPI_PROFILE then int sizeof_ANSWER_CAPI_PROFILE
      else if ty = TYPE_CAPI_INSTALLED then int sizeof_empty
      else if ty = TYPE_PROXY_HELO then int sizeof_ANSWER_PROXY_HELO
      else if ty = TYPE_PROXY_AUTH then int sizeof_empty
      else if ty = TYPE_PROXY_KEEPALIVE then int sizeof_empty
      else if ty = TYPE_PROXY_SHUTDOWN then int sizeof_ANSWER_PROXY_SHUTDOWN
      else -1)"

lemmas bodysize_defs = rbodysize_def abodysize_def sizeof_empty_def

section \<open>Memory and socket\<close>

definition wmalloc :: "w32 \<Rightarrow> bool \<times> w32" where
  "wmalloc s = (case mallocs s of [] \<Rightarrow> (True, s) | b # bs \<Rightarrow> (b, s\<lparr>mallocs := bs\<rparr>))"

definition GlobalAlloc :: "w32 \<Rightarrow> u32 \<times> w32" where
  "GlobalAlloc s = (case galloc s of [] \<Rightarrow> (0, s) | a # as \<Rightarrow> (a, s\<lparr>galloc := as\<rparr>))"

definition GlobalFree :: "u32 \<Rightarrow> w32 \<Rightarrow> w32" where
  "GlobalFree a s = s\<lparr>gfreed := gfreed s @ [a]\<rparr>"

definition wsend :: "buffer \<Rightarrow> w32 \<Rightarrow> (int \<times> w32) option" where
  "wsend msg s = do {
     pkt \<leftarrow> get_bytes_chk MSG_BUFFER msg 0 (unat (get32 msg 0));
     let (r, rs) = (case w_send_rets s of [] \<Rightarrow> (int (length pkt), []) | r # rs \<Rightarrow> (r, rs));
     Some (r, s\<lparr>w_send_rets := rs, w_tx := w_tx s @ [(pkt, r)]\<rparr>)
   }"

text \<open>\<^verbatim>\<open>recv\<close> into a buffer of \<^verbatim>\<open>_MSG_BUFFER\<close> octets that starts with the contents \<open>b\<close>.\<close>

definition wrecv :: "buffer \<Rightarrow> w32 \<Rightarrow> int \<times> buffer \<times> w32" where
  "wrecv b s = (case sock_recv (w_rx s) MSG_BUFFER of (n, bs, es) \<Rightarrow> (n, put_bytes 0 bs b, s\<lparr>w_rx := es\<rparr>))"

definition zeroes :: buffer where "zeroes = (\<lambda>_. 0)"

section \<open>Waiting calls\<close>

definition sendRequest :: "buffer \<Rightarrow> w32 \<Rightarrow> (int \<times> w32) option" where
  "sendRequest msg s = wsend msg s"

text \<open>
  The table of waiting calls as the list of its entries. \<open>addToHash\<close> and \<open>removeFromHash\<close> are the calls
  that no other thread interrupts between the read of \<^verbatim>\<open>hash_start\<close> and the critical section; \<open>Win32Hash\<close> has the two steps
  and the nodes in memory, and shows that these definitions are what the steps do one after the other.
\<close>

definition addToHash :: "u32 \<Rightarrow> nat \<Rightarrow> w32 \<Rightarrow> u32 \<times> w32" where
  "addToHash msgId slot s =
     (case wmalloc s of (ok, s) \<Rightarrow>
        if \<not> ok then (1, s) else (0, s\<lparr>hash_start := hash_start s @ [(msgId, slot)]\<rparr>))"

fun remove_first :: "u32 \<Rightarrow> (u32 \<times> nat) list \<Rightarrow> (u32 \<times> nat) list" where
  "remove_first i [] = []"
| "remove_first i ((j, d) # q) = (if j = i then q else (j, d) # remove_first i q)"

definition removeFromHash :: "u32 \<Rightarrow> w32 \<Rightarrow> w32" where
  "removeFromHash msgId s = s\<lparr>hash_start := remove_first msgId (hash_start s)\<rparr>"

fun find_first :: "u32 \<Rightarrow> (u32 \<times> nat) list \<Rightarrow> nat option" where
  "find_first i [] = None"
| "find_first i ((j, d) # q) = (if j = i then Some d else find_first i q)"

definition getDataPtrFromMsgId :: "u32 \<Rightarrow> w32 \<Rightarrow> nat option" where
  "getDataPtrFromMsgId msgId s = find_first msgId (hash_start s)"

definition dispatchMessage :: "buffer \<Rightarrow> w32 \<Rightarrow> w32 option" where
  "dispatchMessage msg s =
     (let i = an_message_id (answer_header_at msg);
          data = getDataPtrFromMsgId i s;
          s = removeFromHash i s
      in case data of
           None \<Rightarrow> None
         | Some d \<Rightarrow> if d \<in> set (live s) then Some (s\<lparr>slots := (slots s)(d := Answer msg)\<rparr>) else None)"

text \<open>One round of the dispatcher thread; it ends when there is no memory or no connection.\<close>

definition messageDispatcher_round :: "w32 \<Rightarrow> w32 option" where
  "messageDispatcher_round s =
     (case wmalloc s of (ok, s) \<Rightarrow>
        if \<not> ok then Some (s\<lparr>receiver := False\<rparr>)
        else case wrecv zeroes s of (n, msg, s) \<Rightarrow>
          if n = -1 \<or> n < int sizeof_ANSWER_HEADER then
            if n = 0 \<or> n = -1 then Some (s\<lparr>receiver := False\<rparr>) else Some s
          else dispatchMessage msg s)"

lemma wmalloc_keeps: "wmalloc s = (b, s') \<Longrightarrow> w_rx s' = w_rx s \<and> receiver s' = receiver s"
  by (auto simp: wmalloc_def split: list.splits)

lemma dispatcher_progress:
  assumes "messageDispatcher_round s = Some s'" and "receiver s'"
  shows "rx_size (w_rx s') < rx_size (w_rx s)"
proof -
  obtain ok s1 where m: "wmalloc s = (ok, s1)" by fastforce
  obtain n bs es where r: "sock_recv (w_rx s1) MSG_BUFFER = (n, bs, es)" by (metis prod_cases3)
  have "0 < n" "w_rx s' = es"
    using assms m r
    by (auto simp: messageDispatcher_round_def wrecv_def dispatchMessage_def removeFromHash_def Let_def
        sizeof_ANSWER_HEADER_def split: if_splits option.splits
        elim: sock_recv.elims)
  then show ?thesis using sock_recv_progress [OF r] wmalloc_keeps [OF m] by simp
qed

text \<open>
  The wait of a call: rounds of the dispatcher until the slot is set. A slot that is still
  \<open>NULL_ANSWER\<close> when the dispatcher has ended is never set: the call does not return.
\<close>

function wait_answer_slot :: "nat \<Rightarrow> w32 \<Rightarrow> w32 option" where
  "wait_answer_slot d s =
     (if slots s d \<noteq> NULL_ANSWER \<or> \<not> receiver s then Some s
      else case messageDispatcher_round s of None \<Rightarrow> None | Some s' \<Rightarrow>
             if receiver s' then wait_answer_slot d s' else Some s')"
  by pat_completeness auto
termination
  by (relation "measure (\<lambda>(d, s). rx_size (w_rx s))") (auto dest: dispatcher_progress)

declare wait_answer_slot.simps [simp del]

definition fresh_slot :: "w32 \<Rightarrow> nat" where
  "fresh_slot s = Suc (fold max (live s @ map snd (hash_start s)) 0)"

text \<open>
  The result is the value of \<^verbatim>\<open>answer\<close>. The timeout is disabled
  (\<^verbatim>\<open>_WAITFORMESSAGE_TIMEOUT\<close> is 0). When the request cannot be sent, the entry in the table stays.
\<close>

definition sendAndReceive :: "u32 \<Rightarrow> buffer \<Rightarrow> w32 \<Rightarrow> (answer_ptr \<times> w32) option" where
  "sendAndReceive msgId request s = do {
     let d = fresh_slot s;
     let s = s\<lparr>live := d # live s, slots := (slots s)(d := NULL_ANSWER)\<rparr>;
     let (_, s) = addToHash msgId d s;
     (err, s) \<leftarrow> sendRequest request s;
     if err = 0 \<or> err = -1 then Some (ILLEGAL_ANSWER, s\<lparr>live := remove1 d (live s)\<rparr>)
     else do {
       s \<leftarrow> wait_answer_slot d s;
       Some (slots s d, if slots s d = NULL_ANSWER then s else s\<lparr>live := remove1 d (live s)\<rparr>)
     }
   }"

section \<open>Registered applications\<close>

definition add_app_w32 :: "u32 \<Rightarrow> w32 \<Rightarrow> w32 option" where
  "add_app_w32 appl s = (case wmalloc s of (ok, s) \<Rightarrow>
     if ok then Some (s\<lparr>w_apps := w_apps s @ [\<lparr>ApplID = appl, appl_data = 0\<rparr>]\<rparr>) else None)"

text \<open>The entry of an application, its removal and the replacement of its data, on the list.\<close>

fun unlink_app :: "u32 \<Rightarrow> appl_list list \<Rightarrow> appl_list option \<times> appl_list list" where
  "unlink_app a [] = (None, [])"
| "unlink_app a (x # xs) =
     (if ApplID x = a then (Some x, xs) else case unlink_app a xs of (r, ys) \<Rightarrow> (r, x # ys))"

definition del_app_w32 :: "u32 \<Rightarrow> w32 \<Rightarrow> w32" where
  "del_app_w32 appl s = (case unlink_app appl (w_apps s) of
       (None, _) \<Rightarrow> s
     | (Some x, xs) \<Rightarrow>
         let s = s\<lparr>w_apps := xs\<rparr>
         in if appl_data x \<noteq> 0 then GlobalFree (appl_data x) s else s)"

definition getfirst_app_w32 :: "w32 \<Rightarrow> u32 \<times> w32" where
  "getfirst_app_w32 s = (case w_apps s of
       [] \<Rightarrow> (0, s)
     | x # xs \<Rightarrow>
         let s = s\<lparr>w_apps := xs\<rparr>
         in (ApplID x, if appl_data x \<noteq> 0 then GlobalFree (appl_data x) s else s))"

fun find_app :: "u32 \<Rightarrow> appl_list list \<Rightarrow> u32" where
  "find_app a [] = 0"
| "find_app a (x # xs) = (if ApplID x = a then appl_data x else find_app a xs)"

definition getdata_app :: "u32 \<Rightarrow> w32 \<Rightarrow> u32" where
  "getdata_app appl s = find_app appl (w_apps s)"

fun replace_data :: "u32 \<Rightarrow> u32 \<Rightarrow> appl_list list \<Rightarrow> u32 option \<times> appl_list list" where
  "replace_data a p [] = (None, [])"
| "replace_data a p (x # xs) =
     (if ApplID x = a then (Some (appl_data x), x\<lparr>appl_data := p\<rparr> # xs)
      else case replace_data a p xs of (r, ys) \<Rightarrow> (r, x # ys))"

definition setdata_app :: "u32 \<Rightarrow> u32 \<Rightarrow> w32 \<Rightarrow> w32" where
  "setdata_app appl p s = (case replace_data appl p (w_apps s) of
       (None, _) \<Rightarrow> GlobalFree p s
     | (Some old, xs) \<Rightarrow> (if old \<noteq> 0 then GlobalFree old s else s)\<lparr>w_apps := xs\<rparr>)"

section \<open>Checking an answer\<close>

definition verifyMessage :: "buffer \<Rightarrow> u32 \<Rightarrow> bool" where
  "verifyMessage msg ty =
     (let h = answer_header_at msg in
      if an_header_len h < of_nat sizeof_ANSWER_HEADER then False
      else if an_body_len h + 1 < word_of_int (abodysize ty) then False
      else if an_message_len h > of_nat MSG_BUFFER then False
      else if an_header_len h + an_body_len h + an_data_len h \<noteq> an_message_len h then False
      else if an_proxy_error h \<noteq> 0 then False
      else if an_capi_error h \<noteq> 0 then True
      else if an_message_type h \<noteq> ty then False
      else True)"

section \<open>The entry points of the CAPI\<close>

datatype w32_result = Ret u32 | Waits

definition MSG_BUSY :: u32 where "MSG_BUSY = 0x1108"

text \<open>
  The assignments to \<^verbatim>\<open>rheader\<close> in a fresh buffer, which \<^verbatim>\<open>malloc\<close> fills with zeros; \<^verbatim>\<open>app_id\<close> and
  \<^verbatim>\<open>controller_id\<close> stay 0 where the code does not set them.
\<close>

definition w_request :: "u32 \<Rightarrow> nat \<Rightarrow> u32 \<Rightarrow> u32 \<Rightarrow> u32 \<Rightarrow> w32 \<Rightarrow> buffer" where
  "w_request ty bl app ctrl i s =
     (let b = put32 4 (of_nat sizeof_REQUEST_HEADER) zeroes;
          b = put32 8 (of_nat bl) b;
          b = put32 12 0 b;
          b = put32 20 ty b;
          b = put32 16 i b;
          b = put32 24 app b;
          b = put32 28 ctrl b;
          b = put32 32 (w_session s) b
      in put32 0 (of_nat sizeof_REQUEST_HEADER + of_nat bl) b)"

text \<open>The end that the calls share: the errors that may come up before the answer is used.\<close>

definition with_answer :: "u32 \<Rightarrow> answer_ptr \<Rightarrow> w32 \<Rightarrow> 'a \<Rightarrow> (buffer \<Rightarrow> (w32_result \<times> 'a \<times> w32) option) \<Rightarrow>
    (w32_result \<times> 'a \<times> w32) option" where
  "with_answer ty a s nothing f =
     (case a of
        NULL_ANSWER \<Rightarrow> Some (Waits, nothing, s)
      | ILLEGAL_ANSWER \<Rightarrow> Some (Ret MSG_BUSY, nothing, s)
      | Answer b \<Rightarrow> if \<not> verifyMessage b ty then Some (Ret MSG_BUSY, nothing, s) else f b)"

definition final_code :: "buffer \<Rightarrow> u32" where
  "final_code b = (if an_proxy_error (answer_header_at b) \<noteq> PERROR_NONE then MSG_BUSY
     else an_capi_error (answer_header_at b))"

definition CAPI_REGISTER :: "u32 \<Rightarrow> u32 \<Rightarrow> u32 \<Rightarrow> u32 \<Rightarrow> w32 \<Rightarrow> (w32_result \<times> u32 option \<times> w32) option" where
  "CAPI_REGISTER MessageBufferSize maxLogicalConn maxBBlocks maxBLen s =
     (case wmalloc s of (ok, s) \<Rightarrow>
        if \<not> ok then Some (Ret MSG_BUSY, None, s)
        else do {
          let s = s\<lparr>msg_id := msg_id s + 1\<rparr>;
          let i = msg_id s;
          let b = w_request TYPE_CAPI_REGISTER sizeof_REQUEST_CAPI_REGISTER 0 0 i s;
          let b = put32 36 MessageBufferSize b;
          let b = put32 40 maxLogicalConn b;
          let b = put32 44 maxBBlocks b;
          let b = put32 48 maxBLen b;
          (a, s) \<leftarrow> sendAndReceive i b s;
          with_answer TYPE_CAPI_REGISTER a s None (\<lambda>b.
            let app = an_app_id (answer_header_at b) in
            if an_proxy_error (answer_header_at b) \<noteq> PERROR_NONE then Some (Ret MSG_BUSY, Some app, s)
            else do {
              s \<leftarrow> (if an_capi_error (answer_header_at b) = 0 then add_app_w32 app s else Some s);
              Some (Ret (an_capi_error (answer_header_at b)), Some app, s)
            })
        })"

definition CAPI_RELEASE :: "u32 \<Rightarrow> w32 \<Rightarrow> (w32_result \<times> unit \<times> w32) option" where
  "CAPI_RELEASE appl s =
     (case wmalloc s of (ok, s) \<Rightarrow>
        if \<not> ok then Some (Ret MSG_BUSY, (), s)
        else do {
          let s = s\<lparr>msg_id := msg_id s + 1\<rparr>;
          let i = msg_id s;
          (a, s) \<leftarrow> sendAndReceive i (w_request TYPE_CAPI_RELEASE sizeof_empty appl 0 i s) s;
          with_answer TYPE_CAPI_RELEASE a s () (\<lambda>b.
            if an_proxy_error (answer_header_at b) \<noteq> PERROR_NONE then Some (Ret MSG_BUSY, (), s)
            else
              let s = (if an_capi_error (answer_header_at b) = 0 then del_app_w32 appl s else s)
              in Some (Ret (an_capi_error (answer_header_at b)), (), s))
        })"

text \<open>
  \<open>mem\<close> is the memory of the calling application and \<open>p\<close> the address of its message. The
  message and the data it points to must fit into the request buffer.
\<close>

definition mem_bytes :: "(u32 \<Rightarrow> byte) \<Rightarrow> u32 \<Rightarrow> nat \<Rightarrow> byte list" where
  "mem_bytes mem p n = map (\<lambda>k. mem (p + of_nat k)) [0..<n]"

definition CAPI_PUT_MESSAGE :: "(u32 \<Rightarrow> byte) \<Rightarrow> u32 \<Rightarrow> u32 \<Rightarrow> w32 \<Rightarrow> (w32_result \<times> unit \<times> w32) option" where
  "CAPI_PUT_MESSAGE mem appl p s =
     (case wmalloc s of (ok, s) \<Rightarrow>
        if \<not> ok then Some (Ret MSG_BUSY, (), s)
        else do {
          let s = s\<lparr>msg_id := msg_id s + 1\<rparr>;
          let i = msg_id s;
          let b = w_request TYPE_CAPI_PUTMESSAGE sizeof_empty appl 0 i s;
          let rdata = sizeof_REQUEST_HEADER + sizeof_empty;
          let len1 = (word_le (mem_bytes mem p 2) :: u32);
          b \<leftarrow> put_bytes_chk MSG_BUFFER rdata (mem_bytes mem p (unat len1)) b;
          let b = put32 12 (get32 b 12 + len1) b;
          let cmd1 = mem (p + 4);
          let cmd2 = mem (p + 5);
          (len2, b) \<leftarrow>
            (if cmd1 = 0x86 \<and> cmd2 = 0x80 then do {
               let len2 = (word_le (mem_bytes mem (p + 16) 2) :: u32);
               let pointer = (word_le (mem_bytes mem (p + 12) 4) :: u32);
               b \<leftarrow> put_bytes_chk MSG_BUFFER (rdata + unat len1) (mem_bytes mem pointer (unat len2)) b;
               Some (len2, put32 12 (get32 b 12 + len2) b)
             } else Some (0, b));
          let b = put32 0 (of_nat sizeof_REQUEST_HEADER + of_nat sizeof_empty + len1 + len2) b;
          (a, s) \<leftarrow> sendAndReceive i b s;
          with_answer TYPE_CAPI_PUTMESSAGE a s () (\<lambda>b. Some (Ret (final_code b), (), s))
        })"

text \<open>The result carries the address and the contents of the buffer the message is put into.\<close>

definition CAPI_GET_MESSAGE :: "u32 \<Rightarrow> w32 \<Rightarrow> (w32_result \<times> (u32 \<times> byte list) option \<times> w32) option" where
  "CAPI_GET_MESSAGE appl s =
     (case wmalloc s of (ok, s) \<Rightarrow>
        if \<not> ok then Some (Ret MSG_BUSY, None, s)
        else do {
          let s = s\<lparr>msg_id := msg_id s + 1\<rparr>;
          let i = msg_id s;
          (a, s) \<leftarrow> sendAndReceive i (w_request TYPE_CAPI_GETMESSAGE sizeof_empty appl 0 i s) s;
          with_answer TYPE_CAPI_GETMESSAGE a s None (\<lambda>b.
            let h = answer_header_at b;
                adata = unat (an_header_len h + an_body_len h);
                dlen = unat (an_data_len h)
            in if an_data_len h < 8 then Some (Ret MSG_BUSY, None, s)
               else case GlobalAlloc s of (buf, s) \<Rightarrow>
                 if buf = 0 then Some (Ret MSG_BUSY, None, s)
                 else do {
                   bs \<leftarrow> get_bytes_chk MSG_BUFFER b adata dlen;
                   let len1 = (word_le (take 2 bs) :: u32);
                   if an_data_len h < len1 then Some (Ret MSG_BUSY, None, s)
                   else if bs ! 4 = 0x86 \<and> bs ! 5 = 0x82 \<and> len1 < 18 then Some (Ret MSG_BUSY, None, s)
                   else do {
                     let bs = (if bs ! 4 = 0x86 \<and> bs ! 5 = 0x82
                               then take 12 bs @ bytes_le 4 (buf + len1) @ drop 16 bs else bs);
                     Some (Ret (final_code b), Some (buf, bs), setdata_app appl buf s)
                   }
                 })
        })"

definition CAPI_WAIT_FOR_SIGNAL :: "u32 \<Rightarrow> w32 \<Rightarrow> (w32_result \<times> unit \<times> w32) option" where
  "CAPI_WAIT_FOR_SIGNAL appl s =
     (case wmalloc s of (ok, s) \<Rightarrow>
        if \<not> ok then Some (Ret MSG_BUSY, (), s)
        else do {
          let s = s\<lparr>msg_id := msg_id s + 1\<rparr>;
          let i = msg_id s;
          (a, s) \<leftarrow> sendAndReceive i (w_request TYPE_CAPI_WAITFORSIGNAL sizeof_empty appl 0 i s) s;
          with_answer TYPE_CAPI_WAITFORSIGNAL a s () (\<lambda>b. Some (Ret (final_code b), (), s))
        })"

text \<open>
  The queries: the request is a header with an empty body, and \<open>n\<close> octets of the body of
  the answer are copied.
\<close>

definition w_query :: "u32 \<Rightarrow> u32 \<Rightarrow> nat \<Rightarrow> w32 \<Rightarrow> (w32_result \<times> byte list option \<times> w32) option" where
  "w_query ty ctrl n s =
     (case wmalloc s of (ok, s) \<Rightarrow>
        if \<not> ok then Some (Ret MSG_BUSY, None, s)
        else do {
          let s = s\<lparr>msg_id := msg_id s + 1\<rparr>;
          let i = msg_id s;
          (a, s) \<leftarrow> sendAndReceive i (w_request ty sizeof_empty 0 ctrl i s) s;
          with_answer ty a s None (\<lambda>b. do {
            bs \<leftarrow> get_bytes_chk MSG_BUFFER b (unat (an_header_len (answer_header_at b))) n;
            Some (Ret (final_code b), Some bs, s)
          })
        })"

text \<open>\<^verbatim>\<open>CAPI_GET_MANUFACTURER\<close> returns nothing: the code of the model is not seen by its caller.\<close>

definition CAPI_GET_MANUFACTURER :: "w32 \<Rightarrow> (w32_result \<times> byte list option \<times> w32) option" where
  "CAPI_GET_MANUFACTURER s = w_query TYPE_CAPI_MANUFACTURER 0 64 s"

text \<open>The four numbers in the order of the arguments: CAPI major and minor, manufacturer major and minor.\<close>

definition CAPI_GET_VERSION :: "w32 \<Rightarrow> (w32_result \<times> (u32 \<times> u32 \<times> u32 \<times> u32) option \<times> w32) option" where
  "CAPI_GET_VERSION s = map_option (\<lambda>(r, bs, s). (r, map_option (\<lambda>bs.
       (word_le (take 4 (drop 8 bs)), word_le (take 4 (drop 12 bs)), word_le (take 4 bs), word_le (take 4 (drop 4 bs)))) bs, s))
     (w_query TYPE_CAPI_VERSION 0 16 s)"

definition CAPI_GET_SERIAL_NUMBER :: "w32 \<Rightarrow> (w32_result \<times> byte list option \<times> w32) option" where
  "CAPI_GET_SERIAL_NUMBER s = w_query TYPE_CAPI_SERIAL 0 8 s"

definition CAPI_GET_PROFILE :: "u32 \<Rightarrow> w32 \<Rightarrow> (w32_result \<times> byte list option \<times> w32) option" where
  "CAPI_GET_PROFILE CtrlNr s = w_query TYPE_CAPI_PROFILE CtrlNr 64 s"

definition CAPI_INSTALLED :: "w32 \<Rightarrow> (w32_result \<times> unit \<times> w32) option" where
  "CAPI_INSTALLED s =
     (case wmalloc s of (ok, s) \<Rightarrow>
        if \<not> ok then Some (Ret MSG_BUSY, (), s)
        else do {
          let s = s\<lparr>msg_id := msg_id s + 1\<rparr>;
          let i = msg_id s;
          (a, s) \<leftarrow> sendAndReceive i (w_request TYPE_CAPI_INSTALLED sizeof_empty 0 0 i s) s;
          with_answer TYPE_CAPI_INSTALLED a s () (\<lambda>b. Some (Ret (final_code b), (), s))
        })"

section \<open>Connecting\<close>

text \<open>
  What the code reads from the registry: the name, and user and password if they are there.
  Strings are without their terminator.
\<close>

record registry =
  reg_open :: bool
  reg_server :: bool
  reg_name :: "byte list option"
  reg_port :: "u32 option"
  reg_user :: "byte list option"
  reg_pass :: "byte list option"

text \<open>The checks of an answer received during the greeting: the number of the failing one, 0 for none.\<close>

definition greeting_error :: "u32 \<Rightarrow> int \<Rightarrow> buffer \<Rightarrow> nat" where
  "greeting_error ty n b =
     (let h = answer_header_at b in
      if n = -1 \<or> n < int sizeof_ANSWER_HEADER then 5
      else if an_header_len h + an_body_len h + an_data_len h \<noteq> of_int n \<or> an_message_len h \<noteq> of_int n then 6
      else if an_proxy_error h > 1 then 7
      else if an_message_type h \<noteq> ty then 8
      else 0)"

definition do_auth :: "registry \<Rightarrow> u32 \<Rightarrow> w32 \<Rightarrow> w32 option" where
  "do_auth reg authtypes s =
     (case wmalloc s of (ok, s) \<Rightarrow>
        if \<not> ok then Some s
        else do {
          let type = (if authtypes AND AUTH_BY_IP \<noteq> 0 then AUTH_BY_IP else AUTH_NO_AUTH);
          let cred = (if type = 0 \<and> authtypes AND AUTH_USERPASS \<noteq> 0 \<and> reg_open reg
                      then (case (reg_user reg, reg_pass reg) of (Some u, Some p) \<Rightarrow> u @ [0] @ p @ [0] | _ \<Rightarrow> [])
                      else []);
          b \<leftarrow> put_bytes_chk MSG_BUFFER (sizeof_REQUEST_HEADER + sizeof_REQUEST_PROXY_AUTH) cred zeroes;
          let b = put32 4 (of_nat sizeof_REQUEST_HEADER) b;
          let b = put32 8 (of_nat sizeof_REQUEST_PROXY_AUTH) b;
          let b = put32 12 (of_nat (length cred)) b;
          let b = put32 20 TYPE_PROXY_AUTH b;
          let s = s\<lparr>msg_id := msg_id s + 1\<rparr>;
          let b = put32 16 (msg_id s) b;
          let b = put32 36 type b;
          let b = put32 0 (of_nat (sizeof_REQUEST_HEADER + sizeof_REQUEST_PROXY_HELO)) b;
          (err, s) \<leftarrow> wsend b s;
          if of_int err \<noteq> get32 b 0 then Some (s\<lparr>socke_open := False\<rparr>)
          else case wrecv b s of (n, b, s) \<Rightarrow>
            Some (if greeting_error TYPE_PROXY_AUTH n b \<noteq> 0 then s\<lparr>socke_open := False\<rparr> else s)
        })"

definition initConnection :: "registry \<Rightarrow> bool \<Rightarrow> bool \<Rightarrow> w32 \<Rightarrow> (nat \<times> w32) option" where
  "initConnection reg socket_ok connect_ok s =
     (if \<not> socket_ok then Some (1, s)
      else let s = s\<lparr>socke_open := True\<rparr> in
      if \<not> connect_ok then Some (2, s\<lparr>socke_open := False\<rparr>)
      else case wmalloc s of (ok, s) \<Rightarrow>
        if \<not> ok then Some (3, s\<lparr>socke_open := False\<rparr>)
        else do {
          let b = put32 4 (of_nat sizeof_REQUEST_HEADER) zeroes;
          let b = put32 8 (of_nat sizeof_REQUEST_PROXY_HELO) b;
          let b = put32 12 0 b;
          let b = put32 20 TYPE_PROXY_HELO b;
          let s = s\<lparr>msg_id := msg_id s + 1\<rparr>;
          let b = put32 16 (msg_id s) b;
          let b = put_bytes 36 (take 64 (case reg_name reg of None \<Rightarrow> [] | Some nm \<Rightarrow> nm) @
                    replicate (64 - length (case reg_name reg of None \<Rightarrow> [] | Some nm \<Rightarrow> nm)) 0) b;
          let b = put32 100 OS_TYPE_WINDOWS b;
          let b = put32 104 VERSION_MAJOR b;
          let b = put32 108 VERSION_MINOR b;
          let b = put32 0 (of_nat (sizeof_REQUEST_HEADER + sizeof_REQUEST_PROXY_HELO)) b;
          (err, s) \<leftarrow> wsend b s;
          if of_int err \<noteq> get32 b 0 then Some (4, s\<lparr>socke_open := False\<rparr>)
          else case wrecv b s of (n, b, s) \<Rightarrow>
            if greeting_error TYPE_PROXY_HELO n b \<noteq> 0
            then Some (greeting_error TYPE_PROXY_HELO n b, s\<lparr>socke_open := False\<rparr>)
            else do {
              let h = answer_header_at b;
              let abody = unat (an_header_len h);
              tmo \<leftarrow> get32_chk MSG_BUFFER b (abody + 80);
              auth \<leftarrow> get32_chk MSG_BUFFER b (abody + 76);
              let s = s\<lparr>max_timeout := tmo, w_session := an_session_id h\<rparr>;
              s \<leftarrow> (if an_proxy_error h = PERROR_AUTH_REQUIRED \<or> AUTH_DESIRED then do_auth reg auth s else Some s);
              Some (0, s\<lparr>w_status := 1\<rparr>)
            }
        })"

section \<open>Loading and unloading\<close>

text \<open>\<open>wsa_ok\<close> and \<open>thread_ok\<close> say whether \<^verbatim>\<open>WSAStartup\<close> and \<^verbatim>\<open>CreateThread\<close> succeed; the result carries the port.\<close>

definition DllMain_attach :: "bool \<Rightarrow> registry \<Rightarrow> bool \<Rightarrow> bool \<Rightarrow> bool \<Rightarrow> w32 \<Rightarrow> (bool \<times> u32 \<times> w32) option" where
  "DllMain_attach wsa_ok reg socket_ok connect_ok thread_ok s =
     (if \<not> wsa_ok \<or> \<not> reg_open reg \<or> \<not> reg_server reg \<or> reg_name reg = None then Some (False, 0, s)
      else do {
        let port = (case reg_port reg of None \<Rightarrow> DEFAULT_PORT | Some p \<Rightarrow> p);
        (err, s) \<leftarrow> initConnection reg socket_ok connect_ok s;
        if err \<noteq> 0 then Some (False, port, s)
        else if \<not> thread_ok then Some (False, port, s)
        else Some (True, port, s\<lparr>receiver := True\<rparr>)
      })"

fun fail_waiting :: "(u32 \<times> nat) list \<Rightarrow> w32 \<Rightarrow> w32 option" where
  "fail_waiting [] s = Some (s\<lparr>hash_start := []\<rparr>)"
| "fail_waiting ((i, d) # q) s =
     (if d \<in> set (live s) then fail_waiting q (s\<lparr>slots := (slots s)(d := ILLEGAL_ANSWER)\<rparr>) else None)"

lemma getfirst_app_shorter:
  "fst (getfirst_app_w32 s) \<noteq> 0 \<Longrightarrow> length (w_apps (snd (getfirst_app_w32 s))) < length (w_apps s)"
  by (auto simp: getfirst_app_w32_def GlobalFree_def Let_def split: list.splits)

function free_apps :: "w32 \<Rightarrow> w32" where
  "free_apps s = (if fst (getfirst_app_w32 s) \<noteq> 0 then free_apps (snd (getfirst_app_w32 s)) else snd (getfirst_app_w32 s))"
  by pat_completeness auto
termination
  by (relation "measure (\<lambda>s. length (w_apps s))") (auto intro: getfirst_app_shorter)

declare free_apps.simps [simp del]

text \<open>After the shutdown of the socket the dispatcher thread ends, by itself or by force.\<close>

definition DllMain_detach :: "w32 \<Rightarrow> w32 option" where
  "DllMain_detach s = do {
     let s = s\<lparr>receiver := False, socke_open := False\<rparr>;
     s \<leftarrow> fail_waiting (hash_start s) s;
     Some (free_apps s)
   }"

section \<open>A call that is answered\<close>

text \<open>The requests of the client: a header, one octet for the empty body.\<close>

definition w_head :: "u32 \<Rightarrow> nat \<Rightarrow> u32 \<Rightarrow> u32 \<Rightarrow> u32 \<Rightarrow> w32 \<Rightarrow> request_header" where
  "w_head ty bl app ctrl i s =
     \<lparr>rq_message_len = 36 + of_nat bl, rq_header_len = 36, rq_body_len = of_nat bl, rq_data_len = 0,
      rq_message_id = i, rq_message_type = ty, rq_app_id = app, rq_controller_id = ctrl, rq_session_id = w_session s\<rparr>"

lemma w_request_header: "request_header_at (w_request ty bl app ctrl i s) = w_head ty bl app ctrl i s"
  by (simp add: request_header_at_def w_request_def Let_def buf_simps w_head_def sizeof_defs)

lemma w_request_body: "36 \<le> k \<Longrightarrow> w_request ty bl app ctrl i s k = 0"
  by (simp add: w_request_def Let_def buf_simps zeroes_def)

lemma get32_0: "get32 b 0 = rq_message_len (request_header_at b)"
  by (simp add: request_header_at_def)

definition ready_client :: "w32 \<Rightarrow> bool" where
  "ready_client s \<longleftrightarrow> mallocs s = [] \<and> w_send_rets s = [] \<and> receiver s"

lemma fresh_slot_new: "fresh_slot s \<notin> set (live s)" "(i, fresh_slot s) \<notin> set (hash_start s)"
proof -
  have "x \<le> fold max xs a" if "x \<in> set xs" for x a :: nat and xs
    using that by (metis List.finite_set Max_ge finite_insert insertCI set_simps(2) Max.set_eq_fold)
  then have "x < fresh_slot s" if "x \<in> set (live s) \<union> snd ` set (hash_start s)" for x
    using that unfolding fresh_slot_def less_Suc_eq_le
    by (metis set_append set_map)
  then show "fresh_slot s \<notin> set (live s)" "(i, fresh_slot s) \<notin> set (hash_start s)"
    by (metis UnI1 less_irrefl, metis UnI2 image_eqI less_irrefl snd_conv)
qed

lemma find_first_append:
  "i \<notin> fst ` set q \<Longrightarrow> find_first i (q @ [(i, d)]) = Some d"
  "i \<notin> fst ` set q \<Longrightarrow> remove_first i (q @ [(i, d)]) = q"
  by (induction q) auto

lemma sendAndReceive_answered:
  assumes "ready_client s" and "i \<notin> fst ` set (hash_start s)" and "w_rx s = Data pkt # es"
    and "40 \<le> length pkt" and "length pkt \<le> MSG_BUFFER"
    and "an_message_id (answer_header_at (buffer_of pkt)) = i"
    and "unat (get32 rqb 0) = n" and "0 < n" and "n \<le> MSG_BUFFER"
  shows "\<exists>f. sendAndReceive i rqb s = Some (Answer (buffer_of pkt),
     s\<lparr>slots := f, w_rx := es, w_tx := w_tx s @ [(get_bytes rqb 0 n, int n)]\<rparr>)"
proof -
  let ?d = "fresh_slot s"
  define s1 where "s1 = s\<lparr>live := ?d # live s, slots := (slots s)(?d := NULL_ANSWER),
      hash_start := hash_start s @ [(i, ?d)], w_send_rets := [], w_tx := w_tx s @ [(get_bytes rqb 0 n, int n)]\<rparr>"
  have rdy: "mallocs s = []" "w_send_rets s = []" "receiver s" using assms(1) by (auto simp: ready_client_def)
  have r: "messageDispatcher_round s1 = Some (s1\<lparr>w_rx := es, hash_start := hash_start s,
      slots := (slots s1)(?d := Answer (buffer_of pkt))\<rparr>)" (is "_ = Some ?s2")
    using assms(3-6) rdy(1) find_first_append [OF assms(2)]
    by (simp add: messageDispatcher_round_def wmalloc_def wrecv_def s1_def dispatchMessage_def getDataPtrFromMsgId_def
        removeFromHash_def Let_def sizeof_ANSWER_HEADER_def buffer_of_def zeroes_def)
  have w: "wait_answer_slot ?d s1 = Some ?s2"
    using r rdy(3) by (subst wait_answer_slot.simps) (simp add: s1_def wait_answer_slot.simps)
  have "sendAndReceive i rqb s = Some (Answer (buffer_of pkt), ?s2\<lparr>live := remove1 ?d (live ?s2)\<rparr>)"
    using assms(7-9) rdy w unfolding sendAndReceive_def
    by (simp add: addToHash_def wmalloc_def sendRequest_def wsend_def get_bytes_chk_def Let_def s1_def)
  moreover have "?s2\<lparr>live := remove1 ?d (live ?s2)\<rparr> = s\<lparr>slots := slots ?s2, w_rx := es, w_tx := w_tx s @ [(get_bytes rqb 0 n, int n)]\<rparr>"
    by (rule w32.equality) (simp_all add: s1_def rdy)
  ultimately show ?thesis by metis
qed

lemma verify_answer:
  assumes "an_message_len h = 40 + an_body_len h + an_data_len h" and "an_header_len h = 40"
    and "an_message_len h \<le> of_nat MSG_BUFFER" and "\<not> an_body_len h + 1 < word_of_int (abodysize ty)"
    and "an_proxy_error h = 0" and "an_message_type h = ty"
  shows "verifyMessage (buffer_of (answer_packet h body)) ty"
  using assms by (simp add: verifyMessage_def answer_header_at_packet Let_def sizeof_ANSWER_HEADER_def not_less [symmetric])

text \<open>
  An answer without data to the next request of the client; its body is empty, or the one octet a
  structure without members takes in C++.
\<close>

definition plain_answer :: "u32 \<Rightarrow> answer_header \<Rightarrow> byte list \<Rightarrow> w32 \<Rightarrow> bool" where
  "plain_answer ty h body s \<longleftrightarrow> length body \<le> 1 \<and> an_message_len h = 40 + of_nat (length body) \<and> an_header_len h = 40 \<and>
     an_body_len h = of_nat (length body) \<and> an_data_len h = 0 \<and>
     an_message_id h = msg_id s + 1 \<and> an_message_type h = ty \<and> an_proxy_error h = 0"

text \<open>
  A client in order: memory is available, its sends take everything, the thread that receives answers runs, and no call waits
  under the message id that comes next.
\<close>

definition expecting :: "w32 \<Rightarrow> bool" where
  "expecting s \<longleftrightarrow> ready_client s \<and> msg_id s + 1 \<notin> fst ` set (hash_start s)"

lemma sendAndReceive_plain:
  assumes "expecting s" and "an_message_id h = msg_id s + 1" and "w_rx s = Data (answer_packet h body) # es"
    and "40 + length body \<le> MSG_BUFFER" and "unat (rq_message_len (request_header_at b)) = n" and "0 < n" and "n \<le> MSG_BUFFER"
  shows "\<exists>f. sendAndReceive (msg_id s + 1) b (s\<lparr>msg_id := msg_id s + 1\<rparr>) = Some (Answer (buffer_of (answer_packet h body)),
     s\<lparr>msg_id := msg_id s + 1, slots := f, w_rx := es, w_tx := w_tx s @ [(get_bytes b 0 n, int n)]\<rparr>)"
  using sendAndReceive_answered [of "s\<lparr>msg_id := msg_id s + 1\<rparr>" "msg_id s + 1" "answer_packet h body" es b n] assms
  by (auto simp: expecting_def ready_client_def answer_header_at_packet get32_0)

text \<open>The octets of a request without data.\<close>

definition w_packet :: "u32 \<Rightarrow> u32 \<Rightarrow> u32 \<Rightarrow> w32 \<Rightarrow> byte list" where
  "w_packet ty app ctrl s = encode_request_header (w_head ty 1 app ctrl (msg_id s + 1) s) @ [0]"

lemma get_bytes_w_request:
  "get_bytes (w_request ty 1 app ctrl (msg_id s + 1) s') 0 37 = w_packet ty app ctrl s" if "w_session s' = w_session s"
proof -
  have "get_bytes (w_request ty 1 app ctrl (msg_id s + 1) s') 0 37 =
      encode_request_header (w_head ty 1 app ctrl (msg_id s + 1) s') @ get_bytes (w_request ty 1 app ctrl (msg_id s + 1) s') 36 1"
    using get_bytes_split [of 36 37 _ 0] by (simp add: encode_request_header_at [symmetric] w_request_header)
  moreover have "get_bytes (w_request ty 1 app ctrl (msg_id s + 1) s') 36 1 = [0]"
    by (simp add: get_bytes_def w_request_body)
  moreover have "w_head ty 1 app ctrl (msg_id s + 1) s' = w_head ty 1 app ctrl (msg_id s + 1) s"
    using that by (simp add: w_head_def)
  ultimately show ?thesis by (simp add: w_packet_def)
qed

definition w_register_packet :: "u32 \<Rightarrow> u32 \<Rightarrow> u32 \<Rightarrow> u32 \<Rightarrow> w32 \<Rightarrow> byte list" where
  "w_register_packet ms c b l s = encode_request_header (w_head TYPE_CAPI_REGISTER 16 0 0 (msg_id s + 1) s) @
     bytes_le 4 ms @ bytes_le 4 c @ bytes_le 4 b @ bytes_le 4 l"

lemma CAPI_REGISTER_answered:
  assumes "expecting s" and "plain_answer TYPE_CAPI_REGISTER h body s" and "w_rx s = Data (answer_packet h body) # es"
  shows "\<exists>s'. CAPI_REGISTER ms c b l s = Some (Ret (an_capi_error h), Some (an_app_id h), s') \<and>
     w_tx s' = w_tx s @ [(w_register_packet ms c b l s, 52)] \<and>
     w_apps s' = w_apps s @ (if an_capi_error h = 0 then [\<lparr>ApplID = an_app_id h, appl_data = 0\<rparr>] else []) \<and>
     hash_start s' = hash_start s"
proof -
  define s1 where "s1 = s\<lparr>msg_id := msg_id s + 1\<rparr>"
  define B where "B = put32 48 l (put32 44 b (put32 40 c (put32 36 ms
      (w_request TYPE_CAPI_REGISTER sizeof_REQUEST_CAPI_REGISTER 0 0 (msg_id s + 1) s1))))"
  let ?h = "w_head TYPE_CAPI_REGISTER 16 0 0 (msg_id s + 1) s"
  have hd: "request_header_at B = ?h"
    unfolding B_def using w_request_header [of TYPE_CAPI_REGISTER sizeof_REQUEST_CAPI_REGISTER 0 0 "msg_id s + 1" s1]
    by (simp add: request_header_at_def buf_simps w_head_def sizeof_defs s1_def)
  have "get_bytes B 36 16 = bytes_le 4 ms @ bytes_le 4 c @ bytes_le 4 b @ bytes_le 4 l"
    by (simp add: B_def get_bytes_4words buf_simps)
  then have pkt: "get_bytes B 0 52 = w_register_packet ms c b l s"
    using get_bytes_split [of 36 52 B 0] hd by (simp add: encode_request_header_at [symmetric] w_register_packet_def)
  obtain f where f: "sendAndReceive (msg_id s + 1) B s1 = Some (Answer (buffer_of (answer_packet h body)),
     s\<lparr>msg_id := msg_id s + 1, slots := f, w_rx := es, w_tx := w_tx s @ [(w_register_packet ms c b l s, 52)]\<rparr>)"
    using sendAndReceive_plain [OF assms(1) _ assms(3), of B 52] assms(2) hd pkt
    by (auto simp: plain_answer_def MSG_BUFFER_def w_head_def s1_def)
  have bl: "body = [] \<or> (\<exists>x. body = [x])" using assms(2) by (cases body) (auto simp: plain_answer_def)
  have v: "verifyMessage (buffer_of (answer_packet h body)) TYPE_CAPI_REGISTER"
    using assms(2) bl by (intro verify_answer) (auto simp: plain_answer_def MSG_BUFFER_def bodysize_defs)
  have m: "mallocs s = []" using assms(1) by (simp add: expecting_def ready_client_def)
  have pe: "an_proxy_error h = PERROR_NONE" using assms(2) by (simp add: plain_answer_def PERROR_NONE_def)
  have "msg_id s1 = msg_id s + 1" by (simp add: s1_def)
  then show ?thesis
    unfolding CAPI_REGISTER_def wmalloc_def m list.case prod.case Let_def s1_def [symmetric]
    by (simp add: B_def [symmetric] f with_answer_def v answer_header_at_packet pe add_app_w32_def wmalloc_def m)
qed

lemma CAPI_RELEASE_answered:
  assumes "expecting s" and "plain_answer TYPE_CAPI_RELEASE h body s" and "w_rx s = Data (answer_packet h body) # es"
  shows "\<exists>f. CAPI_RELEASE a s = Some (Ret (an_capi_error h), (), (\<lambda>s. if an_capi_error h = 0 then del_app_w32 a s else s)
     (s\<lparr>msg_id := msg_id s + 1, slots := f, w_rx := es, w_tx := w_tx s @ [(w_packet TYPE_CAPI_RELEASE a 0 s, 37)]\<rparr>))"
proof -
  define s1 where "s1 = s\<lparr>msg_id := msg_id s + 1\<rparr>"
  let ?B = "w_request TYPE_CAPI_RELEASE 1 a 0 (msg_id s + 1) s1"
  have pkt: "get_bytes ?B 0 37 = w_packet TYPE_CAPI_RELEASE a 0 s"
    by (rule get_bytes_w_request) (simp add: s1_def)
  obtain f where f: "sendAndReceive (msg_id s + 1) ?B s1 = Some (Answer (buffer_of (answer_packet h body)),
     s\<lparr>msg_id := msg_id s + 1, slots := f, w_rx := es, w_tx := w_tx s @ [(w_packet TYPE_CAPI_RELEASE a 0 s, 37)]\<rparr>)"
    using sendAndReceive_plain [OF assms(1) _ assms(3), of ?B 37] assms(2) pkt
    by (auto simp: plain_answer_def MSG_BUFFER_def w_head_def w_request_header s1_def)
  have bl: "body = [] \<or> (\<exists>x. body = [x])" using assms(2) by (cases body) (auto simp: plain_answer_def)
  have v: "verifyMessage (buffer_of (answer_packet h body)) TYPE_CAPI_RELEASE"
    using assms(2) bl by (intro verify_answer) (auto simp: plain_answer_def MSG_BUFFER_def bodysize_defs proto_consts)
  have m: "mallocs s = []" using assms(1) by (simp add: expecting_def ready_client_def)
  have pe: "an_proxy_error h = PERROR_NONE" using assms(2) by (simp add: plain_answer_def PERROR_NONE_def)
  have "msg_id s1 = msg_id s + 1" by (simp add: s1_def)
  then show ?thesis
    unfolding CAPI_RELEASE_def wmalloc_def m list.case prod.case Let_def s1_def [symmetric] sizeof_empty_def
    by (simp add: f with_answer_def v answer_header_at_packet pe del: One_nat_def) (auto simp: s1_def)
qed

section \<open>The table of waiting calls\<close>

text \<open>
  What the calls and the dispatcher rely on: a table of calls by message id, to which an
  entry is added under a new id and from which it is removed again.
\<close>

locale call_table =
  fixes inv :: "'s \<Rightarrow> bool" and look :: "'s \<Rightarrow> u32 \<Rightarrow> 'v option"
    and ins :: "u32 \<Rightarrow> 'v \<Rightarrow> 's \<Rightarrow> 's" and rem :: "u32 \<Rightarrow> 's \<Rightarrow> 's"
  assumes ins_inv: "inv s \<Longrightarrow> look s i = None \<Longrightarrow> inv (ins i v s)"
    and ins_look: "inv s \<Longrightarrow> look s i = None \<Longrightarrow> look (ins i v s) = (look s)(i \<mapsto> v)"
    and rem_inv: "inv s \<Longrightarrow> inv (rem i s)"
    and rem_look: "inv s \<Longrightarrow> look (rem i s) = (look s)(i := None)"
begin

text \<open>Answers may arrive in any order: each finds its own call, and the table ends up as it was.\<close>

fun collect :: "u32 list \<Rightarrow> 's \<Rightarrow> 'v option list \<times> 's" where
  "collect [] s = ([], s)"
| "collect (i # is) s = (case collect is (rem i s) of (vs, s') \<Rightarrow> (look s i # vs, s'))"

lemma fold_ins:
  "inv s \<Longrightarrow> distinct (map fst ps) \<Longrightarrow> \<forall>(i, v) \<in> set ps. look s i = None \<Longrightarrow>
     inv (fold (\<lambda>(i, v). ins i v) ps s) \<and> look (fold (\<lambda>(i, v). ins i v) ps s) = look s ++ map_of ps"
proof (induction ps arbitrary: s)
  case (Cons p ps)
  obtain i v where p: "p = (i, v)" by (cases p)
  have n: "look s i = None" using Cons.prems(3) p by auto
  have "\<forall>(j, w) \<in> set ps. look (ins i v s) j = None"
    using Cons.prems p n by (auto simp: ins_look image_iff split: prod.splits)
  from Cons.IH [OF ins_inv [OF Cons.prems(1) n] _ this] Cons.prems(2) p
  have "inv (fold (\<lambda>(i, v). ins i v) ps (ins i v s)) \<and>
    look (fold (\<lambda>(i, v). ins i v) ps (ins i v s)) = look (ins i v s) ++ map_of ps" by simp
  then have "inv (fold (\<lambda>(i, v). ins i v) ps (ins i v s))"
    "look (fold (\<lambda>(i, v). ins i v) ps (ins i v s)) = (look s)(i \<mapsto> v) ++ map_of ps"
    unfolding ins_look [OF Cons.prems(1) n] by blast+
  moreover have "(look s)(i \<mapsto> v) ++ map_of ps = look s ++ map_of ((i, v) # ps)"
    using Cons.prems(2) p by (auto simp: map_add_def fun_eq_iff map_of_eq_None_iff split: option.splits)
      (metis fst_conv map_of_SomeD image_eqI)+
  ultimately show ?case unfolding p by (simp del: map_of.simps)
qed simp

lemma collect_looks:
  "inv s \<Longrightarrow> distinct is \<Longrightarrow> fst (collect is s) = map (look s) is \<and>
     look (snd (collect is s)) = (\<lambda>j. if j \<in> set is then None else look s j)"
proof (induction "is" arbitrary: s)
  case (Cons i js)
  have "map (look (rem i s)) js = map (look s) js"
    using Cons.prems by (auto simp: rem_look)
  moreover have "fst (collect js (rem i s)) = map (look (rem i s)) js"
    "look (snd (collect js (rem i s))) = (\<lambda>j. if j \<in> set js then None else look (rem i s) j)"
    using Cons.IH [OF rem_inv [OF Cons.prems(1), of i]] Cons.prems(2) by simp_all
  ultimately show ?case using Cons.prems(1)
    by (auto simp: rem_look fun_eq_iff split: prod.splits)
qed simp

lemma answers_find_calls:
  assumes "inv s" and "look s = Map.empty" and "distinct (map fst ps)" and "distinct is" and "set is = fst ` set ps"
  shows "fst (collect is (fold (\<lambda>(i, v). ins i v) ps s)) = map (map_of ps) is"
  using collect_looks [OF _ assms(4)] fold_ins [OF assms(1,3)] assms(2) by auto

end

lemma find_first_remove:
  "distinct (map fst q) \<Longrightarrow> find_first j (remove_first i q) = (if j = i then None else find_first j q)"
proof (induction q)
  case (Cons p q)
  have "find_first i q = None" if "i \<notin> fst ` set q" for i
    using that by (induction q) auto
  with Cons show ?case by (cases p) auto
qed simp

lemma find_first_ids: "find_first i q = None \<longleftrightarrow> i \<notin> fst ` set q"
  by (induction i q rule: find_first.induct) auto

lemma find_first_snoc: "find_first i q = None \<Longrightarrow> find_first j (q @ [(i, d)]) = (if j = i then Some d else find_first j q)"
  by (induction i q rule: find_first.induct) (auto split: if_splits)

lemma distinct_remove_first: "distinct (map fst q) \<Longrightarrow> distinct (map fst (remove_first i q))"
proof (induction q)
  case (Cons p q)
  have "fst ` set (remove_first i q) \<subseteq> fst ` set q" for q by (induction i q rule: remove_first.induct) auto
  with Cons show ?case by (cases p) auto
qed simp

definition wait_for :: "u32 \<Rightarrow> nat \<Rightarrow> w32 \<Rightarrow> w32" where
  "wait_for i d s = snd (addToHash i d s)"

definition table_ok :: "w32 \<Rightarrow> bool" where
  "table_ok s \<longleftrightarrow> distinct (map fst (hash_start s)) \<and> mallocs s = []"

interpretation waiting: call_table table_ok "\<lambda>s i. getDataPtrFromMsgId i s" wait_for removeFromHash
  by unfold_locales
    (auto simp: table_ok_def wait_for_def addToHash_def wmalloc_def getDataPtrFromMsgId_def removeFromHash_def
      find_first_snoc find_first_ids find_first_remove distinct_remove_first fun_eq_iff)

text \<open>Fetching and removing the entries for a list of answers.\<close>

fun collect_answers :: "u32 list \<Rightarrow> w32 \<Rightarrow> nat option list \<times> w32" where
  "collect_answers [] s = ([], s)"
| "collect_answers (i # is) s = (case collect_answers is (removeFromHash i s) of (vs, s') \<Rightarrow> (getDataPtrFromMsgId i s # vs, s'))"

lemma collect_answers_table: "collect_answers is s = waiting.collect is s"
  by (induction "is" arbitrary: s) simp_all

section \<open>The data of an application\<close>

lemma replace_data_find:
  "replace_data a p xs = (Some old, ys) \<Longrightarrow> old = find_app a xs \<and> find_app a ys = p \<and>
     (\<forall>b. b \<noteq> a \<longrightarrow> find_app b ys = find_app b xs) \<and> map ApplID ys = map ApplID xs"
  by (induction xs arbitrary: ys) (auto split: if_splits prod.splits)

lemma replace_data_None: "a \<notin> ApplID ` set xs \<Longrightarrow> replace_data a p xs = (None, xs)"
  by (induction xs) auto

lemma replace_data_Some: "a \<in> ApplID ` set xs \<Longrightarrow> \<exists>ys. replace_data a p xs = (Some (find_app a xs), ys)"
  by (induction xs) (auto split: prod.splits)

end
