(* ===== verification/Win32Server.thy ===== *)
theory Win32Server
  imports Win32Client
begin

text \<open>
  The Windows server, \<^verbatim>\<open>win32-server/capi20server.cpp\<close> and \<^verbatim>\<open>capi20server.h\<close>: the packet
  handlers, the authentication and the session thread \<^verbatim>\<open>StartSession\<close>. It speaks the protocol of
  \<^verbatim>\<open>protocol.h\<close>, which it shares with the Windows client; being C++, a structure without members has
  the size 1.

  State of a session thread (\<open>wses\<close>): the structure \<^verbatim>\<open>client_data\<close>, the array \<^verbatim>\<open>request\<close> on its stack
  and its address, the globals a session reads, the socket and the results of the system calls
  (scripts as in the other components), the waiter threads it has started and that have not run yet,
  and the state of the CAPI library. The answers are composed in arrays that are not initialised: \<open>frames\<close> gives
  the contents each of them starts with, call by call.

  The CAPI of Windows (\<^verbatim>\<open>capi2032.dll\<close>) is a parameter, \<open>capi2032\<close>, and so are the registry and
  \<^verbatim>\<open>inet_addr\<close>. \<open>None\<close> is an access outside an array or through a null pointer.
\<close>

section \<open>The CAPI of Windows\<close>

record 'w capi2032 =
  lib_register :: "u32 \<Rightarrow> u32 \<Rightarrow> u32 \<Rightarrow> u32 \<Rightarrow> u32 \<Rightarrow> 'w \<Rightarrow> u32 \<times> u32 \<times> 'w"
  lib_release :: "u32 \<Rightarrow> 'w \<Rightarrow> u32 \<times> 'w"
  lib_put_message :: "u32 \<Rightarrow> u32 \<Rightarrow> buffer \<Rightarrow> 'w \<Rightarrow> u32 \<times> 'w"
  lib_get_message :: "u32 \<Rightarrow> 'w \<Rightarrow> u32 \<times> u32 \<times> 'w"
  lib_memory :: "'w \<Rightarrow> u32 \<Rightarrow> byte"
  lib_wait_for_signal :: "u32 \<Rightarrow> 'w \<Rightarrow> u32 \<times> 'w"
  lib_manufacturer :: "'w \<Rightarrow> u32 \<times> byte list \<times> 'w"
  lib_version :: "'w \<Rightarrow> u32 \<times> (u32 \<times> u32 \<times> u32 \<times> u32) \<times> 'w"
  lib_serial :: "'w \<Rightarrow> u32 \<times> byte list \<times> 'w"
  lib_profile :: "u32 \<Rightarrow> 'w \<Rightarrow> u32 \<times> byte list \<times> 'w"
  lib_installed :: "'w \<Rightarrow> u32 \<times> 'w"

text \<open>What its documentation says about the buffers it fills.\<close>

definition capi2032_documented :: "('w, 'z) capi2032_scheme \<Rightarrow> bool" where
  "capi2032_documented L \<longleftrightarrow>
     (\<forall>w. length (fst (snd (lib_manufacturer L w))) = 64) \<and>
     (\<forall>w. length (fst (snd (lib_serial L w))) = 8) \<and>
     (\<forall>c w. length (fst (snd (lib_profile L c w))) = 64)"

section \<open>Constants and data\<close>

definition MAXAPPL_w32s :: nat where "MAXAPPL_w32s = 128"
definition PORT_w32s :: u32 where "PORT_w32s = 6674"
definition MAX_SESSIONS :: nat where "MAX_SESSIONS = 127"
definition MSG_SIZE :: nat where "MSG_SIZE = 10000"
definition NO_TIMEOUT :: u32 where "NO_TIMEOUT = - 1"
definition SERVER_VERSION :: version_t where "SERVER_VERSION = \<lparr>major = 1, minor = 3\<rparr>"
definition SERVER_NAME_w32s :: "byte list" where
  "SERVER_NAME_w32s = string_bytes ''CAPI 2.0 Proxy Win32 Server''"

definition rbodysize_w32s :: "u32 \<Rightarrow> int" where
  "rbodysize_w32s ty =
     (case map_of
        [(TYPE_CAPI_REGISTER, sizeof_REQUEST_CAPI_REGISTER),
         (TYPE_CAPI_RELEASE, sizeof_empty), (TYPE_CAPI_PUTMESSAGE, sizeof_empty),
         (TYPE_CAPI_GETMESSAGE, sizeof_empty), (TYPE_CAPI_WAITFORSIGNAL, sizeof_empty),
         (TYPE_CAPI_MANUFACTURER, sizeof_empty), (TYPE_CAPI_VERSION, sizeof_empty),
         (TYPE_CAPI_SERIAL, sizeof_empty), (TYPE_CAPI_PROFILE, sizeof_empty),
         (TYPE_CAPI_INSTALLED, sizeof_empty), (TYPE_PROXY_HELO, sizeof_REQUEST_PROXY_HELO),
         (TYPE_PROXY_AUTH, sizeof_REQUEST_PROXY_AUTH), (TYPE_PROXY_KEEPALIVE, sizeof_empty),
         (TYPE_PROXY_SHUTDOWN, 0)] ty of
        Some n \<Rightarrow> int n
      | None \<Rightarrow> -1)"

definition abodysize_w32s :: "u32 \<Rightarrow> int" where
  "abodysize_w32s ty =
     (case map_of
        [(TYPE_CAPI_REGISTER, sizeof_empty), (TYPE_CAPI_RELEASE, sizeof_empty),
         (TYPE_CAPI_PUTMESSAGE, sizeof_empty), (TYPE_CAPI_GETMESSAGE, sizeof_empty),
         (TYPE_CAPI_WAITFORSIGNAL, sizeof_empty), (TYPE_CAPI_MANUFACTURER, sizeof_ANSWER_CAPI_MANUFACTURER),
         (TYPE_CAPI_VERSION, sizeof_ANSWER_CAPI_VERSION), (TYPE_CAPI_SERIAL, sizeof_ANSWER_CAPI_SERIAL),
         (TYPE_CAPI_PROFILE, sizeof_ANSWER_CAPI_PROFILE), (TYPE_CAPI_INSTALLED, sizeof_empty),
         (TYPE_PROXY_HELO, sizeof_ANSWER_PROXY_HELO), (TYPE_PROXY_AUTH, sizeof_empty),
         (TYPE_PROXY_KEEPALIVE, sizeof_empty), (TYPE_PROXY_SHUTDOWN, sizeof_ANSWER_PROXY_SHUTDOWN)] ty of
        Some n \<Rightarrow> int n
      | None \<Rightarrow> -1)"

record waiter_data =
  wd_socket :: nat
  wd_ApplID :: u32
  wd_message_id :: u32
  wd_session_id :: u32

record client_data =
  cd_socket :: nat
  cd_auth_type :: u32
  cd_auth_data :: u32
  cd_name :: "byte list"
  cd_version :: version_t
  cd_keepalive :: u32
  cd_session :: u32
  cd_os :: u32
  cd_apps :: app_table

text \<open>
  The registry: the values of the keys \<^verbatim>\<open>hosts_allow\<close> and \<^verbatim>\<open>hosts_deny\<close> in order, as name (without
  terminator) and data, and the look-up in \<^verbatim>\<open>users\<close>; a key that cannot be opened is \<open>None\<close>. What
  \<^verbatim>\<open>RegEnumValue\<close> leaves in the two length variables when a buffer is too small is not documented
  for both of them, so it is a parameter, as is \<^verbatim>\<open>inet_addr\<close>.
\<close>

record win_registry =
  hosts_allow :: "(byte list \<times> byte list) list option"
  hosts_deny :: "(byte list \<times> byte list) list option"
  users :: "(byte list \<Rightarrow> byte list option) option"
  more_data :: "nat \<times> nat \<Rightarrow> nat \<times> nat"
  inet_addr :: "byte list \<Rightarrow> u32"

record 'w wses =
  ws_client :: client_data
  ws_request :: buffer
  ws_addr :: u32
  ws_base :: u32
  ws_sess :: u32
  ws_auth_types :: u32
  ws_auth_required :: u32
  ws_registry :: win_registry
  ws_sockname :: "u32 option"
  ws_rx :: "recv_event list"
  ws_tx :: "(byte list \<times> int) list"
  ws_send_rets :: "int list"
  ws_allocs :: "bool list"
  ws_threads :: "bool list"
  ws_waiters :: "waiter_data list"
  ws_frames :: "nat \<Rightarrow> buffer"
  ws_calls :: nat
  ws_world :: 'w

text \<open>The request header in \<^verbatim>\<open>request\<close>, and a fresh array on the stack.\<close>

abbreviation rq :: "'w wses \<Rightarrow> request_header" where
  "rq s \<equiv> request_header_at (ws_request s)"

definition new_frame :: "'w wses \<Rightarrow> buffer \<times> 'w wses" where
  "new_frame s = (ws_frames s (ws_calls s), s\<lparr>ws_calls := Suc (ws_calls s)\<rparr>)"

definition ws_send :: "byte list \<Rightarrow> 'w wses \<Rightarrow> int \<times> 'w wses" where
  "ws_send pkt s =
     (let (r, rs) = (case ws_send_rets s of [] \<Rightarrow> (int (length pkt), []) | r # rs \<Rightarrow> (r, rs))
      in (r, s\<lparr>ws_send_rets := rs, ws_tx := ws_tx s @ [(pkt, r)]\<rparr>))"

text \<open>
  A pointer has 32 bits: a sum of \<^verbatim>\<open>request\<close> and of lengths taken from the request wraps around.
  So the offset from \<^verbatim>\<open>request\<close> at which a handler reads or writes is taken modulo \<open>2 ^ 32\<close> (\<open>ofs\<close>;
  the offsets of \<^verbatim>\<open>body\<close> and \<^verbatim>\<open>data\<close> themselves are words), and an access stays inside the array when
  this offset and the octets from there on do.
\<close>

definition ofs :: "nat \<Rightarrow> nat" where
  "ofs n = n mod 2 ^ 32"

lemma ofs_small [simp]: "n \<le> MSG_SIZE \<Longrightarrow> ofs n = n"
  by (simp add: ofs_def MSG_SIZE_def)

lemma ofs_small' [simp]: "n \<le> 10000 \<Longrightarrow> ofs n = n"
  by (simp add: ofs_def)

section \<open>The table of registered applications\<close>

definition add_app_w32s :: "u32 \<Rightarrow> app_table \<Rightarrow> app_table option" where
  "add_app_w32s a l = (if unat a < MAXAPPL_w32s + 1 then Some (l(unat a := 1)) else None)"

definition del_app_w32s :: "u32 \<Rightarrow> app_table \<Rightarrow> app_table option" where
  "del_app_w32s a l = (if unat a < MAXAPPL_w32s + 1 then Some (l(unat a := 0)) else None)"

text \<open>The loop does not count \<open>i\<close>; here \<open>None\<close> is a loop that does not end.\<close>

partial_function (option) getfirst_loop_w32s :: "nat \<Rightarrow> app_table \<Rightarrow> (u32 \<times> app_table) option" where
  "getfirst_loop_w32s i l =
     (if i \<le> MAXAPPL_w32s then
        if l i = 1 then Some (of_nat i, l(i := 0)) else getfirst_loop_w32s i l
      else Some (0, l))"

definition getfirst_app_w32s :: "app_table \<Rightarrow> (u32 \<times> app_table) option" where
  "getfirst_app_w32s l = getfirst_loop_w32s 1 l"

section \<open>Composing an answer\<close>

text \<open>
  The assignments all handlers begin with, and the end they share: \<^verbatim>\<open>message_len\<close> is the sum of the
  three lengths, and as many octets of the array are sent.
\<close>

definition begin_answer :: "buffer \<Rightarrow> nat \<Rightarrow> u32 \<Rightarrow> u32 \<Rightarrow> u32 \<Rightarrow> buffer" where
  "begin_answer b bl ty i sid =
     (let b = put32 AH_header_len (of_nat sizeof_ANSWER_HEADER) b;
          b = put32 AH_body_len (of_nat bl) b;
          b = put32 AH_data_len 0 b;
          b = put32 AH_message_type ty b;
          b = put32 AH_message_id i b
      in put32 AH_session_id sid b)"

definition finish_answer :: "buffer \<Rightarrow> 'w wses \<Rightarrow> (int \<times> 'w wses) option" where
  "finish_answer b s = do {
     let b = put32 AH_message_len (get32 b AH_header_len + get32 b AH_body_len + get32 b AH_data_len) b;
     pkt \<leftarrow> get_bytes_chk MSG_SIZE b 0 (unat (get32 b AH_message_len));
     Some (ws_send pkt s)
   }"

section \<open>The handlers of the CAPI requests\<close>

definition exec_capi_register_w32s :: "'w capi2032 \<Rightarrow> nat \<Rightarrow> 'w wses \<Rightarrow> (int \<times> 'w wses) option" where
  "exec_capi_register_w32s L rbody s = do {
     let (b, s) = new_frame s;
     let b = begin_answer b sizeof_empty TYPE_CAPI_REGISTER (rq_message_id (rq s)) (cd_session (ws_client s));
     let b = put32 AH_proxy_error PERROR_NONE b;
     m \<leftarrow> get32_chk MSG_SIZE (ws_request s) rbody;
     c \<leftarrow> get32_chk MSG_SIZE (ws_request s) (ofs (rbody + 4));
     k \<leftarrow> get32_chk MSG_SIZE (ws_request s) (ofs (rbody + 8));
     l \<leftarrow> get32_chk MSG_SIZE (ws_request s) (ofs (rbody + 12));
     let (e, app, w) = lib_register L m c k l (get32 b AH_app_id) (ws_world s);
     let s = s\<lparr>ws_world := w\<rparr>;
     let b = put32 AH_capi_error e (put32 AH_app_id app b);
     apps \<leftarrow> (if e = 0 then add_app_w32s app (cd_apps (ws_client s)) else Some (cd_apps (ws_client s)));
     finish_answer b (s\<lparr>ws_client := (ws_client s)\<lparr>cd_apps := apps\<rparr>\<rparr>)
   }"

definition exec_capi_release_w32s :: "'w capi2032 \<Rightarrow> 'w wses \<Rightarrow> (int \<times> 'w wses) option" where
  "exec_capi_release_w32s L s = do {
     let (b, s) = new_frame s;
     let b = begin_answer b sizeof_empty TYPE_CAPI_RELEASE (rq_message_id (rq s)) (cd_session (ws_client s));
     let b = put32 AH_proxy_error PERROR_NONE b;
     let (e, w) = lib_release L (rq_app_id (rq s)) (ws_world s);
     let s = s\<lparr>ws_world := w\<rparr>;
     let b = put32 AH_capi_error e b;
     apps \<leftarrow> (if e = 0 then del_app_w32s (rq_app_id (rq s)) (cd_apps (ws_client s)) else Some (cd_apps (ws_client s)));
     finish_answer b (s\<lparr>ws_client := (ws_client s)\<lparr>cd_apps := apps\<rparr>\<rparr>)
   }"

definition exec_capi_putmessage_w32s :: "'w capi2032 \<Rightarrow> nat \<Rightarrow> 'w wses \<Rightarrow> (int \<times> 'w wses) option" where
  "exec_capi_putmessage_w32s L rdata s = do {
     let (b, s) = new_frame s;
     let b = begin_answer b sizeof_empty TYPE_CAPI_PUTMESSAGE (rq_message_id (rq s)) (cd_session (ws_client s));
     let b = put32 AH_proxy_error PERROR_NONE b;
     (b, s) \<leftarrow>
       (if rq_data_len (rq s) < 8 then Some (put32 AH_proxy_error PERROR_PARSE_ERROR b, s)
        else do {
          len1 \<leftarrow> get16_chk MSG_SIZE (ws_request s) rdata;
          if rq_data_len (rq s) < len1 then Some (put32 AH_proxy_error PERROR_PARSE_ERROR b, s)
          else do {
            cmd1 \<leftarrow> get8_chk MSG_SIZE (ws_request s) (ofs (rdata + 4));
            cmd2 \<leftarrow> get8_chk MSG_SIZE (ws_request s) (ofs (rdata + 5));
            if cmd1 = 0x86 \<and> cmd2 = 0x80 then
              if len1 < 18 then Some (put32 AH_proxy_error PERROR_PARSE_ERROR b, s)
              else do {
                len2 \<leftarrow> get16_chk MSG_SIZE (ws_request s) (ofs (rdata + 16));
                if len1 + len2 > rq_data_len (rq s) then Some (put32 AH_proxy_error PERROR_PARSE_ERROR b, s)
                else do {
                  let pointer = ws_addr s + of_nat rdata + len1;
                  p \<leftarrow> put_bytes_chk MSG_SIZE (ofs (rdata + 12)) (bytes_le 4 pointer) (ws_request s);
                  let s = s\<lparr>ws_request := p\<rparr>;
                  let (e, w) = lib_put_message L (rq_app_id (rq s)) (ws_addr s + of_nat rdata)
                                 (\<lambda>i. ws_request s (rdata + i)) (ws_world s);
                  Some (put32 AH_capi_error e b, s\<lparr>ws_world := w\<rparr>)
                }
              }
            else do {
              let (e, w) = lib_put_message L (rq_app_id (rq s)) (ws_addr s + of_nat rdata)
                             (\<lambda>i. ws_request s (rdata + i)) (ws_world s);
              Some (put32 AH_capi_error e b, s\<lparr>ws_world := w\<rparr>)
            }
          }
        });
     finish_answer b s
   }"

text \<open>The octets at an address of the library's memory.\<close>

definition lib_bytes :: "('w, 'z) capi2032_scheme \<Rightarrow> 'w \<Rightarrow> u32 \<Rightarrow> nat \<Rightarrow> byte list" where
  "lib_bytes L w a n = map (\<lambda>i. lib_memory L w (a + of_nat i)) [0..<n]"

lemma length_lib_bytes [simp]: "length (lib_bytes L w a n) = n"
  by (simp add: lib_bytes_def)

text \<open>The message at address \<open>message\<close> becomes the data of the answer; a DATA_B3 IND is followed by its data block.\<close>

definition copy_message :: "'w capi2032 \<Rightarrow> 'w \<Rightarrow> u32 \<Rightarrow> buffer \<Rightarrow> buffer option" where
  "copy_message L w message b = do {
     let adata = sizeof_ANSWER_HEADER + sizeof_empty;
     let len1 = (word_le (lib_bytes L w message 2) :: u32);
     b \<leftarrow> put_bytes_chk MSG_SIZE adata (lib_bytes L w message (unat len1)) b;
     let b = put32 AH_data_len len1 b;
     let cmd1 = b (adata + 4);
     let cmd2 = b (adata + 5);
     if cmd1 = 0x86 \<and> cmd2 = 0x82 then
       if len1 < 18 then Some (put32 AH_proxy_error PERROR_PARSE_ERROR b)
       else do {
         let len2 = get16 b (adata + 16);
         let pointer = get32 b (adata + 12);
         b \<leftarrow> put_bytes_chk MSG_SIZE (adata + unat len1) (lib_bytes L w pointer (unat len2)) b;
         Some (put32 AH_data_len (get32 b AH_data_len + len2) b)
       }
     else Some b
   }"

definition exec_capi_getmessage_w32s :: "'w capi2032 \<Rightarrow> 'w wses \<Rightarrow> (int \<times> 'w wses) option" where
  "exec_capi_getmessage_w32s L s = do {
     let (b, s) = new_frame s;
     let b = begin_answer b sizeof_empty TYPE_CAPI_GETMESSAGE (rq_message_id (rq s)) (cd_session (ws_client s));
     let b = put32 AH_proxy_error PERROR_NONE b;
     let (e, message, w) = lib_get_message L (rq_app_id (rq s)) (ws_world s);
     let s = s\<lparr>ws_world := w\<rparr>;
     let b = put32 AH_capi_error e b;
     b \<leftarrow> (if e = 0 then copy_message L w message b else Some b);
     finish_answer b s
   }"

text \<open>
  WAITFORSIGNAL: a thread of its own calls the library and answers (\<open>waiter\<close>, called with the data of the \<open>k\<close>-th
  pending thread by \<open>run_waiter\<close>), so that the session goes on.
\<close>

definition waiter :: "'w capi2032 \<Rightarrow> waiter_data \<Rightarrow> 'w wses \<Rightarrow> (int \<times> 'w wses) option" where
  "waiter L d s = do {
     let (b, s) = new_frame s;
     let b = begin_answer b sizeof_empty TYPE_CAPI_WAITFORSIGNAL (wd_message_id d) (wd_session_id d);
     let b = put32 AH_proxy_error PERROR_NONE b;
     let (e, w) = lib_wait_for_signal L (wd_ApplID d) (ws_world s);
     finish_answer (put32 AH_capi_error e b) (s\<lparr>ws_world := w\<rparr>)
   }"

definition run_waiter :: "'w capi2032 \<Rightarrow> nat \<Rightarrow> 'w wses \<Rightarrow> 'w wses option" where
  "run_waiter L k s = (if k < length (ws_waiters s)
     then map_option snd (waiter L (ws_waiters s ! k)
       (s\<lparr>ws_waiters := take k (ws_waiters s) @ drop (Suc k) (ws_waiters s)\<rparr>))
     else Some s)"

fun script :: "bool list \<Rightarrow> bool \<times> bool list" where
  "script [] = (True, [])"
| "script (x # xs) = (x, xs)"

definition exec_capi_waitforsignal_w32s :: "'w capi2032 \<Rightarrow> 'w wses \<Rightarrow> (int \<times> 'w wses) option" where
  "exec_capi_waitforsignal_w32s L s = do {
     let (allocated, xs) = script (ws_allocs s);
     let s = s\<lparr>ws_allocs := xs\<rparr>;
     if \<not> allocated then None
     else do {
       let d = \<lparr>wd_socket = cd_socket (ws_client s), wd_ApplID = rq_app_id (rq s),
                wd_message_id = rq_message_id (rq s), wd_session_id = cd_session (ws_client s)\<rparr>;
       let (created, xs) = script (ws_threads s);
       let s = s\<lparr>ws_threads := xs\<rparr>;
       if created then Some (0, s\<lparr>ws_waiters := ws_waiters s @ [d]\<rparr>)
       else do {
         let (b, s) = new_frame s;
         let b = begin_answer b sizeof_empty TYPE_CAPI_WAITFORSIGNAL (rq_message_id (rq s)) (cd_session (ws_client s));
         let b = put32 AH_proxy_error PERROR_NO_RESSOURCES b;
         (_, s) \<leftarrow> finish_answer b s;
         Some (0, s)
       }
     }
   }"

definition exec_capi_manufacturer_w32s :: "'w capi2032 \<Rightarrow> 'w wses \<Rightarrow> (int \<times> 'w wses) option" where
  "exec_capi_manufacturer_w32s L s = do {
     let (b, s) = new_frame s;
     let b = begin_answer b sizeof_ANSWER_CAPI_MANUFACTURER TYPE_CAPI_MANUFACTURER (rq_message_id (rq s)) (cd_session (ws_client s));
     let b = put32 AH_proxy_error PERROR_NONE b;
     let (e, bs, w) = lib_manufacturer L (ws_world s);
     b \<leftarrow> put_bytes_chk MSG_SIZE sizeof_ANSWER_HEADER bs b;
     finish_answer (put32 AH_capi_error e b) (s\<lparr>ws_world := w\<rparr>)
   }"

definition exec_capi_version_w32s :: "'w capi2032 \<Rightarrow> 'w wses \<Rightarrow> (int \<times> 'w wses) option" where
  "exec_capi_version_w32s L s = do {
     let (b, s) = new_frame s;
     let body = sizeof_ANSWER_HEADER;
     let b = begin_answer b sizeof_ANSWER_CAPI_VERSION TYPE_CAPI_VERSION (rq_message_id (rq s)) (cd_session (ws_client s));
     let b = put32 AH_proxy_error PERROR_NONE b;
     let (e, (v0, v1, v2, v3), w) = lib_version L (ws_world s);
     let b = put32 AH_capi_error e b;
     let b = put32 (body + 8) v0 b;
     let b = put32 (body + 12) v1 b;
     let b = put32 body v2 b;
     let b = put32 (body + 4) v3 b;
     finish_answer b (s\<lparr>ws_world := w\<rparr>)
   }"

definition exec_capi_serial_w32s :: "'w capi2032 \<Rightarrow> 'w wses \<Rightarrow> (int \<times> 'w wses) option" where
  "exec_capi_serial_w32s L s = do {
     let (b, s) = new_frame s;
     let b = begin_answer b sizeof_ANSWER_CAPI_SERIAL TYPE_CAPI_SERIAL (rq_message_id (rq s)) (cd_session (ws_client s));
     let b = put32 AH_proxy_error PERROR_NONE b;
     let (e, bs, w) = lib_serial L (ws_world s);
     b \<leftarrow> put_bytes_chk MSG_SIZE sizeof_ANSWER_HEADER bs b;
     finish_answer (put32 AH_capi_error e b) (s\<lparr>ws_world := w\<rparr>)
   }"

definition exec_capi_profile_w32s :: "'w capi2032 \<Rightarrow> 'w wses \<Rightarrow> (int \<times> 'w wses) option" where
  "exec_capi_profile_w32s L s = do {
     let (b, s) = new_frame s;
     let b = begin_answer b sizeof_ANSWER_CAPI_PROFILE TYPE_CAPI_PROFILE (rq_message_id (rq s)) (cd_session (ws_client s));
     let b = put32 AH_proxy_error PERROR_NONE b;
     let (e, bs, w) = lib_profile L (rq_controller_id (rq s)) (ws_world s);
     b \<leftarrow> put_bytes_chk MSG_SIZE sizeof_ANSWER_HEADER bs b;
     finish_answer (put32 AH_capi_error e b) (s\<lparr>ws_world := w\<rparr>)
   }"

definition exec_capi_installed_w32s :: "'w capi2032 \<Rightarrow> 'w wses \<Rightarrow> (int \<times> 'w wses) option" where
  "exec_capi_installed_w32s L s = do {
     let (b, s) = new_frame s;
     let b = begin_answer b sizeof_empty TYPE_CAPI_INSTALLED (rq_message_id (rq s)) (cd_session (ws_client s));
     let b = put32 AH_proxy_error PERROR_NONE b;
     let (e, w) = lib_installed L (ws_world s);
     finish_answer (put32 AH_capi_error e b) (s\<lparr>ws_world := w\<rparr>)
   }"

section \<open>The handlers of the proxy requests\<close>

definition exec_proxy_helo_w32s :: "nat \<Rightarrow> 'w wses \<Rightarrow> (int \<times> 'w wses) option" where
  "exec_proxy_helo_w32s rbody s = do {
     let (b, s) = new_frame s;
     let abody = sizeof_ANSWER_HEADER;
     let b = begin_answer b sizeof_ANSWER_PROXY_HELO TYPE_PROXY_HELO (rq_message_id (rq s)) 0;
     let b = put32 AH_proxy_error PERROR_NONE b;
     name \<leftarrow> get_bytes_chk MSG_SIZE (ws_request s) rbody 64;
     maj \<leftarrow> get32_chk MSG_SIZE (ws_request s) (ofs (rbody + 68));
     mnr \<leftarrow> get32_chk MSG_SIZE (ws_request s) (ofs (rbody + 72));
     let s = s\<lparr>ws_client := (ws_client s)\<lparr>cd_name := name[63 := 0], cd_version := \<lparr>major = maj, minor = mnr\<rparr>\<rparr>\<rparr>;
     let b = put32 AH_app_id 0 b;
     let b = put32 (abody + 76) (ws_auth_types s) b;
     let b = put_bytes abody (SERVER_NAME_w32s @ [0]) b;
     let b = put32 (abody + 64) OS_TYPE_WINDOWS b;
     let b = put32 (abody + 80) NO_TIMEOUT b;
     let b = put32 (abody + 68) (major SERVER_VERSION) b;
     let b = put32 (abody + 72) (minor SERVER_VERSION) b;
     (b, s) \<leftarrow>
       (if major (cd_version (ws_client s)) < major SERVER_VERSION
        then Some (put32 AH_proxy_error PERROR_INCOMPATIBLE_VERSION b, s)
        else do {
          os \<leftarrow> get32_chk MSG_SIZE (ws_request s) (ofs (rbody + 64));
          let s = s\<lparr>ws_client := (ws_client s)\<lparr>cd_os := os\<rparr>\<rparr>;
          Some (put32 AH_session_id (cd_session (ws_client s)) b, s)
        });
     finish_answer b s
   }"

definition exec_proxy_keepalive_w32s :: "'w wses \<Rightarrow> (int \<times> 'w wses) option" where
  "exec_proxy_keepalive_w32s s = Some (0, s)"

text \<open>
  The search in \<^verbatim>\<open>hosts_allow\<close> or \<^verbatim>\<open>hosts_deny\<close>. The lengths \<^verbatim>\<open>len\<close> and \<^verbatim>\<open>len2\<close> are set to 16 once;
  \<^verbatim>\<open>RegEnumValue\<close> takes them as the sizes of its buffers and leaves in them the length of the name,
  without terminator, and of the data. A buffer that is too small ends the loop like the end of the list.
\<close>

fun host_loop :: "win_registry \<Rightarrow> u32 \<Rightarrow> (byte list \<times> byte list) list \<Rightarrow> nat \<times> nat \<Rightarrow> buffer \<Rightarrow>
    (bool \<times> (nat \<times> nat) \<times> buffer) option" where
  "host_loop r ip [] lens smask = Some (False, lens, smask)"
| "host_loop r ip ((nm, dat) # es) (len, len2) smask =
     (if len \<le> length nm \<or> len2 < length dat then Some (False, more_data r (len, len2), smask)
      else do {
        _ \<leftarrow> put_bytes_chk 16 0 (nm @ [0]) smask;
        smask \<leftarrow> put_bytes_chk 16 0 dat smask;
        mask \<leftarrow> cstring 16 smask 0;
        if inet_addr r nm AND inet_addr r mask = ip AND inet_addr r mask
        then Some (True, (length nm, length dat), smask)
        else host_loop r ip es (length nm, length dat) smask
      })"

definition try_auth_byip :: "'w wses \<Rightarrow> (int \<times> 'w wses) option" where
  "try_auth_byip s =
     (case ws_sockname s of
        None \<Rightarrow> Some (-1, s)
      | Some ip \<Rightarrow>
          (case hosts_allow (ws_registry s) of
             None \<Rightarrow> Some (-1, s)
           | Some allow \<Rightarrow>
               (case hosts_deny (ws_registry s) of
                  None \<Rightarrow> Some (-1, s)
                | Some deny \<Rightarrow> do {
                    let (smask, s) = new_frame s;
                    (allowed, lens, smask) \<leftarrow> host_loop (ws_registry s) ip allow (16, 16) smask;
                    (denied, lens, smask) \<leftarrow> host_loop (ws_registry s) ip deny lens smask;
                    Some (if allowed \<and> \<not> denied then 1 else -1, s)
                  })))"

text \<open>\<^verbatim>\<open>strcmp\<close> of the password with the data of the value, in an array of 256 octets.\<close>

definition try_auth_userpass :: "byte list \<Rightarrow> byte list \<Rightarrow> 'w wses \<Rightarrow> (int \<times> 'w wses) option" where
  "try_auth_userpass user pass s =
     (case users (ws_registry s) of
        None \<Rightarrow> Some (-1, s)
      | Some lookup \<Rightarrow>
          (case lookup user of
             None \<Rightarrow> Some (-1, s)
           | Some dat \<Rightarrow>
               if 256 < length dat then Some (-1, s)
               else do {
                 let (b, s) = new_frame s;
                 test \<leftarrow> cstring 256 (put_bytes 0 dat b) 0;
                 Some (if pass = test then 1 else -1, s)
               }))"

text \<open>
  User name and password are two strings in the data, terminated by the code; when one is too long, the
  handler gives up without an answer.
\<close>

definition auth_credentials :: "nat \<Rightarrow> 'w wses \<Rightarrow> ((byte list \<times> byte list) option \<times> 'w wses) option" where
  "auth_credentials rdata s =
     (if rq_data_len (rq s) > 1 then do {
        p \<leftarrow> put_bytes_chk MSG_SIZE (ofs (rdata + unat (rq_data_len (rq s)))) [0] (ws_request s);
        let s = s\<lparr>ws_request := p\<rparr>;
        user \<leftarrow> cstring (MSG_SIZE - rdata) (ws_request s) rdata;
        if 255 < length user \<or> 255 < sint (rq_data_len (rq s) - of_nat (length user)) then Some (None, s)
        else do {
          pass \<leftarrow> strcpy_chk 256 MSG_SIZE (ws_request s) (rdata + length user + 1);
          Some (Some (user, pass), s)
        }
      } else Some (Some ([], []), s))"

definition exec_proxy_auth_w32s :: "nat \<Rightarrow> nat \<Rightarrow> 'w wses \<Rightarrow> (int \<times> 'w wses) option" where
  "exec_proxy_auth_w32s rbody rdata s = do {
     let (b, s) = new_frame s;
     let b = begin_answer b sizeof_empty TYPE_PROXY_AUTH (rq_message_id (rq s)) (cd_session (ws_client s));
     let s = s\<lparr>ws_client := (ws_client s)\<lparr>cd_auth_data := 0, cd_auth_type := AUTH_NO_AUTH\<rparr>\<rparr>;
     ty \<leftarrow> get32_chk MSG_SIZE (ws_request s) rbody;
     if ty = AUTH_BY_IP then
       if ws_auth_types s AND AUTH_BY_IP \<noteq> 0 then do {
         (r, s) \<leftarrow> try_auth_byip s;
         if r \<noteq> -1 then finish_answer (put32 AH_proxy_error PERROR_NONE b)
             (s\<lparr>ws_client := (ws_client s)\<lparr>cd_auth_type := AUTH_BY_IP\<rparr>\<rparr>)
         else finish_answer (put32 AH_proxy_error PERROR_ACCESS_DENIED b) s
       }
       else finish_answer (put32 AH_proxy_error PERROR_AUTH_TYPE_NOT_SUPPORTED b) s
     else if ty = AUTH_USERPASS then
       if ws_auth_types s AND AUTH_USERPASS \<noteq> 0 then do {
         (cred, s) \<leftarrow> auth_credentials rdata s;
         case cred of
           None \<Rightarrow> Some (-1, s)
         | Some (user, pass) \<Rightarrow> do {
             (r, s) \<leftarrow> try_auth_userpass user pass s;
             if r \<noteq> -1 then finish_answer (put32 AH_proxy_error PERROR_NONE b)
                 (s\<lparr>ws_client := (ws_client s)\<lparr>cd_auth_type := AUTH_USERPASS\<rparr>\<rparr>)
             else finish_answer (put32 AH_proxy_error PERROR_ACCESS_DENIED b) s
           }
       }
       else finish_answer (put32 AH_proxy_error PERROR_AUTH_TYPE_NOT_SUPPORTED b) s
     else if ty = AUTH_NO_AUTH then
       if ws_auth_required s = 0 then finish_answer (put32 AH_proxy_error PERROR_NONE b) s
       else finish_answer (put32 AH_proxy_error PERROR_ACCESS_DENIED b) s
     else finish_answer (put32 AH_proxy_error PERROR_AUTH_TYPE_NOT_SUPPORTED b) s
   }"

definition exec_proxy_shutdown_w32s :: "byte list \<Rightarrow> 'w wses \<Rightarrow> (int \<times> 'w wses) option" where
  "exec_proxy_shutdown_w32s message s = do {
     let (b, s) = new_frame s;
     let b = begin_answer b sizeof_ANSWER_PROXY_SHUTDOWN TYPE_PROXY_SHUTDOWN 0 (cd_session (ws_client s));
     let b = put32 AH_proxy_error PERROR_NONE b;
     b \<leftarrow> put_bytes_chk MSG_SIZE sizeof_ANSWER_HEADER (message @ [0]) b;
     finish_answer b s
   }"

section \<open>Checking a request\<close>

definition verifyRequest :: "buffer \<Rightarrow> bool" where
  "verifyRequest msg =
     (let h = request_header_at msg; ty = rq_message_type h in
      if rq_header_len h < of_nat sizeof_REQUEST_HEADER then False
      else if rq_body_len h < word_of_int (rbodysize_w32s ty) then False
      else if rq_message_len h > of_nat MSG_SIZE then False
      else if rq_header_len h + rq_body_len h + rq_data_len h \<noteq> rq_message_len h then False
      else if rq_message_type h \<noteq> ty then False
      else True)"

definition verifySessionId :: "buffer \<Rightarrow> u32 \<Rightarrow> bool" where
  "verifySessionId msg sid = (rq_session_id (request_header_at msg) = sid)"

section \<open>The session thread\<close>

text \<open>
  The packet in \<^verbatim>\<open>request\<close> is handled according to its type; the result of a handler is only printed. A
  request type the switch does not know, or another session id, is ignored.
\<close>

definition dispatch_w32s :: "'w capi2032 \<Rightarrow> 'w wses \<Rightarrow> 'w wses option" where
  "dispatch_w32s L s =
     (let ty = rq_message_type (rq s);
          body = unat (rq_header_len (rq s));
          dat = unat (rq_header_len (rq s) + rq_body_len (rq s));
          checked = (\<lambda>r. if verifySessionId (ws_request s) (ws_base s + ws_sess s) then map_option snd r else Some s)
      in if ty = TYPE_CAPI_REGISTER then checked (exec_capi_register_w32s L body s)
         else if ty = TYPE_CAPI_RELEASE then checked (exec_capi_release_w32s L s)
         else if ty = TYPE_CAPI_PUTMESSAGE then checked (exec_capi_putmessage_w32s L dat s)
         else if ty = TYPE_CAPI_GETMESSAGE then checked (exec_capi_getmessage_w32s L s)
         else if ty = TYPE_CAPI_WAITFORSIGNAL then checked (exec_capi_waitforsignal_w32s L s)
         else if ty = TYPE_CAPI_MANUFACTURER then checked (exec_capi_manufacturer_w32s L s)
         else if ty = TYPE_CAPI_VERSION then checked (exec_capi_version_w32s L s)
         else if ty = TYPE_CAPI_SERIAL then checked (exec_capi_serial_w32s L s)
         else if ty = TYPE_CAPI_PROFILE then checked (exec_capi_profile_w32s L s)
         else if ty = TYPE_CAPI_INSTALLED then checked (exec_capi_installed_w32s L s)
         else if ty = TYPE_PROXY_HELO then map_option snd (exec_proxy_helo_w32s body s)
         else if ty = TYPE_PROXY_KEEPALIVE then checked (exec_proxy_keepalive_w32s s)
         else if ty = TYPE_PROXY_AUTH then checked (exec_proxy_auth_w32s body dat s)
         else Some s)"

text \<open>
  One round of the loop, while \<^verbatim>\<open>run\<close> is 1 and \<^verbatim>\<open>pause\<close> is not: one \<^verbatim>\<open>recv\<close>, whatever it delivers. The
  number is the value of \<^verbatim>\<open>err\<close>; the flag says whether the loop goes on.
\<close>

definition receive :: "'w wses \<Rightarrow> int \<times> 'w wses" where
  "receive s = (case sock_recv (ws_rx s) MSG_SIZE of (n, bs, es) \<Rightarrow>
     (n, s\<lparr>ws_rx := es, ws_request := put_bytes 0 bs (ws_request s)\<rparr>))"

definition session_round :: "'w capi2032 \<Rightarrow> 'w wses \<Rightarrow> (bool \<times> int \<times> 'w wses) option" where
  "session_round L s =
     (case receive s of (n, s) \<Rightarrow>
        if n = 0 \<or> n = -1 then Some (False, n, s)
        else if \<not> verifyRequest (ws_request s) then Some (True, n, s)
        else map_option (\<lambda>s. (True, n, s)) (dispatch_w32s L s))"

end
