(* ===== verification/Win32Session.thy ===== *)
theory Win32Session
  imports Win32Server HandlerContract "HOL-Library.Multiset"
begin

text \<open>
  The session threads of the Windows server. First the contracts of the handlers, as locales: an
  \<open>answering\<close> operation leaves the session alone but for the table of applications and what the client says about
  itself, and sends exactly one well-framed answer to the request (\<open>one_answer\<close>); a \<open>safe_answering\<close> one does so
  without leaving a buffer when its precondition holds. Then what a session and its waiter threads do
  together.
\<close>

section \<open>Sending\<close>

lemma unat_u32: "n < 2 ^ 32 \<Longrightarrow> unat (of_nat n :: u32) = n"
  by (simp add: unat_of_nat)

lemma ws_send_cases:
  obtains r rs where "ws_send pkt s = (r, s\<lparr>ws_send_rets := rs, ws_tx := ws_tx s @ [(pkt, r)]\<rparr>)"
  by (cases "ws_send_rets s") (auto simp: ws_send_def)

lemma MSG_SIZE_PACKET_SIZE: "MSG_SIZE = PACKET_SIZE"
  by (simp add: MSG_SIZE_def PACKET_SIZE_def)

text \<open>
  The answer in an array \<open>b\<close> with \<open>n\<close> octets of body and data.
\<close>

definition packet_in :: "nat \<Rightarrow> buffer \<Rightarrow> byte list" where
  "packet_in n b = answer_packet (answer_header_at (put32 AH_message_len (of_nat (40 + n)) b)) (get_bytes b 40 n)"

lemma finish_answer_eq:
  assumes "get32 b AH_header_len = 40" and "get32 b AH_body_len + get32 b AH_data_len = of_nat n"
  shows "n + 40 \<le> MSG_SIZE \<Longrightarrow> finish_answer b s = Some (ws_send (packet_in n b) s)"
    and "MSG_SIZE < n + 40 \<Longrightarrow> n + 40 < 2 ^ 32 \<Longrightarrow> finish_answer b s = None"
proof -
  let ?b = "put32 AH_message_len (of_nat (40 + n)) b"
  have sum: "get32 b AH_header_len + get32 b AH_body_len + get32 b AH_data_len = of_nat (40 + n)"
    using assms by (simp add: add.assoc)
  have u: "unat (of_nat (40 + n) :: u32) = 40 + n" if "n + 40 < 2 ^ 32"
    using unat_u32 [of "40 + n"] that by (simp add: add.commute del: of_nat_add)
  show "finish_answer b s = Some (ws_send (packet_in n b) s)" if "n + 40 \<le> MSG_SIZE"
  proof -
    have *: "n + 40 < 2 ^ 32" using that by (simp add: MSG_SIZE_def)
    have "get_bytes_chk MSG_SIZE ?b 0 (40 + n) = Some (get_bytes ?b 0 (40 + n))"
      using that by (simp add: get_bytes_chk_def)
    moreover have "get_bytes ?b 0 (40 + n) = packet_in n b"
      by (simp add: packet_in_def answer_packet_def get_bytes_header buf_simps)
    ultimately show ?thesis unfolding finish_answer_def sum by (simp add: buf_simps u [OF *] del: of_nat_add)
  qed
  show "finish_answer b s = None" if "MSG_SIZE < n + 40" "n + 40 < 2 ^ 32"
    unfolding finish_answer_def sum
    using that by (simp add: buf_simps u get_bytes_chk_def del: of_nat_add)
qed

lemma finish_answer_total:
  "get32 b AH_header_len = 40 \<Longrightarrow> get32 b AH_body_len + get32 b AH_data_len = of_nat n \<Longrightarrow> n + 40 \<le> MSG_SIZE \<Longrightarrow>
     \<exists>r s'. finish_answer b s = Some (r, s')"
  using finish_answer_eq(1) by (metis surj_pair)

lemma packet_in_header:
  "answer_header_at (buffer_of (packet_in n b)) =
     (answer_header_at b)\<lparr>an_message_len := of_nat (40 + n)\<rparr>"
  unfolding packet_in_def answer_header_at_packet by (simp add: answer_header_at_def buf_simps)

lemma well_framed_packet_in:
  assumes "get32 b AH_header_len = 40" and "get32 b AH_body_len = of_nat bl" and "get32 b AH_data_len = of_nat dl"
    and "40 + bl + dl \<le> MSG_SIZE"
  shows "well_framed (packet_in (bl + dl) b)"
proof -
  have "unat (of_nat (40 + (bl + dl)) :: u32) = 40 + bl + dl" "unat (of_nat bl :: u32) = bl" "unat (of_nat dl :: u32) = dl"
    using assms(4) by (simp_all add: unat_u32 MSG_SIZE_def del: of_nat_add)
  then show ?thesis using assms unfolding packet_in_def well_framed_answer_packet
    by (simp add: answer_header_at_def buf_simps MSG_SIZE_PACKET_SIZE del: of_nat_add)
qed

text \<open>The header of a begun answer.\<close>

lemma begin_answer_fields [simp]:
  "get32 (begin_answer b bl ty i sid) AH_header_len = 40"
  "get32 (begin_answer b bl ty i sid) AH_body_len = of_nat bl"
  "get32 (begin_answer b bl ty i sid) AH_data_len = 0"
  "get32 (begin_answer b bl ty i sid) AH_message_type = ty"
  "get32 (begin_answer b bl ty i sid) AH_message_id = i"
  "get32 (begin_answer b bl ty i sid) AH_session_id = sid"
  "get32 (begin_answer b bl ty i sid) AH_app_id = get32 b AH_app_id"
  "get32 (begin_answer b bl ty i sid) AH_capi_error = get32 b AH_capi_error"
  "40 \<le> k \<Longrightarrow> begin_answer b bl ty i sid k = b k"
  by (simp_all add: begin_answer_def Let_def buf_simps sizeof_defs)

lemma begin_answer_body [simp]: "40 \<le> k \<Longrightarrow> get_bytes (begin_answer b bl ty i sid) k n = get_bytes b k n"
  by (rule get_bytes_eqI) simp

section \<open>The contract of a handler\<close>

text \<open>What no handler touches.\<close>

definition same_session :: "'w wses \<Rightarrow> 'w wses \<Rightarrow> bool" where
  "same_session s s' \<longleftrightarrow> ws_addr s' = ws_addr s \<and> ws_base s' = ws_base s \<and> ws_sess s' = ws_sess s \<and>
     ws_auth_types s' = ws_auth_types s \<and> ws_auth_required s' = ws_auth_required s \<and> ws_registry s' = ws_registry s \<and>
     ws_sockname s' = ws_sockname s \<and> ws_rx s' = ws_rx s \<and> ws_frames s' = ws_frames s \<and>
     cd_socket (ws_client s') = cd_socket (ws_client s) \<and> cd_session (ws_client s') = cd_session (ws_client s)"

lemma same_session_refl [simp]: "same_session s s"
  by (simp add: same_session_def)

lemma same_session_trans: "same_session s t \<Longrightarrow> same_session t u \<Longrightarrow> same_session s u"
  by (simp add: same_session_def)

definition answer_id :: "byte list \<Rightarrow> u32" where
  "answer_id p = an_message_id (answer_header_at (buffer_of p))"

definition one_answer :: "u32 \<Rightarrow> u32 \<Rightarrow> 'w wses \<Rightarrow> 'w wses \<Rightarrow> bool" where
  "one_answer ty i s s' \<longleftrightarrow> same_session s s' \<and> ws_waiters s' = ws_waiters s \<and>
     (\<exists>p n. ws_tx s' = ws_tx s @ [(p, n)] \<and> well_framed p \<and> answer_id p = i \<and>
        an_message_type (answer_header_at (buffer_of p)) = ty)"

lemma finish_answer_one:
  assumes "finish_answer b t = Some (n, s')"
    and "get32 b AH_header_len = 40" and "get32 b AH_body_len = of_nat bl" and "get32 b AH_data_len = of_nat dl"
    and "40 + bl + dl < 2 ^ 32"
    and "get32 b AH_message_type = ty" and "get32 b AH_message_id = i"
    and "same_session s t" and "ws_waiters t = ws_waiters s" and "ws_tx t = ws_tx s"
  shows "one_answer ty i s s'"
proof -
  have sum: "get32 b AH_body_len + get32 b AH_data_len = of_nat (bl + dl)" using assms(3,4) by simp
  have le: "40 + bl + dl \<le> MSG_SIZE"
  proof (rule ccontr)
    assume "\<not> 40 + bl + dl \<le> MSG_SIZE"
    then have "finish_answer b t = None"
      using finish_answer_eq(2) [OF assms(2) sum, of t] assms(5) by simp
    with assms(1) show False by simp
  qed
  have eq: "finish_answer b t = Some (ws_send (packet_in (bl + dl) b) t)"
    using finish_answer_eq(1) [OF assms(2) sum, of t] le by simp
  obtain r rs where "ws_send (packet_in (bl + dl) b) t =
      (r, t\<lparr>ws_send_rets := rs, ws_tx := ws_tx t @ [(packet_in (bl + dl) b, r)]\<rparr>)"
    by (rule ws_send_cases)
  with eq assms(1) have s': "s' = t\<lparr>ws_send_rets := rs, ws_tx := ws_tx s @ [(packet_in (bl + dl) b, r)]\<rparr>"
    using assms(10) by simp
  have "well_framed (packet_in (bl + dl) b)"
    by (rule well_framed_packet_in) (use assms(2-4) le in simp_all)
  moreover have "answer_id (packet_in (bl + dl) b) = i"
    "an_message_type (answer_header_at (buffer_of (packet_in (bl + dl) b))) = ty"
    using assms(6,7) unfolding answer_id_def packet_in_header by (simp_all add: answer_header_at_def)
  ultimately show ?thesis
    using assms(8,9) by (simp add: one_answer_def same_session_def s')
qed


text \<open>
  The type of a session: flags of the table are 0 or 1, no authentication data is ever held, an authentication that
  counts as successful is of a type the server offers, the session id is the one given at the start, and the
  waiter threads answer on the socket and under the id of the session.
\<close>

definition wt_session :: "'w wses \<Rightarrow> bool" where
  "wt_session s \<longleftrightarrow>
     (\<forall>i \<le> MAXAPPL_w32s. cd_apps (ws_client s) i = 0 \<or> cd_apps (ws_client s) i = 1) \<and>
     cd_auth_data (ws_client s) = 0 \<and>
     (cd_auth_type (ws_client s) = AUTH_NO_AUTH \<or>
      cd_auth_type (ws_client s) \<in> {AUTH_BY_IP, AUTH_USERPASS} \<and> ws_auth_types s AND cd_auth_type (ws_client s) \<noteq> 0) \<and>
     cd_session (ws_client s) = ws_base s + ws_sess s \<and> length (cd_name (ws_client s)) = 64 \<and>
     (\<forall>d \<in> set (ws_waiters s). wd_session_id d = cd_session (ws_client s) \<and> wd_socket d = cd_socket (ws_client s))"

definition answered_ids :: "'w wses \<Rightarrow> u32 multiset" where
  "answered_ids s = mset (map (answer_id \<circ> fst) (ws_tx s))"

definition pending_ids :: "'w wses \<Rightarrow> u32 multiset" where
  "pending_ids s = mset (map wd_message_id (ws_waiters s))"

locale accountable =
  fixes op :: "'w wses \<Rightarrow> (int \<times> 'w wses) option"
  assumes kept: "op s = Some (n, s') \<Longrightarrow> same_session s s'"
    and accounts: "op s = Some (n, s') \<Longrightarrow>
      answered_ids s' + pending_ids s' = add_mset (rq_message_id (rq s)) (answered_ids s + pending_ids s)"
    and types: "op s = Some (n, s') \<Longrightarrow> wt_session s \<Longrightarrow> wt_session s'"
begin

lemma result:
  assumes "map_option snd (op s) = Some s'"
  shows "same_session s s' \<and> (wt_session s \<longrightarrow> wt_session s') \<and>
     answered_ids s' + pending_ids s' = add_mset (rq_message_id (rq s)) (answered_ids s + pending_ids s)"
  using assms kept accounts types by (cases "op s") auto

end

locale answering =
  fixes op :: "'w wses \<Rightarrow> (int \<times> 'w wses) option"
    and ty :: u32
  assumes answers: "op s = Some (n, s') \<Longrightarrow> one_answer ty (rq_message_id (rq s)) s s'"
    and typed: "op s = Some (n, s') \<Longrightarrow> wt_session s \<Longrightarrow> wt_session s'"

sublocale answering \<subseteq> accountable op
proof
  fix s s' n assume eq: "op s = Some (n, s')"
  from answers [OF eq] show "same_session s s'" by (simp add: one_answer_def)
  from answers [OF eq]
  show "answered_ids s' + pending_ids s' = add_mset (rq_message_id (rq s)) (answered_ids s + pending_ids s)"
    by (auto simp: one_answer_def answered_ids_def pending_ids_def)
  from typed [OF eq] show "wt_session s \<Longrightarrow> wt_session s'" .
qed

section \<open>The handlers keep the contract\<close>

lemma finish_answer_keeps:
  "finish_answer b t = Some (n, s') \<Longrightarrow> wt_session t \<Longrightarrow> wt_session s'"
  by (auto simp: finish_answer_def get_bytes_chk_def ws_send_def wt_session_def Let_def
      split: Option.bind_splits if_splits list.splits)

lemma wt_session_update [simp]:
  "wt_session (s\<lparr>ws_calls := k\<rparr>) = wt_session s" "wt_session (s\<lparr>ws_world := w\<rparr>) = wt_session s"
  "wt_session (s\<lparr>ws_request := q\<rparr>) = wt_session s" "wt_session (s\<lparr>ws_rx := es\<rparr>) = wt_session s"
  "wt_session (s\<lparr>ws_allocs := xs\<rparr>) = wt_session s" "wt_session (s\<lparr>ws_threads := xs\<rparr>) = wt_session s"
  by (simp_all add: wt_session_def)

lemma add_app_w32s_typed:
  "add_app_w32s a l = Some l' \<Longrightarrow> \<forall>i \<le> MAXAPPL_w32s. l i = 0 \<or> l i = 1 \<Longrightarrow> i \<le> MAXAPPL_w32s \<Longrightarrow> l' i = 0 \<or> l' i = 1"
  "del_app_w32s a l = Some l' \<Longrightarrow> \<forall>i \<le> MAXAPPL_w32s. l i = 0 \<or> l i = 1 \<Longrightarrow> i \<le> MAXAPPL_w32s \<Longrightarrow> l' i = 0 \<or> l' i = 1"
  by (auto simp: add_app_w32s_def del_app_w32s_def split: if_splits)

lemma get_bytes_chk_length: "get_bytes_chk sz b off n = Some bs \<Longrightarrow> length bs = n"
  by (auto simp: get_bytes_chk_def split: if_splits)

lemma new_frame_simps [simp]:
  "fst (new_frame s) = ws_frames s (ws_calls s)" "snd (new_frame s) = s\<lparr>ws_calls := Suc (ws_calls s)\<rparr>"
  by (simp_all add: new_frame_def)

lemmas handler_simps = new_frame_def sizeof_defs sizeof_empty_def same_session_def buf_simps

text \<open>
  The contract as a judgement on the result of a handler that got the request in \<open>s\<close>, with a rule for each way a
  handler is built; every interpretation below is one application of the rules.
\<close>

definition ends :: "u32 \<Rightarrow> 'w wses \<Rightarrow> (int \<times> 'w wses) option \<Rightarrow> bool" where
  "ends ty s r \<longleftrightarrow> (\<forall>n s'. r = Some (n, s') \<longrightarrow>
     one_answer ty (rq_message_id (rq s)) s s' \<and> (wt_session s \<longrightarrow> wt_session s'))"

lemma answeringI: "(\<And>s. ends ty s (op s)) \<Longrightarrow> answering op ty"
  by unfold_locales (auto simp: ends_def)

lemma ends_bind: "(\<And>x. m = Some x \<Longrightarrow> ends ty s (f x)) \<Longrightarrow> ends ty s (m \<bind> f)"
  by (cases m) (auto simp: ends_def)

lemma ends_if: "(c \<Longrightarrow> ends ty s a) \<Longrightarrow> (\<not> c \<Longrightarrow> ends ty s b) \<Longrightarrow> ends ty s (if c then a else b)"
  by simp

lemma ends_finish:
  assumes "get32 b AH_header_len = 40" and "get32 b AH_body_len = of_nat bl" and "get32 b AH_data_len = of_nat dl"
    and "40 + bl + dl < 2 ^ 32"
    and "get32 b AH_message_type = ty" and "get32 b AH_message_id = rq_message_id (rq s)"
    and "same_session s t" and "ws_waiters t = ws_waiters s" and "ws_tx t = ws_tx s"
    and "wt_session s \<Longrightarrow> wt_session t"
  shows "ends ty s (finish_answer b t)"
  unfolding ends_def
  using finish_answer_one [OF _ assms(1-9)] finish_answer_keeps assms(10) by blast

lemmas ends_simps = Option.bind_eq_Some_conv chk_defs handler_simps

interpretation installed_w32s: answering "exec_capi_installed_w32s L" TYPE_CAPI_INSTALLED for L
  by (rule answeringI) (unfold exec_capi_installed_w32s_def Let_def case_prod_beta, (intro ends_bind ends_finish [where bl = 1 and dl = 0];
    auto simp: ends_simps split: if_splits; auto simp: wt_session_def dest: add_app_w32s_typed))

interpretation manufacturer_w32s: answering "exec_capi_manufacturer_w32s L" TYPE_CAPI_MANUFACTURER for L
  by (rule answeringI) (unfold exec_capi_manufacturer_w32s_def Let_def case_prod_beta, (intro ends_bind ends_finish [where bl = 64 and dl = 0];
    auto simp: ends_simps split: if_splits; auto simp: wt_session_def dest: add_app_w32s_typed))

interpretation version_w32s: answering "exec_capi_version_w32s L" TYPE_CAPI_VERSION for L
  by (rule answeringI) (unfold exec_capi_version_w32s_def Let_def case_prod_beta, (intro ends_bind ends_finish [where bl = 16 and dl = 0];
    auto simp: ends_simps split: if_splits; auto simp: wt_session_def dest: add_app_w32s_typed))

interpretation serial_w32s: answering "exec_capi_serial_w32s L" TYPE_CAPI_SERIAL for L
  by (rule answeringI) (unfold exec_capi_serial_w32s_def Let_def case_prod_beta, (intro ends_bind ends_finish [where bl = 8 and dl = 0];
    auto simp: ends_simps split: if_splits; auto simp: wt_session_def dest: add_app_w32s_typed))

interpretation profile_w32s: answering "exec_capi_profile_w32s L" TYPE_CAPI_PROFILE for L
  by (rule answeringI) (unfold exec_capi_profile_w32s_def Let_def case_prod_beta, (intro ends_bind ends_finish [where bl = 64 and dl = 0];
    auto simp: ends_simps split: if_splits; auto simp: wt_session_def dest: add_app_w32s_typed))

interpretation release_w32s: answering "exec_capi_release_w32s L" TYPE_CAPI_RELEASE for L
  by (rule answeringI) (unfold exec_capi_release_w32s_def Let_def case_prod_beta, (intro ends_bind ends_finish [where bl = 1 and dl = 0];
    auto simp: ends_simps split: if_splits; auto simp: wt_session_def dest: add_app_w32s_typed))

interpretation register_w32s: answering "exec_capi_register_w32s L body" TYPE_CAPI_REGISTER for L body
  by (rule answeringI) (unfold exec_capi_register_w32s_def Let_def case_prod_beta, (intro ends_bind ends_finish [where bl = 1 and dl = 0];
    auto simp: ends_simps split: if_splits; auto simp: wt_session_def dest: add_app_w32s_typed))

interpretation putmessage_w32s: answering "exec_capi_putmessage_w32s L dat" TYPE_CAPI_PUTMESSAGE for L dat
  by (rule answeringI) (unfold exec_capi_putmessage_w32s_def Let_def case_prod_beta, (intro ends_bind ends_finish [where bl = 1 and dl = 0];
    auto simp: ends_simps split: if_splits; auto simp: wt_session_def dest: add_app_w32s_typed))

interpretation helo_w32s: answering "exec_proxy_helo_w32s body" TYPE_PROXY_HELO for body
  by (rule answeringI) (unfold exec_proxy_helo_w32s_def Let_def case_prod_beta, (intro ends_bind ends_finish [where bl = 84 and dl = 0];
    auto simp: ends_simps split: if_splits; auto simp: wt_session_def dest: add_app_w32s_typed))

lemma word_le_2_less: "unat (word_le [x, y] :: u32) < 65536"
proof -
  have "get_bytes (buffer_of [x, y]) 0 2 = [x, y]" by (simp add: buffer_of_def put_bytes_same)
  then show ?thesis using get16_less [of "buffer_of [x, y]" 0] by (simp add: get16_def)
qed

lemma word_le_lib_bytes_less: "unat (word_le (lib_bytes L w a 2) :: u32) < 65536"
  using word_le_2_less by (simp add: lib_bytes_def upt_rec)

lemma copy_message_header:
  assumes "copy_message L w p b = Some b'"
  obtains dl where "get32 b' AH_data_len = of_nat dl" "dl < 2 * 65536"
    "\<And>k. k \<noteq> AH_data_len \<Longrightarrow> k \<noteq> AH_proxy_error \<Longrightarrow> k \<le> 36 \<Longrightarrow> k mod 4 = 0 \<Longrightarrow> get32 b' k = get32 b k"
proof -
  define len1 where "len1 = (word_le (lib_bytes L w p 2) :: u32)"
  have l1: "unat len1 < 65536" unfolding len1_def by (rule word_le_lib_bytes_less)
  have sep: "k + 4 \<le> 12 \<or> 16 \<le> k" "k + 4 \<le> 32 \<or> 36 \<le> k" "k + 4 \<le> 40"
    if "k \<noteq> 12" "k \<noteq> 32" "k \<le> 36" "k mod 4 = 0" for k :: nat
    using that by presburger+
  let ?c = "put32 12 len1 (put_bytes 41 (lib_bytes L w p (unat len1)) b)"
  consider "b' = ?c" | "b' = put32 32 PERROR_PARSE_ERROR ?c" |
    n where "b' = put32 12 (len1 + get16 ?c 57) (put_bytes (41 + unat len1) (lib_bytes L w n (unat (get16 ?c 57))) ?c)"
    using assms unfolding copy_message_def Let_def len1_def [symmetric]
    by (auto simp: Option.bind_eq_Some_conv put_bytes_chk_def sizeof_defs sizeof_empty_def buf_simps split: if_splits)
  then show thesis
  proof cases
    case 1
    then show thesis using l1 sep by (intro that [of "unat len1"]) (simp_all add: buf_simps)
  next
    case 2
    then show thesis using l1 sep by (intro that [of "unat len1"]) (simp_all add: buf_simps)
  next
    case (3 n)
    have l2: "unat (get16 ?c 57) < 65536" by (rule get16_less)
    show thesis
      by (rule that [of "unat len1 + unat (get16 ?c 57)"]) (use l1 l2 sep 3 in \<open>simp_all add: buf_simps\<close>)
  qed
qed

interpretation getmessage_w32s: answering "exec_capi_getmessage_w32s L" TYPE_CAPI_GETMESSAGE for L
proof (rule answeringI)
  fix s :: "'a wses"
  obtain e p w where m: "lib_get_message L (rq_app_id (rq s)) (ws_world s) = (e, p, w)" by (metis prod_cases3)
  show "ends TYPE_CAPI_GETMESSAGE s (exec_capi_getmessage_w32s L s)"
    unfolding exec_capi_getmessage_w32s_def Let_def case_prod_beta
  proof (rule ends_bind, goal_cases)
    case (1 b')
    show ?case
    proof (cases "e = 0")
      case True
      with 1 m have "copy_message L w p (put32 36 e (put32 32 PERROR_NONE (begin_answer (ws_frames s (ws_calls s)) 1
          TYPE_CAPI_GETMESSAGE (rq_message_id (rq s)) (cd_session (ws_client s))))) = Some b'"
        by (simp add: sizeof_empty_def new_frame_def)
      from copy_message_header [OF this] obtain dl where "get32 b' 12 = of_nat dl" "dl < 2 * 65536"
        "\<And>k. k \<noteq> 12 \<Longrightarrow> k \<noteq> 32 \<Longrightarrow> k \<le> 36 \<Longrightarrow> k mod 4 = 0 \<Longrightarrow>
           get32 b' k = get32 (put32 36 e (put32 32 PERROR_NONE (begin_answer (ws_frames s (ws_calls s)) 1
          TYPE_CAPI_GETMESSAGE (rq_message_id (rq s)) (cd_session (ws_client s))))) k" by blast
      then show ?thesis
        by (intro ends_finish [where bl = 1 and dl = dl]) (simp_all add: handler_simps)
    next
      case False
      with 1 m show ?thesis
        by (intro ends_finish [where bl = 1 and dl = 0]) (auto simp: handler_simps)
    qed
  qed
qed

text \<open>WAITFORSIGNAL: the answer is owed by a thread, or sent at once when there is none.\<close>

lemma script_cases: "\<exists>ys. script xs = (True, ys) \<or> script xs = (False, ys)"
  by (cases xs) auto

interpretation waitforsignal_w32s: accountable "exec_capi_waitforsignal_w32s L" for L
proof
  fix s s' :: "'a wses" and n
  assume eq: "exec_capi_waitforsignal_w32s L s = Some (n, s')"
  obtain c ys where sc: "script (ws_threads s) = (c, ys)" by fastforce
  show "same_session s s'" "answered_ids s' + pending_ids s' = add_mset (rq_message_id (rq s)) (answered_ids s + pending_ids s)"
    "wt_session s \<Longrightarrow> wt_session s'"
  proof (atomize (full), cases c)
    case True
    with eq sc show "same_session s s' \<and> answered_ids s' + pending_ids s' = add_mset (rq_message_id (rq s)) (answered_ids s + pending_ids s) \<and>
      (wt_session s \<longrightarrow> wt_session s')"
      by (auto simp: exec_capi_waitforsignal_w32s_def case_prod_beta same_session_def answered_ids_def pending_ids_def
          wt_session_def Let_def split: if_splits)
  next
    case False
    with eq sc obtain a where fin: "finish_answer (put32 32 PERROR_NO_RESSOURCES (begin_answer (ws_frames s (ws_calls s)) 1
          TYPE_CAPI_WAITFORSIGNAL (rq_message_id (rq s)) (cd_session (ws_client s))))
        (s\<lparr>ws_allocs := snd (script (ws_allocs s)), ws_threads := ys, ws_calls := Suc (ws_calls s)\<rparr>) = Some (a, s')"
      by (auto simp: exec_capi_waitforsignal_w32s_def case_prod_beta Let_def new_frame_def sizeof_empty_def
          Option.bind_eq_Some_conv split: if_splits)
    have "one_answer TYPE_CAPI_WAITFORSIGNAL (rq_message_id (rq s)) s s'"
      by (rule finish_answer_one [OF fin, where bl = 1 and dl = 0]) (simp_all add: handler_simps)
    with finish_answer_keeps [OF fin]
    show "same_session s s' \<and> answered_ids s' + pending_ids s' = add_mset (rq_message_id (rq s)) (answered_ids s + pending_ids s) \<and>
      (wt_session s \<longrightarrow> wt_session s')"
      by (auto simp: one_answer_def answered_ids_def pending_ids_def)
  qed
qed

section \<open>Authentication\<close>

text \<open>The request on which the handler gives up: user name or password longer than 255 octets.\<close>

definition auth_gives_up :: "nat \<Rightarrow> nat \<Rightarrow> 'w wses \<Rightarrow> bool" where
  "auth_gives_up body dat s \<longleftrightarrow>
     get32_chk MSG_SIZE (ws_request s) body = Some AUTH_USERPASS \<and> ws_auth_types s AND AUTH_USERPASS \<noteq> 0 \<and>
     (case auth_credentials dat s of Some (None, _) \<Rightarrow> True | _ \<Rightarrow> False)"

lemma auth_credentials_state:
  "auth_credentials dat s = Some (c, t) \<Longrightarrow> \<exists>q. t = s\<lparr>ws_request := q\<rparr>"
  by (auto simp: auth_credentials_def Let_def split: if_splits Option.bind_splits intro: exI [of _ "ws_request s"])

lemma auth_credentials_cong:
  "ws_request s = ws_request t \<Longrightarrow> map_option fst (auth_credentials dat s) = map_option fst (auth_credentials dat t)"
  by (auto simp: auth_credentials_def Let_def Option.bind_map_option map_option_bind comp_def if_distrib
      split: if_splits intro!: bind_option_cong)

lemma try_auth_byip_state: "try_auth_byip s = Some (r, t) \<Longrightarrow> \<exists>k. t = s\<lparr>ws_calls := k\<rparr>"
  by (auto simp: try_auth_byip_def new_frame_def split: option.splits if_splits Option.bind_splits prod.splits
      intro: exI [of _ "ws_calls s"])

lemma try_auth_userpass_state: "try_auth_userpass u p s = Some (r, t) \<Longrightarrow> \<exists>k. t = s\<lparr>ws_calls := k\<rparr>"
  by (auto simp: try_auth_userpass_def new_frame_def split: option.splits if_splits Option.bind_splits prod.splits
      intro: exI [of _ "ws_calls s"])

lemma auth_finish:
  assumes "t = s\<lparr>ws_calls := k, ws_request := q, ws_client := (ws_client s)\<lparr>cd_auth_data := 0, cd_auth_type := a\<rparr>\<rparr>"
    and "a = AUTH_NO_AUTH \<or> a \<in> {AUTH_BY_IP, AUTH_USERPASS} \<and> ws_auth_types s AND a \<noteq> 0"
  shows "ends TYPE_PROXY_AUTH s (finish_answer (put32 AH_proxy_error pe (begin_answer b sizeof_empty TYPE_PROXY_AUTH
     (rq_message_id (rq s)) sid)) t)"
  by (rule ends_finish [where bl = 1 and dl = 0]) (use assms in \<open>auto simp: handler_simps wt_session_def\<close>)

lemma auth_ends:
  assumes "\<not> auth_gives_up body dat s"
  shows "ends TYPE_PROXY_AUTH s (exec_proxy_auth_w32s body dat s)"
proof -
  define b where "b = begin_answer (ws_frames s (ws_calls s)) sizeof_empty TYPE_PROXY_AUTH (rq_message_id (rq s)) (cd_session (ws_client s))"
  define s1 where "s1 = s\<lparr>ws_calls := Suc (ws_calls s), ws_client := (ws_client s)\<lparr>cd_auth_data := 0, cd_auth_type := AUTH_NO_AUTH\<rparr>\<rparr>"
  have fin: "ends TYPE_PROXY_AUTH s (finish_answer (put32 32 pe b) (s1\<lparr>ws_request := q, ws_calls := k\<rparr>))" for pe k q
    unfolding b_def by (rule auth_finish [where k = k and q = q and a = AUTH_NO_AUTH]) (simp_all add: s1_def)
  have fin0: "ends TYPE_PROXY_AUTH s (finish_answer (put32 32 pe b) s1)"
    and fin1: "ends TYPE_PROXY_AUTH s (finish_answer (put32 32 pe b) (s1\<lparr>ws_calls := k\<rparr>))" for pe k
    using fin [where pe = pe and k = "ws_calls s1" and q = "ws_request s1"] fin [where pe = pe and k = k and q = "ws_request s1"] by simp_all
  have ok: "ends TYPE_PROXY_AUTH s (finish_answer (put32 32 pe b)
      (s1\<lparr>ws_request := q, ws_calls := k, ws_client := (ws_client s1)\<lparr>cd_auth_type := a\<rparr>\<rparr>))"
    if "a \<in> {AUTH_BY_IP, AUTH_USERPASS}" "ws_auth_types s AND a \<noteq> 0" for pe k q a
    unfolding b_def by (rule auth_finish [where k = k and q = q and a = a]) (use that in \<open>simp_all add: s1_def\<close>)
  have ok1: "ends TYPE_PROXY_AUTH s (finish_answer (put32 32 pe b) (s1\<lparr>ws_calls := k, ws_client := (ws_client s1)\<lparr>cd_auth_type := a\<rparr>\<rparr>))"
    if "a \<in> {AUTH_BY_IP, AUTH_USERPASS}" "ws_auth_types s AND a \<noteq> 0" for pe k a
    using ok [OF that, where pe = pe and k = k and q = "ws_request s1"] by simp
  have req: "ws_request s1 = ws_request s" "ws_auth_types s1 = ws_auth_types s" by (simp_all add: s1_def)
  have cred: "map_option fst (auth_credentials dat s1) = map_option fst (auth_credentials dat s)"
    by (rule auth_credentials_cong) (simp add: s1_def)
  have "exec_proxy_auth_w32s body dat s = (get32_chk MSG_SIZE (ws_request s) body \<bind> (\<lambda>ty.
      if ty = AUTH_BY_IP then
        if ws_auth_types s AND AUTH_BY_IP \<noteq> 0 then try_auth_byip s1 \<bind> (\<lambda>(r, s).
          if r \<noteq> -1 then finish_answer (put32 AH_proxy_error PERROR_NONE b) (s\<lparr>ws_client := (ws_client s)\<lparr>cd_auth_type := AUTH_BY_IP\<rparr>\<rparr>)
          else finish_answer (put32 AH_proxy_error PERROR_ACCESS_DENIED b) s)
        else finish_answer (put32 AH_proxy_error PERROR_AUTH_TYPE_NOT_SUPPORTED b) s1
      else if ty = AUTH_USERPASS then
        if ws_auth_types s AND AUTH_USERPASS \<noteq> 0 then auth_credentials dat s1 \<bind> (\<lambda>(cred, s). case cred of
            None \<Rightarrow> Some (-1, s)
          | Some (user, pass) \<Rightarrow> try_auth_userpass user pass s \<bind> (\<lambda>(r, s).
              if r \<noteq> -1 then finish_answer (put32 AH_proxy_error PERROR_NONE b) (s\<lparr>ws_client := (ws_client s)\<lparr>cd_auth_type := AUTH_USERPASS\<rparr>\<rparr>)
              else finish_answer (put32 AH_proxy_error PERROR_ACCESS_DENIED b) s))
        else finish_answer (put32 AH_proxy_error PERROR_AUTH_TYPE_NOT_SUPPORTED b) s1
      else if ty = AUTH_NO_AUTH then
        if ws_auth_required s1 = 0 then finish_answer (put32 AH_proxy_error PERROR_NONE b) s1
        else finish_answer (put32 AH_proxy_error PERROR_ACCESS_DENIED b) s1
      else finish_answer (put32 AH_proxy_error PERROR_AUTH_TYPE_NOT_SUPPORTED b) s1))"
    unfolding exec_proxy_auth_w32s_def b_def s1_def Let_def new_frame_def
    by (simp cong: if_cong option.case_cong split del: if_split)
  moreover have "ends TYPE_PROXY_AUTH s \<dots>"
  proof (intro ends_bind ends_if fin0, goal_cases)
    case (1 ty x)
    obtain r k where x: "x = (r, s1\<lparr>ws_calls := k\<rparr>)" using try_auth_byip_state 1(4) by (cases x) blast
    with 1(2,3) show ?case by (simp add: fin1 ok1)
  next
    case (2 ty x)
    obtain c q where x: "x = (c, s1\<lparr>ws_request := q\<rparr>)" using auth_credentials_state 2(5) by (cases x) blast
    with 2 cred assms obtain u p where c: "c = Some (u, p)"
      by (cases c) (auto simp: auth_gives_up_def split: option.splits)
    show ?case unfolding x c prod.case option.case
    proof (rule ends_bind, goal_cases)
      case (1 y)
      then obtain r k where "y = (r, s1\<lparr>ws_request := q, ws_calls := k\<rparr>)"
        using try_auth_userpass_state by (cases y) blast
      then show ?case using fin ok [of AUTH_USERPASS] 2(4) by simp
    qed
  qed
  ultimately show ?thesis by simp
qed

lemma auth_silent:
  assumes "auth_gives_up body dat s" and "exec_proxy_auth_w32s body dat s = Some (n, s')"
  shows "same_session s s' \<and> (wt_session s \<longrightarrow> wt_session s') \<and> ws_tx s' = ws_tx s \<and> ws_waiters s' = ws_waiters s"
proof -
  define s1 where "s1 = s\<lparr>ws_calls := Suc (ws_calls s), ws_client := (ws_client s)\<lparr>cd_auth_data := 0, cd_auth_type := AUTH_NO_AUTH\<rparr>\<rparr>"
  have cred: "map_option fst (auth_credentials dat s1) = map_option fst (auth_credentials dat s)"
    by (rule auth_credentials_cong) (simp add: s1_def)
  obtain c t where "auth_credentials dat s = Some (None, t)"
    using assms(1) by (auto simp: auth_gives_up_def split: option.splits)
  with cred obtain t1 where t1: "auth_credentials dat s1 = Some (None, t1)" by (auto simp: map_option_case split: option.splits)
  then obtain q where q: "t1 = s1\<lparr>ws_request := q\<rparr>" using auth_credentials_state by blast
  have "exec_proxy_auth_w32s body dat s = Some (-1, t1)"
    using assms(1) t1 unfolding exec_proxy_auth_w32s_def Let_def new_frame_def
    by (simp add: auth_gives_up_def s1_def proto_consts)
  with assms(2) q show ?thesis by (auto simp: same_session_def wt_session_def s1_def)
qed

section \<open>Which requests are answered\<close>

definition body_at :: "'w wses \<Rightarrow> nat" where
  "body_at s = unat (rq_header_len (rq s))"

definition data_at :: "'w wses \<Rightarrow> nat" where
  "data_at s = unat (rq_header_len (rq s) + rq_body_len (rq s))"

definition own_session :: "'w wses \<Rightarrow> bool" where
  "own_session s \<longleftrightarrow> rq_session_id (rq s) = ws_base s + ws_sess s"

definition owed :: "'w wses \<Rightarrow> u32 list" where
  "owed s =
     (if rq_message_type (rq s) = TYPE_PROXY_HELO \<or>
         own_session s \<and> (rq_message_type (rq s) \<in> set capi_types \<or>
           rq_message_type (rq s) = TYPE_PROXY_AUTH \<and> \<not> auth_gives_up (body_at s) (data_at s) s)
      then [rq_message_id (rq s)] else [])"

lemma dispatch_w32s_cases:
  obtains (helo) "rq_message_type (rq s) = TYPE_PROXY_HELO" "dispatch_w32s L s = map_option snd (exec_proxy_helo_w32s (body_at s) s)"
  | (capi) f where "rq_message_type (rq s) \<in> set capi_types" "own_session s" "dispatch_w32s L s = map_option snd (f s)" "accountable f"
  | (auth) "rq_message_type (rq s) = TYPE_PROXY_AUTH" "own_session s"
      "dispatch_w32s L s = map_option snd (exec_proxy_auth_w32s (body_at s) (data_at s) s)"
  | (silent) "rq_message_type (rq s) \<noteq> TYPE_PROXY_HELO" "\<not> own_session s \<or> rq_message_type (rq s) \<notin> insert TYPE_PROXY_AUTH (set capi_types)"
      "dispatch_w32s L s = Some s"
proof -
  let ?ty = "rq_message_type (rq s)"
  have v: "verifySessionId (ws_request s) (ws_base s + ws_sess s) = own_session s"
    by (simp add: verifySessionId_def own_session_def)
  consider "?ty = TYPE_PROXY_HELO" | "?ty \<in> set capi_types" "own_session s" | "?ty = TYPE_PROXY_AUTH" "own_session s"
    | "?ty \<noteq> TYPE_PROXY_HELO" "\<not> own_session s \<or> ?ty \<notin> insert TYPE_PROXY_AUTH (set capi_types)" by blast
  then show thesis
  proof cases
    case 1
    then show thesis by (intro helo) (simp_all add: dispatch_w32s_def Let_def body_at_def proto_consts)
  next
    case 2
    have "ty \<in> set capi_types \<Longrightarrow> own_session s \<Longrightarrow> ?ty = ty \<Longrightarrow> \<exists>f. dispatch_w32s L s = map_option snd (f s) \<and> accountable f" for ty
      unfolding capi_types_def list.set insert_iff empty_iff
      by (elim disjE FalseE; simp add: dispatch_w32s_def Let_def v proto_consts)
        (fast intro: register_w32s.accountable_axioms release_w32s.accountable_axioms
          putmessage_w32s.accountable_axioms getmessage_w32s.accountable_axioms waitforsignal_w32s.accountable_axioms
          manufacturer_w32s.accountable_axioms version_w32s.accountable_axioms serial_w32s.accountable_axioms
          profile_w32s.accountable_axioms installed_w32s.accountable_axioms)+
    with 2 show thesis using capi by blast
  next
    case 3
    then show thesis by (intro auth) (simp_all add: dispatch_w32s_def Let_def v body_at_def data_at_def proto_consts)
  next
    case 4
    have "dispatch_w32s L s = Some s"
    proof (cases "own_session s")
      case True
      with 4 show ?thesis
        by (simp add: dispatch_w32s_def Let_def v capi_types_def exec_proxy_keepalive_w32s_def cong: if_cong split del: if_split)
    next
      case False
      with 4(1) show ?thesis
        by (simp add: dispatch_w32s_def Let_def v cong: if_cong split del: if_split)
    qed
    with 4 show thesis by (rule silent)
  qed
qed

lemma capi_types_no_proxy: "TYPE_PROXY_HELO \<notin> set capi_types" "TYPE_PROXY_AUTH \<notin> set capi_types"
  by (simp_all add: capi_types_def proto_consts)

lemma dispatch_w32s_accounts:
  assumes "dispatch_w32s L s = Some s'"
  shows "same_session s s' \<and> (wt_session s \<longrightarrow> wt_session s') \<and>
     answered_ids s' + pending_ids s' = mset (owed s) + (answered_ids s + pending_ids s)"
proof (cases rule: dispatch_w32s_cases [of s L])
  case helo
  with assms have "map_option snd (exec_proxy_helo_w32s (body_at s) s) = Some s'" by simp
  from helo_w32s.result [OF this] helo(1) show ?thesis by (simp add: owed_def)
next
  case (capi f)
  with assms have "map_option snd (f s) = Some s'" by simp
  from accountable.result [OF capi(4) this] capi(1,2) show ?thesis by (simp add: owed_def)
next
  case auth
  with assms obtain n where n: "exec_proxy_auth_w32s (body_at s) (data_at s) s = Some (n, s')" by auto
  show ?thesis
  proof (cases "auth_gives_up (body_at s) (data_at s) s")
    case True
    from auth_silent [OF True n] auth True show ?thesis
      by (simp add: owed_def answered_ids_def pending_ids_def proto_consts capi_types_def)
  next
    case False
    with auth_ends [OF False] n auth show ?thesis
      by (auto simp: ends_def one_answer_def owed_def answered_ids_def pending_ids_def)
  qed
next
  case silent
  with assms show ?thesis by (auto simp: owed_def)
qed

section \<open>A session and its waiter threads\<close>

definition round_ids :: "'w wses \<Rightarrow> u32 list" where
  "round_ids s = (case receive s of (n, t) \<Rightarrow>
     if n = 0 \<or> n = -1 \<or> \<not> verifyRequest (ws_request t) then [] else owed t)"

text \<open>
  Every interleaving of the session thread with the threads it starts for WAITFORSIGNAL, with the message ids of the
  requests that ask for an answer.
\<close>

inductive session_run :: "'w capi2032 \<Rightarrow> u32 list \<Rightarrow> 'w wses \<Rightarrow> 'w wses \<Rightarrow> bool" for L where
  start: "session_run L [] s s"
| round: "session_run L is s t \<Longrightarrow> session_round L t = Some (True, n, t') \<Longrightarrow> session_run L (is @ round_ids t) s t'"
| signal: "session_run L is s t \<Longrightarrow> k < length (ws_waiters t) \<Longrightarrow> run_waiter L k t = Some t' \<Longrightarrow> session_run L is s t'"

lemma receive_keeps:
  assumes "receive s = (n, t)"
  shows "wt_session t \<longleftrightarrow> wt_session s" "answered_ids t = answered_ids s" "pending_ids t = pending_ids s"
    "ws_base t = ws_base s" "ws_sess t = ws_sess s" "cd_session (ws_client t) = cd_session (ws_client s)"
  using assms by (auto simp: receive_def answered_ids_def pending_ids_def wt_session_def split: prod.splits)

lemma session_round_accounts:
  assumes "session_round L s = Some (c, n, s')"
  shows "(wt_session s \<longrightarrow> wt_session s') \<and>
     answered_ids s' + pending_ids s' = mset (round_ids s) + (answered_ids s + pending_ids s)"
proof -
  obtain t where t: "receive s = (n, t)" and
    c: "t = s' \<and> round_ids s = [] \<or> dispatch_w32s L t = Some s' \<and> round_ids s = owed t"
    using assms unfolding session_round_def round_ids_def by (auto split: prod.splits if_splits)
  show ?thesis
    using c dispatch_w32s_accounts [of L t s'] receive_keeps [OF t] by auto
qed

lemma waiter_accounts:
  assumes "waiter L d s = Some (n, s')"
  shows "one_answer TYPE_CAPI_WAITFORSIGNAL (wd_message_id d) s s' \<and> (wt_session s \<longrightarrow> wt_session s')"
proof -
  have fin: "finish_answer (put32 36 (fst (lib_wait_for_signal L (wd_ApplID d) (ws_world s)))
      (put32 32 PERROR_NONE (begin_answer (ws_frames s (ws_calls s)) 1 TYPE_CAPI_WAITFORSIGNAL (wd_message_id d) (wd_session_id d))))
     (s\<lparr>ws_calls := Suc (ws_calls s), ws_world := snd (lib_wait_for_signal L (wd_ApplID d) (ws_world s))\<rparr>) = Some (n, s')"
    using assms by (simp add: waiter_def Let_def case_prod_beta new_frame_def sizeof_empty_def)
  have "one_answer TYPE_CAPI_WAITFORSIGNAL (wd_message_id d) s s'"
    by (rule finish_answer_one [OF fin, where bl = 1 and dl = 0]) (simp_all add: handler_simps)
  with finish_answer_keeps [OF fin] show ?thesis by simp
qed

lemma run_waiter_accounts:
  assumes "run_waiter L k s = Some s'" and "k < length (ws_waiters s)"
  shows "(wt_session s \<longrightarrow> wt_session s') \<and> answered_ids s' + pending_ids s' = answered_ids s + pending_ids s \<and>
     length (ws_waiters s) = Suc (length (ws_waiters s')) \<and> same_session s s'"
proof -
  let ?d = "ws_waiters s ! k"
  define W where "W = take k (ws_waiters s) @ drop (Suc k) (ws_waiters s)"
  have split: "ws_waiters s = take k (ws_waiters s) @ ?d # drop (Suc k) (ws_waiters s)"
    using assms(2) by (rule id_take_nth_drop)
  have W: "mset (ws_waiters s) = add_mset ?d (mset W)" "set W \<subseteq> set (ws_waiters s)"
    using arg_cong [OF split, of mset] by (auto simp: W_def dest: in_set_takeD in_set_dropD)
  obtain n where w: "waiter L ?d (s\<lparr>ws_waiters := W\<rparr>) = Some (n, s')" using assms by (auto simp: run_waiter_def W_def)
  have one: "answered_ids s' = add_mset (wd_message_id ?d) (answered_ids s)" "ws_waiters s' = W" "same_session s s'"
    using waiter_accounts [OF w] by (auto simp: one_answer_def answered_ids_def same_session_def)
  have "wt_session s \<longrightarrow> wt_session (s\<lparr>ws_waiters := W\<rparr>)" using W(2) by (auto simp: wt_session_def)
  with waiter_accounts [OF w] have "wt_session s \<longrightarrow> wt_session s'" by blast
  moreover have "pending_ids s = add_mset (wd_message_id ?d) (pending_ids s')"
    using W(1) one(2) by (simp add: pending_ids_def)
  moreover have "length (ws_waiters s) = Suc (length (ws_waiters s'))"
    using arg_cong [OF W(1), of size] one(2) by simp
  ultimately show ?thesis using one by simp
qed

lemma session_run_accounts:
  "session_run L is s t \<Longrightarrow> answered_ids t + pending_ids t = mset is + (answered_ids s + pending_ids s) \<and>
     (wt_session s \<longrightarrow> wt_session t)"
proof (induction rule: session_run.induct)
  case (round "is" s t n t')
  then show ?case using session_round_accounts [OF round(2)] by (auto simp: ac_simps)
next
  case (signal "is" s t k t')
  then show ?case using run_waiter_accounts [OF signal(3,2)] by auto
qed simp

text \<open>A waiter thread that has got its turn always comes to its end.\<close>

lemma run_waiter_total: "k < length (ws_waiters s) \<Longrightarrow> \<exists>s'. run_waiter L k s = Some s'"
proof -
  have "\<exists>n s'. waiter L d s = Some (n, s')" for d and s :: "'a wses"
    unfolding waiter_def Let_def case_prod_beta
    by (rule finish_answer_total [where n = 1]) (simp_all add: handler_simps MSG_SIZE_def)
  then obtain n s' where "waiter L (ws_waiters s ! k) (s\<lparr>ws_waiters := take k (ws_waiters s) @ drop (Suc k) (ws_waiters s)\<rparr>) = Some (n, s')"
    by blast
  moreover assume "k < length (ws_waiters s)"
  ultimately show ?thesis by (simp add: run_waiter_def)
qed

lemma session_run_drains:
  assumes "session_run L is s t"
  shows "\<exists>t'. session_run L is s t' \<and> ws_waiters t' = []"
  using assms
proof (induction "length (ws_waiters t)" arbitrary: t)
  case 0
  then show ?case by auto
next
  case (Suc n)
  then have "0 < length (ws_waiters t)" by (metis zero_less_Suc)
  from run_waiter_total [OF this, of L] obtain t' where t': "run_waiter L 0 t = Some t'" by blast
  from run_waiter_accounts [OF t' \<open>0 < length (ws_waiters t)\<close>] Suc(2) have "n = length (ws_waiters t')" by simp
  then show ?case
    by (rule Suc(1)) (rule session_run.signal [OF Suc(3) \<open>0 < length (ws_waiters t)\<close> t'])
qed

end
