(* ===== verification/Win32Requests.thy ===== *)
theory Win32Requests
  imports Win32Session
begin

text \<open>
  Requests at the Windows server: when the lengths of a request make sense, its handler stays inside the
  buffers and answers (\<open>safe_answering\<close>); what the check of the lengths does not see; what the
  authentication decides.
\<close>

section \<open>Handlers that stay inside their buffers\<close>

locale safe_answering = answering op ty for op :: "'w wses \<Rightarrow> (int \<times> 'w wses) option" and ty +
  fixes pre :: "'w wses \<Rightarrow> bool"
  assumes total: "pre s \<Longrightarrow> op s \<noteq> None"
begin

lemma answered:
  assumes "pre s"
  shows "\<exists>n s'. op s = Some (n, s') \<and> one_answer ty (rq_message_id (rq s)) s s'"
  using total [OF assms] answers by (cases "op s") auto

end

lemma finish_answer_not_None:
  "get32 b AH_header_len = 40 \<Longrightarrow> get32 b AH_body_len + get32 b AH_data_len = of_nat n \<Longrightarrow> n + 40 \<le> MSG_SIZE \<Longrightarrow>
     finish_answer b s \<noteq> None"
  using finish_answer_eq(1) by (metis option.distinct(1))

lemma bind_not_None: "m \<noteq> None \<Longrightarrow> (\<And>x. m = Some x \<Longrightarrow> f x \<noteq> None) \<Longrightarrow> m \<bind> f \<noteq> None"
  by (cases m) auto

lemmas total_simps = handler_simps chk_defs MSG_SIZE_def

lemma documentedD:
  assumes "capi2032_documented L"
  shows "length (fst (snd (lib_manufacturer L w))) = 64" "length (fst (snd (lib_serial L w))) = 8"
    "length (fst (snd (lib_profile L c w))) = 64"
  using assms by (auto simp: capi2032_documented_def)

interpretation installed_safe: safe_answering "exec_capi_installed_w32s L" TYPE_CAPI_INSTALLED "\<lambda>s. True" for L
  by unfold_locales
    (unfold exec_capi_installed_w32s_def Let_def case_prod_beta, rule finish_answer_not_None [where n = 1]; simp add: total_simps)

interpretation version_safe: safe_answering "exec_capi_version_w32s L" TYPE_CAPI_VERSION "\<lambda>s. True" for L
  by unfold_locales
    (unfold exec_capi_version_w32s_def Let_def case_prod_beta, rule finish_answer_not_None [where n = 16]; simp add: total_simps)

interpretation manufacturer_safe: safe_answering "exec_capi_manufacturer_w32s L" TYPE_CAPI_MANUFACTURER "\<lambda>s. capi2032_documented L" for L
  by unfold_locales
    (unfold exec_capi_manufacturer_w32s_def Let_def case_prod_beta, intro bind_not_None finish_answer_not_None [where n = 64];
      auto simp: total_simps documentedD split: if_splits)

interpretation serial_safe: safe_answering "exec_capi_serial_w32s L" TYPE_CAPI_SERIAL "\<lambda>s. capi2032_documented L" for L
  by unfold_locales
    (unfold exec_capi_serial_w32s_def Let_def case_prod_beta, intro bind_not_None finish_answer_not_None [where n = 8];
      auto simp: total_simps documentedD split: if_splits)

interpretation profile_safe: safe_answering "exec_capi_profile_w32s L" TYPE_CAPI_PROFILE "\<lambda>s. capi2032_documented L" for L
  by unfold_locales
    (unfold exec_capi_profile_w32s_def Let_def case_prod_beta, intro bind_not_None finish_answer_not_None [where n = 64];
      auto simp: total_simps documentedD split: if_splits)

text \<open>An id that does not fit into the table is written behind its end.\<close>

definition register_safe_pre :: "'w capi2032 \<Rightarrow> nat \<Rightarrow> 'w wses \<Rightarrow> bool" where
  "register_safe_pre L body s \<longleftrightarrow> body + 16 \<le> MSG_SIZE \<and>
     (\<forall>m c k l a. case lib_register L m c k l a (ws_world s) of (e, app, _) \<Rightarrow> e = 0 \<longrightarrow> unat app \<le> MAXAPPL_w32s)"

interpretation register_safe: safe_answering "exec_capi_register_w32s L body" TYPE_CAPI_REGISTER "register_safe_pre L body" for L body
  by unfold_locales
    (unfold exec_capi_register_w32s_def Let_def case_prod_beta, intro bind_not_None finish_answer_not_None [where n = 1];
      auto simp: total_simps register_safe_pre_def add_app_w32s_def case_prod_beta less_Suc_eq_le split: if_splits)

interpretation release_safe: safe_answering "exec_capi_release_w32s L" TYPE_CAPI_RELEASE
    "\<lambda>s. fst (lib_release L (rq_app_id (rq s)) (ws_world s)) = 0 \<longrightarrow> unat (rq_app_id (rq s)) \<le> MAXAPPL_w32s" for L
  by unfold_locales
    (unfold exec_capi_release_w32s_def Let_def case_prod_beta, intro bind_not_None finish_answer_not_None [where n = 1];
      auto simp: total_simps del_app_w32s_def less_Suc_eq_le split: if_splits)

interpretation helo_safe: safe_answering "exec_proxy_helo_w32s body" TYPE_PROXY_HELO "\<lambda>s. body + 76 \<le> MSG_SIZE" for body
  by unfold_locales
    (unfold exec_proxy_helo_w32s_def Let_def case_prod_beta, intro bind_not_None finish_answer_not_None [where n = 84];
      auto simp: total_simps split: if_splits)

interpretation putmessage_safe: safe_answering "exec_capi_putmessage_w32s L dat" TYPE_CAPI_PUTMESSAGE
    "\<lambda>s. dat + unat (rq_data_len (rq s)) \<le> MSG_SIZE" for L dat
  by unfold_locales
    (unfold exec_capi_putmessage_w32s_def Let_def case_prod_beta, intro bind_not_None finish_answer_not_None [where n = 1];
      auto simp: total_simps word_less_nat_alt word_le_nat_alt split: if_splits)

text \<open>A message is delivered when it fits behind the header of the answer, with the data block it may point to.\<close>

definition getmessage_safe_pre :: "'w capi2032 \<Rightarrow> 'w wses \<Rightarrow> bool" where
  "getmessage_safe_pre L s \<longleftrightarrow>
     (case lib_get_message L (rq_app_id (rq s)) (ws_world s) of (e, p, w) \<Rightarrow>
        e = 0 \<longrightarrow>
          (let len1 = unat (word_le (lib_bytes L w p 2) :: u32);
               len2 = unat (word_le (lib_bytes L w (p + 16) 2) :: u32)
           in 41 + len1 + (if 18 \<le> len1 \<and> lib_memory L w (p + 4) = 0x86 \<and> lib_memory L w (p + 5) = 0x82 then len2 else 0) \<le> MSG_SIZE))"

lemma nth_lib_bytes [simp]: "i < n \<Longrightarrow> lib_bytes L w p n ! i = lib_memory L w (p + of_nat i)"
  by (simp add: lib_bytes_def)

lemma take_drop_lib_bytes: "i + k \<le> n \<Longrightarrow> take k (drop i (lib_bytes L w p n)) = lib_bytes L w (p + of_nat i) k"
  by (rule nth_equalityI) (simp_all add: lib_bytes_def add.assoc)

lemma getmessage_total:
  assumes "getmessage_safe_pre L s"
  shows "exec_capi_getmessage_w32s L s \<noteq> None"
proof -
  obtain e p w where m: "lib_get_message L (rq_app_id (rq s)) (ws_world s) = (e, p, w)" by (metis prod_cases3)
  define b where "b = put32 36 e (put32 32 PERROR_NONE (begin_answer (ws_frames s (ws_calls s)) 1
      TYPE_CAPI_GETMESSAGE (rq_message_id (rq s)) (cd_session (ws_client s))))"
  have hd: "get32 b 4 = 40" "get32 b 8 = 1" "get32 b 12 = 0" by (simp_all add: b_def handler_simps)
  have eq: "exec_capi_getmessage_w32s L s = (if e = 0 then copy_message L w p b else Some b) \<bind>
      (\<lambda>b. finish_answer b (s\<lparr>ws_calls := Suc (ws_calls s), ws_world := w\<rparr>))"
    using m by (simp add: exec_capi_getmessage_w32s_def new_frame_def b_def sizeof_empty_def)
  show ?thesis
  proof (cases "e = 0")
    case False
    then show ?thesis unfolding eq using finish_answer_not_None [of b 1] hd by (simp add: MSG_SIZE_def)
  next
    case True
    define l1 where "l1 = (word_le (lib_bytes L w p 2) :: u32)"
    define c where "c = put32 12 l1 (put_bytes 41 (lib_bytes L w p (unat l1)) b)"
    have room: "41 + unat l1 \<le> MSG_SIZE"
      using assms m True by (auto simp: getmessage_safe_pre_def l1_def Let_def split: if_splits)
    have cm: "copy_message L w p b = (if c 45 = 0x86 \<and> c 46 = 0x82 then
        if l1 < 18 then Some (put32 32 PERROR_PARSE_ERROR c)
        else put_bytes_chk MSG_SIZE (41 + unat l1) (lib_bytes L w (get32 c 53) (unat (get16 c 57))) c \<bind>
          (\<lambda>b. Some (put32 12 (get32 b 12 + get16 c 57) b))
      else Some c)"
      using room by (simp add: copy_message_def c_def l1_def Let_def sizeof_defs sizeof_empty_def put_bytes_chk_def)
    have hc: "get32 c 4 = 40" "get32 c 8 = 1" "get32 c 12 = l1" by (simp_all add: c_def handler_simps hd)
    consider "copy_message L w p b \<in> {Some c, Some (put32 32 PERROR_PARSE_ERROR c)}" | "18 \<le> l1" "c 45 = 0x86" "c 46 = 0x82"
      unfolding cm by fastforce
    then show ?thesis
    proof cases
      case 1
      have "finish_answer c t \<noteq> None" "finish_answer (put32 32 PERROR_PARSE_ERROR c) t \<noteq> None" for t :: "'a wses"
        using hc room by (simp_all add: finish_answer_not_None [where n = "1 + unat l1"] buf_simps)
      with 1 True show ?thesis unfolding eq by (elim insertE emptyE; simp del: not_None_eq)
    next
      case 2
      then have l: "18 \<le> unat l1" by (simp add: word_le_nat_alt)
      have "c 45 = lib_memory L w (p + 4)" "c 46 = lib_memory L w (p + 5)"
        using l by (simp_all add: c_def buf_simps)
      moreover have l2: "get16 c 57 = word_le (lib_bytes L w (p + 16) 2)"
        using l by (simp add: c_def buf_simps take_drop_lib_bytes)
      ultimately have fit: "41 + unat l1 + unat (get16 c 57) \<le> MSG_SIZE"
        using assms m True 2 l by (auto simp: getmessage_safe_pre_def l1_def Let_def)
      have "finish_answer (put32 12 (l1 + get16 c 57) (put_bytes (41 + unat l1) bs c)) t \<noteq> None" for bs and t :: "'a wses"
        using hc fit by (simp add: finish_answer_not_None [where n = "1 + unat l1 + unat (get16 c 57)"] buf_simps)
      moreover have "\<not> l1 < 18" using 2(1) by (simp add: not_less)
      ultimately show ?thesis unfolding eq cm using 2(2,3) fit hc True
        by (simp add: put_bytes_chk_def buf_simps)
    qed
  qed
qed

interpretation getmessage_safe: safe_answering "exec_capi_getmessage_w32s L" TYPE_CAPI_GETMESSAGE "getmessage_safe_pre L" for L
  by unfold_locales (rule getmessage_total)

section \<open>What REGISTER and HELO answer\<close>

lemma packet_in_eq:
  assumes "answer_header_at (put32 AH_message_len (of_nat (40 + n)) b) = h" and "get_bytes b 40 n = bs"
  shows "packet_in n b = answer_packet h bs"
  using assms by (simp add: packet_in_def)

lemma exec_capi_register_w32s_eq:
  fixes s :: "'w wses"
  defines "b0 \<equiv> ws_frames s (ws_calls s)"
  assumes "body + 16 \<le> MSG_SIZE"
    and "lib_register L (get32 (ws_request s) body) (get32 (ws_request s) (body + 4)) (get32 (ws_request s) (body + 8))
      (get32 (ws_request s) (body + 12)) (get32 b0 AH_app_id) (ws_world s) = (e, app, w)"
    and "e = 0 \<longrightarrow> unat app \<le> MAXAPPL_w32s"
  shows "exec_capi_register_w32s L body s = Some (ws_send (answer_packet
      \<lparr>an_message_len = 41, an_header_len = 40, an_body_len = 1, an_data_len = 0,
       an_message_id = rq_message_id (rq s), an_message_type = TYPE_CAPI_REGISTER,
       an_app_id = app, an_session_id = cd_session (ws_client s), an_proxy_error = 0, an_capi_error = e\<rparr> [b0 40])
     (s\<lparr>ws_calls := Suc (ws_calls s), ws_world := w,
        ws_client := (ws_client s)\<lparr>cd_apps := (if e = 0 then (cd_apps (ws_client s))(unat app := 1) else cd_apps (ws_client s))\<rparr>\<rparr>))"
proof -
  let ?b = "put32 36 e (put32 24 app (put32 32 PERROR_NONE (begin_answer b0 1 TYPE_CAPI_REGISTER (rq_message_id (rq s)) (cd_session (ws_client s)))))"
  have pkt: "packet_in 1 ?b = answer_packet \<lparr>an_message_len = 41, an_header_len = 40, an_body_len = 1, an_data_len = 0,
       an_message_id = rq_message_id (rq s), an_message_type = TYPE_CAPI_REGISTER,
       an_app_id = app, an_session_id = cd_session (ws_client s), an_proxy_error = 0, an_capi_error = e\<rparr> [b0 40]"
    by (rule packet_in_eq) (simp_all add: answer_header_at_def handler_simps PERROR_NONE_def, simp add: get_bytes_def)
  have fin: "finish_answer ?b t = Some (ws_send (packet_in 1 ?b) t)" for t :: "'w wses"
    by (rule finish_answer_eq(1)) (simp_all add: handler_simps MSG_SIZE_def)
  have "exec_capi_register_w32s L body s = finish_answer ?b (s\<lparr>ws_calls := Suc (ws_calls s), ws_world := w,
        ws_client := (ws_client s)\<lparr>cd_apps := (if e = 0 then (cd_apps (ws_client s))(unat app := 1) else cd_apps (ws_client s))\<rparr>\<rparr>)"
    unfolding exec_capi_register_w32s_def Let_def new_frame_def prod.case b0_def [symmetric]
    using assms(2-4) by (cases "e = 0") (simp_all add: get32_chk_def sizeof_empty_def buf_simps add_app_w32s_def less_Suc_eq_le)
  then show ?thesis unfolding fin pkt .
qed

text \<open>The body of the answer to HELO; of the name field only the first 28 octets are written.\<close>

definition helo_body_w32s :: "buffer \<Rightarrow> u32 \<Rightarrow> byte list" where
  "helo_body_w32s junk types = SERVER_NAME_w32s @ [0] @ get_bytes junk 68 36 @ bytes_le 4 OS_TYPE_WINDOWS @
     bytes_le 4 (major SERVER_VERSION) @ bytes_le 4 (minor SERVER_VERSION) @ bytes_le 4 types @ bytes_le 4 NO_TIMEOUT"

lemma length_SERVER_NAME_w32s [simp]: "length SERVER_NAME_w32s = 27"
  by (simp add: SERVER_NAME_w32s_def)

definition helo_accepted :: "nat \<Rightarrow> 'w wses \<Rightarrow> bool" where
  "helo_accepted body s \<longleftrightarrow> major SERVER_VERSION \<le> get32 (ws_request s) (body + 68)"

definition helo_client_w32s :: "nat \<Rightarrow> 'w wses \<Rightarrow> client_data" where
  "helo_client_w32s body s =
     (let c = (ws_client s)\<lparr>cd_name := (get_bytes (ws_request s) body 64)[63 := 0],
        cd_version := \<lparr>major = get32 (ws_request s) (body + 68), minor = get32 (ws_request s) (body + 72)\<rparr>\<rparr>
      in if helo_accepted body s then c\<lparr>cd_os := get32 (ws_request s) (body + 64)\<rparr> else c)"

lemma exec_proxy_helo_w32s_eq:
  fixes s :: "'w wses"
  defines "b0 \<equiv> ws_frames s (ws_calls s)"
  assumes "body + 76 \<le> MSG_SIZE"
  shows "exec_proxy_helo_w32s body s = Some (ws_send (answer_packet
      \<lparr>an_message_len = 124, an_header_len = 40, an_body_len = 84, an_data_len = 0,
       an_message_id = rq_message_id (rq s), an_message_type = TYPE_PROXY_HELO, an_app_id = 0,
       an_session_id = (if helo_accepted body s then cd_session (ws_client s) else 0),
       an_proxy_error = (if helo_accepted body s then PERROR_NONE else PERROR_INCOMPATIBLE_VERSION),
       an_capi_error = get32 b0 AH_capi_error\<rparr> (helo_body_w32s b0 (ws_auth_types s)))
     (s\<lparr>ws_calls := Suc (ws_calls s), ws_client := helo_client_w32s body s\<rparr>))"
proof -
  let ?b1 = "put32 112 (minor SERVER_VERSION) (put32 108 (major SERVER_VERSION) (put32 120 NO_TIMEOUT (put32 104 OS_TYPE_WINDOWS
      (put_bytes 40 (SERVER_NAME_w32s @ [0]) (put32 116 (ws_auth_types s) (put32 24 0 (put32 32 PERROR_NONE
       (begin_answer b0 84 TYPE_PROXY_HELO (rq_message_id (rq s)) 0))))))))"
  let ?b = "if helo_accepted body s then put32 28 (cd_session (ws_client s)) ?b1 else put32 32 PERROR_INCOMPATIBLE_VERSION ?b1"
  let ?t = "s\<lparr>ws_calls := Suc (ws_calls s), ws_client := helo_client_w32s body s\<rparr>"
  have body: "get_bytes ?b1 40 84 = helo_body_w32s b0 (ws_auth_types s)"
    by (simp add: get_bytes_put_bytes_split get_bytes_put32_split helo_body_w32s_def buf_simps)
  have pkt: "packet_in 84 ?b = answer_packet
      \<lparr>an_message_len = 124, an_header_len = 40, an_body_len = 84, an_data_len = 0,
       an_message_id = rq_message_id (rq s), an_message_type = TYPE_PROXY_HELO, an_app_id = 0,
       an_session_id = (if helo_accepted body s then cd_session (ws_client s) else 0),
       an_proxy_error = (if helo_accepted body s then PERROR_NONE else PERROR_INCOMPATIBLE_VERSION),
       an_capi_error = get32 b0 AH_capi_error\<rparr> (helo_body_w32s b0 (ws_auth_types s))"
    by (rule packet_in_eq; cases "helo_accepted body s") (simp_all add: answer_header_at_def handler_simps body)
  have fin: "finish_answer ?b ?t = Some (ws_send (packet_in 84 ?b) ?t)"
    by (rule finish_answer_eq(1)) (cases "helo_accepted body s"; simp add: handler_simps MSG_SIZE_def)+
  have "exec_proxy_helo_w32s body s = finish_answer ?b ?t"
  proof (cases "helo_accepted body s")
    case True
    then have "\<not> get32 (ws_request s) (body + 68) < major SERVER_VERSION" by (simp add: helo_accepted_def not_less)
    with True assms(2) show ?thesis
      unfolding exec_proxy_helo_w32s_def Let_def new_frame_def prod.case b0_def [symmetric]
      by (simp add: chk_defs sizeof_defs helo_client_w32s_def Let_def)
  next
    case False
    then have "get32 (ws_request s) (body + 68) < major SERVER_VERSION" by (simp add: helo_accepted_def not_le)
    with False assms(2) show ?thesis
      unfolding exec_proxy_helo_w32s_def Let_def new_frame_def prod.case b0_def [symmetric]
      by (simp add: chk_defs sizeof_defs helo_client_w32s_def Let_def)
  qed
  then show ?thesis unfolding fin pkt .
qed

section \<open>Requests with sound lengths\<close>

text \<open>The three lengths add up without wrapping around.\<close>

definition sound_lengths :: "'w wses \<Rightarrow> bool" where
  "sound_lengths s \<longleftrightarrow> unat (rq_header_len (rq s)) + unat (rq_body_len (rq s)) + unat (rq_data_len (rq s)) = unat (rq_message_len (rq s))"

lemma rbodysize_w32s_register [simp]:
  "rbodysize_w32s TYPE_CAPI_REGISTER = 16" "rbodysize_w32s TYPE_PROXY_HELO = 76"
  by (simp_all add: rbodysize_w32s_def proto_consts sizeof_defs)

lemma sound_bounds:
  assumes "verifyRequest (ws_request s)" and "sound_lengths s"
  shows "data_at s + unat (rq_data_len (rq s)) \<le> MSG_SIZE"
    and "data_at s = body_at s + unat (rq_body_len (rq s))"
    and "36 \<le> body_at s"
    and "0 \<le> rbodysize_w32s (rq_message_type (rq s)) \<Longrightarrow> rbodysize_w32s (rq_message_type (rq s)) < 2 ^ 32 \<Longrightarrow>
      body_at s + nat (rbodysize_w32s (rq_message_type (rq s))) \<le> data_at s"
proof -
  have v: "36 \<le> unat (rq_header_len (rq s))" "unat (rq_message_len (rq s)) \<le> MSG_SIZE"
    "\<not> rq_body_len (rq s) < word_of_int (rbodysize_w32s (rq_message_type (rq s)))"
    using assms(1) by (auto simp: verifyRequest_def Let_def sizeof_defs MSG_SIZE_def word_le_nat_alt word_less_nat_alt not_less
        split: if_splits)
  have "unat (rq_header_len (rq s)) + unat (rq_body_len (rq s)) < 2 ^ 32"
    using assms(2) v(2) by (simp add: sound_lengths_def MSG_SIZE_def)
  then have d: "data_at s = unat (rq_header_len (rq s)) + unat (rq_body_len (rq s))"
    by (simp add: data_at_def unat_word_ariths)
  then show "data_at s = body_at s + unat (rq_body_len (rq s))" by (simp add: body_at_def)
  from d show "data_at s + unat (rq_data_len (rq s)) \<le> MSG_SIZE"
    using assms(2) v(2) by (simp add: sound_lengths_def)
  show "36 \<le> body_at s" using v(1) by (simp add: body_at_def)
  show "body_at s + nat (rbodysize_w32s (rq_message_type (rq s))) \<le> data_at s"
    if "0 \<le> rbodysize_w32s (rq_message_type (rq s))" "rbodysize_w32s (rq_message_type (rq s)) < 2 ^ 32"
  proof -
    have "unat (word_of_int (rbodysize_w32s (rq_message_type (rq s))) :: u32) = nat (rbodysize_w32s (rq_message_type (rq s)))"
      using that by (simp add: unat_eq_nat_uint uint_word_of_int)
    with v(3) have "nat (rbodysize_w32s (rq_message_type (rq s))) \<le> unat (rq_body_len (rq s))"
      by (simp add: word_less_nat_alt not_less)
    then show ?thesis using d by (simp add: body_at_def)
  qed
qed

lemma waitforsignal_w32s_total:
  assumes "fst (script (ws_allocs s))"
  shows "exec_capi_waitforsignal_w32s L s \<noteq> None"
proof -
  obtain xs c ys where sc: "script (ws_allocs s) = (True, xs)" "script (ws_threads s) = (c, ys)"
    using assms by (metis prod.collapse)
  let ?b = "put32 32 PERROR_NO_RESSOURCES (begin_answer (ws_frames s (ws_calls s)) 1 TYPE_CAPI_WAITFORSIGNAL
      (rq_message_id (rq s)) (cd_session (ws_client s)))"
  have "finish_answer ?b t \<noteq> None" for t :: "'a wses"
    by (rule finish_answer_not_None [where n = 1]) (simp_all add: handler_simps MSG_SIZE_def)
  then obtain r where r: "finish_answer ?b (s\<lparr>ws_allocs := xs, ws_threads := ys, ws_calls := Suc (ws_calls s)\<rparr>) = Some r" by blast
  show ?thesis
    by (cases r; cases c) (simp_all add: exec_capi_waitforsignal_w32s_def sc new_frame_def sizeof_empty_def Let_def r [simplified])
qed

lemma helo_total:
  assumes "verifyRequest (ws_request s)" and "sound_lengths s" and "rq_message_type (rq s) = TYPE_PROXY_HELO"
  shows "dispatch_w32s L s \<noteq> None"
proof -
  have "exec_proxy_helo_w32s (body_at s) s \<noteq> None"
    using sound_bounds [OF assms(1,2)] assms(3) by (intro helo_safe.total) simp
  then show ?thesis using assms(3)
    by (simp add: dispatch_w32s_def Let_def proto_consts body_at_def del: not_None_eq)
qed

section \<open>Exactly which requests with sound lengths end in an invalid access\<close>

lemma register_w32s_fault:
  fixes s :: "'w wses"
  assumes "body + 16 \<le> MSG_SIZE"
  shows "exec_capi_register_w32s L body s = None \<longleftrightarrow>
    (case lib_register L (get32 (ws_request s) body) (get32 (ws_request s) (body + 4)) (get32 (ws_request s) (body + 8))
      (get32 (ws_request s) (body + 12)) (get32 (ws_frames s (ws_calls s)) AH_app_id) (ws_world s) of
     (e, app, _) \<Rightarrow> e = 0 \<and> MAXAPPL_w32s < unat app)"
proof -
  obtain e app w where r: "lib_register L (get32 (ws_request s) body) (get32 (ws_request s) (body + 4))
      (get32 (ws_request s) (body + 8)) (get32 (ws_request s) (body + 12)) (get32 (ws_frames s (ws_calls s)) AH_app_id)
      (ws_world s) = (e, app, w)" by (metis prod_cases3)
  show ?thesis
  proof (cases "e = 0 \<and> MAXAPPL_w32s < unat app")
    case True
    then show ?thesis using assms r
      by (simp add: exec_capi_register_w32s_def new_frame_def get32_chk_def buf_simps begin_answer_def add_app_w32s_def)
  next
    case False
    then have "e = 0 \<longrightarrow> unat app \<le> MAXAPPL_w32s" by auto
    from exec_capi_register_w32s_eq [OF assms r this] False r show ?thesis by auto
  qed
qed

lemma release_w32s_fault:
  "exec_capi_release_w32s L s = None \<longleftrightarrow>
     fst (lib_release L (rq_app_id (rq s)) (ws_world s)) = 0 \<and> MAXAPPL_w32s < unat (rq_app_id (rq s))"
proof (cases "fst (lib_release L (rq_app_id (rq s)) (ws_world s)) = 0 \<and> MAXAPPL_w32s < unat (rq_app_id (rq s))")
  case True
  then show ?thesis by (simp add: exec_capi_release_w32s_def new_frame_def del_app_w32s_def case_prod_beta)
next
  case False
  then show ?thesis using release_safe.total [of L s] by auto
qed

lemma getmessage_w32s_fault: "exec_capi_getmessage_w32s L s = None \<longleftrightarrow> \<not> getmessage_safe_pre L s"
proof (cases "getmessage_safe_pre L s")
  case True
  then show ?thesis using getmessage_total by simp
next
  case False
  obtain p w where m: "lib_get_message L (rq_app_id (rq s)) (ws_world s) = (0, p, w)"
    using False by (auto simp: getmessage_safe_pre_def split: prod.splits)
  have "copy_message L w p b = None" for b
  proof (cases "41 + unat (word_le (lib_bytes L w p 2) :: u32) \<le> MSG_SIZE")
    case False
    then show ?thesis by (simp add: copy_message_def put_bytes_chk_def sizeof_defs sizeof_empty_def)
  next
    case True
    define l1 where "l1 = (word_le (lib_bytes L w p 2) :: u32)"
    have f: "18 \<le> unat l1" "lib_memory L w (p + 4) = 0x86" "lib_memory L w (p + 5) = 0x82"
      "MSG_SIZE < 41 + unat l1 + unat (word_le (lib_bytes L w (p + 16) 2) :: u32)"
      using False True m by (auto simp: getmessage_safe_pre_def Let_def l1_def split: if_splits)
    then have "\<not> l1 < 18" by (simp add: word_less_nat_alt)
    then show ?thesis
      using f True unfolding copy_message_def l1_def [symmetric] Let_def
      by (simp add: put_bytes_chk_def sizeof_defs sizeof_empty_def buf_simps take_drop_lib_bytes)
  qed
  then show ?thesis using m False by (simp add: exec_capi_getmessage_w32s_def new_frame_def)
qed

lemma waitforsignal_w32s_fault: "exec_capi_waitforsignal_w32s L s = None \<longleftrightarrow> \<not> fst (script (ws_allocs s))"
  using waitforsignal_w32s_total [of s L] by (auto simp: exec_capi_waitforsignal_w32s_def case_prod_beta)

text \<open>
  The library gives out an id that the table has no place for, or releases one; its message does not fit the
  answer; there is no memory for the data of the waiter thread.
\<close>

definition request_fault :: "'w capi2032 \<Rightarrow> 'w wses \<Rightarrow> bool" where
  "request_fault L s \<longleftrightarrow>
     (let ty = rq_message_type (rq s) in
      ty = TYPE_CAPI_REGISTER \<and>
        (case lib_register L (get32 (ws_request s) (body_at s)) (get32 (ws_request s) (body_at s + 4))
           (get32 (ws_request s) (body_at s + 8)) (get32 (ws_request s) (body_at s + 12))
           (get32 (ws_frames s (ws_calls s)) AH_app_id) (ws_world s) of
         (e, app, _) \<Rightarrow> e = 0 \<and> MAXAPPL_w32s < unat app) \<or>
      ty = TYPE_CAPI_RELEASE \<and> fst (lib_release L (rq_app_id (rq s)) (ws_world s)) = 0 \<and>
        MAXAPPL_w32s < unat (rq_app_id (rq s)) \<or>
      ty = TYPE_CAPI_GETMESSAGE \<and> \<not> getmessage_safe_pre L s \<or>
      ty = TYPE_CAPI_WAITFORSIGNAL \<and> \<not> fst (script (ws_allocs s)))"

lemma dispatch_w32s_fault:
  assumes "capi2032_documented L" and "verifyRequest (ws_request s)" and "sound_lengths s"
    and "rq_message_type (rq s) \<in> set capi_types" and "own_session s"
  shows "dispatch_w32s L s = None \<longleftrightarrow> request_fault L s"
proof -
  note b = sound_bounds [OF assms(2,3)]
  have v: "verifySessionId (ws_request s) (ws_base s + ws_sess s)"
    using assms(5) by (simp add: verifySessionId_def own_session_def)
  have reg: "rq_message_type (rq s) = TYPE_CAPI_REGISTER \<Longrightarrow> body_at s + 16 \<le> MSG_SIZE"
    using b by simp
  have put: "exec_capi_putmessage_w32s L (data_at s) s \<noteq> None"
    using b by (intro putmessage_safe.total) simp
  note rest = installed_safe.total [of L s, OF TrueI] version_safe.total [of L s, OF TrueI] manufacturer_safe.total [OF assms(1)]
    serial_safe.total [OF assms(1)] profile_safe.total [OF assms(1)]
  note faults = register_w32s_fault [OF reg] release_w32s_fault getmessage_w32s_fault waitforsignal_w32s_fault
  show ?thesis
    using assms(4) put rest unfolding capi_types_def list.set insert_iff empty_iff
    by (elim disjE FalseE) (simp_all add: dispatch_w32s_def Let_def v proto_consts body_at_def [symmetric] data_at_def [symmetric]
        request_fault_def faults [unfolded proto_consts] del: not_None_eq)
qed

section \<open>Authentication and the other requests\<close>

text \<open>The same session under other settings and with another result of the authentication.\<close>

definition with_auth :: "u32 \<Rightarrow> u32 \<Rightarrow> u32 \<Rightarrow> 'w wses \<Rightarrow> 'w wses" where
  "with_auth a r t s = s\<lparr>ws_auth_types := a, ws_auth_required := r, ws_client := (ws_client s)\<lparr>cd_auth_type := t\<rparr>\<rparr>"

lemma with_auth_simps [simp]:
  "ws_request (with_auth a r t s) = ws_request s" "ws_addr (with_auth a r t s) = ws_addr s"
  "ws_base (with_auth a r t s) = ws_base s" "ws_sess (with_auth a r t s) = ws_sess s"
  "ws_world (with_auth a r t s) = ws_world s" "ws_frames (with_auth a r t s) = ws_frames s"
  "ws_calls (with_auth a r t s) = ws_calls s" "ws_allocs (with_auth a r t s) = ws_allocs s"
  "ws_threads (with_auth a r t s) = ws_threads s" "ws_waiters (with_auth a r t s) = ws_waiters s"
  "cd_session (ws_client (with_auth a r t s)) = cd_session (ws_client s)"
  "cd_socket (ws_client (with_auth a r t s)) = cd_socket (ws_client s)"
  "cd_apps (ws_client (with_auth a r t s)) = cd_apps (ws_client s)"
  by (simp_all add: with_auth_def)

lemma with_auth_updates:
  "(with_auth a r t s)\<lparr>ws_calls := k\<rparr> = with_auth a r t (s\<lparr>ws_calls := k\<rparr>)"
  "(with_auth a r t s)\<lparr>ws_world := w\<rparr> = with_auth a r t (s\<lparr>ws_world := w\<rparr>)"
  "(with_auth a r t s)\<lparr>ws_request := q\<rparr> = with_auth a r t (s\<lparr>ws_request := q\<rparr>)"
  "(with_auth a r t s)\<lparr>ws_allocs := xs\<rparr> = with_auth a r t (s\<lparr>ws_allocs := xs\<rparr>)"
  "(with_auth a r t s)\<lparr>ws_threads := xs\<rparr> = with_auth a r t (s\<lparr>ws_threads := xs\<rparr>)"
  "(with_auth a r t s)\<lparr>ws_waiters := ds\<rparr> = with_auth a r t (s\<lparr>ws_waiters := ds\<rparr>)"
  "ws_client s = ws_client s' \<Longrightarrow> (with_auth a r t s)\<lparr>ws_client := (ws_client (with_auth a r t s'))\<lparr>cd_apps := l\<rparr>\<rparr> =
     with_auth a r t (s\<lparr>ws_client := (ws_client s)\<lparr>cd_apps := l\<rparr>\<rparr>)"
  by (simp_all add: with_auth_def)

lemma new_frame_auth: "new_frame (with_auth a r t s) = apsnd (with_auth a r t) (new_frame s)"
  by (simp add: new_frame_def with_auth_updates)

lemma finish_answer_auth: "finish_answer b (with_auth a r t s) = map_option (apsnd (with_auth a r t)) (finish_answer b s)"
  by (auto simp: finish_answer_def Let_def get_bytes_chk_def ws_send_def with_auth_def split: list.splits)

lemma map_option_bind': "map_option f (m \<bind> g) = m \<bind> (\<lambda>x. map_option f (g x))"
  by (cases m) simp_all

lemmas auth_simps = new_frame_auth finish_answer_auth with_auth_updates map_option_bind' new_frame_def Let_def case_prod_beta

lemma handlers_auth:
  "exec_capi_installed_w32s L (with_auth a r t s) = map_option (apsnd (with_auth a r t)) (exec_capi_installed_w32s L s)"
  "exec_capi_manufacturer_w32s L (with_auth a r t s) = map_option (apsnd (with_auth a r t)) (exec_capi_manufacturer_w32s L s)"
  "exec_capi_version_w32s L (with_auth a r t s) = map_option (apsnd (with_auth a r t)) (exec_capi_version_w32s L s)"
  "exec_capi_serial_w32s L (with_auth a r t s) = map_option (apsnd (with_auth a r t)) (exec_capi_serial_w32s L s)"
  "exec_capi_profile_w32s L (with_auth a r t s) = map_option (apsnd (with_auth a r t)) (exec_capi_profile_w32s L s)"
  "exec_capi_register_w32s L body (with_auth a r t s) = map_option (apsnd (with_auth a r t)) (exec_capi_register_w32s L body s)"
  "exec_capi_release_w32s L (with_auth a r t s) = map_option (apsnd (with_auth a r t)) (exec_capi_release_w32s L s)"
  "exec_capi_getmessage_w32s L (with_auth a r t s) = map_option (apsnd (with_auth a r t)) (exec_capi_getmessage_w32s L s)"
  by (simp_all add: exec_capi_installed_w32s_def exec_capi_manufacturer_w32s_def exec_capi_version_w32s_def
      exec_capi_serial_w32s_def exec_capi_profile_w32s_def exec_capi_register_w32s_def exec_capi_release_w32s_def
      exec_capi_getmessage_w32s_def auth_simps if_distrib [of "map_option _"] cong: if_cong split del: if_split)

lemma waitforsignal_auth:
  "exec_capi_waitforsignal_w32s L (with_auth a r t s) = map_option (apsnd (with_auth a r t)) (exec_capi_waitforsignal_w32s L s)"
  by (auto simp: exec_capi_waitforsignal_w32s_def auth_simps Option.bind_map_option comp_def split: prod.splits)

lemma putmessage_auth:
  "exec_capi_putmessage_w32s L dat (with_auth a r t s) = map_option (apsnd (with_auth a r t)) (exec_capi_putmessage_w32s L dat s)"
proof -
  have step: "(P \<bind> (\<lambda>x. finish_answer (fst x) (snd x))) = map_option (apsnd (with_auth a r t)) (Q \<bind> (\<lambda>x. finish_answer (fst x) (snd x)))"
    if "P = map_option (apsnd (with_auth a r t)) Q" for P Q :: "(buffer \<times> 'a wses) option"
    using that by (cases Q) (simp_all add: finish_answer_auth)
  show ?thesis
    unfolding exec_capi_putmessage_w32s_def Let_def case_prod_beta
    by (rule step)
      (simp add: auth_simps if_distrib [of "map_option _"] Option.bind_map_option cong: if_cong split del: if_split)
qed

lemma dispatch_auth:
  assumes "rq_message_type (rq s) \<in> set capi_types"
  shows "dispatch_w32s L (with_auth a r t s) = map_option (with_auth a r t) (dispatch_w32s L s)"
proof -
  have m: "map_option snd (map_option (apsnd (with_auth a r t)) x) = map_option (with_auth a r t) (map_option snd x)"
    for x :: "(int \<times> 'a wses) option" by (cases x) auto
  show ?thesis
    using assms unfolding capi_types_def list.set insert_iff empty_iff
    by (elim disjE FalseE) (simp_all add: dispatch_w32s_def Let_def proto_consts handlers_auth waitforsignal_auth putmessage_auth m)
qed

section \<open>The lists of hosts\<close>

text \<open>An entry as the applet writes it: an address and a mask in dotted notation, the mask with its terminator.\<close>

definition entry_ok :: "byte list \<times> byte list \<Rightarrow> bool" where
  "entry_ok e \<longleftrightarrow> length (fst e) \<le> 15 \<and> snd e \<noteq> [] \<and> last (snd e) = 0 \<and> 0 \<notin> set (butlast (snd e)) \<and> length (snd e) \<le> 16"

definition entry_matches :: "win_registry \<Rightarrow> u32 \<Rightarrow> byte list \<times> byte list \<Rightarrow> bool" where
  "entry_matches r ip e \<longleftrightarrow>
     inet_addr r (fst e) AND inet_addr r (butlast (snd e)) = ip AND inet_addr r (butlast (snd e))"

text \<open>Which entries the search looks at, on the strings alone.\<close>

fun host_scan :: "win_registry \<Rightarrow> u32 \<Rightarrow> (byte list \<times> byte list) list \<Rightarrow> nat \<times> nat \<Rightarrow> bool \<times> (nat \<times> nat)" where
  "host_scan r ip [] lens = (False, lens)"
| "host_scan r ip (e # es) lens =
     (if fst lens \<le> length (fst e) \<or> snd lens < length (snd e) then (False, more_data r lens)
      else if entry_matches r ip e then (True, (length (fst e), length (snd e)))
      else host_scan r ip es (length (fst e), length (snd e)))"

lemma cstring_put_bytes:
  assumes "0 \<notin> set m" and "length m < room"
  shows "cstring room (put_bytes off (m @ [0]) b) off = Some m"
  using assms
proof (induction m arbitrary: room off b)
  case Nil
  then show ?case by (cases room) (simp_all add: put_bytes_nth_in)
next
  case (Cons x m)
  then obtain k where k: "room = Suc k" by (cases room) auto
  have "put_bytes off ((x # m) @ [0]) b = put_bytes (Suc off) (m @ [0]) (put_bytes off [x] b)"
    using put_bytes_append [of off "[x]" "m @ [0]" b] by simp
  with Cons k show ?case by (simp add: put_bytes_nth put_bytes_nth_in)
qed

lemma host_loop_scan:
  "\<forall>e \<in> set es. entry_ok e \<Longrightarrow> \<exists>b. host_loop r ip es lens smask = Some (fst (host_scan r ip es lens), snd (host_scan r ip es lens), b)"
proof (induction es arbitrary: lens smask)
  case Nil
  then show ?case by (cases lens) simp
next
  case (Cons e es)
  obtain nm dat len len2 where e: "e = (nm, dat)" "lens = (len, len2)" by (metis surj_pair)
  have ok: "length nm \<le> 15" "length dat \<le> 16" "dat = butlast dat @ [0]" "0 \<notin> set (butlast dat)"
    using Cons.prems e by (auto simp: entry_ok_def intro: append_butlast_last_id [symmetric])
      (metis append_butlast_last_id)
  have "length (butlast dat) < 16" using ok(2,3) by (metis length_append_singleton Suc_le_eq)
  from cstring_put_bytes [OF ok(4) this] have c: "cstring 16 (put_bytes 0 dat smask) 0 = Some (butlast dat)"
    using ok(3) by metis
  show ?case
    using Cons e ok(1,2) by (simp add: put_bytes_chk_def c entry_matches_def)
qed

lemma try_auth_byip_scan:
  assumes "ws_sockname s = Some ip" and "hosts_allow (ws_registry s) = Some allow" and "hosts_deny (ws_registry s) = Some deny"
    and "\<forall>e \<in> set (allow @ deny). entry_ok e"
  shows "\<exists>t. try_auth_byip s = Some
     (if fst (host_scan (ws_registry s) ip allow (16, 16)) \<and>
         \<not> fst (host_scan (ws_registry s) ip deny (snd (host_scan (ws_registry s) ip allow (16, 16))))
      then 1 else -1, t)"
proof -
  let ?r = "ws_registry s"
  obtain b where b: "host_loop ?r ip allow (16, 16) (ws_frames s (ws_calls s)) =
      Some (fst (host_scan ?r ip allow (16, 16)), snd (host_scan ?r ip allow (16, 16)), b)"
    using host_loop_scan [of allow] assms(4) by fastforce
  obtain c where c: "host_loop ?r ip deny (snd (host_scan ?r ip allow (16, 16))) b = Some
      (fst (host_scan ?r ip deny (snd (host_scan ?r ip allow (16, 16)))),
       snd (host_scan ?r ip deny (snd (host_scan ?r ip allow (16, 16)))), c)"
    using host_loop_scan [of deny] assms(4) by fastforce
  show ?thesis
    using assms(1-3) b c by (simp add: try_auth_byip_def new_frame_def)
qed

end
