(* ===== verification/Win32System.thy ===== *)
theory Win32System
  imports Win32Session
begin

text \<open>
  The Windows server as a whole: the end of a session, the table of sessions, the accept loop and the
  threads that run side by side.

  A session thread is in one of the phases of \<^verbatim>\<open>StartSession\<close> (\<open>Serving\<close> with the last value of \<^verbatim>\<open>err\<close>,
  \<open>Closing\<close>, \<open>Releasing\<close> with the index of the loop in \<^verbatim>\<open>getfirst_app\<close>, \<open>Gone\<close>). The threads share the
  globals \<^verbatim>\<open>run\<close>, \<^verbatim>\<open>pause\<close> and \<^verbatim>\<open>sockets\<close> and the CAPI library; a scheduler picks
  the next one (\<open>wsys_step\<close>).
\<close>

section \<open>The end of a session\<close>

text \<open>\<^verbatim>\<open>while(app=getfirst_app(...)) CAPI_RELEASE(app);\<close> \<open>None\<close> is a loop that does not end.\<close>

partial_function (option) release_all_w32s :: "'w capi2032 \<Rightarrow> app_table \<Rightarrow> 'w \<Rightarrow> (app_table \<times> 'w) option" where
  "release_all_w32s L l w =
     (case getfirst_app_w32s l of
        None \<Rightarrow> None
      | Some r \<Rightarrow>
          if fst r \<noteq> 0 then release_all_w32s L (snd r) (snd (lib_release L (fst r) w)) else Some (snd r, w))"

text \<open>The loop that serves, for a server that is neither stopped nor paused; the result carries the last \<^verbatim>\<open>err\<close>.\<close>

lemma session_round_progress:
  assumes "session_round L s = Some (True, n, s')"
  shows "rx_size (ws_rx s') < rx_size (ws_rx s)"
proof -
  obtain m bs es where r: "sock_recv (ws_rx s) MSG_SIZE = (m, bs, es)" by (metis prod_cases3)
  define t where "t = s\<lparr>ws_rx := es, ws_request := put_bytes 0 bs (ws_request s)\<rparr>"
  have rec: "receive s = (m, t)" using r by (simp add: receive_def t_def)
  have n: "m \<noteq> 0" "m \<noteq> -1" "n = m" and s': "s' = t \<or> dispatch_w32s L t = Some s'"
    using assms rec by (auto simp: session_round_def split: if_splits)
  have "0 < m" using r n by (cases "ws_rx s" rule: list.exhaust) (auto elim: sock_recv.elims)
  moreover have "ws_rx s' = es"
    using s' dispatch_w32s_accounts [of L t s'] by (auto simp: same_session_def t_def)
  ultimately show ?thesis using sock_recv_progress [OF r] by simp
qed

function session_loop :: "'w capi2032 \<Rightarrow> 'w wses \<Rightarrow> (int \<times> 'w wses) option" where
  "session_loop L s =
     (case session_round L s of
        None \<Rightarrow> None
      | Some (goes_on, err, s') \<Rightarrow> if goes_on then session_loop L s' else Some (err, s'))"
  by pat_completeness auto
termination
  by (relation "measure (\<lambda>(L, s). rx_size (ws_rx s))") (auto dest: session_round_progress)

declare session_loop.simps [simp del]

definition farewell :: "int \<Rightarrow> byte list" where
  "farewell err = string_bytes (if err = 0 then ''Connection shutting down'' else ''Socket Error'')"

text \<open>
  \<^verbatim>\<open>StartSession\<close> from the structure \<open>c\<close> its stack happens to hold, for a server that is neither stopped nor paused. The outer
  option is a crash, the inner one a call that does not return. A call that returned would have closed the socket
  and freed the place in the table of sessions that are the first two components of its result.
  (\<open>thread_tick\<close> below is the same thread for any values of \<^verbatim>\<open>run\<close> and \<^verbatim>\<open>pause\<close>.)
\<close>

definition start_client :: "'w wses \<Rightarrow> nat \<Rightarrow> 'w wses" where
  "start_client s socket = s\<lparr>ws_client := (ws_client s)\<lparr>cd_socket := socket, cd_auth_data := 0,
     cd_auth_type := AUTH_NO_AUTH, cd_keepalive := NO_TIMEOUT, cd_session := ws_base s + ws_sess s,
     cd_apps := (\<lambda>i. if i \<le> MAXAPPL_w32s then 0 else cd_apps (ws_client s) i)\<rparr>\<rparr>"

definition StartSession :: "'w capi2032 \<Rightarrow> nat \<Rightarrow> 'w wses \<Rightarrow> (nat \<times> nat \<times> 'w wses) option option" where
  "StartSession L socket s = do {
     (err, s) \<leftarrow> session_loop L (start_client s socket);
     (_, s) \<leftarrow> exec_proxy_shutdown_w32s (farewell err) s;
     Some (map_option (\<lambda>(l, w). (cd_socket (ws_client s), unat (ws_sess s),
         s\<lparr>ws_client := (ws_client s)\<lparr>cd_apps := l\<rparr>, ws_world := w\<rparr>))
       (release_all_w32s L (cd_apps (ws_client s)) (ws_world s)))
   }"

lemma getfirst_loop_result:
  assumes "getfirst_loop_w32s i l = Some r"
  shows "MAXAPPL_w32s < i \<and> r = (0, l) \<or> i \<le> MAXAPPL_w32s \<and> l i = 1 \<and> r = (of_nat i, l(i := 0))"
proof (rule getfirst_loop_w32s.raw_induct [OF _ assms,
    where P = "\<lambda>i l r. MAXAPPL_w32s < i \<and> r = (0, l) \<or> i \<le> MAXAPPL_w32s \<and> l i = 1 \<and> r = (of_nat i, l(i := 0))"])
  fix f :: "nat \<Rightarrow> app_table \<Rightarrow> (u32 \<times> app_table) option" and i l r
  assume IH: "\<And>i l r. f i l = Some r \<Longrightarrow>
      MAXAPPL_w32s < i \<and> r = (0, l) \<or> i \<le> MAXAPPL_w32s \<and> l i = 1 \<and> r = (of_nat i, l(i := 0))"
    and eq: "(if i \<le> MAXAPPL_w32s then if l i = 1 then Some (of_nat i, l(i := 0)) else f i l else Some (0, l)) = Some r"
  show "MAXAPPL_w32s < i \<and> r = (0, l) \<or> i \<le> MAXAPPL_w32s \<and> l i = 1 \<and> r = (of_nat i, l(i := 0))"
    using eq IH [of i l r] by (cases "i \<le> MAXAPPL_w32s"; cases "l i = 1") auto
qed

text \<open>It finds the application 1 or nothing at all, and in the latter case it does not return.\<close>

lemma getfirst_app_w32s_eq:
  "getfirst_app_w32s l = (if l 1 = 1 then Some (1, l(1 := 0)) else None)"
proof (cases "l 1 = 1")
  case True
  then show ?thesis
    unfolding getfirst_app_w32s_def by (subst getfirst_loop_w32s.simps) (simp add: MAXAPPL_w32s_def)
next
  case False
  then show ?thesis using getfirst_loop_result [of 1 l]
    by (cases "getfirst_loop_w32s 1 l") (auto simp: getfirst_app_w32s_def MAXAPPL_w32s_def)
qed

lemma release_all_w32s_None: "release_all_w32s L l w = None"
proof (rule ccontr)
  assume "release_all_w32s L l w \<noteq> None"
  then obtain r where r: "release_all_w32s L l w = Some r" by blast
  have False
  proof (rule release_all_w32s.raw_induct [OF _ r, where P = "\<lambda>L l w r. False"])
    fix f :: "'a capi2032 \<Rightarrow> app_table \<Rightarrow> 'a \<Rightarrow> (app_table \<times> 'a) option" and L l w r
    assume "\<And>L l w r. f L l w = Some r \<Longrightarrow> False"
      and "(case getfirst_app_w32s l of None \<Rightarrow> None | Some r \<Rightarrow>
          if fst r \<noteq> 0 then f L (snd r) (snd (lib_release L (fst r) w)) else Some (snd r, w)) = Some r"
    then show False by (cases r) (auto simp: getfirst_app_w32s_eq split: if_splits)
  qed
  then show False .
qed

section \<open>Threads\<close>

datatype phase = Serving int | Closing int | Releasing nat | Gone

text \<open>One step of a session thread.\<close>

fun thread_tick :: "'w capi2032 \<Rightarrow> int \<Rightarrow> int \<Rightarrow> phase \<Rightarrow> 'w wses \<Rightarrow> (phase \<times> 'w wses) option" where
  "thread_tick L run pause (Serving err) s =
     (if run \<noteq> 1 then Some (Closing err, s)
      else if pause = 1 then Some (Serving err, s)
      else case session_round L s of
          None \<Rightarrow> None
        | Some (goes_on, n, s) \<Rightarrow> Some (if goes_on then Serving n else Closing n, s))"
| "thread_tick L run pause (Closing err) s =
     map_option (\<lambda>(_, s). (Releasing 1, s)) (exec_proxy_shutdown_w32s (farewell err) s)"
| "thread_tick L run pause (Releasing i) s =
     (if i \<le> MAXAPPL_w32s then
        if cd_apps (ws_client s) i = 1 then
          case lib_release L (of_nat i) (ws_world s) of (_, w) \<Rightarrow>
            Some (Releasing 1, s\<lparr>ws_client := (ws_client s)\<lparr>cd_apps := (cd_apps (ws_client s))(i := 0)\<rparr>, ws_world := w\<rparr>)
        else Some (Releasing i, s)
      else Some (Gone, s))"
| "thread_tick L run pause Gone s = Some (Gone, s)"

section \<open>The table of sessions\<close>

function alloc_loop :: "nat \<Rightarrow> nat \<Rightarrow> nat option list \<Rightarrow> nat \<times> nat option list" where
  "alloc_loop i socket l =
     (if i < MAX_SESSIONS then
        if l ! i = None then (i, l[i := Some socket]) else alloc_loop (Suc i) socket l
      else (0, l))"
  by pat_completeness auto
termination by (relation "measure (\<lambda>(i, socket, l). MAX_SESSIONS - i)") auto

declare alloc_loop.simps [simp del]

definition allocSession :: "nat \<Rightarrow> nat option list \<Rightarrow> nat \<times> nat option list" where
  "allocSession socket l = alloc_loop 0 socket l"

definition freeSession :: "nat \<Rightarrow> nat option list \<Rightarrow> nat option list" where
  "freeSession sess l = (if MAX_SESSIONS \<le> sess then l else l[sess := None])"

section \<open>The process\<close>

record 'w wthread =
  th_sess :: nat
  th_phase :: phase
  th_state :: "'w wses"

text \<open>
  Where the accept thread is in its loop: before the test of \<^verbatim>\<open>run\<close>, in \<^verbatim>\<open>Sleep(100)\<close> behind it, at \<^verbatim>\<open>select\<close> and
  \<^verbatim>\<open>accept\<close> after \<^verbatim>\<open>pause\<close> was found not to be 1, or out of the loop. \<^verbatim>\<open>run\<close> and \<^verbatim>\<open>pause\<close> change at any time in between.
\<close>

datatype accept_phase = Looping | Asleep | Polling | Left

text \<open>\<open>sy_accepted\<close> records the connections that have been accepted, in order.\<close>

record 'w wsys =
  sy_run :: int
  sy_pause :: int
  sy_accept :: accept_phase
  sy_base :: u32
  sy_sockets :: "nat option list"
  sy_world :: 'w
  sy_threads :: "'w wthread list"
  sy_accepted :: "nat list"

definition initial_sockets :: "nat option list" where
  "initial_sockets = replicate MAX_SESSIONS None"

text \<open>
  A connection that \<^verbatim>\<open>accept\<close> has delivered; \<open>created\<close> says whether \<^verbatim>\<open>CreateThread\<close> succeeds, and \<open>m\<close> is the
  stack of the new thread with the scripts of its system calls.
\<close>

definition accept_connection :: "nat \<Rightarrow> bool \<Rightarrow> 'w wses \<Rightarrow> 'w wsys \<Rightarrow> 'w wsys" where
  "accept_connection c created m g =
     (case allocSession c (sy_sockets g) of (sess, l) \<Rightarrow>
        let g = g\<lparr>sy_sockets := l, sy_accepted := sy_accepted g @ [c]\<rparr>;
            s = start_client (m\<lparr>ws_base := sy_base g, ws_sess := of_nat sess, ws_tx := [], ws_waiters := []\<rparr>)
                  (case l ! sess of None \<Rightarrow> 0 | Some k \<Rightarrow> k)
        in if created then g\<lparr>sy_threads := sy_threads g @ [\<lparr>th_sess = sess, th_phase = Serving 1, th_state = s\<rparr>]\<rparr> else g)"

definition put_thread :: "nat \<Rightarrow> phase \<Rightarrow> 'w wses \<Rightarrow> 'w wsys \<Rightarrow> 'w wsys" where
  "put_thread k ph s g =
     (let t = sy_threads g ! k
      in g\<lparr>sy_threads := (sy_threads g)[k := t\<lparr>th_phase := ph, th_state := s\<rparr>], sy_world := ws_world s,
           sy_sockets := (if ph = Gone \<and> th_phase t \<noteq> Gone then freeSession (th_sess t) (sy_sockets g) else sy_sockets g)\<rparr>)"

abbreviation thread_view :: "nat \<Rightarrow> 'w wsys \<Rightarrow> 'w wses" where
  "thread_view k g \<equiv> (th_state (sy_threads g ! k))\<lparr>ws_world := sy_world g\<rparr>"

inductive wsys_step :: "'w capi2032 \<Rightarrow> 'w wsys \<Rightarrow> 'w wsys \<Rightarrow> bool" for L where
  test: "sy_accept g = Looping \<Longrightarrow> wsys_step L g (g\<lparr>sy_accept := (if sy_run g = 1 then Asleep else Left)\<rparr>)"
| wake: "sy_accept g = Asleep \<Longrightarrow> wsys_step L g (g\<lparr>sy_accept := (if sy_pause g \<noteq> 1 then Polling else Looping)\<rparr>)"
| no_connection: "sy_accept g = Polling \<Longrightarrow> wsys_step L g (g\<lparr>sy_accept := Looping\<rparr>)"
| select_error: "sy_accept g = Polling \<Longrightarrow> wsys_step L g (g\<lparr>sy_accept := Left\<rparr>)"
| accept: "sy_accept g = Polling \<Longrightarrow> length (cd_name (ws_client m)) = 64 \<Longrightarrow>
    wsys_step L g ((accept_connection c created m g)\<lparr>sy_accept := Looping\<rparr>)"
| tick: "k < length (sy_threads g) \<Longrightarrow>
    thread_tick L (sy_run g) (sy_pause g) (th_phase (sy_threads g ! k)) (thread_view k g) = Some (ph, s) \<Longrightarrow>
    wsys_step L g (put_thread k ph s g)"
| waiting: "k < length (sy_threads g) \<Longrightarrow> j < length (ws_waiters (th_state (sy_threads g ! k))) \<Longrightarrow>
    run_waiter L j (thread_view k g) = Some s \<Longrightarrow>
    wsys_step L g (put_thread k (th_phase (sy_threads g ! k)) s g)"
| controlled: "wsys_step L g (g\<lparr>sy_run := r, sy_pause := p\<rparr>)"

inductive wsys_reachable :: "'w capi2032 \<Rightarrow> u32 \<Rightarrow> 'w \<Rightarrow> 'w wsys \<Rightarrow> bool" for L base w where
  initial: "wsys_reachable L base w \<lparr>sy_run = 1, sy_pause = 0, sy_accept = Looping, sy_base = base, sy_sockets = initial_sockets,
     sy_world = w, sy_threads = [], sy_accepted = []\<rparr>"
| step: "wsys_reachable L base w g \<Longrightarrow> wsys_step L g g' \<Longrightarrow> wsys_reachable L base w g'"

section \<open>The slots of the table\<close>

definition slots_of :: "nat list \<Rightarrow> nat option list" where
  "slots_of acc = map Some (take MAX_SESSIONS acc) @ replicate (MAX_SESSIONS - length acc) None"

lemma length_slots_of [simp]: "length (slots_of acc) = MAX_SESSIONS"
  by (simp add: slots_of_def min_def)

lemma alloc_loop_slots:
  "i \<le> length acc \<Longrightarrow> alloc_loop i c (slots_of acc) =
     (if length acc < MAX_SESSIONS then (length acc, slots_of (acc @ [c])) else (0, slots_of acc))"
proof (induction i c "slots_of acc" rule: alloc_loop.induct)
  case (1 i c)
  show ?case
  proof (cases "i < MAX_SESSIONS \<and> i < length acc")
    case True
    then have "slots_of acc ! i = Some (acc ! i)" by (simp add: slots_of_def nth_append)
    with True 1 show ?thesis by (subst alloc_loop.simps) simp
  next
    case False
    show ?thesis
    proof (cases "length acc < MAX_SESSIONS")
      case True
      with False 1(2) have i: "i = length acc" by simp
      have "slots_of acc ! i = None" using True by (simp add: slots_of_def nth_append i)
      moreover have "(slots_of acc)[i := Some c] = slots_of (acc @ [c])"
        using True by (simp add: slots_of_def list_update_append i Suc_diff_Suc [symmetric])
      ultimately show ?thesis using True i by (subst alloc_loop.simps) simp
    next
      case False
      with \<open>\<not> (i < MAX_SESSIONS \<and> i < length acc)\<close> have "\<not> i < MAX_SESSIONS" by simp
      with False show ?thesis by (subst alloc_loop.simps) simp
    qed
  qed
qed

lemma allocSession_slots:
  "allocSession c (slots_of acc) =
     (if length acc < MAX_SESSIONS then (length acc, slots_of (acc @ [c])) else (0, slots_of acc))"
  by (simp add: allocSession_def alloc_loop_slots)

lemma slots_of_nth: "n < MAX_SESSIONS \<Longrightarrow> n < length acc \<Longrightarrow> slots_of acc ! n = Some (acc ! n)"
  by (simp add: slots_of_def nth_append)

lemma slots_of_full: "MAX_SESSIONS \<le> length acc \<Longrightarrow> slots_of (acc @ [c]) = slots_of acc"
  by (simp add: slots_of_def)

section \<open>What holds in every reachable state\<close>

text \<open>A thread of the server: its slot, its identity, its type, and that it never comes to an end.\<close>

definition thread_ok :: "u32 \<Rightarrow> nat list \<Rightarrow> 'w wthread \<Rightarrow> bool" where
  "thread_ok base acc t \<longleftrightarrow>
     th_sess t < MAX_SESSIONS \<and> th_sess t < length acc \<and> wt_session (th_state t) \<and>
     ws_base (th_state t) = base \<and> ws_sess (th_state t) = of_nat (th_sess t) \<and>
     cd_socket (ws_client (th_state t)) = acc ! th_sess t \<and>
     th_phase t \<noteq> Gone \<and> (\<forall>i. th_phase t = Releasing i \<longrightarrow> i = 1)"

definition wsys_ok :: "u32 \<Rightarrow> 'w wsys \<Rightarrow> bool" where
  "wsys_ok base g \<longleftrightarrow>
     sy_base g = base \<and> sy_sockets g = slots_of (sy_accepted g) \<and>
     (\<forall>t \<in> set (sy_threads g). thread_ok base (sy_accepted g) t) \<and>
     (length (sy_accepted g) \<le> MAX_SESSIONS \<longrightarrow> distinct (map th_sess (sy_threads g)))"

lemma wt_start_client:
  "length (cd_name (ws_client m)) = 64 \<Longrightarrow> ws_waiters m = [] \<Longrightarrow> wt_session (start_client m c)"
  by (simp add: wt_session_def start_client_def)

lemma thread_ok_append: "thread_ok base acc t \<Longrightarrow> thread_ok base (acc @ [c]) t"
  by (auto simp: thread_ok_def nth_append)

lemma accept_connection_ok:
  assumes "wsys_ok base g" and "length (cd_name (ws_client m)) = 64"
  shows "wsys_ok base (accept_connection c created m g)"
proof -
  let ?acc = "sy_accepted g"
  define n where "n = (if length ?acc < MAX_SESSIONS then length ?acc else 0)"
  have al: "allocSession c (sy_sockets g) = (n, slots_of (?acc @ [c]))"
    using assms(1) by (auto simp: wsys_ok_def allocSession_slots slots_of_full n_def)
  have n: "n < MAX_SESSIONS" "n < length (?acc @ [c])"
    by (auto simp: n_def MAX_SESSIONS_def)
  then have so: "slots_of (?acc @ [c]) ! n = Some ((?acc @ [c]) ! n)"
    by (rule slots_of_nth)
  define t where "t = \<lparr>th_sess = n, th_phase = Serving 1, th_state = start_client
      (m\<lparr>ws_base := sy_base g, ws_sess := of_nat n, ws_tx := [], ws_waiters := []\<rparr>) ((?acc @ [c]) ! n)\<rparr>"
  have t: "thread_ok base (?acc @ [c]) t"
    using n assms by (auto simp: thread_ok_def t_def wt_start_client wsys_ok_def) (simp_all add: start_client_def)
  have fresh: "n \<notin> th_sess ` set (sy_threads g)" if "length (?acc @ [c]) \<le> MAX_SESSIONS"
    using assms(1) that by (auto simp: wsys_ok_def thread_ok_def n_def)
  have "accept_connection c created m g = (let g = g\<lparr>sy_sockets := slots_of (?acc @ [c]), sy_accepted := ?acc @ [c]\<rparr>
      in if created then g\<lparr>sy_threads := sy_threads g @ [t]\<rparr> else g)"
    by (simp add: accept_connection_def al so t_def Let_def)
  then show ?thesis
    using assms(1) t fresh by (auto simp: wsys_ok_def Let_def thread_ok_append t_def)
qed

lemma same_session_thread:
  "thread_ok base acc t \<Longrightarrow> same_session (th_state t) s \<Longrightarrow> wt_session s \<Longrightarrow> ph \<noteq> Gone \<Longrightarrow> \<forall>i. ph = Releasing i \<longrightarrow> i = 1 \<Longrightarrow>
     thread_ok base acc (t\<lparr>th_phase := ph, th_state := s\<rparr>)"
  by (simp add: thread_ok_def same_session_def)

lemma put_thread_ok:
  assumes "wsys_ok base g" and "k < length (sy_threads g)"
    and "thread_ok base (sy_accepted g) ((sy_threads g ! k)\<lparr>th_phase := ph, th_state := s\<rparr>)"
  shows "wsys_ok base (put_thread k ph s g)"
proof -
  have "ph \<noteq> Gone" using assms(3) by (simp add: thread_ok_def)
  moreover have "map th_sess ((sy_threads g)[k := (sy_threads g ! k)\<lparr>th_phase := ph, th_state := s\<rparr>]) = map th_sess (sy_threads g)"
    using assms(2) by (simp add: map_update list_update_same_conv)
  ultimately show ?thesis
    using assms by (auto simp: wsys_ok_def put_thread_def Let_def dest: set_update_subset_insert [THEN subsetD])
qed

lemma exec_proxy_shutdown_keeps:
  assumes "exec_proxy_shutdown_w32s msg s = Some (n, s')"
  shows "one_answer TYPE_PROXY_SHUTDOWN 0 s s' \<and> (wt_session s \<longrightarrow> wt_session s')"
proof -
  from assms obtain b where "finish_answer (put_bytes 40 (msg @ [0]) (put32 32 PERROR_NONE (begin_answer (ws_frames s (ws_calls s)) 128
      TYPE_PROXY_SHUTDOWN 0 (cd_session (ws_client s))))) (s\<lparr>ws_calls := Suc (ws_calls s)\<rparr>) = Some (n, s')"
    by (auto simp: exec_proxy_shutdown_w32s_def Let_def case_prod_beta Option.bind_eq_Some_conv put_bytes_chk_def
        new_frame_def sizeof_defs split: if_splits)
  note fin = this
  have "one_answer TYPE_PROXY_SHUTDOWN 0 s s'"
    by (rule finish_answer_one [OF fin, where bl = 128 and dl = 0]) (simp_all add: handler_simps)
  with finish_answer_keeps [OF fin] show ?thesis by simp
qed

lemma farewell_total: "\<exists>n s'. exec_proxy_shutdown_w32s (farewell err) s = Some (n, s')"
proof -
  have len: "length (farewell err) < 128" by (simp add: farewell_def)
  then have "put_bytes_chk MSG_SIZE 40 (farewell err @ [0]) b = Some (put_bytes 40 (farewell err @ [0]) b)" for b
    by (simp add: put_bytes_chk_def MSG_SIZE_def)
  then show ?thesis
    unfolding exec_proxy_shutdown_w32s_def Let_def case_prod_beta sizeof_ANSWER_HEADER_def
    by (simp add: finish_answer_total [where n = 128] handler_simps MSG_SIZE_def)
qed

lemma session_round_keeps:
  assumes "session_round L s = Some (c, n, s')"
  shows "(wt_session s \<longrightarrow> wt_session s') \<and> ws_base s' = ws_base s \<and> ws_sess s' = ws_sess s \<and>
     cd_socket (ws_client s') = cd_socket (ws_client s)"
proof -
  obtain t where t: "receive s = (n, t)" and c: "t = s' \<or> dispatch_w32s L t = Some s'"
    using assms unfolding session_round_def by (auto split: prod.splits if_splits)
  have "cd_socket (ws_client t) = cd_socket (ws_client s)" using t by (auto simp: receive_def split: prod.splits)
  then show ?thesis
    using c dispatch_w32s_accounts [of L t s'] receive_keeps [OF t] session_round_accounts [OF assms]
    by (auto simp: same_session_def)
qed

lemma thread_tick_ok:
  assumes "thread_tick L r p ph s = Some (ph', s')" and "thread_ok base acc (t\<lparr>th_phase := ph, th_state := s\<rparr>)"
  shows "thread_ok base acc (t\<lparr>th_phase := ph', th_state := s'\<rparr>)"
proof (cases ph)
  case (Serving err)
  consider "s' = s" "ph' \<in> {Serving err, Closing err}"
    | c n where "session_round L s = Some (c, n, s')" "ph' = (if c then Serving n else Closing n)"
    using assms(1) Serving by (auto split: if_splits option.splits)
  then show ?thesis
  proof cases
    case 1
    then show ?thesis using assms(2) by (auto simp: thread_ok_def)
  next
    case 2
    with session_round_keeps [OF 2(1)] assms(2) show ?thesis by (auto simp: thread_ok_def)
  qed
next
  case (Closing err)
  with assms(1) obtain n where n: "exec_proxy_shutdown_w32s (farewell err) s = Some (n, s')" and ph': "ph' = Releasing 1" by auto
  with exec_proxy_shutdown_keeps [OF n] assms(2) show ?thesis
    by (auto simp: thread_ok_def one_answer_def same_session_def)
next
  case (Releasing i)
  then have i: "i = 1" using assms(2) by (simp add: thread_ok_def)
  with Releasing assms show ?thesis
    by (auto simp: thread_ok_def MAXAPPL_w32s_def wt_session_def split: if_splits prod.splits)
next
  case Gone
  with assms(2) show ?thesis by (simp add: thread_ok_def)
qed

lemma thread_view_ok:
  assumes "wsys_ok base g" and "k < length (sy_threads g)"
  shows "thread_ok base (sy_accepted g) ((sy_threads g ! k)\<lparr>th_phase := th_phase (sy_threads g ! k), th_state := thread_view k g\<rparr>)"
  using assms nth_mem [OF assms(2)] by (auto simp: wsys_ok_def thread_ok_def)

lemma wsys_step_ok:
  assumes "wsys_step L g g'" and "wsys_ok base g"
  shows "wsys_ok base g'"
  using assms(1)
proof cases
  case (accept m c created)
  with accept_connection_ok [OF assms(2)] show ?thesis by (simp add: wsys_ok_def)
next
  case (tick k ph s)
  with put_thread_ok [OF assms(2) tick(2)] thread_tick_ok [OF tick(3) thread_view_ok [OF assms(2) tick(2)]]
  show ?thesis by simp
next
  case (waiting k j s)
  let ?t = "sy_threads g ! k"
  have "wt_session s" "same_session (thread_view k g) s"
    using run_waiter_accounts [OF waiting(4)] waiting(3) thread_view_ok [OF assms(2) waiting(2)]
    by (auto simp: thread_ok_def)
  with thread_view_ok [OF assms(2) waiting(2)]
  have "thread_ok base (sy_accepted g) (?t\<lparr>th_phase := th_phase ?t, th_state := s\<rparr>)"
    by (auto simp: thread_ok_def same_session_def)
  with put_thread_ok [OF assms(2) waiting(2)] waiting(1) show ?thesis by simp
next
  case (controlled r p)
  with assms(2) show ?thesis by (simp add: wsys_ok_def)
qed (use assms(2) in \<open>simp_all add: wsys_ok_def\<close>)

lemma wsys_reachable_ok: "wsys_reachable L base w g \<Longrightarrow> wsys_ok base g"
proof (induction rule: wsys_reachable.induct)
  case initial
  show ?case by (simp add: wsys_ok_def initial_sockets_def slots_of_def)
next
  case (step g g')
  then show ?case using wsys_step_ok by blast
qed

section \<open>A round of the accept loop\<close>

text \<open>
  The steps of one round: the test of \<^verbatim>\<open>run\<close>, \<^verbatim>\<open>Sleep\<close>, during which \<^verbatim>\<open>run\<close> and \<^verbatim>\<open>pause\<close> may change, the test of
  \<^verbatim>\<open>pause\<close>, \<^verbatim>\<open>select\<close> and \<^verbatim>\<open>accept\<close>.
\<close>

lemma controlled_reachable:
  "wsys_reachable L base w g \<Longrightarrow> wsys_reachable L base w (g\<lparr>sy_run := r, sy_pause := p\<rparr>)"
  by (rule wsys_reachable.step [OF _ wsys_step.controlled])

lemma round_asleep:
  assumes "wsys_reachable L base w g" and "sy_accept g = Looping"
  shows "wsys_reachable L base w (g\<lparr>sy_run := r, sy_pause := p, sy_accept := Asleep\<rparr>)"
proof -
  have "wsys_reachable L base w (g\<lparr>sy_run := 1, sy_pause := sy_pause g\<rparr>)"
    by (rule controlled_reachable [OF assms(1)])
  from wsys_reachable.step [OF this wsys_step.test] assms(2)
  have "wsys_reachable L base w (g\<lparr>sy_run := 1, sy_accept := Asleep\<rparr>)" by simp
  from controlled_reachable [OF this, where r = r and p = p] show ?thesis by (cases g) simp
qed

lemma round_left:
  assumes "wsys_reachable L base w g" and "sy_accept g = Looping" and "r \<noteq> 1"
  shows "wsys_reachable L base w (g\<lparr>sy_run := r, sy_accept := Left\<rparr>)"
proof -
  have "wsys_reachable L base w (g\<lparr>sy_run := r, sy_pause := sy_pause g\<rparr>)"
    by (rule controlled_reachable [OF assms(1)])
  from wsys_reachable.step [OF this wsys_step.test] assms(2,3) show ?thesis by simp
qed

lemma round_awake:
  assumes "wsys_reachable L base w g" and "sy_accept g = Looping"
  shows "p = 1 \<Longrightarrow> wsys_reachable L base w (g\<lparr>sy_run := r, sy_pause := p\<rparr>)"
    and "p \<noteq> 1 \<Longrightarrow> wsys_reachable L base w (g\<lparr>sy_run := r, sy_pause := p, sy_accept := Polling\<rparr>)"
proof -
  show "wsys_reachable L base w (g\<lparr>sy_run := r, sy_pause := p\<rparr>)" by (rule controlled_reachable [OF assms(1)])
  from wsys_reachable.step [OF round_asleep [OF assms, where r = r and p = p] wsys_step.wake]
  show "p \<noteq> 1 \<Longrightarrow> wsys_reachable L base w (g\<lparr>sy_run := r, sy_pause := p, sy_accept := Polling\<rparr>)" by simp
qed

lemma accept_connection_phase:
  "sy_accept (accept_connection c ok m g) = sy_accept g"
  "(accept_connection c ok m (g\<lparr>sy_accept := a\<rparr>))\<lparr>sy_accept := sy_accept g\<rparr> = accept_connection c ok m g"
  by (simp_all add: accept_connection_def Let_def split: prod.split)

lemma round_polled:
  assumes "wsys_reachable L base w g" and "sy_accept g = Looping" and "p \<noteq> 1"
  shows "wsys_reachable L base w (g\<lparr>sy_run := r, sy_pause := p, sy_accept := Left\<rparr>)"
    and "length (cd_name (ws_client m)) = 64 \<Longrightarrow>
      wsys_reachable L base w (accept_connection c ok m (g\<lparr>sy_run := r, sy_pause := p\<rparr>))"
proof -
  note polling = round_awake(2) [OF assms]
  from wsys_reachable.step [OF polling wsys_step.select_error]
  show "wsys_reachable L base w (g\<lparr>sy_run := r, sy_pause := p, sy_accept := Left\<rparr>)" by simp
  have "(accept_connection c ok m (g\<lparr>sy_run := r, sy_pause := p, sy_accept := Polling\<rparr>))\<lparr>sy_accept := Looping\<rparr> =
      accept_connection c ok m (g\<lparr>sy_run := r, sy_pause := p\<rparr>)"
    using accept_connection_phase(2) [where c = c and ok = ok and m = m and a = Polling and
        g = "g\<lparr>sy_run := r, sy_pause := p\<rparr>"] assms(2) by simp
  moreover assume "length (cd_name (ws_client m)) = 64"
  then have "wsys_reachable L base w
      ((accept_connection c ok m (g\<lparr>sy_run := r, sy_pause := p, sy_accept := Polling\<rparr>))\<lparr>sy_accept := Looping\<rparr>)"
    by (intro wsys_reachable.step [OF polling wsys_step.accept]) simp_all
  ultimately show "wsys_reachable L base w (accept_connection c ok m (g\<lparr>sy_run := r, sy_pause := p\<rparr>))" by metis
qed

end
