(* ===== verification/Win32Service.thy ===== *)
theory Win32Service
  imports Win32System
begin

text \<open>
  The Windows server as a process: \<^verbatim>\<open>main\<close> with its switches and the registry, the service entry points
  (\<^verbatim>\<open>ServiceStart\<close>, \<^verbatim>\<open>ServiceInitialization\<close>, \<^verbatim>\<open>ServiceCtrlHandler\<close>, \<^verbatim>\<open>ServiceExit\<close>, \<^verbatim>\<open>CreateSocket\<close>) and
  the dialog in the tray (\<^verbatim>\<open>dialogProc\<close>).

  State: the globals (\<open>service_process\<close>). Calls of the Windows API that only have an effect outside are recorded in order
  in \<open>trace\<close>; the results of the others are arguments (\<open>main_env\<close>) or scripts.
\<close>

section \<open>State\<close>

datatype service_state = SERVICE_NONE | SERVICE_START_PENDING | SERVICE_RUNNING | SERVICE_PAUSED | SERVICE_STOPPED

record service_status =
  dwCurrentState :: service_state
  dwWin32ExitCode :: u32
  dwServiceSpecificExitCode :: u32

datatype api_call =
  A_DebugOut
| A_SetServiceStatus service_status
| A_shutdown "nat option"
| A_closesocket "nat option"
| A_TerminateThread
| A_CloseHandle
| A_Sleep nat
| A_CreateService
| A_DeleteService
| A_printf
| A_MessageBox
| A_StartServiceCtrlDispatcher
| A_CreateThread
| A_DialogBox
| A_NotifyIcon bool
| A_ShowWindow bool
| A_EndDialog
| A_listen nat
| A_WSACleanup

record service_process =
  p_service :: bool
  p_debug :: bool
  p_run :: int
  p_pause :: int
  p_session :: u32
  p_sockets :: "nat option list"
  p_socke :: "nat option"
  p_localaddr :: u32
  p_PORT :: u32
  p_AUTH_TYPES :: u32
  p_AUTH_REQUIRED :: u32
  p_status :: service_status
  p_status_rets :: "bool list"
  trace :: "api_call list"

definition call :: "api_call \<Rightarrow> service_process \<Rightarrow> service_process" where
  "call c p = p\<lparr>trace := trace p @ [c]\<rparr>"

lemma call_simps [simp]:
  "p_service (call c p) = p_service p" "p_debug (call c p) = p_debug p" "p_run (call c p) = p_run p" "p_pause (call c p) = p_pause p"
  "p_session (call c p) = p_session p" "p_sockets (call c p) = p_sockets p" "p_socke (call c p) = p_socke p"
  "p_localaddr (call c p) = p_localaddr p" "p_PORT (call c p) = p_PORT p" "p_AUTH_TYPES (call c p) = p_AUTH_TYPES p"
  "p_AUTH_REQUIRED (call c p) = p_AUTH_REQUIRED p" "p_status (call c p) = p_status p" "p_status_rets (call c p) = p_status_rets p"
  "trace (call c p) = trace p @ [c]"
  by (simp_all add: call_def)

definition SetServiceStatus :: "service_process \<Rightarrow> bool \<times> service_process" where
  "SetServiceStatus p = (case script (p_status_rets p) of (ok, xs) \<Rightarrow>
     (ok, call (A_SetServiceStatus (p_status p)) (p\<lparr>p_status_rets := xs\<rparr>)))"

section \<open>The socket of the server\<close>

text \<open>
  \<open>created\<close> is the result of \<^verbatim>\<open>socket\<close>, \<open>err\<close> the error code after a failure, \<open>bound\<close> the result of \<^verbatim>\<open>bind\<close> for an
  address and a port. The parameter \<open>port\<close> is not used.
\<close>

definition CreateSocket :: "nat option \<Rightarrow> (u32 \<Rightarrow> u16 \<Rightarrow> bool) \<Rightarrow> u32 \<Rightarrow> u32 \<Rightarrow> service_process \<Rightarrow> nat option \<times> u32" where
  "CreateSocket created bound err port p =
     (case created of
        None \<Rightarrow> (None, err)
      | Some sock \<Rightarrow> if \<not> bound (p_localaddr p) (ucast (p_PORT p)) then (None, err) else (Some sock, 0))"

definition ServiceInitialization :: "nat option \<Rightarrow> (u32 \<Rightarrow> u16 \<Rightarrow> bool) \<Rightarrow> u32 \<Rightarrow> service_process \<Rightarrow> u32 \<times> service_process" where
  "ServiceInitialization created bound err p =
     (let p = p\<lparr>p_session := p_session p + 0x10000\<rparr>
      in case CreateSocket created bound err PORT_w32s p of
           (None, e) \<Rightarrow> (e, call A_DebugOut (p\<lparr>p_socke := None\<rparr>))
         | (Some s, _) \<Rightarrow> (0, call (A_listen 10) (p\<lparr>p_socke := Some s\<rparr>)))"

section \<open>Stopping\<close>

text \<open>\<open>ended\<close> says whether the accept thread ends within five seconds.\<close>

definition ServiceExit :: "bool \<Rightarrow> service_process \<Rightarrow> service_process" where
  "ServiceExit ended p =
     (let p = p\<lparr>p_run := 0, p_pause := 0\<rparr>;
          p = fold (\<lambda>i. call (A_shutdown (p_sockets p ! i))) [0..<MAX_SESSIONS] p;
          p = call (A_shutdown (p_socke p)) p;
          p = (if ended then p else call A_TerminateThread (call (A_closesocket (p_socke p)) (call A_DebugOut p)));
          p = call A_CloseHandle p;
          p = call (A_closesocket (p_socke p)) p;
          p = fold (\<lambda>i. call (A_closesocket (p_sockets p ! i))) [0..<MAX_SESSIONS] p
      in call (A_Sleep 1000) p)"

datatype opcode = CONTROL_PAUSE | CONTROL_CONTINUE | CONTROL_STOP | CONTROL_INTERROGATE | CONTROL_other

definition set_state :: "service_state \<Rightarrow> service_process \<Rightarrow> service_process" where
  "set_state x p = p\<lparr>p_status := (p_status p)\<lparr>dwCurrentState := x\<rparr>\<rparr>"

definition report :: "service_process \<Rightarrow> service_process" where
  "report p = (case SetServiceStatus p of (ok, p) \<Rightarrow> if \<not> ok then call A_DebugOut p else p)"

fun ServiceCtrlHandler :: "bool \<Rightarrow> opcode \<Rightarrow> service_process \<Rightarrow> service_process" where
  "ServiceCtrlHandler ended CONTROL_PAUSE p = report (set_state SERVICE_PAUSED (p\<lparr>p_pause := 1\<rparr>))"
| "ServiceCtrlHandler ended CONTROL_CONTINUE p = report (set_state SERVICE_RUNNING (p\<lparr>p_pause := 0\<rparr>))"
| "ServiceCtrlHandler ended CONTROL_STOP p =
     (let p = ServiceExit ended p;
          p = set_state SERVICE_STOPPED (p\<lparr>p_status := (p_status p)\<lparr>dwWin32ExitCode := 0\<rparr>\<rparr>)
      in call A_DebugOut (report p))"
| "ServiceCtrlHandler ended CONTROL_INTERROGATE p = report p"
| "ServiceCtrlHandler ended CONTROL_other p = report (call A_DebugOut p)"

section \<open>The accept loop\<close>

text \<open>
  What a round of the loop finds: the value of \<^verbatim>\<open>run\<close> at its test, the values of \<^verbatim>\<open>run\<close> and \<^verbatim>\<open>pause\<close> after
  \<^verbatim>\<open>Sleep(100)\<close>, of which only \<^verbatim>\<open>pause\<close> is looked at, and the result of \<^verbatim>\<open>select\<close>, \<^verbatim>\<open>accept\<close> and
  \<^verbatim>\<open>CreateThread\<close>. The result says whether the loop has ended.
\<close>

datatype 'w poll = Select_error | Nothing_there | Accept_error | Connection nat bool "'w wses"

fun service_loop :: "(int \<times> int \<times> int \<times> 'w poll) list \<Rightarrow> 'w wsys \<Rightarrow> bool \<times> 'w wsys" where
  "service_loop [] g = (False, g)"
| "service_loop ((run, run', pause, ev) # rs) g =
     (if run \<noteq> 1 then (True, g\<lparr>sy_run := run, sy_accept := Left\<rparr>)
      else
        let g = g\<lparr>sy_run := run', sy_pause := pause\<rparr>
        in if pause = 1 then service_loop rs g
           else case ev of
               Select_error \<Rightarrow> (True, g\<lparr>sy_accept := Left\<rparr>)
             | Nothing_there \<Rightarrow> service_loop rs g
             | Accept_error \<Rightarrow> service_loop rs g
             | Connection c created m \<Rightarrow> service_loop rs (accept_connection c created m g))"

text \<open>\<open>registered\<close> is the result of \<^verbatim>\<open>RegisterServiceCtrlHandler\<close>; the result says whether the loop is reached.\<close>

definition ServiceStart :: "bool \<Rightarrow> nat option \<Rightarrow> (u32 \<Rightarrow> u16 \<Rightarrow> bool) \<Rightarrow> u32 \<Rightarrow> u32 \<Rightarrow> service_process \<Rightarrow> bool \<times> service_process" where
  "ServiceStart registered created bound err specificError p =
     (let p = (if p_service p
               then p\<lparr>p_status := \<lparr>dwCurrentState = SERVICE_START_PENDING, dwWin32ExitCode = 0, dwServiceSpecificExitCode = 0\<rparr>\<rparr>
               else p);
          p = p\<lparr>p_run := 1, p_pause := 0\<rparr>
      in if p_service p \<and> \<not> registered then (False, call A_DebugOut p)
         else case ServiceInitialization created bound err p of (status, p) \<Rightarrow>
           if status \<noteq> 0 then
             (False,
              if p_service p
              then snd (SetServiceStatus (p\<lparr>p_status := \<lparr>dwCurrentState = SERVICE_STOPPED, dwWin32ExitCode = status,
                     dwServiceSpecificExitCode = specificError\<rparr>\<rparr>))
              else p)
           else if p_service p then
             (case SetServiceStatus (set_state SERVICE_RUNNING p) of (ok, p) \<Rightarrow>
                if \<not> ok then (False, call A_DebugOut p) else (True, call A_DebugOut p))
           else (True, call A_DebugOut p))"

section \<open>The dialog\<close>

datatype command = IDC_PAUSE | IDOK | IDC_other
datatype message = WM_INITDIALOG | WM_COMMAND command | WM_USER bool | WM_CLOSE | WM_other

text \<open>The flag of \<open>WM_USER\<close> says whether a mouse button was pressed.\<close>

fun dialogProc :: "message \<Rightarrow> service_process \<Rightarrow> bool \<times> service_process" where
  "dialogProc WM_INITDIALOG p = (False, call (A_NotifyIcon True) p)"
| "dialogProc (WM_COMMAND IDC_PAUSE) p = (True, p\<lparr>p_pause := (if p_pause p = 0 then 1 else 0)\<rparr>)"
| "dialogProc (WM_COMMAND IDOK) p = (True, call A_EndDialog (call (A_NotifyIcon False) (p\<lparr>p_run := 0\<rparr>)))"
| "dialogProc (WM_COMMAND IDC_other) p = (False, p)"
| "dialogProc (WM_USER button) p = (True, if button then call (A_ShowWindow True) p else p)"
| "dialogProc WM_CLOSE p = (True, call (A_ShowWindow False) p)"
| "dialogProc WM_other p = (False, p)"

section \<open>main\<close>

record main_env =
  e_scm :: bool
  e_create_service :: bool
  e_open_service :: bool
  e_delete_service :: bool
  e_wsa :: bool
  e_key :: bool
  e_logfile :: bool
  e_bind :: "byte list option"
  e_inet_addr :: "byte list \<Rightarrow> u32"
  e_port :: "u32 option"
  e_auth_required :: "u32 option"
  e_auth_types :: "u32 option"
  e_dispatcher :: bool
  e_thread :: bool
  e_console :: bool
  e_ended :: bool

definition main_flags :: "string list \<Rightarrow> service_process \<Rightarrow> service_process" where
  "main_flags argv p = p\<lparr>p_debug := (''-debug'' \<in> set (tl argv)), p_service := (''-service'' \<in> set (tl argv)),
     p_run := 1, p_pause := 0, p_sockets := initial_sockets\<rparr>"

text \<open>The switches in order; the first of \<^verbatim>\<open>-i\<close>, \<^verbatim>\<open>-u\<close>, \<^verbatim>\<open>-?\<close> and \<^verbatim>\<open>-help\<close> ends the program with an exit code.\<close>

fun main_switches :: "main_env \<Rightarrow> string list \<Rightarrow> service_process \<Rightarrow> int option \<times> service_process" where
  "main_switches e [] p = (None, p)"
| "main_switches e (a # as) p =
     (if a = ''-i'' then
        let p = (if e_scm e then p else call A_DebugOut p);
            p = call A_CreateService p
        in if \<not> e_create_service e then (Some 1, call A_printf (call A_DebugOut p)) else (Some 0, call A_printf p)
      else if a = ''-u'' then
        let p = (if e_scm e then p else call A_DebugOut p);
            p = (if e_open_service e then p else call A_DebugOut p);
            p = call A_DeleteService p
        in if \<not> e_delete_service e then (Some 1, call A_printf (call A_DebugOut p)) else (Some 0, call A_printf p)
      else if a = ''-?'' \<or> a = ''-help'' then (Some 0, call A_printf p)
      else main_switches e as p)"

definition main_registry :: "main_env \<Rightarrow> service_process \<Rightarrow> int option \<times> service_process" where
  "main_registry e p =
     (if \<not> e_key e then (Some 0, call A_MessageBox p)
      else if \<not> e_logfile e then (Some 0, call A_MessageBox p)
      else
        let p = (case e_bind e of None \<Rightarrow> p | Some ip \<Rightarrow> p\<lparr>p_localaddr := e_inet_addr e ip\<rparr>)
        in (None, p\<lparr>p_PORT := (case e_port e of None \<Rightarrow> PORT_w32s | Some v \<Rightarrow> v),
              p_AUTH_REQUIRED := (case e_auth_required e of None \<Rightarrow> 0 | Some v \<Rightarrow> v),
              p_AUTH_TYPES := (case e_auth_types e of None \<Rightarrow> AUTH_NO_AUTH | Some v \<Rightarrow> v)\<rparr>))"

definition main_run :: "main_env \<Rightarrow> service_process \<Rightarrow> service_process" where
  "main_run e p =
     (if p_service p then
        let p = call A_StartServiceCtrlDispatcher p
        in if \<not> e_dispatcher e then call A_DebugOut p else p
      else
        let p = call A_CreateThread p
        in if \<not> e_thread e then call A_DebugOut p
           else
             let p = (if p_debug p then p else call (A_ShowWindow False) p);
                 p = call A_DialogBox p;
                 p = (if \<not> p_debug p \<and> e_console e then call (A_ShowWindow True) p else p)
             in ServiceExit (e_ended e) p)"

definition main_w32s :: "main_env \<Rightarrow> string list \<Rightarrow> service_process \<Rightarrow> int \<times> service_process" where
  "main_w32s e argv p =
     (let p = main_flags argv p
      in case main_switches e (tl argv) p of
           (Some r, p) \<Rightarrow> (r, p)
         | (None, p) \<Rightarrow>
             if \<not> e_wsa e then (1, call A_DebugOut p)
             else case main_registry e p of
                 (Some r, p) \<Rightarrow> (r, p)
               | (None, p) \<Rightarrow> (0, call A_WSACleanup (call A_DebugOut (main_run e p))))"

end
