(* ===== verification/Win32Hash.thy ===== *)
theory Win32Hash
  imports Win32Client
begin

text \<open>
  The table of waiting calls of the Windows client as the list of nodes it is in memory: \<^verbatim>\<open>addToHash\<close>, \<^verbatim>\<open>removeFromHash\<close> and
  \<^verbatim>\<open>getDataPtrFromMsgId\<close> of \<^verbatim>\<open>win32-client/capi2032.cpp\<close>, step by step. The first two read \<^verbatim>\<open>hash_start\<close> before they enter the
  critical section (\<open>hash_read\<close>) and use what they have read inside it (\<open>hash_link\<close>, \<open>hash_unlink\<close>): between the two steps
  other threads may change the table. Without such a change the two steps are the operations of \<open>Win32Client\<close> on lists.

  A node is identified by its address, 0 is the null pointer; \<open>None\<close> is an access to a node that has been freed, or a
  list without end.
\<close>

section \<open>The steps\<close>

record evlhash =
  ev_msgId :: u32
  ev_data :: nat
  ev_next :: nat

record hash_memory =
  h_start :: nat
  h_node :: "nat \<Rightarrow> evlhash option"

definition hash_read :: "hash_memory \<Rightarrow> nat" where
  "hash_read H = h_start H"

text \<open>\<^verbatim>\<open>while(queue->next) queue = queue->next;\<close>\<close>

partial_function (option) hash_last :: "(nat \<Rightarrow> evlhash option) \<Rightarrow> nat \<Rightarrow> nat option" where
  "hash_last m p =
     (case m p of
        None \<Rightarrow> None
      | Some e \<Rightarrow> if ev_next e \<noteq> 0 then hash_last m (ev_next e) else Some p)"

text \<open>
  The critical section of \<^verbatim>\<open>addToHash\<close>. \<open>queue\<close> is what has been read before, \<open>new\<close> the result of \<^verbatim>\<open>malloc\<close>, which is
  stored before it is looked at.
\<close>

definition hash_link :: "nat \<Rightarrow> u32 \<Rightarrow> nat \<Rightarrow> nat \<Rightarrow> hash_memory \<Rightarrow> (u32 \<times> hash_memory) option" where
  "hash_link queue msgId data new H = do {
     H \<leftarrow> (if queue \<noteq> 0 then do {
            p \<leftarrow> hash_last (h_node H) queue;
            e \<leftarrow> h_node H p;
            Some (H\<lparr>h_node := (h_node H)(p \<mapsto> e\<lparr>ev_next := new\<rparr>)\<rparr>)
          } else Some (H\<lparr>h_start := new\<rparr>));
     Some (if new = 0 then (1, H)
           else (0, H\<lparr>h_node := (h_node H)(new \<mapsto> \<lparr>ev_msgId = msgId, ev_data = data, ev_next = 0\<rparr>)\<rparr>))
   }"

text \<open>The critical section of \<^verbatim>\<open>removeFromHash\<close>.\<close>

partial_function (option) hash_unlink_loop :: "u32 \<Rightarrow> nat \<Rightarrow> nat \<Rightarrow> hash_memory \<Rightarrow> hash_memory option" where
  "hash_unlink_loop msgId prev queue H =
     (if queue = 0 then Some H
      else case h_node H queue of
          None \<Rightarrow> None
        | Some e \<Rightarrow>
            if ev_msgId e = msgId then
              if prev \<noteq> 0 then
                (case h_node H prev of
                   None \<Rightarrow> None
                 | Some pe \<Rightarrow> Some (H\<lparr>h_node := ((h_node H)(prev \<mapsto> pe\<lparr>ev_next := ev_next e\<rparr>))(queue := None)\<rparr>))
              else Some (H\<lparr>h_start := ev_next e, h_node := (h_node H)(queue := None)\<rparr>)
            else hash_unlink_loop msgId queue (ev_next e) H)"

definition hash_unlink :: "nat \<Rightarrow> u32 \<Rightarrow> hash_memory \<Rightarrow> hash_memory option" where
  "hash_unlink queue msgId H = hash_unlink_loop msgId 0 queue H"

text \<open>\<^verbatim>\<open>getDataPtrFromMsgId\<close> reads \<^verbatim>\<open>hash_start\<close> inside its critical section.\<close>

partial_function (option) hash_find_loop :: "u32 \<Rightarrow> (nat \<Rightarrow> evlhash option) \<Rightarrow> nat \<Rightarrow> nat option option" where
  "hash_find_loop msgId m queue =
     (if queue = 0 then Some None
      else case m queue of
          None \<Rightarrow> None
        | Some e \<Rightarrow> if ev_msgId e = msgId then Some (Some (ev_data e)) else hash_find_loop msgId m (ev_next e))"

definition hash_find :: "u32 \<Rightarrow> hash_memory \<Rightarrow> nat option option" where
  "hash_find msgId H = hash_find_loop msgId (h_node H) (h_start H)"

section \<open>The list in memory\<close>

text \<open>From \<open>p\<close> on the nodes \<open>as\<close> hold the entries \<open>q\<close>.\<close>

fun chain :: "(nat \<Rightarrow> evlhash option) \<Rightarrow> nat \<Rightarrow> nat list \<Rightarrow> (u32 \<times> nat) list \<Rightarrow> bool" where
  "chain m p [] q \<longleftrightarrow> p = 0 \<and> q = []"
| "chain m p (a # as) [] \<longleftrightarrow> False"
| "chain m p (a # as) ((i, d) # q) \<longleftrightarrow> p = a \<and> a \<noteq> 0 \<and>
     (case m a of None \<Rightarrow> False | Some e \<Rightarrow> ev_msgId e = i \<and> ev_data e = d \<and> chain m (ev_next e) as q)"

definition represents :: "hash_memory \<Rightarrow> nat list \<Rightarrow> (u32 \<times> nat) list \<Rightarrow> bool" where
  "represents H as q \<longleftrightarrow> chain (h_node H) (h_start H) as q \<and> distinct as"

lemma chain_length: "chain m p as q \<Longrightarrow> length as = length q"
  by (induction m p as q rule: chain.induct) (auto split: option.splits)

lemma chain_start: "chain m p as q \<Longrightarrow> p = (case as of [] \<Rightarrow> 0 | a # _ \<Rightarrow> a)"
  by (induction m p as q rule: chain.induct) auto

lemma chain_nonzero: "chain m p as q \<Longrightarrow> a \<in> set as \<Longrightarrow> a \<noteq> 0"
  by (induction m p as q rule: chain.induct) (auto split: option.splits)

lemma chain_other: "a \<notin> set as \<Longrightarrow> chain (m(a := x)) p as q = chain m p as q"
  by (induction m p as q rule: chain.induct) (auto split: option.splits)

lemma chain_last: "chain m p as q \<Longrightarrow> as \<noteq> [] \<Longrightarrow> hash_last m p = Some (last as) \<and> m (last as) \<noteq> None"
proof (induction m p as q rule: chain.induct)
  case (3 m p a as i d q)
  then obtain e where e: "p = a" "m a = Some e" "chain m (ev_next e) as q" by (auto split: option.splits)
  have n: "ev_next e = (case as of [] \<Rightarrow> 0 | b # _ \<Rightarrow> b)" by (rule chain_start [OF e(3)])
  show ?case
  proof (cases as)
    case Nil
    with e n show ?thesis by (subst hash_last.simps) simp
  next
    case (Cons b bs)
    then have "ev_next e \<noteq> 0" using n chain_nonzero [OF e(3), of b] by simp
    with 3(1) [OF e(2,3)] e Cons show ?thesis by (subst hash_last.simps) simp
  qed
qed simp_all

lemma chain_snoc:
  assumes "chain m p as q" and "distinct as" and "as \<noteq> []" and "m (last as) = Some e" and "new \<notin> set as" and "new \<noteq> 0"
  shows "chain (m(last as \<mapsto> e\<lparr>ev_next := new\<rparr>, new \<mapsto> \<lparr>ev_msgId = i, ev_data = d, ev_next = 0\<rparr>)) p (as @ [new]) (q @ [(i, d)])"
  using assms
proof (induction m p as q rule: chain.induct)
  case (3 m p a as j c q)
  then obtain f where f: "p = a" "m a = Some f" "ev_msgId f = j" "ev_data f = c" "chain m (ev_next f) as q" "a \<noteq> 0"
    by (auto split: option.splits)
  show ?case
  proof (cases as)
    case Nil
    with 3(2-) f show ?thesis by auto
  next
    case (Cons b bs)
    then have ne: "as \<noteq> []" by simp
    then have l: "last (a # as) = last as" by simp
    have d: "a \<notin> set as" "distinct as" "a \<noteq> new" "new \<notin> set as" using 3(3) 3(6) by auto
    then have "a \<noteq> last as" using last_in_set [OF ne] by metis
    then have "(m(last as \<mapsto> e\<lparr>ev_next := new\<rparr>, new \<mapsto> \<lparr>ev_msgId = i, ev_data = d, ev_next = 0\<rparr>)) a = Some f"
      using f(2) d(3) by simp
    moreover have "chain (m(last as \<mapsto> e\<lparr>ev_next := new\<rparr>, new \<mapsto> \<lparr>ev_msgId = i, ev_data = d, ev_next = 0\<rparr>)) (ev_next f) (as @ [new]) (q @ [(i, d)])"
      by (rule 3(1) [OF f(2,5) d(2) ne _ d(4) 3(7)]) (use 3(5) l in simp)
    ultimately show ?thesis using f unfolding l append_Cons chain.simps by (simp del: fun_upd_apply)
  qed
qed simp_all

section \<open>The operations on lists\<close>

lemma link_represents:
  assumes "represents H as q" and "new \<notin> set as" and "new \<noteq> 0"
  shows "\<exists>H'. hash_link (hash_read H) i d new H = Some (0, H') \<and> represents H' (as @ [new]) (q @ [(i, d)])"
proof (cases as)
  case Nil
  then have "h_start H = 0" "q = []" using assms(1) by (auto simp: represents_def)
  with Nil assms(3) show ?thesis by (simp add: hash_link_def hash_read_def represents_def)
next
  case (Cons a bs)
  have c: "chain (h_node H) (h_start H) as q" "distinct as" using assms(1) by (auto simp: represents_def)
  then obtain e where e: "hash_last (h_node H) (h_start H) = Some (last as)" "h_node H (last as) = Some e"
    using chain_last [OF c(1)] Cons by auto
  have "h_start H \<noteq> 0" using chain_start [OF c(1)] chain_nonzero [OF c(1)] Cons by auto
  with e c assms(2,3) Cons chain_snoc [OF c(1,2) _ e(2) assms(2,3), of i d] show ?thesis
    by (simp add: hash_link_def hash_read_def represents_def)
qed

text \<open>What was read as the null pointer makes the new node the only one.\<close>

lemma link_null: "new \<noteq> 0 \<Longrightarrow> \<exists>H'. hash_link 0 i d new H = Some (0, H') \<and> represents H' [new] [(i, d)]"
  by (simp add: hash_link_def represents_def)

lemma unlink_loop_chain:
  assumes "chain (h_node H) p as q" and "distinct as" and "prev \<notin> set as" and "prev \<noteq> 0"
    and "h_node H prev = Some pe" and "ev_next pe = p"
  shows "\<exists>H' as' pe'. hash_unlink_loop msgId prev p H = Some H' \<and> h_start H' = h_start H \<and> set as' \<subseteq> set as \<and> distinct as' \<and>
     (\<forall>x. x \<noteq> prev \<longrightarrow> x \<notin> set as \<longrightarrow> h_node H' x = h_node H x) \<and> h_node H' prev = Some pe' \<and>
     ev_msgId pe' = ev_msgId pe \<and> ev_data pe' = ev_data pe \<and> chain (h_node H') (ev_next pe') as' (remove_first msgId q)"
  using assms
proof (induction "h_node H" p as q arbitrary: prev pe rule: chain.induct)
  case (1 p q)
  then have "hash_unlink_loop msgId prev p H = Some H" by (subst hash_unlink_loop.simps) simp
  with 1 show ?case by (intro exI [of _ H] exI [of _ "[]"] exI [of _ pe]) simp
next
  case (3 p a as i d q)
  then obtain e where e: "p = a" "a \<noteq> 0" "h_node H a = Some e" "ev_msgId e = i" "ev_data e = d" "chain (h_node H) (ev_next e) as q"
    by (auto split: option.splits)
  have ne: "prev \<noteq> a" "a \<notin> set as" "prev \<notin> set as" "distinct as" using 3(3,4) by auto
  show ?case
  proof (cases "i = msgId")
    case True
    let ?H = "H\<lparr>h_node := ((h_node H)(prev \<mapsto> pe\<lparr>ev_next := ev_next e\<rparr>))(a := None)\<rparr>"
    have "hash_unlink_loop msgId prev p H = Some ?H"
      using e True 3(5,6) by (subst hash_unlink_loop.simps) simp
    moreover have "chain (h_node ?H) (ev_next e) as q"
      using e(6) ne by (simp add: chain_other)
    ultimately show ?thesis using True ne by (intro exI [of _ ?H] exI [of _ as] exI [of _ "pe\<lparr>ev_next := ev_next e\<rparr>"]) auto
  next
    case False
    have "hash_unlink_loop msgId prev p H = hash_unlink_loop msgId a (ev_next e) H"
      using e False by (subst hash_unlink_loop.simps) simp
    moreover obtain H' as' e' where H': "hash_unlink_loop msgId a (ev_next e) H = Some H'" "h_start H' = h_start H"
        "set as' \<subseteq> set as" "distinct as'" "\<forall>x. x \<noteq> a \<longrightarrow> x \<notin> set as \<longrightarrow> h_node H' x = h_node H x" "h_node H' a = Some e'"
        "ev_msgId e' = ev_msgId e" "ev_data e' = ev_data e" "chain (h_node H') (ev_next e') as' (remove_first msgId q)"
      using 3(1) [OF e(3) e(6) ne(4,2) e(2) e(3) refl] by blast
    moreover have "chain (h_node H') a (a # as') (remove_first msgId ((i, d) # q))"
      using H' e False by simp
    moreover have "h_node H' prev = Some pe" using H'(5) ne 3(6) by auto
    ultimately show ?thesis using ne 3(7) e(1)
      by (intro exI [of _ H'] exI [of _ "a # as'"] exI [of _ pe]) auto
  qed
qed simp

lemma unlink_represents:
  assumes "represents H as q"
  shows "\<exists>H' as'. hash_unlink (hash_read H) msgId H = Some H' \<and> represents H' as' (remove_first msgId q) \<and> set as' \<subseteq> set as \<and>
     (case q of [] \<Rightarrow> True | x # _ \<Rightarrow> fst x = msgId \<longrightarrow> h_node H' (h_start H) = None)"
proof (cases q)
  case Nil
  then have "as = []" "h_start H = 0" using assms by (cases as; auto simp: represents_def)+
  with Nil have "hash_unlink (hash_read H) msgId H = Some H"
    by (simp add: hash_unlink_def hash_read_def hash_unlink_loop.simps)
  with Nil assms show ?thesis by auto
next
  case (Cons x q')
  obtain i d where x: "x = (i, d)" by (cases x)
  with Cons assms obtain a as' e where a: "as = a # as'" "h_start H = a" "a \<noteq> 0" "h_node H a = Some e" "ev_msgId e = i" "ev_data e = d"
      "chain (h_node H) (ev_next e) as' q'" "a \<notin> set as'" "distinct as'"
    by (cases as) (auto simp: represents_def split: option.splits)
  show ?thesis
  proof (cases "i = msgId")
    case True
    let ?H = "H\<lparr>h_start := ev_next e, h_node := (h_node H)(a := None)\<rparr>"
    have "hash_unlink (hash_read H) msgId H = Some ?H"
      using a True by (simp add: hash_unlink_def hash_read_def hash_unlink_loop.simps)
    moreover have "represents ?H as' q'" using a by (simp add: represents_def chain_other)
    ultimately show ?thesis using a True x Cons by (intro exI [of _ ?H] exI [of _ as']) auto
  next
    case False
    have "hash_unlink (hash_read H) msgId H = hash_unlink_loop msgId a (ev_next e) H"
      using a False unfolding hash_unlink_def hash_read_def by (subst hash_unlink_loop.simps) simp
    moreover from unlink_loop_chain [OF a(7,9,8,3,4) refl, of msgId]
    obtain H' bs e' where H': "hash_unlink_loop msgId a (ev_next e) H = Some H'" "h_start H' = h_start H" "set bs \<subseteq> set as'" "distinct bs"
        "h_node H' a = Some e'" "ev_msgId e' = ev_msgId e" "ev_data e' = ev_data e" "chain (h_node H') (ev_next e') bs (remove_first msgId q')"
      by blast
    moreover have "represents H' (a # bs) (remove_first msgId q)"
      using H' a x Cons False by (auto simp: represents_def)
    ultimately show ?thesis using a False x Cons by (intro exI [of _ H'] exI [of _ "a # bs"]) auto
  qed
qed

lemma find_represents:
  assumes "represents H as q"
  shows "hash_find i H = Some (find_first i q)"
proof -
  have "chain m p as q \<Longrightarrow> hash_find_loop i m p = Some (find_first i q)" for m p
    by (induction m p as q rule: chain.induct; subst hash_find_loop.simps) (auto split: option.splits)
  with assms show ?thesis by (simp add: represents_def hash_find_def)
qed

text \<open>
  The operations of \<open>Win32Client\<close>, which work on the list of entries, are what the steps do when no other thread comes in between.
\<close>

lemma hash_operations_refine:
  assumes "represents H as (hash_start s)"
  shows "mallocs s = [] \<Longrightarrow> new \<notin> set as \<Longrightarrow> new \<noteq> 0 \<Longrightarrow>
      \<exists>H'. hash_link (hash_read H) i d new H = Some (fst (addToHash i d s), H') \<and>
        represents H' (as @ [new]) (hash_start (snd (addToHash i d s)))"
    and "\<exists>H' as'. hash_unlink (hash_read H) i H = Some H' \<and> represents H' as' (hash_start (removeFromHash i s))"
    and "hash_find i H = Some (getDataPtrFromMsgId i s)"
  using link_represents [OF assms, of new i d] unlink_represents [OF assms, of i] find_represents [OF assms, of i]
  by (auto simp: addToHash_def wmalloc_def removeFromHash_def getDataPtrFromMsgId_def)

section \<open>Overlapping calls\<close>

text \<open>
  C36. The unlocked read in \<^verbatim>\<open>addToHash\<close>. When two calls have both read \<^verbatim>\<open>hash_start\<close> before either has entered the
  critical section, both are in the table afterwards if it was not empty; if it was empty, the second replaces the first, whose
  answer then finds no call. And when the dispatcher takes the first entry away between the read and the critical
  section, the call goes through a node that has been freed.
\<close>

theorem win32_overlapping_calls:
  assumes "represents H as q" and "n1 \<notin> set as" and "n2 \<notin> set as" and "n1 \<noteq> n2" and "n1 \<noteq> 0" and "n2 \<noteq> 0" and "i \<noteq> j"
  shows "(\<exists>H1 H2 bs. hash_link (hash_read H) i d n1 H = Some (0, H1) \<and> hash_link (hash_read H) j e n2 H1 = Some (0, H2) \<and>
      represents H2 bs (if q = [] then [(j, e)] else q @ [(i, d), (j, e)]) \<and>
      (q = [] \<longrightarrow> hash_find i H2 = Some None)) \<and>
    (\<forall>x q'. q = x # q' \<longrightarrow> (\<exists>H'. hash_unlink (hash_read H) (fst x) H = Some H' \<and> hash_link (hash_read H) i d n1 H' = None))"
proof (cases q)
  case Nil
  then have z: "hash_read H = 0" using assms(1) by (cases as) (auto simp: represents_def hash_read_def)
  obtain H1 where H1: "hash_link 0 i d n1 H = Some (0, H1)" using link_null [OF assms(5)] by blast
  obtain H2 where H2: "hash_link 0 j e n2 H1 = Some (0, H2)" "represents H2 [n2] [(j, e)]" using link_null [OF assms(6)] by blast
  show ?thesis unfolding z using Nil H1 H2 find_represents [OF H2(2), of i] assms(7)
    by (auto intro!: exI [of _ H1] exI [of _ H2] exI [of _ "[n2]"])
next
  case (Cons x q')
  obtain H1 where H1: "hash_link (hash_read H) i d n1 H = Some (0, H1)" "represents H1 (as @ [n1]) (q @ [(i, d)])"
    using link_represents [OF assms(1,2,5)] by blast
  obtain a bs where a: "as = a # bs" using Cons assms(1) by (cases as) (auto simp: represents_def)
  have h: "hash_read H = a" "hash_read H1 = a"
    using chain_start [of "h_node H" "h_start H" as q] chain_start [of "h_node H1" "h_start H1" "as @ [n1]"] assms(1) H1(2) a
    by (auto simp: represents_def hash_read_def)
  have "n2 \<notin> set (as @ [n1])" using assms(3,4) by simp
  from link_represents [OF H1(2) this assms(6), of j e] obtain H2 where
    H2: "hash_link (hash_read H1) j e n2 H1 = Some (0, H2)" "represents H2 ((as @ [n1]) @ [n2]) ((q @ [(i, d)]) @ [(j, e)])" by blast
  obtain H' where H': "hash_unlink (hash_read H) (fst x) H = Some H'" "h_node H' a = None"
    using unlink_represents [OF assms(1), of "fst x"] Cons h(1) by (auto simp: hash_read_def)
  have "a \<noteq> 0" using assms(1) a Cons chain_nonzero by (force simp: represents_def)
  then have "hash_link (hash_read H) i d n1 H' = None"
    using H'(2) unfolding h by (simp add: hash_link_def hash_last.simps)
  with H1(1) H2 H' Cons show ?thesis unfolding h by auto
qed

definition demo_hash :: hash_memory where
  "demo_hash = \<lparr>h_start = 0, h_node = Map.empty\<rparr>"

theorem win32_overlapping_calls_witness:
  "\<exists>H1 H2. hash_link (hash_read demo_hash) 1 10 100 demo_hash = Some (0, H1) \<and>
     hash_link (hash_read demo_hash) 2 20 200 H1 = Some (0, H2) \<and> hash_find 1 H2 = Some None \<and> hash_find 2 H2 = Some (Some 20)"
proof -
  have "represents demo_hash [] []" by (simp add: represents_def demo_hash_def)
  from win32_overlapping_calls [OF this, of 100 200 1 2 10 20] obtain H1 H2 bs where
    "hash_link (hash_read demo_hash) 1 10 100 demo_hash = Some (0, H1)" "hash_link (hash_read demo_hash) 2 20 200 H1 = Some (0, H2)"
    "represents H2 bs [(2, 20)]" "hash_find 1 H2 = Some None" by auto
  with find_represents [OF this(3), of 2] show ?thesis by auto
qed

end
