(* ===== verification/Win32Properties.thy ===== *)
theory Win32Properties
  imports Win32Hash Example
begin

text \<open>
  Properties of the Windows client, alone and together with the Linux server.
\<close>

section \<open>Example state\<close>

definition demo_w32 :: w32 where
  "demo_w32 = \<lparr>w_status = 1, msg_id = 2, max_timeout = 0, w_session = 3, hash_start = [], slots = (\<lambda>_. NULL_ANSWER),
     live = [], w_apps = [], receiver = True, socke_open = True, w_rx = [], w_tx = [], w_send_rets = [], mallocs = [],
     galloc = [], gfreed = []\<rparr>"

lemma expecting_demo: "expecting (demo_w32\<lparr>w_rx := es\<rparr>)"
  by (simp add: expecting_def ready_client_def demo_w32_def)

section \<open>Client and server\<close>

lemma registered_apps_input [simp]: "registered_apps (input p sv) = registered_apps sv"
  by (simp add: input_def)

lemma w_packet_header:
  "request_header_at (put_bytes 0 (w_packet ty app ctrl s) b) = w_head ty 1 app ctrl (msg_id s + 1) s"
  "length (w_packet ty app ctrl s) = 37"
  by (simp_all add: w_packet_def request_header_at_encode)

lemma w_register_packet_header:
  "request_header_at (put_bytes 0 (w_register_packet ms c b l s) B) = w_head TYPE_CAPI_REGISTER 16 0 0 (msg_id s + 1) s"
  "length (w_register_packet ms c b l s) = 52"
  by (simp_all add: w_register_packet_def request_header_at_encode)

lemma session_step_request:
  assumes "wf_request p" and "stream es = p"
  shows "\<exists>es'. session_step L (sv\<lparr>rx := es\<rparr>) = dispatch L (input p (sv\<lparr>rx := es'\<rparr>))"
proof -
  let ?s = "sv\<lparr>rx := es\<rparr>"
  have len: "36 \<le> length p" "length p \<le> PACKET_SIZE" "36 < length p"
    and ml: "unat (rq_message_len (request_header_at (buffer_of p))) = length p"
    using assms(1) by (auto simp: wf_request_def)
  have "req (input (take 36 p) ?s) = request_header_at (buffer_of p)" using len(1) by (intro input_header) simp_all
  then have n: "unat (rq_message_len (req (input (take 36 p) ?s)) - 36) = length p - 36"
    using ml len(1) by (subst unat_sub) (simp_all add: word_le_nat_alt)
  have "\<exists>es'. stream es' = drop (length p) p \<and>
      session_step L ?s = dispatch L (input (take (length p) p) ?s\<lparr>rx := es'\<rparr>)"
    using session_step_stream(4) [of ?s L] n len assms(2) by simp
  then obtain es' where "session_step L ?s = dispatch L (input p ?s\<lparr>rx := es'\<rparr>)" by auto
  moreover have "input p ?s\<lparr>rx := es'\<rparr> = input p (sv\<lparr>rx := es'\<rparr>)" by (rule server.equality) (simp_all add: input_def)
  ultimately show ?thesis by auto
qed

text \<open>
  C14. A registration from an application on Windows to the CAPI library of the Linux server and back. Whatever segments the
  packet of the client arrives in, a round of the server's session receives it. If the client has the session id of this server, the
  library is called with the parameters of the application, and with the answer of the server the call returns the result of the
  library and the id it has assigned; on both sides the application is recorded exactly when the library has
  accepted it. If the client has another session id, the packet is dropped without an answer. (The client is in
  order, \<open>expecting\<close>, and receives the answer in one piece, as it must.)
\<close>

theorem win32_register_end_to_end:
  assumes "expecting s" and "capi20_register L c b l (get32 (out_packet sv) 24) (world sv) = (e, app, w)"
    and "stream es = w_register_packet ms c b l s"
  shows "\<exists>n sv'. session_step L (sv\<lparr>rx := es\<rparr>) = Some (Returned n, sv') \<and>
     (if w_session s = sessionID sv then
        world sv' = w \<and> registered_apps sv' = (if e = 0 then add_app app (registered_apps sv) else registered_apps sv) \<and>
        (\<exists>answer s'. tx sv' = tx sv @ [(answer, n)] \<and>
           CAPI_REGISTER ms c b l (s\<lparr>w_rx := [Data answer]\<rparr>) = Some (Ret e, Some app, s') \<and>
           w_tx s' = w_tx s @ [(w_register_packet ms c b l s, 52)] \<and>
           w_apps s' = w_apps s @ (if e = 0 then [\<lparr>ApplID = app, appl_data = 0\<rparr>] else []))
      else world sv' = world sv \<and> registered_apps sv' = registered_apps sv \<and> tx sv' = tx sv)"
proof -
  let ?p = "w_register_packet ms c b l s"
  have hd: "request_header_at (put_bytes 0 ?p B) = w_head TYPE_CAPI_REGISTER 16 0 0 (msg_id s + 1) s" for B
    by (rule w_register_packet_header)
  have len: "length ?p = 52" by (rule w_register_packet_header)
  have wf: "wf_request ?p"
    using hd len by (simp add: wf_request_def buffer_of_def w_head_def PACKET_SIZE_def)
  obtain es' where step: "session_step L (sv\<lparr>rx := es\<rparr>) = dispatch L (input ?p (sv\<lparr>rx := es'\<rparr>))"
    using session_step_request [OF wf assms(3)] by blast
  let ?S = "input ?p (sv\<lparr>rx := es'\<rparr>)"
  have fields: "rq_header_len (req ?S) = 36" "rq_message_id (req ?S) = msg_id s + 1"
      "rq_message_type (req ?S) = TYPE_CAPI_REGISTER" "rq_session_id (req ?S) = w_session s"
    by (simp_all add: hd w_head_def)
  have go: "session_step L (sv\<lparr>rx := es\<rparr>) =
      (if w_session s = sessionID sv then plain (exec_capi_register L ?S) else Some (Returned 1, ?S))"
    unfolding step dispatch_def Let_def fields by (simp add: proto_consts)
  show ?thesis
  proof (cases "w_session s = sessionID sv")
    case False
    with go show ?thesis by simp
  next
    case True
    have "get32 (put_bytes 0 ?p B) 40 = c" "get32 (put_bytes 0 ?p B) 44 = b" "get32 (put_bytes 0 ?p B) 48 = l" for B
      using len by (simp_all add: get32_put_bytes_in w_register_packet_def word_le_bytes_le)
    then have lib: "capi20_register L (get32 (in_packet ?S) (unat (rq_header_len (req ?S)) + 4))
        (get32 (in_packet ?S) (unat (rq_header_len (req ?S)) + 8)) (get32 (in_packet ?S) (unat (rq_header_len (req ?S)) + 12))
        (get32 (out_packet ?S) AH_app_id) (world ?S) = (e, app, w)"
      using assms(2) unfolding fields by simp
    have room: "unat (rq_header_len (req ?S)) + 16 \<le> PACKET_SIZE" unfolding fields by (simp add: PACKET_SIZE_def)
    let ?a = "\<lparr>an_message_len = 40, an_header_len = 40, an_body_len = 0, an_data_len = 0,
         an_message_id = rq_message_id (req ?S), an_message_type = TYPE_CAPI_REGISTER,
         an_app_id = app, an_session_id = sessionID ?S, an_proxy_error = 0, an_capi_error = e\<rparr>"
    from sent_effect [OF exec_capi_register_eq [OF room lib], where s = sv and w = w and
        A = "if e = 0 then add_app app (registered_apps sv) else registered_apps sv"]
    obtain n sv' where sv: "exec_capi_register L ?S = Some (n, sv')" "tx sv' = tx sv @ [(answer_packet ?a [], n)]"
        "world sv' = w" "registered_apps sv' = (if e = 0 then add_app app (registered_apps sv) else registered_apps sv)"
      by (cases "e = 0") auto
    have "expecting (s\<lparr>w_rx := [Data (answer_packet ?a [])]\<rparr>)"
      using assms(1) by (simp add: expecting_def ready_client_def)
    from CAPI_REGISTER_answered [OF this, of ?a "[]" "[]" ms c b l]
    obtain s' where "CAPI_REGISTER ms c b l (s\<lparr>w_rx := [Data (answer_packet ?a [])]\<rparr>) = Some (Ret e, Some app, s')"
        "w_tx s' = w_tx s @ [(?p, 52)]" "w_apps s' = w_apps s @ (if e = 0 then [\<lparr>ApplID = app, appl_data = 0\<rparr>] else [])"
      unfolding fields by (auto simp: plain_answer_def w_register_packet_def w_head_def)
    with go True sv show ?thesis by auto
  qed
qed

theorem win32_register_end_to_end_witness:
  "\<exists>n sv' answer s'. session_step demo_capi (demo_server\<lparr>rx := [Data (take 10 (w_register_packet 4096 2 7 2048 demo_w32)),
       Data (drop 10 (w_register_packet 4096 2 7 2048 demo_w32))]\<rparr>) = Some (Returned n, sv') \<and> tx sv' = [(answer, n)] \<and>
     CAPI_REGISTER 4096 2 7 2048 (demo_w32\<lparr>w_rx := [Data answer]\<rparr>) = Some (Ret 0, Some 1, s') \<and>
     w_apps s' = [\<lparr>ApplID = 1, appl_data = 0\<rparr>]"
proof -
  let ?es = "[Data (take 10 (w_register_packet 4096 2 7 2048 demo_w32)), Data (drop 10 (w_register_packet 4096 2 7 2048 demo_w32))]"
  have c: "capi20_register demo_capi 2 7 2048 (get32 (out_packet demo_server) 24) (world demo_server) = (0, 1, ())"
    by (simp add: demo_capi_def)
  have st: "stream ?es = w_register_packet 4096 2 7 2048 (demo_w32\<lparr>w_rx := []\<rparr>)"
  proof -
    have "demo_w32\<lparr>w_rx := []\<rparr> = demo_w32" by (simp add: demo_w32_def)
    moreover have "w_register_packet 4096 2 7 2048 demo_w32 \<noteq> []"
      using w_register_packet_header(2) [of 4096 2 7 2048 demo_w32] by force
    ultimately show ?thesis by simp
  qed
  have i: "w_session (demo_w32\<lparr>w_rx := []\<rparr>) = sessionID demo_server" by (simp add: demo_w32_def)
  from win32_register_end_to_end [OF expecting_demo [of "[]"] c st] i show ?thesis
    by (fastforce simp: demo_w32_def)
qed

text \<open>
  A release from an application on Windows to the CAPI library of the server and back;
  both sides drop the application exactly when the library has released it.
\<close>

theorem win32_release_end_to_end:
  assumes "expecting s" and "capi20_release L a (world sv) = (e, w)"
  shows "\<exists>pkt answer n sv' s'. wf_request pkt \<and>
     exec_capi_release L (input pkt sv) = Some (n, sv') \<and> tx sv' = tx sv @ [(answer, n)] \<and> world sv' = w \<and>
     CAPI_RELEASE a (s\<lparr>w_rx := [Data answer]\<rparr>) = Some (Ret e, (), s') \<and> w_tx s' = w_tx s @ [(pkt, int (length pkt))] \<and>
     registered_apps sv' = (if e = 0 then del_app a (registered_apps sv) else registered_apps sv) \<and>
     w_apps s' = (if e = 0 then snd (unlink_app a (w_apps s)) else w_apps s)"
proof -
  let ?p = "w_packet TYPE_CAPI_RELEASE a 0 s"
  note hd = w_packet_header [of TYPE_CAPI_RELEASE a 0 s]
  have wf: "wf_request ?p" using hd by (simp add: wf_request_def buffer_of_def w_head_def PACKET_SIZE_def)
  let ?a = "\<lparr>an_message_len = 40, an_header_len = 40, an_body_len = 0, an_data_len = 0,
       an_message_id = msg_id s + 1, an_message_type = TYPE_CAPI_RELEASE,
       an_app_id = a, an_session_id = sessionID sv, an_proxy_error = 0, an_capi_error = e\<rparr>"
  have "capi20_release L (rq_app_id (req (input ?p sv))) (world (input ?p sv)) = (e, w)"
    using assms(2) by (simp add: hd w_head_def)
  from exec_capi_release_eq [OF this] have "\<exists>p. exec_capi_release L (input ?p sv) = Some (sock_send (answer_packet ?a [])
      ((input ?p sv)\<lparr>world := w, registered_apps := (if e = 0 then del_app a (registered_apps sv) else registered_apps sv),
        out_packet := p\<rparr>))"
    by (cases "e = 0") (simp_all add: hd w_head_def)
  from sent_effect [OF this, of sv w "if e = 0 then del_app a (registered_apps sv) else registered_apps sv"]
  obtain n sv' where sv: "exec_capi_release L (input ?p sv) = Some (n, sv')" "tx sv' = tx sv @ [(answer_packet ?a [], n)]"
      "world sv' = w" "registered_apps sv' = (if e = 0 then del_app a (registered_apps sv) else registered_apps sv)"
    by auto
  have u: "w_apps (del_app_w32 a t) = snd (unlink_app a (w_apps t))" "w_tx (del_app_w32 a t) = w_tx t" for t
  proof -
    have "unlink_app a xs = (None, ys) \<Longrightarrow> ys = xs" for xs ys
      by (induction xs arbitrary: ys) (auto split: if_splits prod.splits)
    then show "w_apps (del_app_w32 a t) = snd (unlink_app a (w_apps t))"
      by (auto simp: del_app_w32_def GlobalFree_def Let_def split: prod.splits option.splits)
    show "w_tx (del_app_w32 a t) = w_tx t"
      by (auto simp: del_app_w32_def GlobalFree_def Let_def split: prod.splits option.splits)
  qed
  have "expecting (s\<lparr>w_rx := [Data (answer_packet ?a [])]\<rparr>)"
    using assms(1) by (simp add: expecting_def ready_client_def)
  from CAPI_RELEASE_answered [OF this, of ?a "[]" "[]" a]
  obtain s' where "CAPI_RELEASE a (s\<lparr>w_rx := [Data (answer_packet ?a [])]\<rparr>) = Some (Ret e, (), s')"
      "w_tx s' = w_tx s @ [(?p, 37)]" "w_apps s' = (if e = 0 then snd (unlink_app a (w_apps s)) else w_apps s)"
    by (auto simp: plain_answer_def u w_packet_def w_head_def)
  with wf sv hd(2) show ?thesis by (metis of_nat_numeral)
qed

theorem win32_release_end_to_end_witness:
  "\<exists>answer s'. CAPI_RELEASE 1 (demo_w32\<lparr>w_rx := [Data answer]\<rparr>) = Some (Ret 0, (), s')"
proof -
  have "capi20_release demo_capi 1 (world demo_server) = (0, ())" by (simp add: demo_capi_def)
  from win32_release_end_to_end [OF expecting_demo [of "[]"] this] show ?thesis by (auto simp: demo_w32_def)
qed

text \<open>
  C40. The client reports the error of the library on \<^verbatim>\<open>CAPI_GET_MESSAGE\<close> as \<^verbatim>\<open>0x1108\<close>: for an
  answer of the server that carries an error code and no data, such as \<^verbatim>\<open>0x1104\<close> for an
  empty queue, the call does not return this code.
\<close>

theorem win32_get_message_masks_error:
  assumes "expecting s" and "capi20_get_message L a (world sv) = (e, m, w)" and "e \<noteq> 0"
  shows "\<exists>pkt answer n sv' s'. wf_request pkt \<and>
     exec_capi_getmessage L (input pkt sv) = Some (n, sv') \<and> tx sv' = tx sv @ [(answer, n)] \<and>
     an_capi_error (answer_header_at (buffer_of answer)) = e \<and>
     CAPI_GET_MESSAGE a (s\<lparr>w_rx := [Data answer]\<rparr>) = Some (Ret 0x1108, None, s') \<and>
     w_tx s' = w_tx s @ [(pkt, int (length pkt))]"
proof -
  let ?p = "w_packet TYPE_CAPI_GETMESSAGE a 0 s"
  note hd = w_packet_header [of TYPE_CAPI_GETMESSAGE a 0 s]
  have wf: "wf_request ?p" using hd by (simp add: wf_request_def buffer_of_def w_head_def PACKET_SIZE_def)
  let ?a = "\<lparr>an_message_len = 40, an_header_len = 40, an_body_len = 0, an_data_len = 0,
       an_message_id = msg_id s + 1, an_message_type = TYPE_CAPI_GETMESSAGE,
       an_app_id = a, an_session_id = sessionID sv, an_proxy_error = 0, an_capi_error = e\<rparr>"
  let ?s = "s\<lparr>w_rx := [Data (answer_packet ?a [])]\<rparr>"
  have "capi20_get_message L (rq_app_id (req (input ?p sv))) (world (input ?p sv)) = (e, m, w)"
    using assms(2) by (simp add: hd w_head_def)
  from exec_capi_getmessage_error [OF this assms(3)]
  have "\<exists>p. exec_capi_getmessage L (input ?p sv) = Some (sock_send (answer_packet ?a []) ((input ?p sv)\<lparr>world := w, out_packet := p\<rparr>))"
    by (simp add: hd w_head_def)
  from sent_effect [OF this, of sv w "registered_apps sv"]
  obtain n sv' where sv: "exec_capi_getmessage L (input ?p sv) = Some (n, sv')" "tx sv' = tx sv @ [(answer_packet ?a [], n)]"
    by auto
  define s1 where "s1 = ?s\<lparr>msg_id := msg_id s + 1\<rparr>"
  let ?B = "w_request TYPE_CAPI_GETMESSAGE 1 a 0 (msg_id s + 1) s1"
  have pkt: "get_bytes ?B 0 37 = ?p"
    by (rule get_bytes_w_request) (simp add: s1_def)
  have ex: "expecting ?s" using assms(1) by (simp add: expecting_def ready_client_def)
  obtain f where f: "sendAndReceive (msg_id s + 1) ?B s1 = Some (Answer (buffer_of (answer_packet ?a [])),
     ?s\<lparr>msg_id := msg_id s + 1, slots := f, w_rx := [], w_tx := w_tx s @ [(?p, 37)]\<rparr>)"
    using sendAndReceive_plain [OF ex, of ?a "[]" "[]" ?B 37] pkt
    by (auto simp: MSG_BUFFER_def w_head_def w_request_header s1_def)
  have v: "verifyMessage (buffer_of (answer_packet ?a [])) TYPE_CAPI_GETMESSAGE"
    by (intro verify_answer) (auto simp: MSG_BUFFER_def bodysize_defs proto_consts)
  have ms: "mallocs s = []" using assms(1) by (simp add: expecting_def ready_client_def)
  have i: "msg_id ?s = msg_id s" "mallocs ?s = []" by (simp_all add: ms)
  have i1: "msg_id s1 = msg_id s + 1" by (simp add: s1_def)
  have "CAPI_GET_MESSAGE a ?s = Some (Ret 0x1108, None,
     ?s\<lparr>msg_id := msg_id s + 1, slots := f, w_rx := [], w_tx := w_tx s @ [(?p, 37)]\<rparr>)"
    unfolding CAPI_GET_MESSAGE_def wmalloc_def i list.case prod.case Let_def s1_def [symmetric] sizeof_empty_def i1
    by (simp add: f with_answer_def v answer_header_at_packet MSG_BUSY_def del: One_nat_def) (simp add: s1_def)
  with wf sv hd(2) show ?thesis
    by (intro exI [of _ ?p] exI [of _ "answer_packet ?a []"]) (simp add: answer_header_at_packet)
qed

theorem win32_get_message_masks_error_witness:
  "\<exists>answer s'. an_capi_error (answer_header_at (buffer_of answer)) = 0x1104 \<and>
     CAPI_GET_MESSAGE 1 (demo_w32\<lparr>w_rx := [Data answer]\<rparr>) = Some (Ret 0x1108, None, s')"
proof -
  let ?L = "demo_capi\<lparr>capi20_get_message := (\<lambda>a w. (0x1104, 0, w))\<rparr>"
  have "capi20_get_message ?L 1 (world demo_server) = (0x1104, 0, ())" "(0x1104 :: u32) \<noteq> 0" by simp_all
  from win32_get_message_masks_error [OF expecting_demo [of "[]"] this] show ?thesis by (auto simp: demo_w32_def)
qed

section \<open>Waiting calls\<close>

lemma fold_wait_for:
  "mallocs s = [] \<Longrightarrow> fold (\<lambda>(i, d). wait_for i d) calls s = s\<lparr>hash_start := hash_start s @ calls\<rparr>"
  by (induction calls arbitrary: s) (auto simp: wait_for_def addToHash_def wmalloc_def)

lemma remove_first_filter: "distinct (map fst q) \<Longrightarrow> remove_first i q = filter (\<lambda>p. fst p \<noteq> i) q"
proof (induction i q rule: remove_first.induct)
  case (2 i j d q)
  have "filter (\<lambda>p. fst p \<noteq> j) q = q" using 2(2) by (auto simp: filter_id_conv image_iff)
  with 2 show ?case by auto
qed simp

lemma collect_answers_leaves:
  "distinct (map fst (hash_start s)) \<Longrightarrow>
     snd (collect_answers js s) = s\<lparr>hash_start := filter (\<lambda>p. fst p \<notin> set js) (hash_start s)\<rparr>"
proof (induction js arbitrary: s)
  case (Cons i js)
  have r: "removeFromHash i s = s\<lparr>hash_start := filter (\<lambda>p. fst p \<noteq> i) (hash_start s)\<rparr>"
    using remove_first_filter [OF Cons.prems] by (simp add: removeFromHash_def)
  have "distinct (map fst (hash_start (removeFromHash i s)))" using Cons.prems by (simp add: r distinct_map_filter)
  from Cons.IH [OF this] have "snd (collect_answers js (removeFromHash i s)) =
      s\<lparr>hash_start := filter (\<lambda>p. fst p \<notin> set (i # js)) (hash_start s)\<rparr>"
    by (simp add: r filter_filter)
  then show ?case by (simp add: case_prod_beta)
qed simp

text \<open>
  C35. Several calls may wait at the same time, and the answers may come in any order. When the operations on the table do not
  overlap, each message id leads to the variable of the call that was entered under it, or to the null
  pointer when there is none; what is left in the table are the calls that have not been answered, in
  the order in which they were made.
\<close>

theorem win32_answers_find_their_calls:
  assumes "hash_start s = []" and "mallocs s = []" and "distinct (map fst calls)" and "distinct order"
  shows "collect_answers order (fold (\<lambda>(i, d). wait_for i d) calls s) =
     (map (map_of calls) order, s\<lparr>hash_start := filter (\<lambda>(i, d). i \<notin> set order) calls\<rparr>)"
proof -
  let ?s = "fold (\<lambda>(i, d). wait_for i d) calls s"
  have w: "?s = s\<lparr>hash_start := calls\<rparr>" using fold_wait_for [OF assms(2)] assms(1) by simp
  have ok: "table_ok s" and e: "(\<lambda>i. getDataPtrFromMsgId i s) = Map.empty"
    using assms(1,2) by (simp_all add: table_ok_def getDataPtrFromMsgId_def fun_eq_iff)
  have f: "table_ok ?s \<and> (\<lambda>i. getDataPtrFromMsgId i ?s) = map_of calls"
    using waiting.fold_ins [OF ok assms(3)] e by (auto simp: fun_eq_iff)
  then have "fst (collect_answers order ?s) = map (map_of calls) order"
    using waiting.collect_looks [OF _ assms(4), of ?s] unfolding collect_answers_table by simp
  moreover have "snd (collect_answers order ?s) = s\<lparr>hash_start := filter (\<lambda>(i, d). i \<notin> set order) calls\<rparr>"
    using collect_answers_leaves [of ?s order] assms(3) unfolding w by (simp add: case_prod_beta')
  ultimately show ?thesis by (simp add: prod_eq_iff)
qed

theorem win32_answers_find_their_calls_witness:
  "collect_answers [2, 5, 1] (fold (\<lambda>(i, d). wait_for i d) [(1, 10), (2, 20), (3, 30)] demo_w32) =
     ([Some 20, None, Some 10], demo_w32\<lparr>hash_start := [(3, 30)]\<rparr>)"
  using win32_answers_find_their_calls [of demo_w32 "[(1, 10), (2, 20), (3, 30)]" "[2, 5, 1]"] by (simp add: demo_w32_def)

text \<open>
  An answer is delivered to the call that waits for it and to no other, and its entry
  is removed from the table; an answer nobody waits for makes the client write through a null pointer.
\<close>

theorem win32_dispatch_delivers:
  assumes "distinct (map fst (hash_start s))" and "\<forall>(j, d) \<in> set (hash_start s). d \<in> set (live s)"
  shows "dispatchMessage msg s =
     (case getDataPtrFromMsgId (an_message_id (answer_header_at msg)) s of
        None \<Rightarrow> None
      | Some d \<Rightarrow> Some (s\<lparr>hash_start := filter (\<lambda>p. fst p \<noteq> an_message_id (answer_header_at msg)) (hash_start s),
                         slots := (slots s)(d := Answer msg)\<rparr>))"
proof -
  have f: "find_first i q = Some d \<Longrightarrow> (i, d) \<in> set q" for i d q
    by (induction i q rule: find_first.induct) (auto split: if_splits)
  show ?thesis using assms
    by (auto simp: dispatchMessage_def removeFromHash_def getDataPtrFromMsgId_def Let_def remove_first_filter split: option.splits dest: f)
qed

theorem win32_dispatch_delivers_witness:
  "dispatchMessage zeroes (demo_w32\<lparr>hash_start := [(0, 5), (1, 6)], live := [5, 6]\<rparr>) =
     Some (demo_w32\<lparr>hash_start := [(1, 6)], live := [5, 6], slots := (slots demo_w32)(5 := Answer zeroes)\<rparr>)"
proof -
  have "an_message_id (answer_header_at zeroes) = 0"
    by (simp add: answer_header_at_def get32_def get_bytes_def zeroes_def word_le_def upt_rec)
  then show ?thesis
    using win32_dispatch_delivers [of "demo_w32\<lparr>hash_start := [(0, 5), (1, 6)], live := [5, 6]\<rparr>" zeroes]
    by (simp add: getDataPtrFromMsgId_def)
qed

text \<open>
  The announcement of a shutdown, which the Linux server sends without having been asked,
  brings the Windows client down: its message id is 0 and nobody waits for it.
\<close>

theorem win32_shutdown_announcement_crashes:
  assumes "length excuse < 128" and "exec_proxy_shutdown excuse sv = Some (n, sv')" and "tx sv = []"
    and "mallocs s = []" and "0 \<notin> fst ` set (hash_start s)" and "w_rx s = [Data (fst (hd (tx sv')))]"
  shows "messageDispatcher_round s = None"
proof -
  let ?h = "\<lparr>an_message_len = 168, an_header_len = 40, an_body_len = 128, an_data_len = 0,
       an_message_id = 0, an_message_type = TYPE_PROXY_SHUTDOWN,
       an_app_id = 0, an_session_id = sessionID sv, an_proxy_error = 0, an_capi_error = 0\<rparr> :: answer_header"
  let ?b = "excuse @ [0] @ get_bytes (out_packet sv) (41 + length excuse) (127 - length excuse)"
  from sent_effect [OF exec_proxy_shutdown_eq [OF assms(1), of sv], of sv "world sv" "registered_apps sv"] assms(2,3)
  have "fst (hd (tx sv')) = answer_packet ?h ?b" by auto
  moreover have "length (answer_packet ?h ?b) = 168" using assms(1) by simp
  ultimately have r: "wrecv zeroes s = (168, buffer_of (answer_packet ?h ?b), s\<lparr>w_rx := []\<rparr>)"
    using assms(6) by (simp add: wrecv_def MSG_BUFFER_def buffer_of_def zeroes_def)
  have "dispatchMessage (buffer_of (answer_packet ?h ?b)) (s\<lparr>w_rx := []\<rparr>) = None"
    using find_first_ids [THEN iffD2, OF assms(5)]
    by (simp add: dispatchMessage_def answer_header_at_packet getDataPtrFromMsgId_def Let_def)
  with r assms(4) show ?thesis
    by (simp add: messageDispatcher_round_def wmalloc_def sizeof_ANSWER_HEADER_def)
qed

theorem win32_shutdown_announcement_crashes_witness:
  "\<exists>n sv'. exec_proxy_shutdown [66, 121, 101] demo_server = Some (n, sv') \<and>
     messageDispatcher_round (demo_w32\<lparr>w_rx := [Data (fst (hd (tx sv')))]\<rparr>) = None"
proof -
  have "exec_proxy_shutdown [66, 121, 101] demo_server \<noteq> None"
    using exec_proxy_shutdown_eq [of "[66, 121, 101]" demo_server] by auto
  then obtain n sv' where e: "exec_proxy_shutdown [66, 121, 101] demo_server = Some (n, sv')"
    by (cases "exec_proxy_shutdown [66, 121, 101] demo_server") auto
  have "messageDispatcher_round (demo_w32\<lparr>w_rx := [Data (fst (hd (tx sv')))]\<rparr>) = None"
    by (rule win32_shutdown_announcement_crashes [OF _ e]) (simp_all add: demo_w32_def)
  with e show ?thesis by blast
qed

text \<open>
  The buffer of the last message belongs to its application: after \<^verbatim>\<open>setdata_app\<close> it is what
  \<^verbatim>\<open>getdata_app\<close> finds, the entries of the others are unchanged, and the buffer it replaces is freed;
  for an unknown application the new buffer itself is freed.
\<close>

theorem win32_setdata_getdata:
  "(a \<in> ApplID ` set (w_apps s) \<longrightarrow> getdata_app a (setdata_app a p s) = p \<and>
     (\<forall>b. b \<noteq> a \<longrightarrow> getdata_app b (setdata_app a p s) = getdata_app b s) \<and>
     gfreed (setdata_app a p s) = gfreed s @ (if getdata_app a s = 0 then [] else [getdata_app a s])) \<and>
   (a \<notin> ApplID ` set (w_apps s) \<longrightarrow> setdata_app a p s = s\<lparr>gfreed := gfreed s @ [p]\<rparr>)"
proof (cases "a \<in> ApplID ` set (w_apps s)")
  case True
  then obtain ys where r: "replace_data a p (w_apps s) = (Some (find_app a (w_apps s)), ys)"
    using replace_data_Some by blast
  from replace_data_find [OF r] r True show ?thesis
    by (simp add: setdata_app_def getdata_app_def GlobalFree_def)
qed (simp add: setdata_app_def replace_data_None GlobalFree_def)

theorem win32_setdata_getdata_witness:
  "getdata_app 1 (setdata_app 1 4096 (demo_w32\<lparr>w_apps := [\<lparr>ApplID = 1, appl_data = 0\<rparr>]\<rparr>)) = 4096"
  using win32_setdata_getdata [of 1 "demo_w32\<lparr>w_apps := [\<lparr>ApplID = 1, appl_data = 0\<rparr>]\<rparr>" 4096] by simp

end
