(* ===== verification/Win32ServerProperties.thy ===== *)
theory Win32ServerProperties
  imports Win32Requests Win32Service Win32Properties Daemon
begin

text \<open>
  Properties of the Windows server, alone and together with the two clients.
\<close>

section \<open>An example\<close>

definition demo_lib :: "unit capi2032" where
  "demo_lib = \<lparr>lib_register = (\<lambda>m c k l a w. (0, 1, w)), lib_release = (\<lambda>a w. (0, w)),
     lib_put_message = (\<lambda>a p m w. (0, w)), lib_get_message = (\<lambda>a w. (0x1104, 0, w)), lib_memory = (\<lambda>w a. 0),
     lib_wait_for_signal = (\<lambda>a w. (0, w)), lib_manufacturer = (\<lambda>w. (0, replicate 64 1, w)),
     lib_version = (\<lambda>w. (0, (2, 0, 1, 0), w)), lib_serial = (\<lambda>w. (0, replicate 8 3, w)),
     lib_profile = (\<lambda>c w. (0, replicate 64 4, w)), lib_installed = (\<lambda>w. (0, w))\<rparr>"

definition demo_registry :: win_registry where
  "demo_registry = \<lparr>hosts_allow = Some [([10], [255, 0])], hosts_deny = Some [([10, 9], [255, 0])], users = None,
     more_data = (\<lambda>l. l), inet_addr = (\<lambda>bs. word_le bs)\<rparr>"

definition demo_wses :: "unit wses" where
  "demo_wses = \<lparr>ws_client = \<lparr>cd_socket = 5, cd_auth_type = AUTH_NO_AUTH, cd_auth_data = 0, cd_name = replicate 64 0,
       cd_version = \<lparr>major = 0, minor = 0\<rparr>, cd_keepalive = NO_TIMEOUT, cd_session = 0x10000, cd_os = 0, cd_apps = (\<lambda>_. 0)\<rparr>,
     ws_request = (\<lambda>_. 0), ws_addr = 4096, ws_base = 0x10000, ws_sess = 0, ws_auth_types = AUTH_BY_IP, ws_auth_required = 1,
     ws_registry = demo_registry, ws_sockname = Some 10, ws_rx = [], ws_tx = [], ws_send_rets = [], ws_allocs = [],
     ws_threads = [], ws_waiters = [], ws_frames = (\<lambda>_ _. 0), ws_calls = 0, ws_world = ()\<rparr>"

lemma demo_wses_simps [simp]:
  "ws_base demo_wses = 0x10000" "ws_sess demo_wses = 0" "ws_tx demo_wses = []" "ws_waiters demo_wses = []" "ws_rx demo_wses = []"
  "ws_world demo_wses = ()" "ws_allocs demo_wses = []" "cd_session (ws_client demo_wses) = 0x10000"
  "ws_auth_types demo_wses = AUTH_BY_IP" "ws_sockname demo_wses = Some 10" "ws_registry demo_wses = demo_registry"
  by (simp_all add: demo_wses_def)

lemma demo_lib_documented [simp]: "capi2032_documented demo_lib"
  by (simp add: capi2032_documented_def demo_lib_def)

section \<open>Requests as packets\<close>

text \<open>The session after a packet has been received.\<close>

definition got :: "byte list \<Rightarrow> 'w wses \<Rightarrow> 'w wses" where
  "got p s = s\<lparr>ws_rx := [], ws_request := put_bytes 0 p (ws_request s)\<rparr>"

lemma got_simps [simp]:
  "ws_request (got p s) = put_bytes 0 p (ws_request s)" "ws_base (got p s) = ws_base s" "ws_sess (got p s) = ws_sess s"
  "ws_client (got p s) = ws_client s" "ws_tx (got p s) = ws_tx s" "ws_world (got p s) = ws_world s" "ws_waiters (got p s) = ws_waiters s"
  "ws_allocs (got p s) = ws_allocs s" "ws_frames (got p s) = ws_frames s" "ws_calls (got p s) = ws_calls s"
  "ws_auth_types (got p s) = ws_auth_types s"
  by (simp_all add: got_def)

lemma receive_packet:
  "p \<noteq> [] \<Longrightarrow> length p \<le> MSG_SIZE \<Longrightarrow> receive (s\<lparr>ws_rx := [Data p]\<rparr>) = (int (length p), got p s)"
  by (simp add: receive_def got_def)

lemma session_round_packet:
  assumes "p \<noteq> []" and "length p \<le> MSG_SIZE"
  shows "session_round L (s\<lparr>ws_rx := [Data p]\<rparr>) =
     (if verifyRequest (put_bytes 0 p (ws_request s)) then map_option (\<lambda>s'. (True, int (length p), s')) (dispatch_w32s L (got p s))
      else Some (True, int (length p), got p s))"
  using assms by (simp add: session_round_def receive_packet [OF assms])

text \<open>The requests of the Windows client pass the check of the server.\<close>

lemma w_packet_ok:
  assumes "ty \<in> set capi_types - {TYPE_CAPI_REGISTER}" and "w_session c = ws_base s + ws_sess s"
  shows "verifyRequest (put_bytes 0 (w_packet ty app ctrl c) b)" "sound_lengths (got (w_packet ty app ctrl c) s)"
    "own_session (got (w_packet ty app ctrl c) s)" "rq_message_type (rq (got (w_packet ty app ctrl c) s)) = ty"
    "rq_message_id (rq (got (w_packet ty app ctrl c) s)) = msg_id c + 1" "rq_app_id (rq (got (w_packet ty app ctrl c) s)) = app"
proof -
  have "rbodysize_w32s ty = 1"
    using assms(1) by (auto simp: capi_types_def rbodysize_w32s_def proto_consts sizeof_empty_def)
  then show "verifyRequest (put_bytes 0 (w_packet ty app ctrl c) b)"
    by (simp add: verifyRequest_def w_packet_header w_head_def Let_def sizeof_defs MSG_SIZE_def)
qed (use assms(2) in \<open>simp_all add: sound_lengths_def own_session_def w_packet_header w_head_def\<close>)

text \<open>A waiting client of the example session, whose session id it has got from HELO.\<close>

definition demo_peer :: w32 where
  "demo_peer = demo_w32\<lparr>w_session := 0x10000\<rparr>"

lemma demo_peer_simps [simp]: "w_session demo_peer = 0x10000" "msg_id demo_peer = 2"
  by (simp_all add: demo_peer_def demo_w32_def)

lemma demo_wait_round:
  shows "session_round demo_lib (demo_wses\<lparr>ws_rx := [Data (w_packet TYPE_CAPI_WAITFORSIGNAL 1 0 demo_peer)]\<rparr>) =
     Some (True, 37, (got (w_packet TYPE_CAPI_WAITFORSIGNAL 1 0 demo_peer) demo_wses)\<lparr>ws_allocs := [], ws_threads := [],
       ws_waiters := [\<lparr>wd_socket = 5, wd_ApplID = 1, wd_message_id = 3, wd_session_id = 0x10000\<rparr>]\<rparr>)" (is ?r)
  and "round_ids (demo_wses\<lparr>ws_rx := [Data (w_packet TYPE_CAPI_WAITFORSIGNAL 1 0 demo_peer)]\<rparr>) = [3]" (is ?i)
proof -
  let ?p = "w_packet TYPE_CAPI_WAITFORSIGNAL 1 0 demo_peer"
  have p: "?p \<noteq> []" "length ?p = 37" "length ?p \<le> MSG_SIZE"
    using w_packet_header(2) [of TYPE_CAPI_WAITFORSIGNAL 1 0 demo_peer] by (auto simp: MSG_SIZE_def)
  have "TYPE_CAPI_WAITFORSIGNAL \<in> set capi_types - {TYPE_CAPI_REGISTER}" by (simp add: capi_types_def proto_consts)
  note ok = w_packet_ok [OF this, of demo_peer demo_wses 1 0, simplified]
  have d: "dispatch_w32s demo_lib (got ?p demo_wses) = map_option snd (exec_capi_waitforsignal_w32s demo_lib (got ?p demo_wses))"
    using ok by (simp add: dispatch_w32s_def Let_def verifySessionId_def own_session_def proto_consts)
  show ?r
    unfolding session_round_packet [OF p(1,3)] d
    using p ok by (simp add: exec_capi_waitforsignal_w32s_def) (simp add: demo_wses_def got_def)
  show ?i
    unfolding round_ids_def receive_packet [OF p(1,3)]
    using p ok by (simp add: owed_def) (simp add: capi_types_def)
qed

section \<open>Sessions\<close>

text \<open>
  C5. Exactly one answer, whatever the interleaving: of the requests a session has served, those that ask for an
  answer have been answered once each or are waiting for a thread of their own, and when these threads get
  their turn every request has exactly one answer.
\<close>

theorem w32s_requests_answered_once:
  assumes "session_run L is s t"
  shows "answered_ids t + pending_ids t = mset is + (answered_ids s + pending_ids s) \<and>
     (\<exists>t'. session_run L is s t' \<and> ws_waiters t' = [] \<and> answered_ids t' = mset is + (answered_ids s + pending_ids s))"
proof -
  obtain t' where t': "session_run L is s t'" "ws_waiters t' = []" using session_run_drains [OF assms] by blast
  with session_run_accounts [OF t'(1)] have "answered_ids t' = mset is + (answered_ids s + pending_ids s)"
    by (simp add: pending_ids_def)
  with t' session_run_accounts [OF assms] show ?thesis by blast
qed

theorem w32s_requests_answered_once_witness:
  "\<exists>s t'. session_run demo_lib [3] s t' \<and> answered_ids t' = {#3#}"
proof -
  let ?s = "demo_wses\<lparr>ws_rx := [Data (w_packet TYPE_CAPI_WAITFORSIGNAL 1 0 demo_peer)]\<rparr>"
  obtain t where "session_run demo_lib [3] ?s t"
    using session_run.round [OF session_run.start demo_wait_round(1)] by (auto simp: demo_wait_round(2))
  from w32s_requests_answered_once [OF this] show ?thesis by (auto simp: answered_ids_def pending_ids_def)
qed

text \<open>
  C6. A session that comes to its end never ends: \<^verbatim>\<open>getfirst_app\<close> finds the application 1 or does not
  return, so the loop that releases the applications runs forever, and the socket is neither closed nor
  its place in the table freed.
\<close>

theorem w32s_session_never_returns:
  "getfirst_app_w32s l = (if l 1 = 1 then Some (1, l(1 := 0)) else None) \<and>
   StartSession L socket s = (if session_loop L (start_client s socket) = None then None else Some None)"
proof (intro conjI)
  show "getfirst_app_w32s l = (if l 1 = 1 then Some (1, l(1 := 0)) else None)" by (rule getfirst_app_w32s_eq)
  show "StartSession L socket s = (if session_loop L (start_client s socket) = None then None else Some None)"
  proof (cases "session_loop L (start_client s socket)")
    case (Some r)
    obtain err t where r: "r = (err, t)" by (cases r)
    obtain n t' where "exec_proxy_shutdown_w32s (farewell err) t = Some (n, t')" using farewell_total by blast
    with Some r show ?thesis by (simp add: StartSession_def release_all_w32s_None)
  qed (simp add: StartSession_def)
qed

text \<open>
  C7. Places in the table of sessions are given out in order and never freed: after any run of the
  server the table holds the first 127 connections it has accepted, no session thread has come to its end,
  and when the table is full the next connection is put on the place of the first one and lost.
\<close>

theorem w32s_slots_never_freed:
  assumes "wsys_reachable L base w g"
  shows "sy_sockets g = slots_of (sy_accepted g) \<and> (\<forall>t \<in> set (sy_threads g). th_phase t \<noteq> Gone) \<and>
     (MAX_SESSIONS \<le> length (sy_accepted g) \<longrightarrow> (\<forall>c. allocSession c (sy_sockets g) = (0, sy_sockets g)))"
  using wsys_reachable_ok [OF assms] by (auto simp: wsys_ok_def thread_ok_def allocSession_slots)

lemma demo_reachable:
  "\<exists>g. wsys_reachable demo_lib 0x10000 () g \<and> sy_accepted g = [7, 8] \<and> length (sy_threads g) = 2 \<and> sy_accept g = Looping"
proof -
  let ?g = "\<lparr>sy_run = 1, sy_pause = 0, sy_accept = Looping, sy_base = 0x10000, sy_sockets = initial_sockets, sy_world = (), sy_threads = [], sy_accepted = []\<rparr>"
  let ?g1 = "accept_connection 7 True demo_wses ?g"
  have n: "length (cd_name (ws_client demo_wses)) = 64" by (simp add: demo_wses_def)
  have one: "sy_run (accept_connection c True demo_wses g) = sy_run g \<and> sy_pause (accept_connection c True demo_wses g) = sy_pause g \<and>
      sy_accept (accept_connection c True demo_wses g) = sy_accept g \<and> sy_accepted (accept_connection c True demo_wses g) = sy_accepted g @ [c] \<and>
      length (sy_threads (accept_connection c True demo_wses g)) = Suc (length (sy_threads g))" for c and g :: "unit wsys"
    by (simp add: accept_connection_def Let_def split: prod.splits)
  have go: "wsys_reachable demo_lib 0x10000 () (accept_connection c True demo_wses g)"
    if "wsys_reachable demo_lib 0x10000 () g" "sy_accept g = Looping" "sy_pause g \<noteq> 1" for c and g :: "unit wsys"
    using round_polled(2) [OF that n, where r = "sy_run g" and c = c and ok = True] by simp
  have "wsys_reachable demo_lib 0x10000 () (accept_connection 8 True demo_wses ?g1)"
    by (intro go wsys_reachable.initial) (simp_all add: one)
  then show ?thesis using one [of 7 ?g] one [of 8 ?g1] by auto
qed

theorem w32s_slots_never_freed_witness:
  "\<exists>g. wsys_reachable demo_lib 0x10000 () g \<and> sy_sockets g = slots_of [7, 8]"
proof -
  obtain g where g: "wsys_reachable demo_lib 0x10000 () g" "sy_accepted g = [7, 8]" using demo_reachable by blast
  from w32s_slots_never_freed [OF g(1)] g show ?thesis by auto
qed

text \<open>
  C12. As long as the server has accepted at most 127 connections, its sessions have pairwise distinct ids
  and each works on its own connection.
\<close>

theorem w32s_session_ids:
  assumes "wsys_reachable L base w g" and "length (sy_accepted g) \<le> MAX_SESSIONS"
  shows "distinct (map (\<lambda>t. cd_session (ws_client (th_state t))) (sy_threads g)) \<and>
     (\<forall>t \<in> set (sy_threads g). cd_session (ws_client (th_state t)) = base + of_nat (th_sess t) \<and>
        cd_socket (ws_client (th_state t)) = sy_accepted g ! th_sess t)"
proof -
  from wsys_reachable_ok [OF assms(1)] have ok: "wsys_ok base g" .
  have t: "cd_session (ws_client (th_state t)) = base + of_nat (th_sess t)" "th_sess t < MAX_SESSIONS"
    "cd_socket (ws_client (th_state t)) = sy_accepted g ! th_sess t" if "t \<in> set (sy_threads g)" for t
    using ok that by (auto simp: wsys_ok_def thread_ok_def wt_session_def)
  have "map (\<lambda>t. cd_session (ws_client (th_state t))) (sy_threads g) = map (\<lambda>n. base + of_nat n) (map th_sess (sy_threads g))"
    using t(1) by simp
  moreover have "distinct (map (\<lambda>n. base + of_nat n :: u32) (map th_sess (sy_threads g)))"
  proof (subst distinct_map, intro conjI)
    show "distinct (map th_sess (sy_threads g))" using ok assms(2) by (simp add: wsys_ok_def)
    have inj: "i < 127 \<Longrightarrow> j < 127 \<Longrightarrow> (of_nat i :: u32) = of_nat j \<Longrightarrow> i = j" for i j
      by (simp add: of_nat_u32_inj)
    show "inj_on (\<lambda>n. base + of_nat n :: u32) (set (map th_sess (sy_threads g)))"
      using t(2) by (auto simp: inj_on_def MAX_SESSIONS_def intro: inj)
  qed
  ultimately have "distinct (map (\<lambda>t. cd_session (ws_client (th_state t))) (sy_threads g))" by (simp only:)
  then show ?thesis using t(1,3) by blast
qed

theorem w32s_session_ids_witness:
  "\<exists>g. wsys_reachable demo_lib 0x10000 () g \<and> length (sy_threads g) = 2 \<and>
     distinct (map (\<lambda>t. cd_session (ws_client (th_state t))) (sy_threads g))"
proof -
  obtain g where g: "wsys_reachable demo_lib 0x10000 () g" "sy_accepted g = [7, 8]" "length (sy_threads g) = 2"
    using demo_reachable by blast
  have "length (sy_accepted g) \<le> MAX_SESSIONS" by (simp add: g MAX_SESSIONS_def)
  from w32s_session_ids [OF g(1) this] g show ?thesis by blast
qed

text \<open>
  C13. Every session of a running server is well typed: the flags of its table of applications are 0 or 1, an
  authentication that counts as successful is of a type the server offers, its id is the one given at
  the start, and its waiter threads answer on its own socket.
\<close>

theorem w32s_session_typed:
  assumes "wsys_reachable L base w g" and "t \<in> set (sy_threads g)"
  shows "wt_session (th_state t)"
  using wsys_reachable_ok [OF assms(1)] assms(2) by (auto simp: wsys_ok_def thread_ok_def)

theorem w32s_session_typed_witness:
  "\<exists>g t. wsys_reachable demo_lib 0x10000 () g \<and> t \<in> set (sy_threads g) \<and> wt_session (th_state t)"
proof -
  obtain g where g: "wsys_reachable demo_lib 0x10000 () g" "length (sy_threads g) = 2" using demo_reachable by blast
  then have "sy_threads g ! 0 \<in> set (sy_threads g)" by simp
  with w32s_session_typed [OF g(1) this] g(1) show ?thesis by blast
qed

text \<open>
  The rounds of the accept loop that come to their end with the loop going on, and the connections it takes in them: \<^verbatim>\<open>run\<close> was
  1 at the test, \<^verbatim>\<open>pause\<close> was not 1 after \<^verbatim>\<open>Sleep\<close>.
\<close>

definition live_rounds :: "(int \<times> int \<times> int \<times> 'w poll) list \<Rightarrow> (int \<times> int \<times> int \<times> 'w poll) list" where
  "live_rounds rounds = takeWhile (\<lambda>(run, run', pause, ev). run = 1 \<and>
     (pause = 1 \<or> (case ev of Select_error \<Rightarrow> False | _ \<Rightarrow> True))) rounds"

definition connections :: "(int \<times> int \<times> int \<times> 'w poll) list \<Rightarrow> nat list" where
  "connections rounds = concat (map (\<lambda>(run, run', pause, ev).
     case ev of Connection c _ _ \<Rightarrow> if pause = 1 then [] else [c] | _ \<Rightarrow> []) (live_rounds rounds))"

lemma accepted_connection: "sy_accepted (accept_connection c ok m g) = sy_accepted g @ [c]"
  by (simp add: accept_connection_def Let_def split: prod.splits)

lemma service_loop_accepts:
  "sy_accepted (snd (service_loop rounds g)) = sy_accepted g @ connections rounds \<and>
   fst (service_loop rounds g) = (live_rounds rounds \<noteq> rounds)"
  by (induction rounds g rule: service_loop.induct)
    (auto simp: connections_def live_rounds_def Let_def accepted_connection split: poll.split)

lemma service_loop_reachable:
  assumes "wsys_reachable L base w g" and "sy_accept g = Looping"
    and "\<forall>(r, r', p, ev) \<in> set rounds. \<forall>c ok m. ev = Connection c ok m \<longrightarrow> length (cd_name (ws_client m)) = 64"
  shows "wsys_reachable L base w (snd (service_loop rounds g))"
  using assms
proof (induction rounds g rule: service_loop.induct)
  case (2 run run' pause ev rs g)
  let ?g = "g\<lparr>sy_run := run', sy_pause := pause\<rparr>"
  have names: "\<forall>(r, r', p, ev) \<in> set rs. \<forall>c ok m. ev = Connection c ok m \<longrightarrow> length (cd_name (ws_client m)) = 64"
    using 2(7) by simp
  have ctl: "wsys_reachable L base w ?g" by (rule controlled_reachable [OF 2(5)])
  show ?case
  proof (cases "run = 1")
    case False
    then show ?thesis using round_left [OF 2(5,6), of run] by simp
  next
    case run: True
    show ?thesis
    proof (cases "pause = 1")
      case True
      then show ?thesis using 2(1) [OF _ refl] run ctl 2(6) names by simp
    next
      case pause: False
      show ?thesis
      proof (cases ev)
        case (Connection c ok m)
        have m: "length (cd_name (ws_client m)) = 64" using 2(7) Connection by simp
        show ?thesis
          using 2(4) [OF _ refl pause Connection] round_polled(2) [OF 2(5,6) pause m] run pause Connection 2(6) names
          by (simp add: accept_connection_phase)
      qed (use run pause 2(2,3) [OF _ refl pause] round_polled(1) [OF 2(5,6) pause] ctl 2(6) names in simp_all)
    qed
  qed
qed simp

text \<open>
  C11. The accept loop makes only steps of the system: from a reachable state it leads to a reachable
  state, whatever it finds in its rounds. It accepts exactly the connections it meets in rounds in which \<^verbatim>\<open>run\<close> was 1 at the
  test of the loop and \<^verbatim>\<open>pause\<close> was not 1 after the \<^verbatim>\<open>Sleep\<close> that follows (\<^verbatim>\<open>run\<close> may have been cleared in the
  meantime), in order, and ends at the first round in which \<^verbatim>\<open>run\<close> was not 1 at the test or \<^verbatim>\<open>select\<close> fails.
  (\<open>m\<close> is what the stack of the new thread holds; the array \<^verbatim>\<open>name\<close> in it has 64 octets.)
\<close>

theorem w32s_accept_loop_reachable:
  assumes "wsys_reachable L base w g" and "sy_accept g = Looping"
    and "\<forall>(r, r', p, ev) \<in> set rounds. \<forall>c ok m. ev = Connection c ok m \<longrightarrow> length (cd_name (ws_client m)) = 64"
  shows "wsys_reachable L base w (snd (service_loop rounds g)) \<and>
     sy_accepted (snd (service_loop rounds g)) = sy_accepted g @ connections rounds \<and>
     fst (service_loop rounds g) = (live_rounds rounds \<noteq> rounds)"
  using service_loop_reachable [OF assms] service_loop_accepts [of rounds g] by blast

text \<open>A server that is stopped while its accept loop sleeps takes one more connection.\<close>

theorem w32s_accept_loop_reachable_witness:
  "\<exists>g. let g' = snd (service_loop [(1, 1, 0, Nothing_there), (1, 0, 0, Connection 9 True demo_wses), (0, 0, 0, Nothing_there)] g) in
     wsys_reachable demo_lib 0x10000 () g \<and> wsys_reachable demo_lib 0x10000 () g' \<and>
     sy_accepted g = [7, 8] \<and> sy_accepted g' = [7, 8, 9]"
proof -
  let ?rounds = "[(1, 1, 0, Nothing_there), (1, 0, 0, Connection 9 True demo_wses), (0, 0, 0, Nothing_there)]"
  obtain g where g: "wsys_reachable demo_lib 0x10000 () g" "sy_accept g = Looping" "sy_accepted g = [7, 8]"
    using demo_reachable by blast
  have "\<forall>(r, r', p, ev) \<in> set ?rounds. \<forall>c ok m. ev = Connection c ok m \<longrightarrow> length (cd_name (ws_client m)) = 64"
    by (simp add: demo_wses_def)
  from w32s_accept_loop_reachable [OF g(1,2) this] g show ?thesis
    by (intro exI [of _ g]) (simp add: connections_def live_rounds_def)
qed

section \<open>Requests\<close>

text \<open>
  C8. A request to the CAPI of the own session whose lengths pass the check and add up without wrapping around. It is
  served inside the buffers of the server (the session goes on, and the request is answered once or waits for its
  thread) exactly unless \<open>request_fault\<close>: REGISTER gets, or RELEASE gives back, an id above 128, which the
  server stores behind its table; GETMESSAGE gets a message that does not fit behind the header of the answer; or there is no
  memory for the data of the waiter thread. In these cases, and no others, it makes an invalid access.
\<close>

theorem w32s_wellformed_request_served:
  assumes "capi2032_documented L" and "verifyRequest (ws_request s)" and "sound_lengths s"
    and "rq_message_type (rq s) \<in> set capi_types" and "own_session s"
  shows "if request_fault L s then dispatch_w32s L s = None
     else \<exists>s'. dispatch_w32s L s = Some s' \<and> same_session s s' \<and>
       answered_ids s' + pending_ids s' = add_mset (rq_message_id (rq s)) (answered_ids s + pending_ids s)"
proof (cases "dispatch_w32s L s")
  case None
  then show ?thesis using dispatch_w32s_fault [OF assms] by simp
next
  case (Some s')
  have "owed s = [rq_message_id (rq s)]" using assms(4,5) by (simp add: owed_def)
  with Some dispatch_w32s_accounts [OF Some] dispatch_w32s_fault [OF assms] show ?thesis by auto
qed

lemma demo_release_ok:
  shows "verifyRequest (put_bytes 0 (w_packet TYPE_CAPI_RELEASE 1 0 demo_peer) b)"
    "sound_lengths (got (w_packet TYPE_CAPI_RELEASE 1 0 demo_peer) demo_wses)"
    "own_session (got (w_packet TYPE_CAPI_RELEASE 1 0 demo_peer) demo_wses)"
    "rq_message_type (rq (got (w_packet TYPE_CAPI_RELEASE 1 0 demo_peer) demo_wses)) = TYPE_CAPI_RELEASE"
    "rq_message_id (rq (got (w_packet TYPE_CAPI_RELEASE 1 0 demo_peer) demo_wses)) = 3"
    "rq_app_id (rq (got (w_packet TYPE_CAPI_RELEASE 1 0 demo_peer) demo_wses)) = 1"
proof -
  have "TYPE_CAPI_RELEASE \<in> set capi_types - {TYPE_CAPI_REGISTER}" by (simp add: capi_types_def proto_consts)
  note w_packet_ok [OF this, of demo_peer demo_wses 1 0]
  then show "verifyRequest (put_bytes 0 (w_packet TYPE_CAPI_RELEASE 1 0 demo_peer) b)"
    "sound_lengths (got (w_packet TYPE_CAPI_RELEASE 1 0 demo_peer) demo_wses)"
    "own_session (got (w_packet TYPE_CAPI_RELEASE 1 0 demo_peer) demo_wses)"
    "rq_message_type (rq (got (w_packet TYPE_CAPI_RELEASE 1 0 demo_peer) demo_wses)) = TYPE_CAPI_RELEASE"
    "rq_message_id (rq (got (w_packet TYPE_CAPI_RELEASE 1 0 demo_peer) demo_wses)) = 3"
    "rq_app_id (rq (got (w_packet TYPE_CAPI_RELEASE 1 0 demo_peer) demo_wses)) = 1"
    by (simp_all del: got_simps(1))
qed

theorem w32s_wellformed_request_served_witness:
  "\<exists>s'. dispatch_w32s demo_lib (got (w_packet TYPE_CAPI_RELEASE 1 0 demo_peer) demo_wses) = Some s' \<and>
     answered_ids s' + pending_ids s' = {#3#}"
proof -
  let ?s = "got (w_packet TYPE_CAPI_RELEASE 1 0 demo_peer) demo_wses"
  note ok = demo_release_ok
  have safe: "\<not> request_fault demo_lib ?s"
    unfolding request_fault_def Let_def ok(4,6) by (simp add: MAXAPPL_w32s_def proto_consts)
  have v: "verifyRequest (ws_request ?s)" using ok(1) by simp
  have t: "rq_message_type (rq ?s) \<in> set capi_types" unfolding ok(4) by (simp add: capi_types_def)
  from w32s_wellformed_request_served [OF demo_lib_documented v ok(2) t ok(3)] safe
  obtain s' where s': "dispatch_w32s demo_lib ?s = Some s'"
    "answered_ids s' + pending_ids s' = add_mset (rq_message_id (rq ?s)) (answered_ids ?s + pending_ids ?s)" by auto
  from s'(2) have "answered_ids s' + pending_ids s' = {#3#}" unfolding ok(5) by (simp add: answered_ids_def pending_ids_def)
  with s'(1) show ?thesis by blast
qed

text \<open>A REGISTER with a header length and a total length at will: the length of its body makes up the difference, as a word.\<close>

definition wrapped_request :: "u32 \<Rightarrow> u32 \<Rightarrow> u32 \<Rightarrow> byte list" where
  "wrapped_request h m sid = encode_request_header
     \<lparr>rq_message_len = m, rq_header_len = h, rq_body_len = m - h, rq_data_len = 0, rq_message_id = 1,
      rq_message_type = TYPE_CAPI_REGISTER, rq_app_id = 0, rq_controller_id = 0, rq_session_id = sid\<rparr>"

text \<open>
  C25. The check of the lengths adds them as 32-bit words: with a header length that is anything from 64 KB to 4 GB less
  64 KB a REGISTER passes it when the body length makes the sum wrap around to the message length. The server then
  reads the parameters at that distance from \<^verbatim>\<open>request\<close>: all 16 octets are more than 50000 octets away from the
  array on either side, with the addresses taken modulo \<open>2 ^ 32\<close>, and the round ends in an invalid access.
\<close>

theorem w32s_length_check_overflows:
  assumes "0x10000 \<le> h" and "h \<le> 0xFFFF0000" and "m \<le> 10000"
  shows "verifyRequest (put_bytes 0 (wrapped_request h m sid) b) \<and>
     (\<forall>i<16. MSG_SIZE + 50000 < ofs (unat h + i) \<and> ofs (unat h + i) + 50000 < 2 ^ 32) \<and>
     session_round L (s\<lparr>ws_rx := [Data (wrapped_request h m (ws_base s + ws_sess s))]\<rparr>) = None"
proof -
  have hd: "request_header_at (put_bytes 0 (wrapped_request h m sid) b) =
     \<lparr>rq_message_len = m, rq_header_len = h, rq_body_len = m - h, rq_data_len = 0, rq_message_id = 1,
      rq_message_type = TYPE_CAPI_REGISTER, rq_app_id = 0, rq_controller_id = 0, rq_session_id = sid\<rparr>" for sid b
    using request_header_at_encode [of _ "[]"] by (simp add: wrapped_request_def)
  have u: "0x10000 \<le> unat h" "unat h \<le> 0xFFFF0000" "unat m \<le> 10000"
    using assms by (simp_all add: word_le_nat_alt)
  then have "16 \<le> unat (m - h)" by (simp add: unat_sub_if_size word_size)
  then have bl: "\<not> m - h < 16" by (simp add: word_less_nat_alt)
  have hl: "\<not> h < 36" using u(1) by (simp add: word_less_nat_alt)
  have ml: "\<not> 10000 < m" using assms(3) by (simp add: not_less)
  have v: "verifyRequest (put_bytes 0 (wrapped_request h m sid) b)" for sid b
    using bl hl ml by (simp add: verifyRequest_def hd Let_def sizeof_defs MSG_SIZE_def)
  let ?p = "wrapped_request h m (ws_base s + ws_sess s)"
  have p: "?p \<noteq> []" "length ?p \<le> MSG_SIZE"
    by (auto simp: wrapped_request_def MSG_SIZE_def dest: arg_cong [of _ _ length])
  have "dispatch_w32s L (got ?p s) = map_option snd (exec_capi_register_w32s L (unat h) (got ?p s))"
    by (simp add: dispatch_w32s_def Let_def hd verifySessionId_def)
  also have "\<dots> = None"
    using u(1) by (simp add: exec_capi_register_w32s_def new_frame_def get32_chk_def MSG_SIZE_def)
  finally have "session_round L (s\<lparr>ws_rx := [Data ?p]\<rparr>) = None" using v by (simp add: session_round_packet [OF p])
  moreover have "\<forall>i<16. MSG_SIZE + 50000 < ofs (unat h + i) \<and> ofs (unat h + i) + 50000 < 2 ^ 32"
    using u by (simp add: ofs_def MSG_SIZE_def)
  ultimately show ?thesis using v by blast
qed

theorem w32s_length_check_overflows_witness:
  "verifyRequest (put_bytes 0 (wrapped_request 0x80000000 16 300) (\<lambda>_. 0)) \<and>
   session_round demo_lib (demo_wses\<lparr>ws_rx := [Data (wrapped_request 0x80000000 16 (ws_base demo_wses + ws_sess demo_wses))]\<rparr>) = None"
  using w32s_length_check_overflows [of "0x80000000" 16 300 "\<lambda>_. 0" demo_lib demo_wses] by simp

text \<open>
  C24. Authentication protects nothing: what the server does with a request to the CAPI does not depend on the
  authentication it offers or requires, nor on whether the client has authenticated.
\<close>

theorem w32s_auth_irrelevant:
  assumes "rq_message_type (rq s) \<in> set capi_types"
  shows "dispatch_w32s L (with_auth a r t s) = map_option (with_auth a r t) (dispatch_w32s L s)"
  by (rule dispatch_auth [OF assms])

theorem w32s_auth_irrelevant_witness:
  "dispatch_w32s demo_lib (with_auth AUTH_USERPASS 1 AUTH_NO_AUTH (got (w_packet TYPE_CAPI_RELEASE 1 0 demo_peer) demo_wses)) =
     map_option (with_auth AUTH_USERPASS 1 AUTH_NO_AUTH) (dispatch_w32s demo_lib (got (w_packet TYPE_CAPI_RELEASE 1 0 demo_peer) demo_wses))"
proof -
  have "rq_message_type (rq (got (w_packet TYPE_CAPI_RELEASE 1 0 demo_peer) demo_wses)) \<in> set capi_types"
    unfolding demo_release_ok(4) by (simp add: capi_types_def)
  from w32s_auth_irrelevant [OF this] show ?thesis .
qed

text \<open>
  C28. The lengths that \<^verbatim>\<open>RegEnumValue\<close> leaves behind are taken as buffer sizes of the next call, so after a match in
  \<^verbatim>\<open>hosts_allow\<close> a first entry of \<^verbatim>\<open>hosts_deny\<close> whose name is not shorter is never looked at: the
  address is accepted even if that entry denies it.
\<close>

theorem w32s_deny_entry_ignored:
  assumes "ws_sockname s = Some ip" and "hosts_allow (ws_registry s) = Some (e # es)" and "hosts_deny (ws_registry s) = Some (d # ds)"
    and "\<forall>x \<in> set ((e # es) @ d # ds). entry_ok x" and "entry_matches (ws_registry s) ip e" and "length (fst e) \<le> length (fst d)"
  shows "\<exists>t. try_auth_byip s = Some (1, t)"
proof -
  have "length (fst e) < 16" "length (snd e) \<le> 16" using assms(4) by (auto simp: entry_ok_def)
  with assms(5,6) have allow: "host_scan (ws_registry s) ip (e # es) (16, 16) = (True, (length (fst e), length (snd e)))"
    and deny: "\<not> fst (host_scan (ws_registry s) ip (d # ds) (length (fst e), length (snd e)))" by simp_all
  from try_auth_byip_scan [OF assms(1-4)] deny show ?thesis unfolding allow by (simp del: host_scan.simps)
qed

theorem w32s_deny_entry_ignored_witness:
  "(\<exists>t. try_auth_byip demo_wses = Some (1, t)) \<and> entry_matches demo_registry 10 ([10, 9], [255, 0]) = (word_le [10, 9] AND word_le [255] = (10 :: u32) AND word_le [255])"
proof -
  have "word_le [255] = (255 :: u32)" "word_le [10] = (10 :: u32)" by (simp_all add: word_le_def)
  then have m: "entry_matches (ws_registry demo_wses) 10 ([10], [255, 0])" by (simp add: entry_matches_def demo_registry_def)
  have "\<exists>t. try_auth_byip demo_wses = Some (1, t)"
    by (rule w32s_deny_entry_ignored [of demo_wses 10 "([10], [255, 0])" "[]" "([10, 9], [255, 0])" "[]", OF _ _ _ _ m])
      (simp_all add: demo_registry_def entry_ok_def)
  then show ?thesis by (simp add: entry_matches_def demo_registry_def)
qed

end
