(* ===== verification/Win32Peers.thy ===== *)
theory Win32Peers
  imports DaemonGreeting Win32ServerProperties ClientProperties
begin

text \<open>
  The Windows server together with the Windows client and with the Linux daemon, and the end of the service.
\<close>

section \<open>The server and its clients\<close>

lemma ws_send_fst: "snd (ws_send p s) = s\<lparr>ws_send_rets := tl (ws_send_rets s), ws_tx := ws_tx s @ [(p, fst (ws_send p s))]\<rparr>"
  by (simp add: ws_send_def Let_def split: list.splits)

text \<open>
  C9. A registration from an application through the Windows client to the library of the Windows server and back, for whatever
  id the library gives out: the call returns the result and the id of the library, and both sides record the
  application exactly when the library has accepted it; but when the library accepts with an id above 128, the size of
  the table of the server (which does not look at the id), the server writes behind this table. (The client is in order,
  \<open>expecting\<close>, has the session id of the server, and request and answer arrive in one piece each.)
\<close>

theorem win32_pair_register:
  assumes "expecting k" and "w_session k = ws_base s + ws_sess s"
    and "lib_register L ms c b l (get32 (ws_frames s (ws_calls s)) AH_app_id) (ws_world s) = (e, app, w)"
  shows "let request = w_register_packet ms c b l k; round = session_round L (s\<lparr>ws_rx := [Data request]\<rparr>) in
     if e = 0 \<and> MAXAPPL_w32s < unat app then round = None
     else \<exists>answer n s' k'. round = Some (True, int (length request), s') \<and>
       ws_tx s' = ws_tx s @ [(answer, n)] \<and> ws_world s' = w \<and>
       cd_apps (ws_client s') = (if e = 0 then (cd_apps (ws_client s))(unat app := 1) else cd_apps (ws_client s)) \<and>
       CAPI_REGISTER ms c b l (k\<lparr>w_rx := [Data answer]\<rparr>) = Some (Ret e, Some app, k') \<and>
       w_tx k' = w_tx k @ [(request, int (length request))] \<and>
       w_apps k' = w_apps k @ (if e = 0 then [\<lparr>ApplID = app, appl_data = 0\<rparr>] else [])"
proof -
  let ?p = "w_register_packet ms c b l k"
  let ?b0 = "ws_frames s (ws_calls s)"
  note hd = w_register_packet_header [of ms c b l k]
  have p: "?p \<noteq> []" "length ?p \<le> MSG_SIZE" using hd(2) by (auto simp: MSG_SIZE_def)
  have v: "verifyRequest (put_bytes 0 ?p (ws_request s))"
    by (simp add: verifyRequest_def hd w_head_def Let_def sizeof_defs MSG_SIZE_def)
  have par: "get32 (put_bytes 0 ?p B) 36 = ms" "get32 (put_bytes 0 ?p B) 40 = c" "get32 (put_bytes 0 ?p B) 44 = b"
    "get32 (put_bytes 0 ?p B) 48 = l" for B
    using hd(2) by (simp_all add: get32_put_bytes_in w_register_packet_def word_le_bytes_le)
  let ?a = "\<lparr>an_message_len = 41, an_header_len = 40, an_body_len = 1, an_data_len = 0,
       an_message_id = msg_id k + 1, an_message_type = TYPE_CAPI_REGISTER,
       an_app_id = app, an_session_id = cd_session (ws_client s), an_proxy_error = 0, an_capi_error = e\<rparr>"
  let ?q = "answer_packet ?a [?b0 40]"
  have d: "dispatch_w32s L (got ?p s) = map_option snd (exec_capi_register_w32s L 36 (got ?p s))"
    using assms(2) by (simp add: dispatch_w32s_def Let_def hd w_head_def verifySessionId_def)
  show ?thesis
  proof (cases "e = 0 \<and> MAXAPPL_w32s < unat app")
    case True
    have h: "unat (rq_header_len (rq (got ?p s))) = 36" by (simp add: hd w_head_def)
    have "exec_capi_register_w32s L 36 (got ?p s) = None"
      using register_w32s_fault [of 36 L "got ?p s"] assms(3) True by (simp add: par MSG_SIZE_def)
    then have "session_round L (s\<lparr>ws_rx := [Data ?p]\<rparr>) = None"
      using v by (simp add: session_round_packet [OF p] d)
    with True show ?thesis by simp
  next
    case fit: False
    then have le: "e = 0 \<longrightarrow> unat app \<le> MAXAPPL_w32s" by auto
    have x: "exec_capi_register_w32s L 36 (got ?p s) = Some (ws_send ?q ((got ?p s)\<lparr>ws_calls := Suc (ws_calls s), ws_world := w,
        ws_client := (ws_client s)\<lparr>cd_apps := (if e = 0 then (cd_apps (ws_client s))(unat app := 1) else cd_apps (ws_client s))\<rparr>\<rparr>))"
      using exec_capi_register_w32s_eq [of 36 L "got ?p s" e app w] assms(3) le hd(1)
      by (simp add: par w_head_def MSG_SIZE_def)
    have "expecting (k\<lparr>w_rx := [Data ?q]\<rparr>)" using assms(1) by (simp add: expecting_def ready_client_def)
    from CAPI_REGISTER_answered [OF this, of ?a "[?b0 40]" "[]" ms c b l]
    obtain k' where k': "CAPI_REGISTER ms c b l (k\<lparr>w_rx := [Data ?q]\<rparr>) = Some (Ret e, Some app, k')"
        "w_tx k' = w_tx k @ [(?p, 52)]" "w_apps k' = w_apps k @ (if e = 0 then [\<lparr>ApplID = app, appl_data = 0\<rparr>] else [])"
      by (auto simp: plain_answer_def w_register_packet_def w_head_def)
    let ?s' = "snd (the (exec_capi_register_w32s L 36 (got ?p s)))"
    have "session_round L (s\<lparr>ws_rx := [Data ?p]\<rparr>) = Some (True, int (length ?p), ?s')"
      using v by (simp add: session_round_packet [OF p] d x)
    moreover have "ws_tx ?s' = ws_tx s @ [(?q, fst (the (exec_capi_register_w32s L 36 (got ?p s))))]" "ws_world ?s' = w"
      "cd_apps (ws_client ?s') = (if e = 0 then (cd_apps (ws_client s))(unat app := 1) else cd_apps (ws_client s))"
      by (simp_all add: x ws_send_fst)
    ultimately show ?thesis using k' hd(2) fit unfolding Let_def by (metis of_nat_numeral)
  qed
qed

theorem win32_pair_register_witness:
  "\<exists>answer k'. CAPI_REGISTER 4096 2 7 2048 (demo_peer\<lparr>w_rx := [Data answer]\<rparr>) = Some (Ret 0, Some 1, k') \<and>
     w_apps k' = [\<lparr>ApplID = 1, appl_data = 0\<rparr>]"
proof -
  have "demo_peer\<lparr>w_rx := []\<rparr> = demo_peer" by (simp add: demo_peer_def demo_w32_def)
  then have k: "expecting demo_peer"
    by (simp add: expecting_def ready_client_def demo_peer_def demo_w32_def)
  have l: "lib_register demo_lib 4096 2 7 2048 (get32 (ws_frames demo_wses (ws_calls demo_wses)) AH_app_id) (ws_world demo_wses) = (0, 1, ())"
    by (simp add: demo_lib_def)
  from win32_pair_register [OF k _ l] show ?thesis
    by (auto simp: MAXAPPL_w32s_def Let_def) (auto simp: demo_peer_def demo_w32_def)
qed

text \<open>
  C26. There is one \<^verbatim>\<open>recv\<close> per request: of two requests that arrive together only the first is handled. The round owes
  the answer to the first alone, and the second is gone from the input. (The first is not an AUTH request: there the
  octets of the second may end up in its password, for the server does not see where the first one ends.)
\<close>

theorem w32s_coalesced_request_lost:
  assumes "36 \<le> length p" and "length (p @ q) \<le> MSG_SIZE" and "rq_message_type (request_header_at (buffer_of p)) \<noteq> TYPE_PROXY_AUTH"
    and "session_round L (s\<lparr>ws_rx := Data (p @ q) # es\<rparr>) = Some (goes_on, n, s')"
  shows "ws_rx s' = es \<and> round_ids (s\<lparr>ws_rx := Data (p @ q) # es\<rparr>) = round_ids (s\<lparr>ws_rx := Data p # es\<rparr>) \<and>
     answered_ids s' + pending_ids s' = mset (round_ids (s\<lparr>ws_rx := Data p # es\<rparr>)) + (answered_ids s + pending_ids s)"
proof -
  let ?t = "\<lambda>d. s\<lparr>ws_rx := es, ws_request := put_bytes 0 d (ws_request s)\<rparr>"
  have rc: "receive (s\<lparr>ws_rx := Data d # es\<rparr>) = (int (length d), ?t d)" if "length d \<le> MSG_SIZE" for d
    using that by (simp add: receive_def)
  have same: "request_header_at (put_bytes 0 (p @ q) b) = request_header_at (buffer_of p)" for b and q
  proof -
    have "get32 (put_bytes 0 (p @ q) b) i = get32 (buffer_of p) i" if "i + 4 \<le> 36" for i
      using that assms(1) by (simp add: get32_put_bytes_in buffer_of_def)
    then show ?thesis by (simp add: request_header_at_def)
  qed
  note same0 = same [of "[]", simplified]
  have h: "rq (?t d) = request_header_at (buffer_of p)" if "d \<in> {p, p @ q}" for d using that same same0 by auto
  have v: "verifyRequest (put_bytes 0 (p @ q) b) = verifyRequest (put_bytes 0 p b)" for b
    by (simp add: verifyRequest_def same same0)
  have ow: "owed (?t (p @ q)) = owed (?t p)"
    using assms(3) h by (simp add: owed_def own_session_def)
  have ids: "round_ids (s\<lparr>ws_rx := Data (p @ q) # es\<rparr>) = round_ids (s\<lparr>ws_rx := Data p # es\<rparr>)"
  proof -
    have "p \<noteq> []" "length p \<le> MSG_SIZE" "0 < int (length p) + int (length q)" using assms(1,2) by auto
    then show ?thesis unfolding round_ids_def rc [OF assms(2)] rc [OF \<open>length p \<le> MSG_SIZE\<close>] prod.case using v ow by simp
  qed
  have "ws_rx s' = es"
  proof (cases "verifyRequest (put_bytes 0 (p @ q) (ws_request s))")
    case True
    with assms(1,2,4) obtain t where "dispatch_w32s L (?t (p @ q)) = Some s'"
      unfolding session_round_def using rc [of "p @ q"] by (auto split: if_splits)
    from dispatch_w32s_accounts [OF this] show ?thesis by (simp add: same_session_def)
  next
    case False
    with assms(1,2,4) show ?thesis unfolding session_round_def using rc [of "p @ q"] by (auto split: if_splits)
  qed
  with ids session_round_accounts [OF assms(4)] show ?thesis by (simp add: answered_ids_def pending_ids_def)
qed

theorem w32s_coalesced_request_lost_witness:
  "\<exists>c n s'. session_round demo_lib (demo_wses\<lparr>ws_rx := [Data (w_packet TYPE_CAPI_WAITFORSIGNAL 1 0 demo_peer @ w_packet TYPE_CAPI_RELEASE 1 0 demo_peer)]\<rparr>)
      = Some (c, n, s') \<and> ws_rx s' = [] \<and> answered_ids s' + pending_ids s' = {#3#}"
proof -
  let ?p = "w_packet TYPE_CAPI_WAITFORSIGNAL 1 0 demo_peer" and ?q = "w_packet TYPE_CAPI_RELEASE 1 0 demo_peer"
  have len: "length ?p = 37" "length ?q = 37" by (rule w_packet_header(2))+
  have ne: "?p @ ?q \<noteq> []" "length (?p @ ?q) \<le> MSG_SIZE" using len by (auto simp: MSG_SIZE_def)
  have hd: "request_header_at (put_bytes 0 (?p @ d) b) = w_head TYPE_CAPI_WAITFORSIGNAL 1 1 0 3 demo_peer" for d b
    unfolding w_packet_def append_assoc by (simp add: request_header_at_encode)
  have "rbodysize_w32s TYPE_CAPI_WAITFORSIGNAL = 1" by (simp add: rbodysize_w32s_def proto_consts sizeof_empty_def)
  then have v: "verifyRequest (put_bytes 0 (?p @ ?q) (ws_request demo_wses))"
    by (simp add: verifyRequest_def hd w_head_def Let_def sizeof_defs MSG_SIZE_def)
  have "dispatch_w32s demo_lib (got (?p @ ?q) demo_wses) = map_option snd (exec_capi_waitforsignal_w32s demo_lib (got (?p @ ?q) demo_wses))"
    using hd by (simp add: dispatch_w32s_def Let_def verifySessionId_def w_head_def proto_consts)
  moreover have "\<exists>r. exec_capi_waitforsignal_w32s demo_lib (got (?p @ ?q) demo_wses) = Some r"
    using waitforsignal_w32s_total [of "got (?p @ ?q) demo_wses" demo_lib] by (simp add: got_def demo_wses_def)
  ultimately obtain s' where s': "session_round demo_lib (demo_wses\<lparr>ws_rx := [Data (?p @ ?q)]\<rparr>) = Some (True, int (length (?p @ ?q)), s')"
    unfolding session_round_packet [OF ne] using v by auto
  have ty: "rq_message_type (request_header_at (buffer_of ?p)) \<noteq> TYPE_PROXY_AUTH"
    using hd [of "[]"] by (simp add: buffer_of_def w_head_def proto_consts)
  have "36 \<le> length ?p" using len by simp
  from w32s_coalesced_request_lost [OF this ne(2) ty s'] s' show ?thesis
    using demo_wait_round(2) by (auto simp: answered_ids_def pending_ids_def)
qed

text \<open>
  C10. The greeting of the Linux daemon is accepted by the Windows server, and the daemon takes the session id from the
  answer.
\<close>

theorem w32s_greets_daemon:
  assumes "c_send_rets c = []"
  shows "\<exists>greeting answer n s' c'. session_round L (s\<lparr>ws_rx := [Data greeting]\<rparr>) = Some (True, 112, s') \<and>
     ws_tx s' = ws_tx s @ [(answer, n)] \<and> cd_os (ws_client s') = OS_TYPE_LINUX \<and>
     init_socket True True (c\<lparr>c_rx := [Data answer]\<rparr>) = Some (1, c') \<and>
     c_tx c' = c_tx c @ [(greeting, 112)] \<and> session_id c' = cd_session (ws_client s)"
proof -
  let ?junk = "ws_frames s (ws_calls s)" and ?g = "greeting c"
  let ?a = "\<lparr>an_message_len = 124, an_header_len = 40, an_body_len = 84, an_data_len = 0,
       an_message_id = msgid c + 1, an_message_type = TYPE_PROXY_HELO, an_app_id = 0,
       an_session_id = cd_session (ws_client s), an_proxy_error = PERROR_NONE, an_capi_error = get32 ?junk AH_capi_error\<rparr>"
  let ?q = "answer_packet ?a (helo_body_w32s ?junk (ws_auth_types s))"
  have g: "?g \<noteq> []" "length ?g \<le> MSG_SIZE" using length_greeting [of c] by (auto simp: MSG_SIZE_def simp del: length_greeting)
  have v: "verifyRequest (put_bytes 0 ?g (ws_request s))"
    by (simp add: verifyRequest_def greeting_head_def request_head_def Let_def sizeof_defs MSG_SIZE_def)
  have acc: "helo_accepted 36 (got ?g s)" by (simp add: helo_accepted_def greeting_fields SERVER_VERSION_def)
  let ?x = "ws_send ?q ((got ?g s)\<lparr>ws_calls := Suc (ws_calls s), ws_client := helo_client_w32s 36 (got ?g s)\<rparr>)"
  have x: "exec_proxy_helo_w32s 36 (got ?g s) = Some ?x"
    using exec_proxy_helo_w32s_eq [of 36 "got ?g s"] acc by (simp add: greeting_head_def request_head_def MSG_SIZE_def)
  have "dispatch_w32s L (got ?g s) = map_option snd (exec_proxy_helo_w32s 36 (got ?g s))"
    by (simp add: dispatch_w32s_def Let_def greeting_head_def request_head_def proto_consts)
  then have r: "session_round L (s\<lparr>ws_rx := [Data ?g]\<rparr>) = Some (True, 112, snd ?x)"
    using v by (simp add: session_round_packet [OF g] x)
  have os: "cd_os (ws_client (snd ?x)) = OS_TYPE_LINUX"
    using acc by (simp add: ws_send_fst helo_client_w32s_def Let_def greeting_fields)
  obtain c' where "init_socket True True (c\<lparr>c_rx := [Data ?q]\<rparr>) = Some (1, c')" "c_tx c' = c_tx c @ [(?g, 112)]"
      "session_id c' = cd_session (ws_client s)"
    using greeting_accepted [OF assms, of ?a "helo_body_w32s ?junk (ws_auth_types s)"] by (auto simp: helo_body_w32s_def)
  then show ?thesis using r os by (intro exI conjI) (assumption | simp add: ws_send_fst)+
qed

theorem w32s_greets_daemon_witness:
  "\<exists>answer c'. init_socket True True (demo_client\<lparr>c_rx := [Data answer]\<rparr>) = Some (1, c') \<and> session_id c' = 0x10000"
proof -
  have "c_send_rets demo_client = []" by simp
  from w32s_greets_daemon [OF this, where s = demo_wses and L = demo_lib] show ?thesis by auto
qed

lemma bodysize_positive: "ty \<noteq> TYPE_PROXY_SHUTDOWN \<Longrightarrow> (0 :: u32) < word_of_int (rbodysize_w32s ty)"
  unfolding rbodysize_w32s_def by (simp add: sizeof_defs sizeof_empty_def word_gt_0 split: if_split)

lemma bodiless_request_ignored:
  assumes "rq_body_len h = 0" and "length rest + 36 \<le> MSG_SIZE"
  shows "session_round L (s\<lparr>ws_rx := [Data (encode_request_header h @ rest)]\<rparr>) =
     Some (True, int (length rest + 36), got (encode_request_header h @ rest) s)"
proof -
  let ?p = "encode_request_header h @ rest"
  have p: "?p \<noteq> []" "length ?p \<le> MSG_SIZE" using assms(2) by (auto dest: arg_cong [of _ _ length])
  have hd: "request_header_at (put_bytes 0 ?p b) = h" for b by (simp add: request_header_at_encode)
  have "\<not> verifyRequest (put_bytes 0 ?p b) \<or> rq_message_type h = TYPE_PROXY_SHUTDOWN" for b
  proof -
    have "\<not> verifyRequest (put_bytes 0 ?p b)" if "rq_message_type h \<noteq> TYPE_PROXY_SHUTDOWN"
    proof -
      have "rq_body_len h < word_of_int (rbodysize_w32s (rq_message_type h))" using bodysize_positive [OF that] assms(1) by simp
      then show ?thesis unfolding verifyRequest_def hd Let_def by (simp only: if_True if_False if_cancel simp_thms split: if_split)
    qed
    then show ?thesis by blast
  qed
  moreover have "dispatch_w32s L (got ?p s) = Some (got ?p s)" if "rq_message_type h = TYPE_PROXY_SHUTDOWN"
    using that by (simp add: dispatch_w32s_def hd Let_def proto_consts)
  ultimately show ?thesis unfolding session_round_packet [OF p] by auto
qed

text \<open>
  C27. The Windows server wants a body of at least one octet in every request, and the daemon sends none where it has nothing to
  say: of all packets of a run of the daemon only the greeting and the registrations can be handled; every other one, the
  messages of the applications with them, is dropped without an answer and without a call of the library, in any
  state of the session.
\<close>

theorem w32s_ignores_requests_without_body:
  assumes "main_client U socket_ok connect_ok n c = Some (b, c')" and "c_tx c = []" and "(p, r) \<in> set (c_tx c')"
    and "rq_message_type (request_header_at (buffer_of p)) \<notin> {TYPE_PROXY_HELO, TYPE_CAPI_REGISTER}"
  shows "session_round L (s\<lparr>ws_rx := [Data p]\<rparr>) = Some (True, int (length p), got p s) \<and>
     ws_tx (got p s) = ws_tx s \<and> ws_world (got p s) = ws_world s \<and> ws_client (got p s) = ws_client s"
proof -
  have "ids_ok (msgid c) c" using assms(2) by (simp add: ids_ok_def sent_ids_def)
  from main_client_ids [OF assms(1) this] assms(3) have "daemon_packet p" by (auto simp: ids_ok_def)
  then obtain h rest where p: "p = encode_request_header h @ rest" "daemon_head h" "length p \<le> BUFFER_SIZE"
    by (auto simp: daemon_packet_def)
  have "request_header_at (buffer_of p) = h" unfolding p(1) buffer_of_def by (rule request_header_at_encode)
  with p(2) assms(4) have "rq_body_len h = 0" by (simp add: daemon_head_def)
  moreover have "length rest + 36 \<le> MSG_SIZE" using p(1,3) by (simp add: BUFFER_SIZE_def MSG_SIZE_def)
  ultimately have "session_round L (s\<lparr>ws_rx := [Data p]\<rparr>) = Some (True, int (length rest + 36), got p s)"
    unfolding p(1) by (rule bodiless_request_ignored)
  then show ?thesis unfolding p(1) by (simp add: got_def)
qed

theorem w32s_ignores_requests_without_body_witness:
  "\<exists>b c' p r. main_client capi_layout False False 0 (demo_client\<lparr>c_send_rets := [0]\<rparr>) = Some (b, c') \<and> c_tx c' = [(p, r)] \<and>
     session_round demo_lib (demo_wses\<lparr>ws_rx := [Data p]\<rparr>) = Some (True, int (length p), got p demo_wses) \<and>
     ws_tx (got p demo_wses) = ws_tx demo_wses"
proof -
  let ?c = "demo_client\<lparr>c_send_rets := [0]\<rparr>"
  let ?d = "compose 0 0 TYPE_CAPI_MANUFACTURER 0 1 3 ?c" and ?h = "request_head 0 0 TYPE_CAPI_MANUFACTURER 0 1 3 ?c"
  have h: "get32 (sendbuffer ?d) 0 = 36" "get_bytes (sendbuffer ?d) 0 36 = encode_request_header ?h"
    using request_header_compose [of 0 0 TYPE_CAPI_MANUFACTURER 0 1 3 ?c] get_bytes_request [of 36 "sendbuffer ?d"]
    by (simp_all add: request_header_at_def request_head_def)
  have m: "main_client capi_layout False False 0 ?c =
      Some (False, ?d\<lparr>c_send_rets := [], c_tx := [(encode_request_header ?h, 0)]\<rparr>)" (is "_ = Some (_, ?e)")
    unfolding main_client_def init_socket_def init_module_def remote_get_manufacturer_def remote_query_def
      client_send_def Let_def
    by (simp add: h get_bytes_chk_def BUFFER_SIZE_def compose_keeps main_loop.simps)
  have "request_header_at (buffer_of (encode_request_header ?h)) = ?h"
    using request_header_at_encode [of ?h "[]"] by (simp add: buffer_of_def)
  then have ty: "rq_message_type (request_header_at (buffer_of (encode_request_header ?h))) \<notin> {TYPE_PROXY_HELO, TYPE_CAPI_REGISTER}"
    by (simp add: request_head_def proto_consts)
  have e: "c_tx ?c = []" "(encode_request_header ?h, 0) \<in> set (c_tx ?e)" by simp_all
  from w32s_ignores_requests_without_body [OF m e ty, where L = demo_lib and s = demo_wses] m
  show ?thesis by (intro exI conjI) (assumption | simp)+
qed

section \<open>The service\<close>

lemma fold_calls: "fold (\<lambda>i. call (f i)) is p = p\<lparr>trace := trace p @ map f is\<rparr>"
  by (induction "is" arbitrary: p) (simp_all add: call_def)

text \<open>The calls of \<open>ServiceExit\<close>, in order.\<close>

definition exit_calls :: "bool \<Rightarrow> service_process \<Rightarrow> api_call list" where
  "exit_calls ended p = map (\<lambda>i. A_shutdown (p_sockets p ! i)) [0..<MAX_SESSIONS] @ [A_shutdown (p_socke p)] @
     (if ended then [] else [A_DebugOut, A_closesocket (p_socke p), A_TerminateThread]) @
     [A_CloseHandle, A_closesocket (p_socke p)] @ map (\<lambda>i. A_closesocket (p_sockets p ! i)) [0..<MAX_SESSIONS] @ [A_Sleep 1000]"

lemma ServiceExit_eq: "ServiceExit ended p = p\<lparr>p_run := 0, p_pause := 0, trace := trace p @ exit_calls ended p\<rparr>"
  unfolding ServiceExit_def Let_def fold_calls exit_calls_def by (cases ended) (simp_all add: call_def)

lemma report_eq:
  "\<exists>w. report q = q\<lparr>p_status_rets := w, trace := trace q @ [A_SetServiceStatus (p_status q)]\<rparr> \<or>
     report q = q\<lparr>p_status_rets := w, trace := trace q @ [A_SetServiceStatus (p_status q), A_DebugOut]\<rparr>"
proof -
  obtain ok w where s: "script (p_status_rets q) = (ok, w)" by (cases "script (p_status_rets q)")
  show ?thesis
    by (rule exI [of _ w], cases ok) (simp_all add: report_def SetServiceStatus_def call_def s)
qed

text \<open>
  Stopping the service ends its loops, shuts down and closes every socket of the table and the one it listens on, and kills
  the accept thread exactly when that has not ended by itself.
\<close>

theorem w32s_stop_closes_everything:
  "p_run (ServiceCtrlHandler ended CONTROL_STOP p) = 0 \<and>
   dwCurrentState (p_status (ServiceCtrlHandler ended CONTROL_STOP p)) = SERVICE_STOPPED \<and>
   (\<exists>calls. trace (ServiceCtrlHandler ended CONTROL_STOP p) = trace p @ calls \<and>
      [x \<leftarrow> calls. case x of A_shutdown _ \<Rightarrow> True | _ \<Rightarrow> False] =
        map (\<lambda>i. A_shutdown (p_sockets p ! i)) [0..<MAX_SESSIONS] @ [A_shutdown (p_socke p)] \<and>
      insert (A_closesocket (p_socke p)) ((\<lambda>i. A_closesocket (p_sockets p ! i)) ` {..<MAX_SESSIONS}) \<subseteq> set calls \<and>
      (A_TerminateThread \<in> set calls \<longleftrightarrow> \<not> ended))"
proof -
  let ?q = "set_state SERVICE_STOPPED ((ServiceExit ended p)\<lparr>p_status := (p_status (ServiceExit ended p))\<lparr>dwWin32ExitCode := 0\<rparr>\<rparr>)"
  let ?shut = "\<lambda>x. case x of A_shutdown _ \<Rightarrow> True | _ \<Rightarrow> False"
  have q: "p_run ?q = 0" "dwCurrentState (p_status ?q) = SERVICE_STOPPED" "trace ?q = trace p @ exit_calls ended p"
    by (simp_all add: set_state_def ServiceExit_eq)
  have e: "filter ?shut (exit_calls ended p) = map (\<lambda>i. A_shutdown (p_sockets p ! i)) [0..<MAX_SESSIONS] @ [A_shutdown (p_socke p)]"
    by (simp add: exit_calls_def filter_map comp_def)
  have m: "insert (A_closesocket (p_socke p)) ((\<lambda>i. A_closesocket (p_sockets p ! i)) ` {..<MAX_SESSIONS}) \<subseteq> set (exit_calls ended p)"
    "A_TerminateThread \<in> set (exit_calls ended p) \<longleftrightarrow> \<not> ended"
    by (auto simp: exit_calls_def)
  have h: "ServiceCtrlHandler ended CONTROL_STOP p = call A_DebugOut (report ?q)" by (simp add: Let_def)
  from report_eq [of ?q] obtain w xs where r: "report ?q = ?q\<lparr>p_status_rets := w, trace := trace ?q @ xs\<rparr>"
      "xs = [A_SetServiceStatus (p_status ?q)] \<or> xs = [A_SetServiceStatus (p_status ?q), A_DebugOut]" by blast
  have "trace (call A_DebugOut (report ?q)) = trace p @ exit_calls ended p @ xs @ [A_DebugOut]"
    by (simp only: r(1) call_simps q(3)) simp
  moreover have "filter ?shut (xs @ [A_DebugOut]) = []" "A_TerminateThread \<notin> set (xs @ [A_DebugOut])" using r(2) by auto
  moreover have "p_run (call A_DebugOut (report ?q)) = 0" "dwCurrentState (p_status (call A_DebugOut (report ?q))) = SERVICE_STOPPED"
    using q(1,2) by (simp_all only: r(1) call_simps) simp_all
  ultimately show ?thesis unfolding h using e m
    by (intro conjI exI [of _ "exit_calls ended p @ xs @ [A_DebugOut]"]) (simp_all only: filter_append, auto)
qed

end
