(* ===== verification/OldServer.thy ===== *)
theory OldServer
  imports Main_Server
begin

text \<open>
  The first Linux server, \<^verbatim>\<open>linux-server/src/old/main-rev1.14-cvs.c\<close>, one file with the handlers that were later
  moved to \<^verbatim>\<open>capi/\<close>. It differs from the present one in three ways: the registered applications are a linked list, one \<^verbatim>\<open>recv\<close> is
  taken for one request, and HELO demands no authentication.

  The state is that of the present server, with the list in the place of the table: a pair of a \<open>server\<close>, whose table
  stays unused, and the list. A session is one thread, so the mutex around \<^verbatim>\<open>send\<close> has no effect and is left
  out, as are the timeout, which is set and never tested, and the names the processes give themselves.
\<close>

section \<open>State\<close>

type_synonym 'w old_server = "'w server \<times> u32 list"

definition MY_MINOR_old :: u32 where "MY_MINOR_old = 1"
definition PORT_old :: int where "PORT_old = 6674"

text \<open>
  The handler of AUTH assigns two fields of \<^verbatim>\<open>ANSWER_PROXY_AUTH\<close> that no \<^verbatim>\<open>protocol.h\<close> of the repository declares; the size
  of the structure and the places of the fields are a parameter: an offset and a number of octets each.
\<close>

record auth_layout =
  al_size :: nat
  al_auth_type :: "nat \<times> nat"
  al_auth_len :: "nat \<times> nat"

section \<open>Leaving and checking\<close>

definition SERVER_NAME_old :: "byte list" where
  "SERVER_NAME_old = string_bytes ''CAPI 2.0 Proxy Linux SERVER pre-alpha''"

definition exec_proxy_shutdown_old :: "byte list \<Rightarrow> 'w server \<Rightarrow> (int \<times> 'w server) option" where
  "exec_proxy_shutdown_old excuse s = do {
     let s = set_head AH_message_len (of_nat (sizeof_ANSWER_HEADER + sizeof_ANSWER_PROXY_SHUTDOWN)) s;
     let s = set_head AH_header_len (of_nat sizeof_ANSWER_HEADER) s;
     let s = set_head AH_body_len (of_nat sizeof_ANSWER_PROXY_SHUTDOWN) s;
     let s = set_head AH_data_len 0 s;
     let s = set_head AH_message_id 0 s;
     let s = set_head AH_message_type TYPE_PROXY_SHUTDOWN s;
     let s = set_head AH_app_id 0 s;
     let s = set_head AH_session_id (sessionID s) s;
     let s = set_head AH_proxy_error 0 s;
     let s = set_head AH_capi_error 0 s;
     p \<leftarrow> put_bytes_chk PACKET_SIZE sizeof_ANSWER_HEADER (excuse @ [0]) (out_packet s);
     send_answer (s\<lparr>out_packet := p\<rparr>)
   }"

definition quit_old :: "int \<Rightarrow> 'w server \<Rightarrow> control \<times> 'w server" where
  "quit_old ret s = (Exited ret, s\<lparr>sc_open := False\<rparr>)"

definition xquit_old :: "int \<Rightarrow> byte list \<Rightarrow> 'w server \<Rightarrow> (control \<times> 'w server) option" where
  "xquit_old ret excuse s = do {
     (_, s) \<leftarrow> exec_proxy_shutdown_old excuse s;
     Some (Exited 0, s\<lparr>sock_open := False\<rparr>)
   }"

definition verify_session_id :: "u32 \<Rightarrow> 'w server \<Rightarrow> int" where
  "verify_session_id i s = (if i = sessionID s then 0 else 1)"

definition SET_CTRL_old :: "nat \<Rightarrow> byte \<Rightarrow> buffer \<Rightarrow> buffer" where
  "SET_CTRL_old msg ctrl b = put32 (msg + 8) ((get32 b (msg + 8) AND 0xFFFFFF80) + ucast ctrl) b"

section \<open>Handlers\<close>

definition exec_proxy_helo_old :: "'w server \<Rightarrow> (int \<times> 'w server) option" where
  "exec_proxy_helo_old s = do {
     let helo_msg = unat (rq_header_len (req s));
     os \<leftarrow> get32_chk PACKET_SIZE (in_packet s) (helo_msg + 64);
     vmaj \<leftarrow> get32_chk PACKET_SIZE (in_packet s) (helo_msg + 68);
     vmin \<leftarrow> get32_chk PACKET_SIZE (in_packet s) (helo_msg + 72);
     name \<leftarrow> strcpy_chk 64 PACKET_SIZE (in_packet s) helo_msg;
     let s = s\<lparr>client_info := (client_info s)\<lparr>ci_os := os,
                  ci_version := \<lparr>major = vmaj, minor = vmin\<rparr>, ci_name := name\<rparr>\<rparr>;
     let s = set_head AH_message_len (of_nat (sizeof_ANSWER_HEADER + sizeof_ANSWER_PROXY_HELO)) s;
     let s = set_head AH_header_len (of_nat sizeof_ANSWER_HEADER) s;
     let s = set_head AH_body_len (of_nat sizeof_ANSWER_PROXY_HELO) s;
     let s = set_head AH_data_len 0 s;
     let s = set_head AH_message_id (rq_message_id (req s)) s;
     let s = set_head AH_message_type TYPE_PROXY_HELO s;
     let s = set_head AH_app_id 0 s;
     let s = set_head AH_session_id (sessionID s) s;
     let s = set_head AH_proxy_error 0 s;
     let s = set_head AH_capi_error 0 s;
     let helo_re = sizeof_ANSWER_HEADER;
     let s = s\<lparr>out_packet := put_bytes helo_re (SERVER_NAME_old @ [0]) (out_packet s)\<rparr>;
     let s = set_head (helo_re + 64) OS_TYPE_LINUX s;
     let s = set_head (helo_re + 68) (major (local_version s)) s;
     let s = set_head (helo_re + 72) (minor (local_version s)) s;
     let s = set_head (helo_re + 76) AUTH_NO_AUTH s;
     send_answer s
   }"

definition exec_proxy_auth_old :: "auth_layout \<Rightarrow> 'w server \<Rightarrow> (int \<times> 'w server) option" where
  "exec_proxy_auth_old A s = do {
     let s = set_head AH_header_len (of_nat sizeof_ANSWER_HEADER) s;
     let s = set_head AH_body_len (of_nat (al_size A)) s;
     let s = set_head AH_data_len 0 s;
     let s = set_message_len s;
     let s = set_head AH_message_id (rq_message_id (req s)) s;
     let s = set_head AH_message_type TYPE_PROXY_AUTH s;
     let s = set_head AH_app_id 0 s;
     let s = set_head AH_session_id (sessionID s) s;
     let s = set_head AH_capi_error 0 s;
     let s = set_head AH_proxy_error PERROR_AUTH_TYPE_NOT_SUPPORTED s;
     let (off, n) = al_auth_type A;
     p \<leftarrow> put_bytes_chk PACKET_SIZE (sizeof_ANSWER_HEADER + off) (replicate n 0) (out_packet s);
     let (off, n) = al_auth_len A;
     p \<leftarrow> put_bytes_chk PACKET_SIZE (sizeof_ANSWER_HEADER + off) (replicate n 0) p;
     send_answer (s\<lparr>out_packet := p\<rparr>)
   }"

fun exec_capi_register_old :: "'w capi20 \<Rightarrow> 'w old_server \<Rightarrow> (int \<times> 'w old_server) option" where
  "exec_capi_register_old L (s, apps) = do {
     let vals = unat (rq_header_len (req s));
     c \<leftarrow> get32_chk PACKET_SIZE (in_packet s) (vals + 4);
     b \<leftarrow> get32_chk PACKET_SIZE (in_packet s) (vals + 8);
     l \<leftarrow> get32_chk PACKET_SIZE (in_packet s) (vals + 12);
     let (return_type, app, w) =
       capi20_register L c b l (get32 (out_packet s) AH_app_id) (world s);
     let s = set_head AH_app_id app (s\<lparr>world := w\<rparr>);
     let apps = (if return_type = 0 then add_app_list (get32 (out_packet s) AH_app_id) apps else apps);
     m \<leftarrow> get32_chk PACKET_SIZE (in_packet s) vals;
     let s = s\<lparr>client_info := (client_info s)\<lparr>ci_messageBufferLen := m\<rparr>\<rparr>;
     let s = set_head AH_header_len (of_nat sizeof_ANSWER_HEADER) s;
     let s = set_head AH_body_len 0 s;
     let s = set_head AH_data_len 0 s;
     let s = set_message_len s;
     let s = set_head AH_message_id (rq_message_id (req s)) s;
     let s = set_head AH_message_type TYPE_CAPI_REGISTER s;
     let s = set_head AH_session_id (sessionID s) s;
     let s = set_head AH_capi_error return_type s;
     let s = set_head AH_proxy_error 0 s;
     (n, s) \<leftarrow> send_answer s;
     Some (n, s, apps)
   }"

fun exec_capi_release_old :: "'w capi20 \<Rightarrow> 'w old_server \<Rightarrow> (int \<times> 'w old_server) option" where
  "exec_capi_release_old L (s, apps) = do {
     let (return_type, w) = capi20_release L (rq_app_id (req s)) (world s);
     let s = s\<lparr>world := w\<rparr>;
     let apps = (if return_type = 0 then del_app_list (rq_app_id (req s)) apps else apps);
     let s = set_head AH_header_len (of_nat sizeof_ANSWER_HEADER) s;
     let s = set_head AH_body_len 0 s;
     let s = set_head AH_data_len 0 s;
     let s = set_message_len s;
     let s = set_head AH_message_id (rq_message_id (req s)) s;
     let s = set_head AH_message_type TYPE_CAPI_RELEASE s;
     let s = set_head AH_app_id (rq_app_id (req s)) s;
     let s = set_head AH_session_id (sessionID s) s;
     let s = set_head AH_capi_error return_type s;
     let s = set_head AH_proxy_error 0 s;
     (n, s) \<leftarrow> send_answer s;
     Some (n, s, apps)
   }"

definition exec_capi_getmessage_old :: "'w capi20 \<Rightarrow> 'w server \<Rightarrow> (int \<times> 'w server) option" where
  "exec_capi_getmessage_old L s = do {
     let data = sizeof_ANSWER_HEADER;
     let (e, message, w) = capi20_get_message L (rq_app_id (req s)) (world s);
     let s = set_head AH_capi_error e (s\<lparr>world := w\<rparr>);
     let s = set_head AH_header_len (of_nat sizeof_ANSWER_HEADER) s;
     let s = set_head AH_body_len 0 s;
     let s = set_head AH_message_id (rq_message_id (req s)) s;
     let s = set_head AH_data_len 0 s;
     let s = set_head AH_message_type TYPE_CAPI_GETMESSAGE s;
     let s = set_head AH_app_id (rq_app_id (req s)) s;
     let s = set_head AH_session_id (sessionID s) s;
     let s = set_head AH_proxy_error 0 s;
     s \<leftarrow> (if get32 (out_packet s) AH_capi_error = 0 then do {
            let len1 = (word_le (capi20_bytes L w message 2) :: u32);
            p \<leftarrow> put_bytes_chk PACKET_SIZE data (capi20_bytes L w message (unat len1)) (out_packet s);
            let s = set_head AH_data_len len1 (s\<lparr>out_packet := p\<rparr>);
            let cmd1 = out_packet s (data + 4);
            let cmd2 = out_packet s (data + 5);
            if cmd1 = 0x86 \<and> cmd2 = 0x82 then
              if len1 < 18 then Some (set_head AH_proxy_error PERROR_PARSE_ERROR s)
              else do {
                let len2 = get16 (out_packet s) (data + 16);
                let pointer = get32 (out_packet s) (data + 12);
                p \<leftarrow> put_bytes_chk PACKET_SIZE (data + unat len1)
                       (capi20_bytes L w pointer (unat len2)) (out_packet s);
                let s = s\<lparr>out_packet := p\<rparr>;
                Some (set_head AH_data_len (get32 (out_packet s) AH_data_len + len2) s)
              }
            else Some s
          } else Some s);
     let s = set_message_len s;
     send_answer s
   }"

definition exec_capi_putmessage_old :: "'w capi20 \<Rightarrow> 'w server \<Rightarrow> (int \<times> 'w server) option" where
  "exec_capi_putmessage_old L s = do {
     let msg = unat (rq_header_len (req s) + rq_body_len (req s));
     let s = set_head AH_header_len (of_nat sizeof_ANSWER_HEADER) s;
     let s = set_head AH_body_len 0 s;
     let s = set_head AH_data_len 0 s;
     let s = set_message_len s;
     let s = set_head AH_message_id (rq_message_id (req s)) s;
     let s = set_head AH_message_type TYPE_CAPI_PUTMESSAGE s;
     let s = set_head AH_app_id (rq_app_id (req s)) s;
     let s = set_head AH_session_id (sessionID s) s;
     let s = set_head AH_proxy_error 0 s;
     s \<leftarrow> (if rq_data_len (req s) < 8 then Some (set_head AH_proxy_error PERROR_PARSE_ERROR s)
          else do {
            len1 \<leftarrow> get16_chk PACKET_SIZE (in_packet s) msg;
            if rq_data_len (req s) < len1 then Some (set_head AH_proxy_error PERROR_PARSE_ERROR s)
            else do {
              cmd1 \<leftarrow> get8_chk PACKET_SIZE (in_packet s) (msg + 4);
              cmd2 \<leftarrow> get8_chk PACKET_SIZE (in_packet s) (msg + 5);
              if cmd1 = 0x86 \<and> cmd2 = 0x80 then
                if len1 < 18 then Some (set_head AH_proxy_error PERROR_PARSE_ERROR s)
                else do {
                  len2 \<leftarrow> get16_chk PACKET_SIZE (in_packet s) (msg + 16);
                  if len1 + len2 > rq_data_len (req s)
                  then Some (set_head AH_proxy_error PERROR_PARSE_ERROR s)
                  else do {
                    let pointer = in_addr s + of_nat msg + len1;
                    p \<leftarrow> put_bytes_chk PACKET_SIZE (msg + 12) (bytes_le 4 pointer) (in_packet s);
                    let s = s\<lparr>in_packet := p\<rparr>;
                    let (e, w) = capi20_put_message L (rq_app_id (req s)) (in_addr s + of_nat msg)
                                   (\<lambda>i. in_packet s (msg + i)) (world s);
                    Some (set_head AH_capi_error e (s\<lparr>world := w\<rparr>))
                  }
                }
              else do {
                let (e, w) = capi20_put_message L (rq_app_id (req s)) (in_addr s + of_nat msg)
                               (\<lambda>i. in_packet s (msg + i)) (world s);
                Some (set_head AH_capi_error e (s\<lparr>world := w\<rparr>))
              }
            }
          });
     send_answer s
   }"

definition exec_capi_waitforsignal_old :: "'w capi20 \<Rightarrow> 'w server \<Rightarrow> (control \<times> 'w server) option" where
  "exec_capi_waitforsignal_old L s = do {
     let s = s\<lparr>numbytes := 1\<rparr>;
     let data_app_id = rq_app_id (req s);
     let data_message_id = rq_message_id (req s);
     let (pid, s) = sys_fork s;
     if pid \<noteq> 0 \<and> pid \<noteq> -1 then Some (Returned 1, s)
     else do {
       let s = (if pid = 0
                then let (e, w) = capi20_waitformessage L data_app_id (world s)
                     in set_head AH_proxy_error PERROR_NONE (set_head AH_capi_error e (s\<lparr>world := w\<rparr>))
                else set_head AH_proxy_error PERROR_NO_RESSOURCES (set_head AH_capi_error 0x1108 s));
       let s = set_head AH_header_len (of_nat sizeof_ANSWER_HEADER) s;
       let s = set_head AH_body_len 0 s;
       let s = set_head AH_data_len 0 s;
       let s = set_message_len s;
       let s = set_head AH_message_id data_message_id s;
       let s = set_head AH_message_type TYPE_CAPI_WAITFORSIGNAL s;
       let s = set_head AH_app_id data_app_id s;
       let s = set_head AH_session_id (sessionID s) s;
       (n, s) \<leftarrow> send_answer s;
       Some (if pid = 0 then Exited 0 else Returned n, s)
     }
   }"

definition exec_capi_isinstalled_old :: "'w capi20 \<Rightarrow> 'w server \<Rightarrow> (int \<times> 'w server) option" where
  "exec_capi_isinstalled_old L s = do {
     let (return_type, w) = capi20_isinstalled L (world s);
     let s = s\<lparr>world := w\<rparr>;
     let s = set_head AH_header_len (of_nat sizeof_ANSWER_HEADER) s;
     let s = set_head AH_body_len 0 s;
     let s = set_head AH_data_len 0 s;
     let s = set_message_len s;
     let s = set_head AH_message_id (rq_message_id (req s)) s;
     let s = set_head AH_message_type TYPE_CAPI_INSTALLED s;
     let s = set_head AH_app_id (rq_app_id (req s)) s;
     let s = set_head AH_session_id (sessionID s) s;
     let s = set_head AH_capi_error return_type s;
     let s = set_head AH_proxy_error 0 s;
     send_answer s
   }"

definition exec_capi_profile_old :: "'w capi20 \<Rightarrow> 'w server \<Rightarrow> (int \<times> 'w server) option" where
  "exec_capi_profile_old L s = do {
     let (e, bs, w) = capi20_get_profile L (rq_controller_id (req s)) (world s);
     p \<leftarrow> put_bytes_chk PACKET_SIZE sizeof_ANSWER_HEADER bs (out_packet s);
     let s = set_head AH_capi_error e (s\<lparr>world := w, out_packet := p\<rparr>);
     let s = set_head AH_header_len (of_nat sizeof_ANSWER_HEADER) s;
     let s = set_head AH_body_len (of_nat sizeof_ANSWER_CAPI_PROFILE) s;
     let s = set_head AH_data_len 0 s;
     let s = set_message_len s;
     let s = set_head AH_message_id (rq_message_id (req s)) s;
     let s = set_head AH_message_type TYPE_CAPI_PROFILE s;
     let s = set_head AH_app_id (rq_app_id (req s)) s;
     let s = set_head AH_session_id (sessionID s) s;
     let s = set_head AH_proxy_error 0 s;
     send_answer s
   }"

definition exec_capi_serial_old :: "'w capi20 \<Rightarrow> 'w server \<Rightarrow> (int \<times> 'w server) option" where
  "exec_capi_serial_old L s = do {
     let (bs, w) = capi20_get_serial_number L (rq_controller_id (req s)) (world s);
     p \<leftarrow> put_bytes_chk PACKET_SIZE sizeof_ANSWER_HEADER bs (out_packet s);
     let s = s\<lparr>world := w, out_packet := p\<rparr>;
     let s = set_head AH_header_len (of_nat sizeof_ANSWER_HEADER) s;
     let s = set_head AH_body_len (of_nat sizeof_ANSWER_CAPI_SERIAL) s;
     let s = set_head AH_data_len 0 s;
     let s = set_message_len s;
     let s = set_head AH_message_id (rq_message_id (req s)) s;
     let s = set_head AH_message_type TYPE_CAPI_SERIAL s;
     let s = set_head AH_app_id (rq_app_id (req s)) s;
     let s = set_head AH_session_id (sessionID s) s;
     let s = set_head AH_proxy_error 0 s;
     let s = set_head AH_capi_error 0 s;
     send_answer s
   }"

definition exec_capi_version_old :: "'w capi20 \<Rightarrow> 'w server \<Rightarrow> (int \<times> 'w server) option" where
  "exec_capi_version_old L s = do {
     let body = sizeof_ANSWER_HEADER;
     let (bs, w) = capi20_get_version L (rq_controller_id (req s)) (world s);
     buf \<leftarrow> put_bytes_chk 16 0 bs (stack_junk s);
     let s = s\<lparr>world := w\<rparr>;
     let s = set_head AH_header_len (of_nat sizeof_ANSWER_HEADER) s;
     let s = set_head AH_body_len (of_nat sizeof_ANSWER_CAPI_VERSION) s;
     let s = set_head AH_data_len 0 s;
     let s = set_message_len s;
     let s = set_head AH_message_id (rq_message_id (req s)) s;
     let s = set_head AH_message_type TYPE_CAPI_VERSION s;
     let s = set_head AH_app_id (rq_app_id (req s)) s;
     let s = set_head AH_session_id (sessionID s) s;
     let s = set_head AH_proxy_error 0 s;
     let s = set_head AH_capi_error 0 s;
     let s = set_head (body + 8) (get32 buf 0) s;
     let s = set_head (body + 12) (get32 buf 4) s;
     let s = set_head body (get32 buf 8) s;
     let s = set_head (body + 4) (get32 buf 12) s;
     send_answer s
   }"

definition exec_capi_manufacturer_old :: "'w capi20 \<Rightarrow> 'w server \<Rightarrow> (int \<times> 'w server) option" where
  "exec_capi_manufacturer_old L s = do {
     let (bs, w) = capi20_get_manufacturer L (rq_controller_id (req s)) (world s);
     p \<leftarrow> put_bytes_chk PACKET_SIZE sizeof_ANSWER_HEADER bs (out_packet s);
     let s = s\<lparr>world := w, out_packet := p\<rparr>;
     let s = set_head AH_header_len (of_nat sizeof_ANSWER_HEADER) s;
     let s = set_head AH_body_len (of_nat sizeof_ANSWER_CAPI_MANUFACTURER) s;
     let s = set_head AH_data_len 0 s;
     let s = set_message_len s;
     let s = set_head AH_message_id (rq_message_id (req s)) s;
     let s = set_head AH_message_type TYPE_CAPI_MANUFACTURER s;
     let s = set_head AH_app_id (rq_app_id (req s)) s;
     let s = set_head AH_session_id (sessionID s) s;
     let s = set_head AH_proxy_error 0 s;
     let s = set_head AH_capi_error 0 s;
     send_answer s
   }"

section \<open>Signals\<close>

definition sighandler1 :: "signal \<Rightarrow> 'w server \<Rightarrow> control \<times> 'w server" where
  "sighandler1 sig s =
     (case sig of
        SIGINT \<Rightarrow> (Exited 0, s\<lparr>sc_open := False\<rparr>)
      | SIGTERM \<Rightarrow> (Exited 0, s\<lparr>sc_open := False\<rparr>)
      | _ \<Rightarrow> (Returned 0, s))"

definition sighandler2 :: "signal \<Rightarrow> 'w server \<Rightarrow> control \<times> 'w server" where
  "sighandler2 sig s =
     (case sig of
        SIGINT \<Rightarrow> (Exited 0, s\<lparr>sock_open := False\<rparr>)
      | SIGTERM \<Rightarrow> (Exited 0, s\<lparr>sock_open := False\<rparr>)
      | _ \<Rightarrow> (Returned 0, s))"

section \<open>The session\<close>

abbreviation with_apps :: "u32 list \<Rightarrow> (control \<times> 'w server) option \<Rightarrow> (control \<times> 'w old_server) option" where
  "with_apps apps r \<equiv> map_option (\<lambda>(c, s). (c, s, apps)) r"

fun dispatch_old :: "auth_layout \<Rightarrow> 'w capi20 \<Rightarrow> 'w old_server \<Rightarrow> (control \<times> 'w old_server) option" where
  "dispatch_old A L (s, apps) =
     (let t = rq_message_type (req s);
          foreign = (verify_session_id (rq_session_id (req s)) s \<noteq> 0);
          ignore = Some (Returned 1, s, apps);
          same = with_apps apps in
      if t = TYPE_PROXY_HELO then same (plain (exec_proxy_helo_old s))
      else if t = TYPE_PROXY_AUTH then same (plain (exec_proxy_auth_old A s))
      else if t = TYPE_PROXY_KEEPALIVE then ignore
      else if t = TYPE_CAPI_REGISTER then
        if foreign then ignore else map_option (apfst Returned) (exec_capi_register_old L (s, apps))
      else if t = TYPE_CAPI_RELEASE then
        if foreign then ignore else map_option (apfst Returned) (exec_capi_release_old L (s, apps))
      else if t = TYPE_CAPI_INSTALLED then if foreign then ignore else same (plain (exec_capi_isinstalled_old L s))
      else if t = TYPE_CAPI_VERSION then if foreign then ignore else same (plain (exec_capi_version_old L s))
      else if t = TYPE_CAPI_SERIAL then if foreign then ignore else same (plain (exec_capi_serial_old L s))
      else if t = TYPE_CAPI_MANUFACTURER then if foreign then ignore else same (plain (exec_capi_manufacturer_old L s))
      else if t = TYPE_CAPI_PROFILE then if foreign then ignore else same (plain (exec_capi_profile_old L s))
      else if t = TYPE_CAPI_WAITFORSIGNAL then if foreign then ignore else same (exec_capi_waitforsignal_old L s)
      else if t = TYPE_CAPI_GETMESSAGE then if foreign then ignore else same (plain (exec_capi_getmessage_old L s))
      else if t = TYPE_CAPI_PUTMESSAGE then if foreign then ignore else same (plain (exec_capi_putmessage_old L s))
      else ignore)"

text \<open>The end of the connection; \<open>n\<close> is what \<^verbatim>\<open>recv\<close> has returned.\<close>

fun hangup_old :: "'w capi20 \<Rightarrow> int \<Rightarrow> 'w old_server \<Rightarrow> control \<times> 'w old_server" where
  "hangup_old L n (s, apps) =
     (let s = s\<lparr>sock_open := False\<rparr>;
          (apps, w) = release_all_list (capi20_release L) apps (world s)
      in (Exited (if n = 0 then 0 else 1), s\<lparr>world := w\<rparr>, apps))"

fun session_step_old :: "auth_layout \<Rightarrow> 'w capi20 \<Rightarrow> 'w old_server \<Rightarrow> (control \<times> 'w old_server) option" where
  "session_step_old A L (s, apps) =
     (let (n, bs, es) = sock_recv (rx s) PACKET_SIZE;
          s = s\<lparr>rx := es, in_packet := put_bytes 0 bs (in_packet s)\<rparr>
      in if n < 1 then Some (hangup_old L n (s, apps)) else dispatch_old A L (s, apps))"

section \<open>The present server as its specification\<close>

text \<open>The list as a table.\<close>

definition table_of :: "u32 list \<Rightarrow> app_table" where
  "table_of apps = (\<lambda>i. if i \<in> unat ` set apps then 1 else 0)"

fun present :: "'w old_server \<Rightarrow> 'w server" where
  "present (s, apps) = s\<lparr>registered_apps := table_of apps\<rparr>"

lemma table_of_add: "table_of (add_app_list a apps) = add_app a (table_of apps)"
  by (auto simp: table_of_def add_app_def set_add_app_list fun_eq_iff)

lemma table_of_del: "distinct apps \<Longrightarrow> table_of (del_app_list a apps) = del_app a (table_of apps)"
  by (auto simp: table_of_def del_app_def del_app_list_distinct fun_eq_iff word_unat_eq_iff)

lemma handlers_old:
  "exec_capi_getmessage_old = exec_capi_getmessage" "exec_capi_putmessage_old = exec_capi_putmessage"
  "exec_capi_waitforsignal_old = exec_capi_waitforsignal" "exec_capi_isinstalled_old = exec_capi_isinstalled"
  "exec_capi_profile_old = exec_capi_profile" "exec_capi_serial_old = exec_capi_serial"
  "exec_capi_version_old = exec_capi_version" "exec_capi_manufacturer_old = exec_capi_manufacturer"
  unfolding exec_capi_getmessage_old_def exec_capi_putmessage_old_def exec_capi_waitforsignal_old_def
    exec_capi_isinstalled_old_def exec_capi_profile_old_def exec_capi_serial_old_def exec_capi_version_old_def
    exec_capi_manufacturer_old_def handler_defs exec_capi_waitforsignal_def
  by (rule refl)+

text \<open>Moving an update of the table outwards.\<close>

named_theorems table_simps \<open>the table is not touched\<close>

lemma set_head_table [table_simps]:
  "set_head off v (s\<lparr>registered_apps := t\<rparr>) = (set_head off v s)\<lparr>registered_apps := t\<rparr>"
  by (simp add: set_head_def)

lemma set_message_len_table [table_simps]:
  "set_message_len (s\<lparr>registered_apps := t\<rparr>) = (set_message_len s)\<lparr>registered_apps := t\<rparr>"
  by (simp add: set_message_len_def set_head_table)

lemma sock_send_table: "sock_send p (s\<lparr>registered_apps := t\<rparr>) = apsnd (\<lambda>s'. s'\<lparr>registered_apps := t\<rparr>) (sock_send p s)"
  by (simp add: sock_send_def split: list.split)

lemma send_answer_table [table_simps]:
  "send_answer (s\<lparr>registered_apps := t\<rparr>) = map_option (apsnd (\<lambda>s'. s'\<lparr>registered_apps := t\<rparr>)) (send_answer s)"
  by (simp add: send_answer_def sock_send_table split: option.split)

lemma sys_fork_table [table_simps]:
  "sys_fork (s\<lparr>registered_apps := t\<rparr>) = apsnd (\<lambda>s'. s'\<lparr>registered_apps := t\<rparr>) (sys_fork s)"
  by (simp add: sys_fork_def split: list.split)

lemma update_table [table_simps]:
  "s\<lparr>registered_apps := t, world := w\<rparr> = s\<lparr>world := w\<rparr>\<lparr>registered_apps := t\<rparr>"
  "s\<lparr>registered_apps := t, client_info := ci\<rparr> = s\<lparr>client_info := ci\<rparr>\<lparr>registered_apps := t\<rparr>"
  "s\<lparr>registered_apps := t, in_packet := b\<rparr> = s\<lparr>in_packet := b\<rparr>\<lparr>registered_apps := t\<rparr>"
  "s\<lparr>registered_apps := t, out_packet := b\<rparr> = s\<lparr>out_packet := b\<rparr>\<lparr>registered_apps := t\<rparr>"
  "s\<lparr>registered_apps := t, numbytes := n\<rparr> = s\<lparr>numbytes := n\<rparr>\<lparr>registered_apps := t\<rparr>"
  by simp_all

lemma handlers_table:
  "exec_capi_getmessage L (s\<lparr>registered_apps := t\<rparr>) = map_option (apsnd (\<lambda>s'. s'\<lparr>registered_apps := t\<rparr>)) (exec_capi_getmessage L s)"
  "exec_capi_isinstalled L (s\<lparr>registered_apps := t\<rparr>) = map_option (apsnd (\<lambda>s'. s'\<lparr>registered_apps := t\<rparr>)) (exec_capi_isinstalled L s)"
  "exec_capi_manufacturer L (s\<lparr>registered_apps := t\<rparr>) = map_option (apsnd (\<lambda>s'. s'\<lparr>registered_apps := t\<rparr>)) (exec_capi_manufacturer L s)"
  "exec_capi_version L (s\<lparr>registered_apps := t\<rparr>) = map_option (apsnd (\<lambda>s'. s'\<lparr>registered_apps := t\<rparr>)) (exec_capi_version L s)"
  "exec_capi_serial L (s\<lparr>registered_apps := t\<rparr>) = map_option (apsnd (\<lambda>s'. s'\<lparr>registered_apps := t\<rparr>)) (exec_capi_serial L s)"
  "exec_capi_profile L (s\<lparr>registered_apps := t\<rparr>) = map_option (apsnd (\<lambda>s'. s'\<lparr>registered_apps := t\<rparr>)) (exec_capi_profile L s)"
  unfolding handler_defs Let_def
  by (simp_all add: table_simps split: prod.split Option.bind_split)

lemma putmessage_table:
  "exec_capi_putmessage L (s\<lparr>registered_apps := t\<rparr>) = map_option (apsnd (\<lambda>s'. s'\<lparr>registered_apps := t\<rparr>)) (exec_capi_putmessage L s)"
  unfolding exec_capi_putmessage_def Let_def
  by (auto simp: table_simps split: prod.splits Option.bind_splits if_splits)

lemma waitforsignal_table:
  "exec_capi_waitforsignal L (s\<lparr>registered_apps := t\<rparr>) =
     map_option (apsnd (\<lambda>s'. s'\<lparr>registered_apps := t\<rparr>)) (exec_capi_waitforsignal L s)"
proof -
  obtain pid u where f: "sys_fork (s\<lparr>numbytes := 1\<rparr>) = (pid, u)" by fastforce
  show ?thesis
    unfolding exec_capi_waitforsignal_def Let_def
    by (cases "capi20_waitformessage L (rq_app_id (req s)) (world u)")
      (simp add: table_simps f split: Option.bind_split)
qed

text \<open>The two handlers that keep the list.\<close>

declare exec_capi_register_old.simps [simp del] exec_capi_release_old.simps [simp del]

lemma register_old_present:
  "map_option (apsnd present) (exec_capi_register_old L (s, apps)) = exec_capi_register L (present (s, apps))"
  unfolding exec_capi_register_def Let_def
  by (auto simp: exec_capi_register_old.simps Let_def table_simps table_of_add [symmetric] split: prod.splits Option.bind_splits if_splits)

lemma release_old_present:
  assumes "distinct apps"
  shows "map_option (apsnd present) (exec_capi_release_old L (s, apps)) = exec_capi_release L (present (s, apps))"
  unfolding exec_capi_release_def Let_def
  by (auto simp: exec_capi_release_old.simps Let_def table_simps table_of_del [OF assms, symmetric] split: prod.splits Option.bind_splits if_splits)

lemma register_old_drop:
  "map_option (apsnd (\<lambda>(s, apps). s\<lparr>registered_apps := t\<rparr>)) (exec_capi_register_old L (s, apps)) =
     map_option (apsnd (\<lambda>s. s\<lparr>registered_apps := t\<rparr>)) (exec_capi_register L (s\<lparr>registered_apps := u\<rparr>))"
  unfolding exec_capi_register_def Let_def
  by (auto simp: exec_capi_register_old.simps Let_def table_simps split: prod.splits Option.bind_splits if_splits)

lemma release_old_drop:
  "map_option (apsnd (\<lambda>(s, apps). s\<lparr>registered_apps := t\<rparr>)) (exec_capi_release_old L (s, apps)) =
     map_option (apsnd (\<lambda>s. s\<lparr>registered_apps := t\<rparr>)) (exec_capi_release L (s\<lparr>registered_apps := u\<rparr>))"
  unfolding exec_capi_release_def Let_def
  by (auto simp: exec_capi_release_old.simps Let_def table_simps split: prod.splits Option.bind_splits if_splits)

lemma with_apps_present:
  assumes "f (s\<lparr>registered_apps := table_of apps\<rparr>) = map_option (apsnd (\<lambda>s'. s'\<lparr>registered_apps := table_of apps\<rparr>)) (f s)"
  shows "map_option (apsnd present) (with_apps apps (f s)) = f (present (s, apps))"
  using assms by (cases "f s") auto

lemma plain_apps_present:
  assumes "f (s\<lparr>registered_apps := table_of apps\<rparr>) = map_option (apsnd (\<lambda>s'. s'\<lparr>registered_apps := table_of apps\<rparr>)) (f s)"
  shows "map_option (apsnd present) (with_apps apps (plain (f s))) = plain (f (present (s, apps)))"
  using assms by (cases "f s") auto

lemma with_apps_drop:
  assumes "\<And>v. f (s\<lparr>registered_apps := v\<rparr>) = map_option (apsnd (\<lambda>s'. s'\<lparr>registered_apps := v\<rparr>)) (f s)"
  shows "map_option (apsnd (\<lambda>(s, apps). s\<lparr>registered_apps := t\<rparr>)) (with_apps apps (f s)) =
      map_option (apsnd (\<lambda>s. s\<lparr>registered_apps := t\<rparr>)) (f (s\<lparr>registered_apps := u\<rparr>))"
  using assms by (cases "f s") auto

lemma plain_apps_drop:
  assumes "\<And>v. f (s\<lparr>registered_apps := v\<rparr>) = map_option (apsnd (\<lambda>s'. s'\<lparr>registered_apps := v\<rparr>)) (f s)"
  shows "map_option (apsnd (\<lambda>(s, apps). s\<lparr>registered_apps := t\<rparr>)) (with_apps apps (plain (f s))) =
      map_option (apsnd (\<lambda>s. s\<lparr>registered_apps := t\<rparr>)) (plain (f (s\<lparr>registered_apps := u\<rparr>)))"
  using assms by (cases "f s") auto

lemma map_Returned: "map_option (apsnd f) (map_option (apfst k) q) = map_option (apfst k) (map_option (apsnd f) q)"
  by (cases q) auto

text \<open>
  For all requests but HELO and AUTH the list is a faithful image of the table, and whatever is recorded in either, the rest
  of the state is the same.
\<close>

lemma dispatch_old_present:
  assumes "rq_message_type (req s) \<notin> {TYPE_PROXY_HELO, TYPE_PROXY_AUTH}" and "distinct apps"
  shows "map_option (apsnd present) (dispatch_old A L (s, apps)) = dispatch L (present (s, apps))"
proof -
  have p: "req (present (s, apps)) = req s" "sessionID (present (s, apps)) = sessionID s" by simp_all
  note eqs = with_apps_present [where f = "exec_capi_waitforsignal L", OF waitforsignal_table]
    plain_apps_present [where f = "exec_capi_putmessage L", OF putmessage_table]
    plain_apps_present [where f = "exec_capi_getmessage L", OF handlers_table(1)]
    plain_apps_present [where f = "exec_capi_isinstalled L", OF handlers_table(2)]
    plain_apps_present [where f = "exec_capi_manufacturer L", OF handlers_table(3)]
    plain_apps_present [where f = "exec_capi_version L", OF handlers_table(4)]
    plain_apps_present [where f = "exec_capi_serial L", OF handlers_table(5)]
    plain_apps_present [where f = "exec_capi_profile L", OF handlers_table(6)]
  show ?thesis
    using assms(1) unfolding dispatch_old.simps dispatch_def Let_def p verify_session_id_def handlers_old
    by (simp add: if_distrib [of "map_option _"] eqs map_Returned register_old_present release_old_present [OF assms(2)]
        cong: if_cong split del: if_split del: present.simps) simp
qed

lemma dispatch_old_drop:
  assumes "rq_message_type (req s) \<notin> {TYPE_PROXY_HELO, TYPE_PROXY_AUTH}"
  shows "map_option (apsnd (\<lambda>(s, apps). s\<lparr>registered_apps := t\<rparr>)) (dispatch_old A L (s, apps)) =
     map_option (apsnd (\<lambda>s. s\<lparr>registered_apps := t\<rparr>)) (dispatch L (s\<lparr>registered_apps := u\<rparr>))"
proof -
  define s1 where "s1 = s\<lparr>registered_apps := u\<rparr>"
  have p: "req s1 = req s" "sessionID s1 = sessionID s" by (simp_all add: s1_def)
  note eqs = with_apps_drop [where f = "exec_capi_waitforsignal L" and u = u, OF waitforsignal_table, folded s1_def]
    plain_apps_drop [where f = "exec_capi_putmessage L" and u = u, OF putmessage_table, folded s1_def]
    plain_apps_drop [where f = "exec_capi_getmessage L" and u = u, OF handlers_table(1), folded s1_def]
    plain_apps_drop [where f = "exec_capi_isinstalled L" and u = u, OF handlers_table(2), folded s1_def]
    plain_apps_drop [where f = "exec_capi_manufacturer L" and u = u, OF handlers_table(3), folded s1_def]
    plain_apps_drop [where f = "exec_capi_version L" and u = u, OF handlers_table(4), folded s1_def]
    plain_apps_drop [where f = "exec_capi_serial L" and u = u, OF handlers_table(5), folded s1_def]
    plain_apps_drop [where f = "exec_capi_profile L" and u = u, OF handlers_table(6), folded s1_def]
  show ?thesis
    using assms unfolding dispatch_old.simps dispatch_def Let_def s1_def [symmetric] p verify_session_id_def handlers_old
    by (simp add: if_distrib [of "map_option _"] eqs map_Returned register_old_drop [where u = u, folded s1_def]
        release_old_drop [where u = u, folded s1_def] cong: if_cong split del: if_split) (simp add: s1_def)
qed

section \<open>The contracts of HELO and AUTH\<close>

lemma length_SERVER_NAME_old [simp]: "length SERVER_NAME_old = 37"
  by (simp add: SERVER_NAME_old_def)

definition helo_body_old :: "'w server \<Rightarrow> byte list" where
  "helo_body_old s = SERVER_NAME_old @ [0] @ get_bytes (out_packet s) 78 26 @ bytes_le 4 OS_TYPE_LINUX @
     bytes_le 4 (major (local_version s)) @ bytes_le 4 (minor (local_version s)) @
     bytes_le 4 AUTH_NO_AUTH @ get_bytes (out_packet s) 120 4"

lemma exec_proxy_helo_old_eq:
  assumes "helo_pre s"
  shows "\<exists>p. exec_proxy_helo_old s = Some (sock_send (answer_packet
      \<lparr>an_message_len = 124, an_header_len = 40, an_body_len = 84, an_data_len = 0,
       an_message_id = rq_message_id (req s), an_message_type = TYPE_PROXY_HELO,
       an_app_id = 0, an_session_id = sessionID s, an_proxy_error = 0,
       an_capi_error = 0\<rparr> (helo_body_old s))
     (s\<lparr>client_info := helo_client s, out_packet := p\<rparr>))"
proof -
  let ?h = "unat (rq_header_len (req s))"
  have bnd: "?h + 64 + 4 \<le> PACKET_SIZE" "?h + 68 + 4 \<le> PACKET_SIZE" "?h + 72 + 4 \<le> PACKET_SIZE"
    using assms by (simp_all add: helo_pre_def)
  obtain name where n: "strcpy_chk 64 PACKET_SIZE (in_packet s) ?h = Some name"
    using assms by (auto simp: helo_pre_def)
  show ?thesis
    unfolding exec_proxy_helo_old_def Let_def get32_chk_def bnd [THEN eqTrueI] if_True bind.bind_lunit n
    by (rule answerI [where n = 124]; (rule server.equality)?;
        simp add: answer_simps helo_client_def n [unfolded PACKET_SIZE_def]
          helo_body_old_def get_bytes_put_bytes_split get_bytes_put32_split)
qed

lemma proxy_old_oblivious:
  "exec_proxy_helo_old (s\<lparr>rx := r\<rparr>) = map_option (apsnd (\<lambda>s'. s'\<lparr>rx := r\<rparr>)) (exec_proxy_helo_old s)"
  "exec_proxy_auth_old A (s\<lparr>rx := r\<rparr>) = map_option (apsnd (\<lambda>s'. s'\<lparr>rx := r\<rparr>)) (exec_proxy_auth_old A s)"
  unfolding exec_proxy_helo_old_def exec_proxy_auth_old_def Let_def
  by (auto simp: rx_simps split: prod.splits Option.bind_splits if_splits)

lemma proxy_old_frame:
  "exec_proxy_helo_old s = Some (n, s') \<Longrightarrow> session_frame s s'"
  "exec_proxy_auth_old A s = Some (n, s') \<Longrightarrow> session_frame s s'"
  unfolding exec_proxy_helo_old_def exec_proxy_auth_old_def Let_def
  by (auto split: prod.splits Option.bind_splits if_splits elim!: send_answer_frame)

interpretation helo_old: capi_handler "\<lambda>s. plain (exec_proxy_helo_old s)" TYPE_PROXY_HELO helo_pre
proof (rule capi_handlerI [OF plain_session_handler [OF proxy_old_oblivious(1) proxy_old_frame(1)]])
  fix s :: "'a server" assume pre: "helo_pre s"
  show "answered_in_session (plain (exec_proxy_helo_old s)) s TYPE_PROXY_HELO"
    by (rule answered_in_sessionI [OF exec_proxy_helo_old_eq [OF pre]])
      (simp_all add: well_framed_answer_packet PACKET_SIZE_def helo_body_old_def)
qed

interpretation auth_old: session_handler "\<lambda>s. plain (exec_proxy_auth_old A s)" for A
  by (rule plain_session_handler [OF proxy_old_oblivious(2) proxy_old_frame(2)])

section \<open>The loop\<close>

declare dispatch_old.simps [simp del]

lemma dispatch_old_frame:
  assumes "dispatch_old A L (s, apps) = Some (c, s', apps')"
  shows "rx s' = rx s \<and> sessionID s' = sessionID s"
proof (cases "rq_message_type (req s) \<in> {TYPE_PROXY_HELO, TYPE_PROXY_AUTH}")
  case True
  then consider "rq_message_type (req s) = TYPE_PROXY_HELO" | "rq_message_type (req s) = TYPE_PROXY_AUTH" by blast
  then show ?thesis
  proof cases
    case 1
    with assms have "plain (exec_proxy_helo_old s) = Some (c, s')" by (auto simp: dispatch_old.simps Let_def)
    from helo_old.keeps_rx [OF this] helo_old.keeps_session [OF this] show ?thesis by simp
  next
    case 2
    then have "rq_message_type (req s) \<noteq> TYPE_PROXY_HELO" by (simp add: proto_consts)
    with 2 assms have "plain (exec_proxy_auth_old A s) = Some (c, s')" by (auto simp: dispatch_old.simps Let_def)
    from auth_old.keeps_rx [OF this] auth_old.keeps_session [OF this] show ?thesis by simp
  qed
next
  case False
  from dispatch_old_drop [OF this, where A = A and L = L and apps = apps and t = "registered_apps s"
      and u = "registered_apps s"] assms
  obtain t where t: "dispatch L s = Some (c, t)" "s'\<lparr>registered_apps := registered_apps s\<rparr> = t\<lparr>registered_apps := registered_apps s\<rparr>"
    by (cases "dispatch L s") auto
  from arg_cong [OF t(2), of rx] arg_cong [OF t(2), of sessionID] dispatching.keeps_rx [OF t(1)] dispatching.keeps_session [OF t(1)]
  show ?thesis by simp
qed

lemma session_step_old_continues:
  assumes "session_step_old A L (s, apps) = Some (Returned k, s', apps')"
  shows "rx_size (rx s') < rx_size (rx s)"
proof -
  obtain n bs es where r: "sock_recv (rx s) PACKET_SIZE = (n, bs, es)" by (metis prod_cases3)
  have n: "\<not> n < 1" using assms by (auto simp: r Let_def split: prod.splits if_splits)
  with assms have "dispatch_old A L (s\<lparr>rx := es, in_packet := put_bytes 0 bs (in_packet s)\<rparr>, apps) = Some (Returned k, s', apps')"
    by (simp add: r)
  from dispatch_old_frame [OF this] sock_recv_progress [OF r] n show ?thesis by simp
qed

function session_old :: "auth_layout \<Rightarrow> 'w capi20 \<Rightarrow> 'w old_server \<Rightarrow> (int \<times> 'w old_server) option" where
  "session_old A L st =
     (case session_step_old A L st of
        None \<Rightarrow> None
      | Some (Exited n, st') \<Rightarrow> Some (n, st')
      | Some (Returned _, st') \<Rightarrow> session_old A L st')"
  by pat_completeness auto
termination
proof (relation "measure (\<lambda>(A, L, st). rx_size (rx (fst st)))", goal_cases)
  case (2 A L st p c st' k)
  then show ?case
    using session_step_old_continues [where s = "fst st" and apps = "snd st"] by (cases st') auto
qed simp

declare session_old.simps [simp del] session_step_old.simps [simp del]

section \<open>main\<close>

text \<open>\<open>H_sigparent\<close> stands for \<^verbatim>\<open>sighandler1\<close>, its predecessor with the same text.\<close>

definition daemonize_old :: "process \<Rightarrow> control \<times> process" where
  "daemonize_old p =
     (let (r, p) = sys_fork_proc p in
      if r = -1 then (Exited 1, p)
      else if r \<noteq> 0 then (Exited 0, p)
      else let p = setsid p; (r, p) = sys_fork_proc p in
        if r = -1 then (Exited 1, p)
        else if r \<noteq> 0 then (Exited 0, p)
        else let p = p\<lparr>cwd := ''/''\<rparr>;
                 p = p\<lparr>umask_bits := 0\<rparr>;
                 p = p\<lparr>std_open := False\<rparr>;
                 p = signal_to SIGINT H_sigparent p;
                 p = signal_to SIGHUP H_sigparent p;
                 p = signal_to SIGTERM H_sigparent p;
                 p = signal_to SIGUSR1 H_sigparent p
             in (Returned 0, p))"

text \<open>The parent registers no application, so a session begins with the empty list.\<close>

fun accept_loop_old :: "auth_layout \<Rightarrow> 'w capi20 \<Rightarrow> 'w listener \<Rightarrow> accept_result list \<Rightarrow>
    (u32 \<times> (int \<times> 'w old_server) option) list \<times> control \<times> 'w listener" where
  "accept_loop_old A L l [] = ([], Returned 0, l)"
| "accept_loop_old A L l (AcceptError # as) =
     ([], Exited 1, l\<lparr>lst_server := (lst_server l)\<lparr>sc_open := False\<rparr>\<rparr>)"
| "accept_loop_old A L l (Accepted c # as) =
     (let s = (lst_server l)\<lparr>sock_open := True\<rparr>;
          s = s\<lparr>sessionID := sessionID s + 1\<rparr>;
          l = l\<lparr>lst_server := s, lst_socks := Suc (lst_socks l)\<rparr>
      in if \<not> conn_fork_ok c then
           ([], Exited 1, l\<lparr>lst_server := s\<lparr>sc_open := False, sock_open := False\<rparr>,
                           lst_socks := lst_socks l - 1\<rparr>)
         else let (outs, r, l') = accept_loop_old A L l as
              in ((sessionID s, session_old A L (start_session c s, [])) # outs, r, l'))"

definition main_old :: "auth_layout \<Rightarrow> 'w capi20 \<Rightarrow> environment \<Rightarrow> 'w server \<Rightarrow>
    (u32 \<times> (int \<times> 'w old_server) option) list \<times> control \<times> 'w listener" where
  "main_old A L env s =
     (let s = s\<lparr>auth_types := AUTH_NO_AUTH, local_version := \<lparr>major = MY_MAJOR, minor = MY_MINOR_old\<rparr>\<rparr>;
          (d, proc) = daemonize_old (env_process env)
      in case d of
           Exited k \<Rightarrow> ([], Exited k, \<lparr>lst_server = s, lst_socks = 0\<rparr>)
         | Returned _ \<Rightarrow>
             if \<not> env_socket_ok env then ([], Exited 1, \<lparr>lst_server = s, lst_socks = 0\<rparr>)
             else if \<not> env_bind_ok env \<or> \<not> env_listen_ok env then
               ([], Exited 1, \<lparr>lst_server = s\<lparr>sc_open := False\<rparr>, lst_socks = 0\<rparr>)
             else accept_loop_old A L
                    \<lparr>lst_server = s\<lparr>sc_open := True, sessionID := 0\<rparr>, lst_socks = 0\<rparr> (env_accepts env))"

end
