(* ===== verification/OldProperties.thy ===== *)
theory OldProperties
  imports OldServer DaemonGreeting ClientProperties
begin

text \<open>
  What the first server promises: it answers like the present one, as long as a \<^verbatim>\<open>recv\<close> returns one request, and
  unlike the present one it accepts the greeting and the queries of the daemon.
\<close>

section \<open>One segment\<close>

lemma session_step_old_segment:
  assumes "p \<noteq> []" and "length p \<le> PACKET_SIZE" and "rx s = Data p # es"
  shows "session_step_old A L (s, apps) = dispatch_old A L (input p s\<lparr>rx := es\<rparr>, apps)"
proof -
  have "s\<lparr>rx := es, in_packet := put_bytes 0 p (in_packet s)\<rparr> = input p s\<lparr>rx := es\<rparr>"
    by (rule server.equality) (simp_all add: input_def)
  with assms show ?thesis by (simp add: session_step_old.simps)
qed

lemma session_old_closed:
  assumes "rx s = []"
  shows "\<exists>s' apps'. session_old A L (s, apps) = Some (0, s', apps') \<and> tx s' = tx s \<and> \<not> sock_open s'"
  using assms by (subst session_old.simps) (simp add: session_step_old.simps split: prod.split)

lemma session_old_step:
  "session_step_old A L (s, apps) = Some (Returned k, st') \<Longrightarrow> session_old A L (s, apps) = session_old A L st'"
  "session_step_old A L (s, apps) = Some (Exited k, st') \<Longrightarrow> session_old A L (s, apps) = Some (k, st')"
  "session_step_old A L (s, apps) = None \<Longrightarrow> session_old A L (s, apps) = None"
  by (subst session_old.simps, simp)+

lemma sock_sent: "\<exists>n s'. sock_send p s = (n, s') \<and> tx s' = tx s @ [(p, n)] \<and> client_info s' = client_info s \<and>
    rx s' = rx s \<and> sessionID s' = sessionID s \<and> world s' = world s"
  by (cases rule: sock_send_cases [of p s]) auto

section \<open>The present server as the specification\<close>

text \<open>
  C17. The first server refines the present one: a request other than a greeting or an authentication is handled by both
  in the same way, with the same answers and calls of the library, and the list of applications stays a
  representation of the table.
\<close>

theorem old_dispatch_refines:
  assumes "distinct apps" and "rq_message_type (req s) \<notin> {TYPE_PROXY_HELO, TYPE_PROXY_AUTH}"
  shows "map_option (apsnd present) (dispatch_old A L (s, apps)) = dispatch L (present (s, apps))"
  by (rule dispatch_old_present [OF assms(2,1)])

theorem old_dispatch_refines_witness:
  "map_option (apsnd present) (dispatch_old \<lparr>al_size = 8, al_auth_type = (0, 4), al_auth_len = (4, 4)\<rparr> demo_capi
       (input (demo_request TYPE_CAPI_RELEASE [] [0]) demo_server, [2, 1])) =
   dispatch demo_capi (present (input (demo_request TYPE_CAPI_RELEASE [] [0]) demo_server, [2, 1]))"
  by (rule old_dispatch_refines) (simp_all add: demo_header_def proto_consts)

lemma detach_table: "detach (s\<lparr>registered_apps := u\<rparr>) = detach s\<lparr>registered_apps := u\<rparr>"
  by (simp add: detach_def)

text \<open>Well-framed requests other than the two whose handlers differ.\<close>

definition old_request :: "byte list \<Rightarrow> bool" where
  "old_request p \<longleftrightarrow> wf_request p \<and>
     rq_message_type (request_header_at (buffer_of p)) \<notin> {TYPE_PROXY_HELO, TYPE_PROXY_AUTH}"

text \<open>One request on both servers: what they end with differs in the table only, which the first one does not use.\<close>

lemma old_request_agrees:
  assumes "rq_message_type (req s) \<notin> {TYPE_PROXY_HELO, TYPE_PROXY_AUTH}"
  obtains "dispatch_old A L (s, apps) = None" "dispatch L (detach s\<lparr>registered_apps := u\<rparr>) = None"
  | c s' apps' t where "dispatch_old A L (s, apps) = Some (c, s', apps')" "rx s' = rx s"
      "dispatch L (detach s\<lparr>registered_apps := u\<rparr>) = Some (c, detach t)" "detach s'\<lparr>registered_apps := registered_apps t\<rparr> = detach t"
proof (cases "dispatch L (s\<lparr>registered_apps := u\<rparr>)")
  note eq = dispatch_old_drop [OF assms, where A = A and L = L and apps = apps and u = u and t = u]
  note d = dispatch_detach [of L "s\<lparr>registered_apps := u\<rparr>", unfolded detach_table]
  {
    case None
    with eq d show ?thesis by (intro that(1)) simp_all
  next
    case (Some r)
    then obtain c t where r: "dispatch L (s\<lparr>registered_apps := u\<rparr>) = Some (c, t)" by (cases r) auto
    with eq obtain s' apps' where o: "dispatch_old A L (s, apps) = Some (c, s', apps')"
      and t: "s'\<lparr>registered_apps := u\<rparr> = t\<lparr>registered_apps := u\<rparr>"
      by (cases "dispatch_old A L (s, apps)") auto
    have "s'\<lparr>registered_apps := registered_apps t\<rparr> = t"
      using arg_cong [OF t, of "\<lambda>s. s\<lparr>registered_apps := registered_apps t\<rparr>"] by simp
    then have "detach s'\<lparr>registered_apps := registered_apps t\<rparr> = detach t" by (metis detach_table)
    with o r d dispatch_old_frame [OF o] show ?thesis by (intro that(2)) simp_all
  }
qed

lemma old_session_handle_all:
  assumes "\<forall>p \<in> set ps. old_request p" and "rx s = map Data ps"
  shows "map_option (apsnd (\<lambda>(s, apps). (tx s, sock_open s))) (session_old A L (s, apps)) =
     map_option (apsnd (\<lambda>s. (tx s, sock_open s))) (handle_all L (detach s\<lparr>registered_apps := u\<rparr>) ps)"
  using assms
proof (induction ps arbitrary: s apps u)
  case Nil
  let ?s = "detach s\<lparr>registered_apps := u\<rparr>"
  obtain k s' where h: "hangup L ?s = (k, s')" by fastforce
  obtain t apps' where t: "session_old A L (s, apps) = Some (0, t, apps')" "tx t = tx s" "\<not> sock_open t"
    using session_old_closed Nil by (metis list.simps(8))
  have "tx s' = tx ?s" "\<not> sock_open s'" using hangup_keeps [of L ?s] h by auto
  with t h show ?case by simp
next
  case (Cons p ps)
  then have p: "p \<noteq> []" "36 \<le> length p" "length p \<le> PACKET_SIZE"
    "rq_message_type (request_header_at (buffer_of p)) \<notin> {TYPE_PROXY_HELO, TYPE_PROXY_AUTH}"
    by (auto simp: old_request_def wf_request_def)
  let ?i = "input p s\<lparr>rx := map Data ps\<rparr>"
  have "req ?i = request_header_at (buffer_of p)" using input_header [of p p s] p(2) by simp
  with p(4) have ty: "rq_message_type (req ?i) \<notin> {TYPE_PROXY_HELO, TYPE_PROXY_AUTH}" by simp
  have st: "session_step_old A L (s, apps) = dispatch_old A L (?i, apps)"
    using session_step_old_segment p Cons.prems(2) by simp
  have d: "input p (detach s\<lparr>registered_apps := u\<rparr>) = detach ?i\<lparr>registered_apps := u\<rparr>" by (simp add: input_def detach_def)
  from ty show ?case
  proof (cases rule: old_request_agrees [where A = A and L = L and apps = apps and u = u])
    case 1
    with st show ?thesis by (simp add: session_old_step d)
  next
    case (2 c s' apps' t)
    have tx: "tx s' = tx t" "sock_open s' = sock_open t"
      using arg_cong [OF 2(4), of tx] arg_cong [OF 2(4), of sock_open] by simp_all
    show ?thesis
    proof (cases c)
      case (Returned k)
      with Cons.IH [of s' apps' "registered_apps t"] Cons.prems(1) 2 st show ?thesis
        by (simp add: session_old_step(1) d)
    next
      case (Exited k)
      with 2 st tx show ?thesis by (simp add: session_old_step(2) d)
    qed
  qed
qed

text \<open>
  C18. Against a client that waits for the answer before it sends the next request, so that a segment is a request, the first
  server and the present one give the same answers in the same order and end with the same status.
\<close>

theorem old_session_agrees:
  assumes "\<forall>p \<in> set ps. old_request p" and "rx s = map Data ps"
  shows "map_option (apsnd (\<lambda>(s, apps). (tx s, sock_open s))) (session_old A L (s, apps)) =
     map_option (apsnd (\<lambda>s. (tx s, sock_open s))) (session L (s\<lparr>registered_apps := u\<rparr>))"
proof -
  let ?s = "s\<lparr>registered_apps := u\<rparr>" and ?v = "\<lambda>s :: 'a server. (tx s, sock_open s)"
  have "stream (map Data qs) = concat qs" if "\<forall>p \<in> set qs. old_request p" for qs
    using that by (induction qs) (auto simp: old_request_def wf_request_def)
  from this [OF assms(1)] have "stream (rx ?s) = concat ps" using assms(2) by simp
  then have "map_option (apsnd detach) (session L ?s) = handle_all L (detach ?s) ps"
    using assms serve_requests [of ps L] by (simp add: session_serve old_request_def)
  then have "map_option (apsnd ?v) (map_option (apsnd detach) (session L ?s)) = map_option (apsnd ?v) (handle_all L (detach ?s) ps)"
    by simp
  moreover have "map_option (apsnd ?v) (map_option (apsnd detach) q) = map_option (apsnd ?v) q" for q :: "(int \<times> 'a server) option"
    by (cases q) (auto simp: apsnd_def map_prod_def split: prod.split)
  moreover have "detach ?s = detach s\<lparr>registered_apps := u\<rparr>" by (simp add: detach_def)
  ultimately show ?thesis using old_session_handle_all [OF assms] by simp
qed

theorem old_session_agrees_witness:
  "map_option (apsnd (\<lambda>(s, apps). (tx s, sock_open s))) (session_old \<lparr>al_size = 8, al_auth_type = (0, 4), al_auth_len = (4, 4)\<rparr> demo_capi
       (demo_server\<lparr>rx := [Data (demo_request TYPE_CAPI_RELEASE [] [0]), Data (demo_request TYPE_CAPI_PROFILE [0] [])]\<rparr>, [1])) =
   map_option (apsnd (\<lambda>s. (tx s, sock_open s))) (session demo_capi
       (demo_server\<lparr>rx := [Data (demo_request TYPE_CAPI_RELEASE [] [0]), Data (demo_request TYPE_CAPI_PROFILE [0] [])],
          registered_apps := \<lambda>_. 0\<rparr>))"
proof -
  have "\<forall>p \<in> set [demo_request TYPE_CAPI_RELEASE [] [0], demo_request TYPE_CAPI_PROFILE [0] []]. old_request p"
    by (simp add: old_request_def wf_demo_request PACKET_SIZE_def buffer_of_def demo_header_def proto_consts)
  from old_session_agrees [OF this, where L = demo_capi and u = "\<lambda>_. 0" and apps = "[1]"
      and A = "\<lparr>al_size = 8, al_auth_type = (0, 4), al_auth_len = (4, 4)\<rparr>"
      and s = "demo_server\<lparr>rx := [Data (demo_request TYPE_CAPI_RELEASE [] [0]), Data (demo_request TYPE_CAPI_PROFILE [0] [])]\<rparr>"]
  show ?thesis by simp
qed

section \<open>The daemon\<close>

text \<open>
  C20. The first server accepts the greeting of the daemon, notes the name in it, and the daemon takes the session id from
  the answer.
\<close>

theorem old_server_greets_daemon:
  assumes "c_send_rets c = []"
  shows "\<exists>answer n s' c'. session_step_old A L (s\<lparr>rx := [Data (greeting c)]\<rparr>, apps) = Some (Returned n, s', apps) \<and>
     tx s' = tx s @ [(answer, n)] \<and> ci_name (client_info s') = string_bytes ''Freddy'' \<and>
     init_socket True True (c\<lparr>c_rx := [Data answer]\<rparr>) = Some (1, c') \<and>
     c_tx c' = c_tx c @ [(greeting c, 112)] \<and> session_id c' = sessionID s"
proof -
  let ?s = "input (greeting c) s\<lparr>rx := []\<rparr>"
  have hd: "req ?s = greeting_head c" by (simp add: input_def)
  have pre: "helo_pre ?s" "ci_name (helo_client ?s) = string_bytes ''Freddy''"
    unfolding helo_pre_def helo_client_def hd
    by (simp_all add: greeting_head_def request_head_def PACKET_SIZE_def input_def greeting_name [unfolded PACKET_SIZE_def])
  let ?h = "\<lparr>an_message_len = 124, an_header_len = 40, an_body_len = 84, an_data_len = 0,
       an_message_id = rq_message_id (req ?s), an_message_type = TYPE_PROXY_HELO,
       an_app_id = 0, an_session_id = sessionID ?s, an_proxy_error = 0, an_capi_error = 0\<rparr>"
  obtain p where x: "exec_proxy_helo_old ?s = Some (sock_send (answer_packet ?h (helo_body_old ?s))
      (?s\<lparr>client_info := helo_client ?s, out_packet := p\<rparr>))"
    using exec_proxy_helo_old_eq [OF pre(1)] by blast
  obtain n s' where snd: "sock_send (answer_packet ?h (helo_body_old ?s)) (?s\<lparr>client_info := helo_client ?s, out_packet := p\<rparr>) = (n, s')"
    "tx s' = tx ?s @ [(answer_packet ?h (helo_body_old ?s), n)]" "client_info s' = helo_client ?s"
    using sock_sent [of "answer_packet ?h (helo_body_old ?s)" "?s\<lparr>client_info := helo_client ?s, out_packet := p\<rparr>"] by auto
  have "greeting c \<noteq> []" "length (greeting c) \<le> PACKET_SIZE"
    using length_greeting [of c] by (auto simp: PACKET_SIZE_def simp del: length_greeting)
  then have "session_step_old A L (s\<lparr>rx := [Data (greeting c)]\<rparr>, apps) = dispatch_old A L (?s, apps)"
    by (subst session_step_old_segment) (simp_all add: input_def)
  also have "\<dots> = Some (Returned n, s', apps)"
    using x snd(1) hd by (simp add: dispatch_old.simps Let_def greeting_head_def request_head_def del: in_packet_input)
  finally have step: "session_step_old A L (s\<lparr>rx := [Data (greeting c)]\<rparr>, apps) = Some (Returned n, s', apps)" .
  from greeting_accepted [OF assms, of ?h "helo_body_old ?s"] obtain c' where
    "init_socket True True (c\<lparr>c_rx := [Data (answer_packet ?h (helo_body_old ?s))]\<rparr>) = Some (1, c')"
    "c_tx c' = c_tx c @ [(greeting c, 112)]" "session_id c' = sessionID s"
    by (auto simp: helo_body_old_def PERROR_NONE_def input_def)
  with step snd(2,3) pre(2) show ?thesis by (intro exI conjI) (assumption | simp add: input_def)+
qed

theorem old_server_greets_daemon_witness:
  "\<exists>answer c'. init_socket True True (demo_client\<lparr>c_rx := [Data answer]\<rparr>) = Some (1, c') \<and> session_id c' = 3"
proof -
  have "c_send_rets demo_client = []" by simp
  from old_server_greets_daemon [OF this, where s = demo_server and L = demo_capi] show ?thesis
    by simp blast
qed

text \<open>A query: its request, what the library has to say to it, and the answer.\<close>

definition query_packet :: "u32 \<Rightarrow> u32 \<Rightarrow> u32 \<Rightarrow> byte list" where
  "query_packet sess i ty = encode_request_header
     \<lparr>rq_message_len = 36, rq_header_len = 36, rq_body_len = 0, rq_data_len = 0, rq_message_id = i,
      rq_message_type = ty, rq_app_id = 0, rq_controller_id = 1, rq_session_id = sess\<rparr>"

definition query_data :: "'w capi20 \<Rightarrow> u32 \<Rightarrow> 'w \<Rightarrow> byte list \<times> 'w" where
  "query_data L ty w =
     (if ty = TYPE_CAPI_MANUFACTURER then capi20_get_manufacturer L 1 w
      else if ty = TYPE_CAPI_VERSION then apfst (\<lambda>bs. drop 8 bs @ take 8 bs) (capi20_get_version L 1 w)
      else if ty = TYPE_CAPI_SERIAL then capi20_get_serial_number L 1 w
      else snd (capi20_get_profile L 1 w))"

definition query_types :: "u32 list" where
  "query_types = [TYPE_CAPI_MANUFACTURER, TYPE_CAPI_VERSION, TYPE_CAPI_SERIAL, TYPE_CAPI_PROFILE]"

lemma request_header_query [simp]:
  "request_header_at (put_bytes 0 (query_packet sess i ty) b) =
     \<lparr>rq_message_len = 36, rq_header_len = 36, rq_body_len = 0, rq_data_len = 0, rq_message_id = i,
      rq_message_type = ty, rq_app_id = 0, rq_controller_id = 1, rq_session_id = sess\<rparr>"
  using request_header_at_encode [of _ "[]"] by (simp add: query_packet_def)

lemma length_query_packet [simp]: "length (query_packet sess i ty) = 36"
  by (simp add: query_packet_def)

lemma remote_query_answered:
  assumes "c_send_rets c = []" and "c_rx c = Data (answer_packet h bs) # es" and "an_message_type h = ty"
    and "an_proxy_error h = PERROR_NONE" and "an_header_len h = 40" and "length bs = n" and "40 + n \<le> BUFFER_SIZE"
  shows "\<exists>c'. remote_query U ty n c = Some (1, bs, c') \<and> c_send_rets c' = [] \<and> c_rx c' = es \<and>
     session_id c' = session_id c \<and> msgid c' = msgid c + 1 \<and> node_log c' = node_log c \<and>
     c_tx c' = c_tx c @ [(query_packet (session_id c) (msgid c + 1) ty, 36)]"
proof -
  define d where "d = compose 0 0 ty 0 1 (session_id c) c"
  have hd: "request_header_at (sendbuffer d) = request_head 0 0 ty 0 1 (session_id c) c"
    by (simp add: d_def request_header_compose)
  then have q: "get_bytes (sendbuffer d) 0 36 = query_packet (session_id c) (msgid c + 1) ty" and l: "get32 (sendbuffer d) 0 = 36"
    using get_bytes_request [of 36 "sendbuffer d"]
    by (simp_all add: query_packet_def request_head_def request_header_at_def)
  have keep: "c_send_rets d = []" "c_rx d = Data (answer_packet h bs) # es" "c_tx d = c_tx c" "session_id d = session_id c"
    "msgid d = msgid c + 1" "node_log d = node_log c"
    using assms(1,2) by (simp_all add: d_def compose_keeps)
  let ?e = "d\<lparr>c_tx := c_tx c @ [(query_packet (session_id c) (msgid c + 1) ty, 36)]\<rparr>"
  have s: "client_send d = Some (36, ?e)"
    using keep by (simp add: client_send_def l get_bytes_chk_def BUFFER_SIZE_def q)
  let ?f = "?e\<lparr>c_rx := es, recvbuffer := put_bytes 0 (answer_packet h bs) (recvbuffer d)\<rparr>"
  have "answer_packet h bs \<noteq> []" "length (answer_packet h bs) = 40 + n"
    using length_answer_packet [of h bs] assms(6) by (auto simp del: length_answer_packet)
  then have r: "client_recv ?e = (int (40 + n), ?f)"
    using keep assms(7) by (simp add: client_recv_def)
  have a: "ans ?f = h" by (simp add: answer_packet_def answer_header_at_encode)
  have w: "wait_for_answer U ty ?e = Some ?f"
    using a assms(3) by (subst wait_for_answer.simps) (simp add: r)
  have "get_bytes (put_bytes 0 (answer_packet h bs) (recvbuffer d)) 40 n = bs"
    using assms(6) by (simp add: answer_packet_def put_bytes_inside)
  then have "remote_query U ty n c = Some (1, bs, ?f)"
    using a assms(4,5,7) unfolding remote_query_def Let_def d_def [symmetric]
    by (simp add: s w get_bytes_chk_def)
  then show ?thesis using keep by simp
qed

lemma old_query_handled:
  assumes "capi20_documented L" and "ty \<in> set query_types" and "query_data L ty (world s) = (bs, w)"
    and req: "rq_message_type (req s) = ty" "rq_session_id (req s) = sessionID s" "rq_controller_id (req s) = 1"
  shows "\<exists>r h p. dispatch_old A L (s, apps) = with_apps apps (plain r) \<and>
      r = Some (sock_send (answer_packet h bs) (s\<lparr>world := w, out_packet := p\<rparr>)) \<and>
      an_message_type h = ty \<and> an_proxy_error h = PERROR_NONE \<and> an_header_len h = 40"
proof -
  note eqs = dispatch_old.simps Let_def verify_session_id_def handlers_old req
  have fin: ?thesis if "dispatch_old A L (s, apps) = with_apps apps (plain r)"
      and "\<exists>p. r = Some (sock_send (answer_packet h bs) (s\<lparr>world := w, out_packet := p\<rparr>))"
      and "an_message_type h = ty" "an_proxy_error h = PERROR_NONE" "an_header_len h = 40" for r h
    using that by blast
  consider "ty = TYPE_CAPI_MANUFACTURER" | "ty = TYPE_CAPI_VERSION" | "ty = TYPE_CAPI_SERIAL" | "ty = TYPE_CAPI_PROFILE"
    using assms(2) by (auto simp: query_types_def)
  then show ?thesis
  proof cases
    case 1
    then have q: "capi20_get_manufacturer L (rq_controller_id (req s)) (world s) = (bs, w)"
      using assms(3) by (simp add: query_data_def req proto_consts)
    have len: "length bs = 64"
      using capi20_documentedD(1) [OF assms(1), of "rq_controller_id (req s)" "world s"] q by simp
    have d: "dispatch_old A L (s, apps) = with_apps apps (plain (exec_capi_manufacturer L s))"
      using 1 by (simp add: eqs proto_consts)
    show ?thesis by (rule fin [OF d exec_capi_manufacturer_eq [OF q len]]) (simp_all add: 1 PERROR_NONE_def)
  next
    case 2
    obtain v where q: "capi20_get_version L (rq_controller_id (req s)) (world s) = (v, w)" and v: "drop 8 v @ take 8 v = bs"
      using 2 assms(3) by (cases "capi20_get_version L 1 (world s)") (auto simp: query_data_def req proto_consts)
    have len: "length v = 16"
      using capi20_documentedD(2) [OF assms(1), of "rq_controller_id (req s)" "world s"] q by simp
    have d: "dispatch_old A L (s, apps) = with_apps apps (plain (exec_capi_version L s))"
      using 2 by (simp add: eqs proto_consts)
    show ?thesis by (rule fin [OF d exec_capi_version_eq [OF q len, unfolded v]]) (simp_all add: 2 PERROR_NONE_def)
  next
    case 3
    then have q: "capi20_get_serial_number L (rq_controller_id (req s)) (world s) = (bs, w)"
      using assms(3) by (simp add: query_data_def req proto_consts)
    have len: "length bs = 8"
      using capi20_documentedD(3) [OF assms(1), of "rq_controller_id (req s)" "world s"] q by simp
    have d: "dispatch_old A L (s, apps) = with_apps apps (plain (exec_capi_serial L s))"
      using 3 by (simp add: eqs proto_consts)
    show ?thesis by (rule fin [OF d exec_capi_serial_eq [OF q len]]) (simp_all add: 3 PERROR_NONE_def)
  next
    case 4
    obtain e where q: "capi20_get_profile L (rq_controller_id (req s)) (world s) = (e, bs, w)"
      using 4 assms(3) by (cases "capi20_get_profile L 1 (world s)") (auto simp: query_data_def req proto_consts)
    have len: "length bs = 64"
      using capi20_documentedD(4) [OF assms(1), of "rq_controller_id (req s)" "world s"] q by simp
    have d: "dispatch_old A L (s, apps) = with_apps apps (plain (exec_capi_profile L s))"
      using 4 by (simp add: eqs proto_consts)
    show ?thesis by (rule fin [OF d exec_capi_profile_eq [OF q len]]) (simp_all add: 4 PERROR_NONE_def)
  qed
qed

lemma old_server_answers_query:
  assumes "capi20_documented L" and "ty \<in> set query_types" and "query_data L ty (world s) = (bs, w)"
    and "rx s = Data (query_packet (sessionID s) i ty) # es"
  shows "\<exists>h n s'. session_step_old A L (s, apps) = Some (Returned n, s', apps) \<and>
     tx s' = tx s @ [(answer_packet h bs, n)] \<and> rx s' = es \<and> sessionID s' = sessionID s \<and> world s' = w \<and>
     an_message_type h = ty \<and> an_proxy_error h = PERROR_NONE \<and> an_header_len h = 40"
proof -
  let ?p = "query_packet (sessionID s) i ty" and ?s = "input (query_packet (sessionID s) i ty) s\<lparr>rx := es\<rparr>"
  have fields: "sessionID ?s = sessionID s" "world ?s = world s" "tx ?s = tx s" by (simp_all add: input_def)
  have "query_data L ty (world ?s) = (bs, w)" using assms(3) fields by simp
  then obtain r h p where h: "dispatch_old A L (?s, apps) = with_apps apps (plain r)"
      "r = Some (sock_send (answer_packet h bs) (?s\<lparr>world := w, out_packet := p\<rparr>))"
      "an_message_type h = ty" "an_proxy_error h = PERROR_NONE" "an_header_len h = 40"
    using old_query_handled [OF assms(1,2), of ?s bs w A apps] by (auto simp: input_def)
  have "?p \<noteq> []" "length ?p \<le> PACKET_SIZE"
    using length_query_packet [of "sessionID s" i ty] by (auto simp: PACKET_SIZE_def simp del: length_query_packet)
  then have step: "session_step_old A L (s, apps) = dispatch_old A L (?s, apps)"
    using assms(4) by (rule session_step_old_segment)
  obtain n s' where "sock_send (answer_packet h bs) (?s\<lparr>world := w, out_packet := p\<rparr>) = (n, s')"
    "tx s' = tx s @ [(answer_packet h bs, n)]" "rx s' = es" "sessionID s' = sessionID s" "world s' = w"
    using sock_sent [of "answer_packet h bs" "?s\<lparr>world := w, out_packet := p\<rparr>"] fields by auto
  with h step show ?thesis by auto
qed

text \<open>A sequence of queries, each with the octets that answer it.\<close>

fun query_run :: "'w capi20 \<Rightarrow> 'w \<Rightarrow> u32 list \<Rightarrow> (u32 \<times> byte list) list" where
  "query_run L w [] = []"
| "query_run L w (ty # tys) = (let (bs, w) = query_data L ty w in (ty, bs) # query_run L w tys)"

definition query_answer :: "u32 \<times> byte list \<Rightarrow> byte list \<Rightarrow> bool" where
  "query_answer q pkt \<longleftrightarrow> (\<exists>h. pkt = answer_packet h (snd q) \<and> an_message_type h = fst q \<and>
     an_proxy_error h = PERROR_NONE \<and> an_header_len h = 40)"

lemma old_server_answers_queries:
  assumes "capi20_documented L" and "snd ` set qs \<subseteq> set query_types"
    and "rx s = map (\<lambda>(i, ty). Data (query_packet (sessionID s) i ty)) qs"
  shows "\<exists>answers s' apps'. session_old A L (s, apps) = Some (0, s', apps') \<and> tx s' = tx s @ answers \<and>
     list_all2 query_answer (query_run L (world s) (map snd qs)) (map fst answers)"
  using assms(2,3)
proof (induction qs arbitrary: s)
  case Nil
  from session_old_closed [of s A L apps] Nil show ?case by auto
next
  case (Cons q qs)
  obtain i ty where q: "q = (i, ty)" by (cases q)
  obtain bs w where d: "query_data L ty (world s) = (bs, w)" by fastforce
  have "ty \<in> set query_types" using Cons.prems(1) q by simp
  from old_server_answers_query [OF assms(1) this d, of i "map (\<lambda>(i, ty). Data (query_packet (sessionID s) i ty)) qs" A apps]
  obtain h n s1 where s1: "session_step_old A L (s, apps) = Some (Returned n, s1, apps)"
    "tx s1 = tx s @ [(answer_packet h bs, n)]" "rx s1 = map (\<lambda>(i, ty). Data (query_packet (sessionID s) i ty)) qs"
    "sessionID s1 = sessionID s" "world s1 = w" and h: "query_answer (ty, bs) (answer_packet h bs)"
    using Cons.prems(2) q by (auto simp: query_answer_def)
  obtain answers s' apps' where "session_old A L (s1, apps) = Some (0, s', apps')" "tx s' = tx s1 @ answers"
    "list_all2 query_answer (query_run L w (map snd qs)) (map fst answers)"
    using Cons.IH [of s1] Cons.prems(1) s1(3-5) by auto
  with h show ?case
    by (intro exI [of _ "(answer_packet h bs, n) # answers"] exI [of _ s'] exI [of _ apps'])
      (simp add: session_old_step(1) [OF s1(1)] s1(2) q d)
qed

lemma remote_query_takes:
  assumes "c_send_rets c = []" and "c_rx c = Data a # es" and "query_answer (ty, bs) a" and "length bs = n" and "40 + n \<le> BUFFER_SIZE"
  shows "\<exists>c'. remote_query U ty n c = Some (1, bs, c') \<and> c_send_rets c' = [] \<and> c_rx c' = es \<and>
     session_id c' = session_id c \<and> msgid c' = msgid c + 1 \<and> node_log c' = node_log c \<and>
     c_tx c' = c_tx c @ [(query_packet (session_id c) (msgid c + 1) ty, 36)]"
  using assms by (auto simp: query_answer_def intro!: remote_query_answered)

lemma query_data_length:
  assumes "capi20_documented L"
  shows "length (fst (query_data L TYPE_CAPI_MANUFACTURER w)) = 64" "length (fst (query_data L TYPE_CAPI_VERSION w)) = 16"
    "length (fst (query_data L TYPE_CAPI_SERIAL w)) = 8" "length (fst (query_data L TYPE_CAPI_PROFILE w)) = 64"
  using capi20_documentedD(1-4) [OF assms, OF refl] by (simp_all add: query_data_def proto_consts)

lemma init_module_takes:
  assumes "capiutil_documented U" and "c_send_rets c = []" and "c_rx c = map Data [a1, a2, a3, a4]" and "session_id c = i"
    and qa: "query_answer (TYPE_CAPI_MANUFACTURER, ma) a1" "query_answer (TYPE_CAPI_VERSION, ve) a2"
      "query_answer (TYPE_CAPI_SERIAL, se) a3" "query_answer (TYPE_CAPI_PROFILE, pr) a4"
    and len: "length ma = 64" "length ve = 16" "length se = 8" "length pr = 64"
  shows "\<exists>c'. init_module U c = Some (1, c') \<and>
     c_tx c' = c_tx c @ map (\<lambda>(n, ty). (query_packet i (msgid c + n) ty, 36)) (zip [1, 2, 3, 4] query_types) \<and>
     last (node_log c') = NodeIoctl IOCTL_SET_DATA (Pointer (bytes_le 4 (152 :: u32) @ ma @ ve @ se @ pr))"
proof -
  obtain c1 where c1: "remote_query U TYPE_CAPI_MANUFACTURER 64 c = Some (1, ma, c1)" "c_send_rets c1 = []"
    "c_rx c1 = map Data [a2, a3, a4]" "session_id c1 = i" "msgid c1 = msgid c + 1"
    "c_tx c1 = c_tx c @ [(query_packet (i) (msgid c + 1) TYPE_CAPI_MANUFACTURER, 36)]"
    using remote_query_takes [of c, OF _ _ qa(1) len(1), where U = U] assms(2-4) by (auto simp: BUFFER_SIZE_def)
  obtain c2 where c2: "remote_query U TYPE_CAPI_VERSION 16 c1 = Some (1, ve, c2)" "c_send_rets c2 = []"
    "c_rx c2 = map Data [a3, a4]" "session_id c2 = i" "msgid c2 = 2 + msgid c"
    "c_tx c2 = c_tx c1 @ [(query_packet (i) (2 + msgid c) TYPE_CAPI_VERSION, 36)]"
    using remote_query_takes [of c1, OF _ _ qa(2) len(2), where U = U] c1 by (auto simp: BUFFER_SIZE_def)
  obtain c3 where c3: "remote_query U TYPE_CAPI_SERIAL 8 c2 = Some (1, se, c3)" "c_send_rets c3 = []"
    "c_rx c3 = map Data [a4]" "session_id c3 = i" "msgid c3 = 3 + msgid c"
    "c_tx c3 = c_tx c2 @ [(query_packet (i) (3 + msgid c) TYPE_CAPI_SERIAL, 36)]"
    using remote_query_takes [of c2, OF _ _ qa(3) len(3), where U = U] c2 by (auto simp: BUFFER_SIZE_def)
  obtain c4 where c4: "remote_query U TYPE_CAPI_PROFILE 64 c3 = Some (1, pr, c4)"
    "c_tx c4 = c_tx c3 @ [(query_packet (i) (4 + msgid c) TYPE_CAPI_PROFILE, 36)]"
    using remote_query_takes [of c3, OF _ _ qa(4) len(4), where U = U] c3 by (auto simp: BUFFER_SIZE_def)
  have "c_tx c4 = c_tx c @ map (\<lambda>(n, ty). (query_packet i (msgid c + n) ty, 36)) (zip [1, 2, 3, 4] query_types)"
    using c1 c2 c3 c4 by (simp add: query_types_def add.commute)
  moreover obtain c' where "init_module U c = Some (1, c')" "c_tx c' = c_tx c4"
      "last (node_log c') = NodeIoctl IOCTL_SET_DATA (Pointer (bytes_le 4 (152 :: u32) @ ma @ ve @ se @ pr))"
    unfolding init_module_def remote_get_manufacturer_def remote_get_version_def remote_get_serial_def remote_get_profile_def
    using c1 c2 c3 c4 by (simp add: capiutil_laws [OF assms(1)] node_ioctl_def Let_def)
  ultimately show ?thesis by auto
qed

text \<open>
  C19. The first server gives the daemon what the kernel module needs: its session answers the four queries of
  \<^verbatim>\<open>init_module\<close> with the data of the library, and the daemon hands them to the module.
\<close>

theorem old_server_initialises_module:
  assumes "capi20_documented L" and "capiutil_documented U" and "c_send_rets c = []" and "session_id c = sessionID s"
    and "query_run L (world s) query_types = [(t1, ma), (t2, ve), (t3, se), (t4, pr)]"
    and "pkts = map (\<lambda>(i, ty). query_packet (sessionID s) (msgid c + i) ty) (zip [1, 2, 3, 4] query_types)"
  shows "\<exists>answers s' apps' c'. session_old A L (s\<lparr>rx := map Data pkts\<rparr>, apps) = Some (0, s', apps') \<and>
     tx s' = tx s @ answers \<and> init_module U (c\<lparr>c_rx := map (Data \<circ> fst) answers\<rparr>) = Some (1, c') \<and>
     c_tx c' = c_tx c @ map (\<lambda>p. (p, 36)) pkts \<and>
     last (node_log c') = NodeIoctl IOCTL_SET_DATA (Pointer (bytes_le 4 (152 :: u32) @ ma @ ve @ se @ pr))"
proof -
  let ?qs = "map (\<lambda>(i, ty). (msgid c + i, ty)) (zip [1, 2, 3, 4] query_types)" and ?s = "s\<lparr>rx := map Data pkts\<rparr>"
  have "snd ` set ?qs \<subseteq> set query_types" "map snd ?qs = query_types"
    "rx ?s = map (\<lambda>(i, ty). Data (query_packet (sessionID ?s) i ty)) ?qs"
    using assms(6) by (simp_all add: query_types_def)
  from old_server_answers_queries [OF assms(1) this(1,3), of A apps] this(2)
  obtain answers s' apps' where s': "session_old A L (?s, apps) = Some (0, s', apps')" "tx s' = tx s @ answers"
    and la: "list_all2 query_answer (query_run L (world s) query_types) (map fst answers)" by auto
  from assms(5) have qt: "query_run L (world s) query_types =
      [(TYPE_CAPI_MANUFACTURER, ma), (TYPE_CAPI_VERSION, ve), (TYPE_CAPI_SERIAL, se), (TYPE_CAPI_PROFILE, pr)]"
    and len: "length ma = 64" "length ve = 16" "length se = 8" "length pr = 64"
    using query_data_length [OF assms(1)] by (auto simp: query_types_def Let_def split: prod.splits) (metis fst_conv)+
  from la [unfolded qt] obtain a1 a2 a3 a4 where a: "map fst answers = [a1, a2, a3, a4]"
    and qa: "query_answer (TYPE_CAPI_MANUFACTURER, ma) a1" "query_answer (TYPE_CAPI_VERSION, ve) a2"
      "query_answer (TYPE_CAPI_SERIAL, se) a3" "query_answer (TYPE_CAPI_PROFILE, pr) a4"
    by (auto simp: list_all2_Cons1)
  let ?c = "c\<lparr>c_rx := map Data [a1, a2, a3, a4]\<rparr>"
  have c: "c\<lparr>c_rx := map (Data \<circ> fst) answers\<rparr> = ?c" using a by (simp flip: map_map)
  obtain c' where "init_module U ?c = Some (1, c')" "c_tx c' = c_tx c @ map (\<lambda>p. (p, 36)) pkts"
    "last (node_log c') = NodeIoctl IOCTL_SET_DATA (Pointer (bytes_le 4 (152 :: u32) @ ma @ ve @ se @ pr))"
    using init_module_takes [OF assms(2) _ _ _ qa len, of ?c "sessionID s"] assms(3,4,6) by (auto simp: query_types_def)
  then show ?thesis using s' c
    by (intro exI [of _ answers] exI [of _ s'] exI [of _ apps'] exI [of _ c']) simp
qed

theorem old_server_initialises_module_witness:
  "\<exists>(answers :: (byte list \<times> int) list) c'. init_module capi_layout (demo_client\<lparr>c_rx := map (Data \<circ> fst) answers\<rparr>) = Some (1, c') \<and>
     last (node_log c') = NodeIoctl IOCTL_SET_DATA (Pointer (bytes_le 4 (152 :: u32) @
       replicate 64 1 @ replicate 16 2 @ replicate 8 3 @ replicate 64 4))"
proof -
  have q: "query_run demo_capi (world demo_server) query_types =
      [(TYPE_CAPI_MANUFACTURER, replicate 64 1), (TYPE_CAPI_VERSION, replicate 16 2),
       (TYPE_CAPI_SERIAL, replicate 8 3), (TYPE_CAPI_PROFILE, replicate 64 4)]"
    by (simp add: query_types_def query_data_def demo_capi_def proto_consts flip: replicate_add)
  have c: "c_send_rets demo_client = []" "session_id demo_client = sessionID demo_server" by simp_all
  from old_server_initialises_module [where apps = "[]" and A = "\<lparr>al_size = 8, al_auth_type = (0, 4), al_auth_len = (4, 4)\<rparr>",
      OF demo_documented capi_layout_documented c q refl]
  show ?thesis by blast
qed

section \<open>The registration of an application\<close>

lemma register_request_fields:
  "request_header_at (put_bytes 0 (register_request l b n c) B) = request_head 16 0 TYPE_CAPI_REGISTER 0 1 (session_id c) c"
  "length (register_request l b n c) = 52"
  "get32 (put_bytes 0 (register_request l b n c) B) 40 = l" "get32 (put_bytes 0 (register_request l b n c) B) 44 = b"
  "get32 (put_bytes 0 (register_request l b n c) B) 48 = n"
  by (simp_all add: register_request_def request_header_at_encode get32_put_bytes_in word_le_bytes_le)

lemma exec_capi_register_old_apps:
  assumes "capi20_register L (get32 (in_packet s) (unat (rq_header_len (req s)) + 4)) (get32 (in_packet s) (unat (rq_header_len (req s)) + 8))
      (get32 (in_packet s) (unat (rq_header_len (req s)) + 12)) (get32 (out_packet s) AH_app_id) (world s) = (e, app, w)"
    and "exec_capi_register_old L (s, apps) = Some (n, s', apps')"
  shows "apps' = (if e = 0 then add_app_list app apps else apps)"
  using assms(2) by (auto simp: exec_capi_register_old.simps Let_def get32_chk_def assms(1) buf_simps split: Option.bind_splits if_splits)

lemma exec_capi_register_old_eq:
  fixes s :: "'w server"
  defines "v \<equiv> unat (rq_header_len (req s))"
  assumes v: "v + 16 \<le> PACKET_SIZE"
    and reg: "capi20_register L (get32 (in_packet s) (v + 4)) (get32 (in_packet s) (v + 8))
           (get32 (in_packet s) (v + 12)) (get32 (out_packet s) AH_app_id) (world s) = (e, app, w)"
  shows "\<exists>n s'. exec_capi_register_old L (s, apps) = Some (n, s', if e = 0 then add_app_list app apps else apps) \<and>
     world s' = w \<and> tx s' = tx s @ [(answer_packet
      \<lparr>an_message_len = 40, an_header_len = 40, an_body_len = 0, an_data_len = 0,
       an_message_id = rq_message_id (req s), an_message_type = TYPE_CAPI_REGISTER,
       an_app_id = app, an_session_id = sessionID s, an_proxy_error = 0, an_capi_error = e\<rparr> [], n)]"
proof -
  let ?t = "registered_apps s"
  have same: "s\<lparr>registered_apps := ?t\<rparr> = s" by simp
  from sent_effect [OF exec_capi_register_eq [OF v [unfolded v_def] reg [unfolded v_def]], where s = s and w = w]
  obtain n s1 where s1: "exec_capi_register L s = Some (n, s1)" "world s1 = w" "tx s1 = tx s @ [(answer_packet
      \<lparr>an_message_len = 40, an_header_len = 40, an_body_len = 0, an_data_len = 0,
       an_message_id = rq_message_id (req s), an_message_type = TYPE_CAPI_REGISTER,
       an_app_id = app, an_session_id = sessionID s, an_proxy_error = 0, an_capi_error = e\<rparr> [], n)]" by auto
  from register_old_drop [of ?t L s apps ?t] s1(1)
  obtain s' apps' where s': "exec_capi_register_old L (s, apps) = Some (n, s', apps')"
      "s'\<lparr>registered_apps := ?t\<rparr> = s1\<lparr>registered_apps := ?t\<rparr>"
    unfolding same by auto
  from arg_cong [OF s'(2), of world] arg_cong [OF s'(2), of tx] have "world s' = world s1" "tx s' = tx s1" by simp_all
  with s1 s'(1) exec_capi_register_old_apps [OF reg [unfolded v_def] s'(1)] show ?thesis by auto
qed

text \<open>
  C33. Registering an application, the daemon with the first server. When the daemon has taken the session id of the server (as it
  does from its greeting), the registration packet for \<open>l\<close> connections, \<open>b\<close> blocks and blocks of \<open>n\<close> octets passes the
  check of the session and makes the server call \<^verbatim>\<open>capi20_register\<close> with exactly these; the server lists the id
  exactly when the library accepts, and its answer makes the daemon's call return the id of the library, cut to 16
  bits (whatever the error code in it: the daemon looks at \<^verbatim>\<open>proxy_error\<close> alone). With another session id the packet is dropped.
  (The sends of the daemon succeed, and request and answer arrive in one piece each.)
\<close>

theorem daemon_register_reaches_library:
  assumes "c_send_rets c = []" and "capi20_register L l b n (get32 (out_packet s) 24) (world s) = (e, app, w)"
  shows "\<exists>m s' apps'. session_step_old A L (s\<lparr>rx := [Data (register_request l b n c)]\<rparr>, apps) = Some (Returned m, s', apps') \<and>
     (if session_id c = sessionID s then
        world s' = w \<and> apps' = (if e = 0 then add_app_list app apps else apps) \<and>
        (\<exists>answer c' r rest. tx s' = tx s @ [(answer, m)] \<and>
           remote_register_appl U l b n (c\<lparr>c_rx := [Data answer]\<rparr>) = Some (1, ucast app, c') \<and>
           c_tx c' = c_tx c @ (register_request l b n c, r) # rest)
      else world s' = world s \<and> apps' = apps \<and> tx s' = tx s)"
proof -
  let ?p = "register_request l b n c"
  let ?s = "input ?p s\<lparr>rx := []\<rparr>"
  note fields = register_request_fields [of l b n c]
  have hd: "req ?s = request_head 16 0 TYPE_CAPI_REGISTER 0 1 (session_id c) c" by (simp add: input_def fields)
  have keep: "sessionID ?s = sessionID s" "world ?s = world s" "tx ?s = tx s" "out_packet ?s = out_packet s"
    "in_packet ?s = put_bytes 0 ?p (in_packet s)" by (simp_all add: input_def)
  have "?p \<noteq> []" "length ?p \<le> PACKET_SIZE" using fields(2) by (auto simp: PACKET_SIZE_def)
  then have "session_step_old A L (s\<lparr>rx := [Data ?p]\<rparr>, apps) = dispatch_old A L (?s, apps)"
    by (subst session_step_old_segment) (simp_all add: input_def)
  also have "\<dots> = (if session_id c = sessionID s then map_option (apfst Returned) (exec_capi_register_old L (?s, apps))
      else Some (Returned 1, ?s, apps))"
    unfolding dispatch_old.simps Let_def verify_session_id_def hd keep(1)
    by (simp add: request_head_def proto_consts)
  finally have step: "session_step_old A L (s\<lparr>rx := [Data ?p]\<rparr>, apps) = \<dots>" .
  show ?thesis
  proof (cases "session_id c = sessionID s")
    case False
    then show ?thesis using step keep by auto
  next
    case True
    let ?h = "\<lparr>an_message_len = 40, an_header_len = 40, an_body_len = 0, an_data_len = 0,
       an_message_id = rq_message_id (req ?s), an_message_type = TYPE_CAPI_REGISTER,
       an_app_id = app, an_session_id = sessionID ?s, an_proxy_error = 0, an_capi_error = e\<rparr>"
    have v: "unat (rq_header_len (req ?s)) = 36" unfolding hd by (simp add: request_head_def)
    have bnd: "unat (rq_header_len (req ?s)) + 16 \<le> PACKET_SIZE" unfolding v by (simp add: PACKET_SIZE_def)
    have lib: "capi20_register L (get32 (in_packet ?s) (unat (rq_header_len (req ?s)) + 4))
        (get32 (in_packet ?s) (unat (rq_header_len (req ?s)) + 8)) (get32 (in_packet ?s) (unat (rq_header_len (req ?s)) + 12))
        (get32 (out_packet ?s) AH_app_id) (world ?s) = (e, app, w)"
      unfolding v keep using assms(2) by (simp add: fields request_head_def)
    from exec_capi_register_old_eq [OF bnd lib, of apps]
    obtain m s' where s': "exec_capi_register_old L (?s, apps) = Some (m, s', if e = 0 then add_app_list app apps else apps)"
      "world s' = w" "tx s' = tx ?s @ [(answer_packet ?h [], m)]" by blast
    let ?c = "c\<lparr>c_rx := [Data (answer_packet ?h [])]\<rparr>"
    obtain c' where c': "remote_register_appl U l b n ?c = Some (1, ucast (an_app_id ?h), c')"
      using remote_register_answered [of ?c ?h U l b n] assms(1) by (auto simp: PERROR_NONE_def)
    obtain r rest where "c_tx c' = c_tx c @ (?p, r) # rest"
      using remote_register_sends [OF c'] by (auto simp: register_request_def request_head_def)
    with True step s' c' keep show ?thesis by auto
  qed
qed

theorem daemon_register_reaches_library_witness:
  "\<exists>m s' answer c'. session_step_old \<lparr>al_size = 8, al_auth_type = (0, 4), al_auth_len = (4, 4)\<rparr> demo_capi
       (demo_server\<lparr>rx := [Data (register_request 2 7 2048 demo_client)]\<rparr>, []) = Some (Returned m, s', [1]) \<and>
     tx s' = [(answer, m)] \<and> remote_register_appl capi_layout 2 7 2048 (demo_client\<lparr>c_rx := [Data answer]\<rparr>) = Some (1, 1, c')"
proof -
  have c: "c_send_rets demo_client = []" "session_id demo_client = sessionID demo_server" by simp_all
  have "capi20_register demo_capi 2 7 2048 (get32 (out_packet demo_server) 24) (world demo_server) = (0, 1, ())"
    by (simp add: demo_capi_def)
  from daemon_register_reaches_library [OF c(1) this, where apps = "[]" and U = capi_layout and
      A = "\<lparr>al_size = 8, al_auth_type = (0, 4), al_auth_len = (4, 4)\<rparr>"] c(2)
  show ?thesis by fastforce
qed

end
