(* ===== verification/Applet.thy ===== *)
theory Applet
  imports Cmdline Win32Client
begin

text \<open>
  The control panel applets of the Windows client and of the Windows server, \<^verbatim>\<open>win32-client/CPL/CPL.cpp\<close> and
  \<^verbatim>\<open>win32-server/CPL/CPL.cpp\<close>: the dialog that shows the settings in the registry and writes them back.

  The registry below \<^verbatim>\<open>HKEY_LOCAL_MACHINE\<close> is a map from keys and value names to octets, kept as they were stored, with
  flags for the calls that may be refused. The contents of the uninitialised local variables is arbitrary. \<open>None\<close> is an access outside
  an array, or damage to the rest of the frame of the dialog procedure: \<^verbatim>\<open>sscanf\<close> stores an \<^verbatim>\<open>int\<close> in each of
  \<^verbatim>\<open>ip1\<close> to \<^verbatim>\<open>ip4\<close>, where there is room for one octet; the three octets behind it may belong to another of them, to a variable
  that is set again before it is used, or to something that is still needed (\<open>fr_used\<close>).
\<close>

section \<open>State\<close>

record win_reg =
  wr_values :: "string \<Rightarrow> string \<Rightarrow> byte list option"
  wr_readable :: "string \<Rightarrow> bool"
  wr_writable :: "string \<Rightarrow> bool"
  wr_set_ok :: "string \<Rightarrow> bool"

record applet =
  ap_reg :: win_reg
  ap_ip :: u32
  ap_name :: string
  ap_port :: string
  ap_columns :: "string list"
  ap_end :: "nat option"
  ap_boxes :: nat

text \<open>
  The local variables: the three arrays, \<^verbatim>\<open>port\<close>, and the octets in which \<^verbatim>\<open>ip1\<close> to \<^verbatim>\<open>ip4\<close> lie, at four offsets; \<open>fr_used\<close> are
  the offsets among them that hold what the procedure still needs (the open key, saved registers, the return address).
\<close>

record frame =
  fr_server :: buffer
  fr_name :: buffer
  fr_port :: buffer
  fr_ips :: buffer
  fr_ip1 :: nat
  fr_ip2 :: nat
  fr_ip3 :: nat
  fr_ip4 :: nat
  fr_used :: "nat \<Rightarrow> bool"

datatype dialog_msg = InitDialog | CloseDialog | Command nat | OtherMessage

datatype cpl_msg = CPL_INIT | CPL_GETCOUNT | CPL_INQUIRE | CPL_DBLCLK | CPL_STOP | CPL_EXIT | CPL_OTHER

definition IDOK :: nat where "IDOK = 1"
definition IDCANCEL :: nat where "IDCANCEL = 2"
definition IDS_NAME :: nat where "IDS_NAME = 1"
definition IDS_DESC :: nat where "IDS_DESC = 2"
definition IDI_ICON :: nat where "IDI_ICON = 1005"
definition CLIENT_KEY :: string where "CLIENT_KEY = ''Software'' @ [CHR 0x5C] @ ''The Red Guy'' @ [CHR 0x5C] @ ''capi20proxy''"
definition SERVER_KEY :: string where "SERVER_KEY = ''Software'' @ [CHR 0x5C] @ ''capi20proxy'' @ [CHR 0x5C] @ ''server''"

section \<open>Calls of Windows\<close>

text \<open>\<^verbatim>\<open>RegQueryValueEx\<close> into an array of \<open>len\<close> octets; \<open>None\<close> when there is no such value or it is longer.\<close>

definition RegQueryValueEx :: "win_reg \<Rightarrow> string \<Rightarrow> string \<Rightarrow> nat \<Rightarrow> buffer \<Rightarrow> buffer option" where
  "RegQueryValueEx r key v len b =
     (case wr_values r key v of
        None \<Rightarrow> None
      | Some bs \<Rightarrow> if length bs \<le> len then Some (put_bytes 0 bs b) else None)"

definition RegSetValueEx :: "string \<Rightarrow> string \<Rightarrow> byte list \<Rightarrow> win_reg \<Rightarrow> bool \<times> win_reg" where
  "RegSetValueEx key v bs r =
     (if wr_set_ok r v
      then (True, r\<lparr>wr_values := (wr_values r)(key := (wr_values r key)(v := Some bs))\<rparr>)
      else (False, r))"

definition MAKEIPADDRESS :: "byte \<Rightarrow> byte \<Rightarrow> byte \<Rightarrow> byte \<Rightarrow> u32" where
  "MAKEIPADDRESS b1 b2 b3 b4 = push_bit 24 (ucast b1) + push_bit 16 (ucast b2) + push_bit 8 (ucast b3) + ucast b4"

text \<open>\<^verbatim>\<open>FIRST_IPADDRESS\<close> to \<^verbatim>\<open>FOURTH_IPADDRESS\<close>, cast to \<^verbatim>\<open>unsigned char\<close>.\<close>

definition ip_octet :: "nat \<Rightarrow> u32 \<Rightarrow> byte" where
  "ip_octet i ip = ucast (drop_bit (8 * (4 - i)) ip AND 0xFF)"

section \<open>Numbers and text\<close>

definition bytes_string :: "byte list \<Rightarrow> string" where
  "bytes_string bs = map (\<lambda>b. char_of (unat b)) bs"

text \<open>\<^verbatim>\<open>%d\<close> of \<^verbatim>\<open>sprintf\<close>, and \<^verbatim>\<open>_itoa\<close> to the base 10.\<close>

fun decimal :: "nat \<Rightarrow> string" where
  "decimal n = (if n < 10 then [char_of (48 + n)] else decimal (n div 10) @ [char_of (48 + n mod 10)])"

declare decimal.simps [simp del]

definition itoa :: "int \<Rightarrow> string" where
  "itoa i = (if i < 0 then ''-'' @ decimal (nat (- i)) else decimal (nat i))"

text \<open>\<^verbatim>\<open>%d\<close> of \<^verbatim>\<open>sscanf\<close>: the number and the rest of the text.\<close>

definition scan_int :: "string \<Rightarrow> (int \<times> string) option" where
  "scan_int str =
     (let t = dropWhile is_space str;
          (neg, t) = (case t of [] \<Rightarrow> (False, t)
                      | c # cs \<Rightarrow> if c = CHR ''-'' then (True, cs)
                                 else if c = CHR ''+'' then (False, cs) else (False, t));
          ds = takeWhile is_digit t
      in if ds = [] then None
         else Some (if neg then - digits_value ds else digits_value ds, drop (length ds) t))"

text \<open>Up to \<open>n\<close> numbers with dots between them; the scan ends at the first mismatch.\<close>

fun scan_dotted :: "nat \<Rightarrow> string \<Rightarrow> int list" where
  "scan_dotted 0 t = []"
| "scan_dotted (Suc n) t =
     (case scan_int t of
        None \<Rightarrow> []
      | Some (v, t) \<Rightarrow> v # (case t of [] \<Rightarrow> [] | c # t \<Rightarrow> if c = CHR ''.'' then scan_dotted n t else []))"

definition scan_address :: "frame \<Rightarrow> string \<Rightarrow> u32 option" where
  "scan_address F t =
     (let stores = zip [fr_ip1 F, fr_ip2 F, fr_ip3 F, fr_ip4 F] (scan_dotted 4 t);
          b = fold (\<lambda>(off, v) b. put32 off (word_of_int v) b) stores (fr_ips F)
      in if list_ex (\<lambda>(off, v). list_ex (\<lambda>i. fr_used F (off + i)) [0..<4]) stores then None
         else Some (MAKEIPADDRESS (b (fr_ip1 F)) (b (fr_ip2 F)) (b (fr_ip3 F)) (b (fr_ip4 F))))"

section \<open>The dialog\<close>

definition box :: "applet \<Rightarrow> applet" where
  "box a = a\<lparr>ap_boxes := Suc (ap_boxes a)\<rparr>"

text \<open>\<^verbatim>\<open>WM_INITDIALOG\<close>; the two applets read another key, other values and have other defaults.\<close>

definition dialog_init :: "string \<Rightarrow> string \<Rightarrow> string \<Rightarrow> string \<Rightarrow> frame \<Rightarrow> applet \<Rightarrow> (bool \<times> applet) option" where
  "dialog_init key server_value name_value default_name F a =
     (if \<not> wr_readable (ap_reg a) key then Some (False, box a)
      else do {
        let server = (case RegQueryValueEx (ap_reg a) key server_value 256 (fr_server F) of
                        Some b \<Rightarrow> b | None \<Rightarrow> put_bytes 0 (string_bytes ''10.0.0.1'' @ [0]) (fr_server F));
        server \<leftarrow> cstring 256 server 0;
        ip \<leftarrow> scan_address F (bytes_string server);
        let a = a\<lparr>ap_ip := ip\<rparr>;
        let name = (case RegQueryValueEx (ap_reg a) key name_value 64 (fr_name F) of
                      Some b \<Rightarrow> b | None \<Rightarrow> put_bytes 0 (string_bytes default_name @ [0]) (fr_name F));
        name \<leftarrow> cstring 64 name 0;
        let a = a\<lparr>ap_name := bytes_string name\<rparr>;
        let port = (case RegQueryValueEx (ap_reg a) key ''port'' 4 (fr_port F) of
                      Some b \<Rightarrow> get32 b 0 | None \<Rightarrow> 6674);
        let str_port = itoa (sint port);
        if length str_port < 10 then Some (True, a\<lparr>ap_port := str_port\<rparr>) else None
      })"

text \<open>The button OK: the same in both applets, with the key of the client.\<close>

definition set_value :: "string \<Rightarrow> byte list \<Rightarrow> applet \<Rightarrow> applet" where
  "set_value v bs a =
     (let (ok, r) = RegSetValueEx CLIENT_KEY v bs (ap_reg a);
          a = a\<lparr>ap_reg := r\<rparr>
      in if ok then a else box a)"

definition dialog_ok :: "applet \<Rightarrow> applet option" where
  "dialog_ok a =
     (if \<not> (wr_readable (ap_reg a) CLIENT_KEY \<and> wr_writable (ap_reg a) CLIENT_KEY) then Some (box a)
      else do {
        let ip = ap_ip a;
        let server = decimal (unat (ip_octet 1 ip)) @ ''.'' @ decimal (unat (ip_octet 2 ip)) @ ''.'' @
                     decimal (unat (ip_octet 3 ip)) @ ''.'' @ decimal (unat (ip_octet 4 ip));
        let a = set_value ''server'' (string_bytes server) a;
        name \<leftarrow> (if length (ap_name a) < 64 then Some (ap_name a) else None);
        let a = set_value ''name'' (string_bytes name) a;
        str_port \<leftarrow> (if length (ap_port a) < 10 then Some (ap_port a) else None);
        port \<leftarrow> atoi str_port;
        let a = set_value ''port'' (bytes_le 4 (word_of_int port :: u32)) a;
        Some (a\<lparr>ap_end := Some IDOK\<rparr>)
      })"

definition handler_client :: "frame \<Rightarrow> dialog_msg \<Rightarrow> applet \<Rightarrow> (bool \<times> applet) option" where
  "handler_client F m a =
     (case m of
        InitDialog \<Rightarrow> dialog_init CLIENT_KEY ''server'' ''name'' ''Freddy'' F a
      | CloseDialog \<Rightarrow> Some (True, a\<lparr>ap_end := Some IDCANCEL\<rparr>)
      | Command c \<Rightarrow>
          if c = IDOK then map_option (Pair True) (dialog_ok a)
          else if c = IDCANCEL then Some (True, a\<lparr>ap_end := Some IDCANCEL\<rparr>)
          else Some (True, a)
      | OtherMessage \<Rightarrow> Some (False, a))"

definition handler_server :: "frame \<Rightarrow> dialog_msg \<Rightarrow> applet \<Rightarrow> (bool \<times> applet) option" where
  "handler_server F m a =
     (case m of
        InitDialog \<Rightarrow> do {
          (ok, a) \<leftarrow> dialog_init SERVER_KEY ''bind'' ''logfile'' ''capi20proxy.log'' F a;
          Some (ok, if ok then a\<lparr>ap_columns := [''user'', ''pass''] @ ap_columns a\<rparr> else a)
        }
      | CloseDialog \<Rightarrow> Some (True, a\<lparr>ap_end := Some IDCANCEL\<rparr>)
      | Command c \<Rightarrow>
          if c = IDOK then map_option (Pair True) (dialog_ok a)
          else if c = IDCANCEL then Some (True, a\<lparr>ap_end := Some IDCANCEL\<rparr>)
          else Some (True, a)
      | OtherMessage \<Rightarrow> Some (False, a))"

section \<open>The entry point\<close>

record cpl =
  cp_hinst :: bool
  cp_controls :: bool
  cp_dialogs :: nat

text \<open>The result carries what \<^verbatim>\<open>CPL_INQUIRE\<close> fills in: data, icon, name and description.\<close>

fun CPlApplet :: "cpl_msg \<Rightarrow> cpl \<Rightarrow> int \<times> (nat \<times> nat \<times> nat \<times> nat) option \<times> cpl" where
  "CPlApplet CPL_INIT s = (1, None, s\<lparr>cp_hinst := True\<rparr>)"
| "CPlApplet CPL_GETCOUNT s = (1, None, s)"
| "CPlApplet CPL_INQUIRE s = (0, Some (0, IDI_ICON, IDS_NAME, IDS_DESC), s)"
| "CPlApplet CPL_DBLCLK s = (0, None, s\<lparr>cp_controls := True, cp_dialogs := Suc (cp_dialogs s)\<rparr>)"
| "CPlApplet CPL_STOP s = (0, None, s)"
| "CPlApplet CPL_EXIT s = (0, None, s)"
| "CPlApplet CPL_OTHER s = (0, None, s)"

section \<open>Who reads the settings\<close>

text \<open>What \<^verbatim>\<open>DllMain\<close> of the client and \<^verbatim>\<open>main\<close> of the server find in the registry.\<close>

definition reg_value :: "win_reg \<Rightarrow> string \<Rightarrow> string \<Rightarrow> nat \<Rightarrow> byte list option" where
  "reg_value r key v len =
     (case wr_values r key v of None \<Rightarrow> None | Some bs \<Rightarrow> if length bs \<le> len then Some bs else None)"

definition client_settings :: "win_reg \<Rightarrow> registry" where
  "client_settings r =
     \<lparr>reg_open = wr_readable r CLIENT_KEY,
      reg_server = (reg_value r CLIENT_KEY ''server'' 256 \<noteq> None),
      reg_name = reg_value r CLIENT_KEY ''name'' 64,
      reg_port = map_option word_le (reg_value r CLIENT_KEY ''port'' 4),
      reg_user = reg_value r CLIENT_KEY ''auth_user'' 256,
      reg_pass = reg_value r CLIENT_KEY ''auth_pass'' 256\<rparr>"

section \<open>Numbers and text, there and back\<close>

lemma digit_char: "d < 10 \<Longrightarrow> is_digit (char_of (48 + d)) \<and> (of_char (char_of (48 + d)) :: int) = 48 + int d"
proof -
  assume "d < 10"
  then have "d = 0 \<or> d = 1 \<or> d = 2 \<or> d = 3 \<or> d = 4 \<or> d = 5 \<or> d = 6 \<or> d = 7 \<or> d = 8 \<or> d = 9" by arith
  then show ?thesis by (elim disjE) (simp_all add: is_digit_def char_of_def bit_0)
qed

lemma digits_value_append: "digits_value (ds @ [c]) = 10 * digits_value ds + (of_char c - 48)"
  by (simp add: digits_value_def)

lemma decimal_digits: "(\<forall>c \<in> set (decimal n). is_digit c) \<and> digits_value (decimal n) = int n \<and> decimal n \<noteq> []"
proof (induction n rule: decimal.induct)
  case (1 n)
  show ?case
  proof (cases "n < 10")
    case True
    then show ?thesis using digit_char [of n] by (subst (1 2 3) decimal.simps) (simp add: digits_value_def)
  next
    case False
    have "10 * int (n div 10) + int (n mod 10) = int n" by presburger
    with False 1 digit_char [of "n mod 10"] show ?thesis
      by (subst (1 2 3) decimal.simps) (simp add: digits_value_append)
  qed
qed

lemma digit_not_special: "is_digit c \<Longrightarrow> \<not> is_space c \<and> c \<noteq> CHR ''-'' \<and> c \<noteq> CHR ''+'' \<and> c \<noteq> CHR ''.''"
  by (auto simp: is_digit_def is_space_def)

text \<open>Digits in front of something else: no blank and no sign before them, and they end where they end.\<close>

lemma scan_digits:
  assumes "\<forall>c \<in> set ds. is_digit c" and "ds \<noteq> []" and "rest = [] \<or> \<not> is_digit (hd rest)"
  shows "dropWhile is_space (ds @ rest) = ds @ rest" and "takeWhile is_digit (ds @ rest) = ds"
    and "(case ds @ rest of [] \<Rightarrow> (False, ds @ rest) | c # cs \<Rightarrow> if c = CHR ''-'' then (True, cs)
          else if c = CHR ''+'' then (False, cs) else (False, ds @ rest)) = (False, ds @ rest)"
proof -
  obtain c cs where c: "ds = c # cs" "is_digit c" using assms(1,2) by (cases ds) auto
  then show "dropWhile is_space (ds @ rest) = ds @ rest"
    and "(case ds @ rest of [] \<Rightarrow> (False, ds @ rest) | c # cs \<Rightarrow> if c = CHR ''-'' then (True, cs)
          else if c = CHR ''+'' then (False, cs) else (False, ds @ rest)) = (False, ds @ rest)"
    using digit_not_special [OF c(2)] by simp_all
  show "takeWhile is_digit (ds @ rest) = ds" using assms by (cases rest) (auto simp: takeWhile_append)
qed

lemma scan_int_digits:
  assumes "\<forall>c \<in> set ds. is_digit c" and "ds \<noteq> []" and "rest = [] \<or> \<not> is_digit (hd rest)"
  shows "scan_int (ds @ rest) = Some (digits_value ds, rest)"
  unfolding scan_int_def Let_def scan_digits [OF assms] using assms(2)
  by (simp only: prod.case scan_digits [OF assms]) simp

lemma scan_int_decimal:
  "rest = [] \<or> \<not> is_digit (hd rest) \<Longrightarrow> scan_int (decimal n @ rest) = Some (int n, rest)"
  using scan_int_digits [of "decimal n" rest] decimal_digits [of n] by simp

lemma atoi_decimal: "n < 2 ^ 31 \<Longrightarrow> atoi (decimal n) = Some (int n)"
  using scan_digits [of "decimal n" "[]", unfolded append_Nil2] decimal_digits [of n]
  by (simp add: atoi_def Let_def takeWhile_eq_all_conv [THEN iffD2])

lemma length_decimal: "length (decimal n) \<le> k \<longleftrightarrow> n < 10 ^ k" if "0 < k"
  using that
proof (induction n arbitrary: k rule: decimal.induct)
  case (1 n)
  show ?case
  proof (cases "n < 10")
    case True
    moreover have "(10 :: nat) ^ 1 \<le> 10 ^ k" using 1(2) by (intro power_increasing) simp_all
    ultimately have "n < 10 ^ k" by simp
    with True 1(2) show ?thesis by (simp add: decimal.simps)
  next
    case False
    show ?thesis
    proof (cases "k = 1")
      case True
      with False decimal_digits [of "n div 10"] show ?thesis by (subst decimal.simps) simp
    next
      case k: False
      with 1(2) obtain j where j: "k = Suc j" "0 < j" by (cases k) auto
      with 1(1) [OF False j(2)] False show ?thesis by (subst decimal.simps) (simp add: div_less_iff_less_mult mult.commute)
    qed
  qed
qed

lemma bytes_string_bytes [simp]: "bytes_string (string_bytes t) = t"
  by (simp add: bytes_string_def string_bytes_def unat_of_nat comp_def)

section \<open>Addresses\<close>

lemma disjoint_add: "(\<And>k. \<not> bit a k \<or> \<not> bit b k) \<Longrightarrow> a + b = (a OR b :: u32)"
  by (rule disjunctive_add_eq_or) (auto simp: bit_eq_iff bit_simps)

lemma ip_octet_eq: "ip_octet i ip = ucast (drop_bit (8 * (4 - i)) ip)"
proof -
  have m: "bit (0xFF :: u32) j \<longleftrightarrow> j < 8" for j
    using bit_mask_iff [of 8 j, where 'a = "32 word"] by (auto simp: mask_eq_exp_minus_1)
  show ?thesis unfolding ip_octet_def by (rule bit_word_eqI) (simp only: bit_simps m, auto)
qed

lemma MAKEIPADDRESS_octets:
  "MAKEIPADDRESS (ip_octet 1 ip) (ip_octet 2 ip) (ip_octet 3 ip) (ip_octet 4 ip) = ip"
proof -
  let ?a = "push_bit 24 (ucast (ip_octet 1 ip)) :: u32" and ?b = "push_bit 16 (ucast (ip_octet 2 ip)) :: u32"
    and ?c = "push_bit 8 (ucast (ip_octet 3 ip)) :: u32" and ?d = "ucast (ip_octet 4 ip) :: u32"
  have "?a + ?b = ?a OR ?b" by (rule disjoint_add) (auto simp: bit_simps ip_octet_eq dest: bit_imp_le_length)
  moreover have "(?a OR ?b) + ?c = ?a OR ?b OR ?c"
    by (subst disjoint_add) (auto simp: bit_simps ip_octet_eq or.assoc dest: bit_imp_le_length)
  moreover have "(?a OR ?b OR ?c) + ?d = ?a OR ?b OR ?c OR ?d"
    by (subst disjoint_add) (auto simp: bit_simps ip_octet_eq or.assoc dest: bit_imp_le_length)
  moreover have "?a OR ?b OR ?c OR ?d = ip"
  proof (rule bit_eqI)
    fix k assume "possible_bit TYPE(32 word) k"
    then have k: "k < 32" by simp
    consider "k < 8" | "8 \<le> k" "k < 16" | "16 \<le> k" "k < 24" | "24 \<le> k" using k by linarith
    then show "bit (?a OR ?b OR ?c OR ?d) k = bit ip k"
      using k by cases (auto simp: bit_simps ip_octet_eq)
  qed
  ultimately show ?thesis by (simp add: MAKEIPADDRESS_def)
qed

text \<open>The text the applet writes for an address.\<close>

definition dotted :: "u32 \<Rightarrow> string" where
  "dotted ip = decimal (unat (ip_octet 1 ip)) @ ''.'' @ decimal (unat (ip_octet 2 ip)) @ ''.'' @
     decimal (unat (ip_octet 3 ip)) @ ''.'' @ decimal (unat (ip_octet 4 ip))"

lemma scan_dotted_dotted:
  "rest = [] \<or> \<not> is_digit (hd rest) \<Longrightarrow> scan_dotted 4 (dotted ip @ rest) =
     [int (unat (ip_octet 1 ip)), int (unat (ip_octet 2 ip)), int (unat (ip_octet 3 ip)), int (unat (ip_octet 4 ip))]"
proof -
  assume r: "rest = [] \<or> \<not> is_digit (hd rest)"
  have d: "\<not> is_digit CHR ''.''" by (simp add: is_digit_def)
  show ?thesis using r by (simp add: dotted_def eval_nat_numeral scan_int_decimal d split: list.split)
qed

text \<open>Storing an \<^verbatim>\<open>int\<close> over one octet spoils none of the octets stored before and nothing else that is needed.\<close>

definition ips_apart :: "frame \<Rightarrow> bool" where
  "ips_apart F \<longleftrightarrow> (let apart = (\<lambda>i j. i < j \<or> j + 4 \<le> i) in
     apart (fr_ip1 F) (fr_ip2 F) \<and> apart (fr_ip1 F) (fr_ip3 F) \<and> apart (fr_ip1 F) (fr_ip4 F) \<and>
     apart (fr_ip2 F) (fr_ip3 F) \<and> apart (fr_ip2 F) (fr_ip4 F) \<and> apart (fr_ip3 F) (fr_ip4 F)) \<and>
     (\<forall>off \<in> {fr_ip1 F, fr_ip2 F, fr_ip3 F, fr_ip4 F}. \<forall>i<4. \<not> fr_used F (off + i))"

lemma put32_low: "put32 off (word_of_int (int n) :: u32) b off = (of_nat n :: byte)"
proof -
  have "(ucast (of_nat n :: u32) :: byte) = of_nat n" by (rule bit_word_eqI) (auto simp: bit_simps)
  then show ?thesis by (simp add: put32_def put_bytes_def bytes_le_def del: upt_Suc)
qed

lemma put32_octet: "put32 off (word_of_int (int (unat x)) :: u32) b off = (x :: byte)"
  unfolding put32_low by simp

lemma put32_apart: "i < j \<or> j + 4 \<le> i \<Longrightarrow> put32 j v b i = b i"
  by (auto simp: put32_def put_bytes_def)

lemma ips_apartD:
  assumes "ips_apart F"
  shows "fr_ip1 F < fr_ip2 F \<or> fr_ip2 F + 4 \<le> fr_ip1 F"
    and "fr_ip1 F < fr_ip3 F \<or> fr_ip3 F + 4 \<le> fr_ip1 F"
    and "fr_ip1 F < fr_ip4 F \<or> fr_ip4 F + 4 \<le> fr_ip1 F"
    and "fr_ip2 F < fr_ip3 F \<or> fr_ip3 F + 4 \<le> fr_ip2 F"
    and "fr_ip2 F < fr_ip4 F \<or> fr_ip4 F + 4 \<le> fr_ip2 F"
    and "fr_ip3 F < fr_ip4 F \<or> fr_ip4 F + 4 \<le> fr_ip3 F"
  using assms by (simp_all add: ips_apart_def Let_def)

lemma ips_unused:
  assumes "ips_apart F" and "length vs \<le> 4"
  shows "\<not> list_ex (\<lambda>(off, v). list_ex (\<lambda>i. fr_used F (off + i)) [0..<4]) (zip [fr_ip1 F, fr_ip2 F, fr_ip3 F, fr_ip4 F] vs)"
proof
  assume "list_ex (\<lambda>(off, v). list_ex (\<lambda>i. fr_used F (off + i)) [0..<4]) (zip [fr_ip1 F, fr_ip2 F, fr_ip3 F, fr_ip4 F] vs)"
  then obtain off v i where "(off, v) \<in> set (zip [fr_ip1 F, fr_ip2 F, fr_ip3 F, fr_ip4 F] vs)" "i < 4" "fr_used F (off + i)"
    by (auto simp: list_ex_iff)
  moreover from this(1) have "off \<in> {fr_ip1 F, fr_ip2 F, fr_ip3 F, fr_ip4 F}" by (auto dest: set_zip_leftD)
  ultimately show False using assms(1) by (simp only: ips_apart_def)
qed

lemma scan_address_dotted:
  assumes "ips_apart F" and "rest = [] \<or> \<not> is_digit (hd rest)"
  shows "scan_address F (dotted ip @ rest) = Some ip"
proof -
  have "scan_address F (dotted ip @ rest) = Some (MAKEIPADDRESS (ip_octet 1 ip) (ip_octet 2 ip) (ip_octet 3 ip) (ip_octet 4 ip))"
    unfolding scan_address_def Let_def scan_dotted_dotted [OF assms(2)]
    by (subst if_not_P [OF ips_unused [OF assms(1)]], simp) (simp only: zip_Cons_Cons zip_Nil fold_simps prod.case put32_octet ips_apartD [OF assms(1), THEN put32_apart])
  then show ?thesis by (simp only: MAKEIPADDRESS_octets)
qed

section \<open>What the dialog does\<close>

text \<open>The registry lets the applet in and takes every value.\<close>

definition accepting :: "win_reg \<Rightarrow> bool" where
  "accepting r \<longleftrightarrow> wr_readable r CLIENT_KEY \<and> wr_writable r CLIENT_KEY \<and> (\<forall>v. wr_set_ok r v)"

text \<open>The texts of the dialog fit the arrays, and the port is a number.\<close>

definition enterable :: "nat \<Rightarrow> applet \<Rightarrow> bool" where
  "enterable p a \<longleftrightarrow> length (ap_name a) < 64 \<and> CHR 0x00 \<notin> set (ap_name a) \<and> ap_port a = decimal p \<and> p < 10 ^ 9"

definition settings :: "nat \<Rightarrow> applet \<Rightarrow> string \<Rightarrow> byte list option" where
  "settings p a = (wr_values (ap_reg a) CLIENT_KEY)
     (''server'' \<mapsto> string_bytes (dotted (ap_ip a)), ''name'' \<mapsto> string_bytes (ap_name a),
      ''port'' \<mapsto> bytes_le 4 (word_of_int (int p) :: u32))"

lemma dialog_ok_stores:
  assumes "accepting (ap_reg a)" and "enterable p a"
  shows "dialog_ok a = Some (a\<lparr>ap_reg := (ap_reg a)\<lparr>wr_values := (wr_values (ap_reg a))(CLIENT_KEY := settings p a)\<rparr>,
     ap_end := Some IDOK\<rparr>)"
proof -
  have "(10 :: nat) ^ 9 \<le> 2 ^ 31" by simp
  then have "atoi (decimal p) = Some (int p)" using assms(2) by (intro atoi_decimal) (simp add: enterable_def)
  moreover have "length (decimal p) < 10" using assms(2) length_decimal [of 9 p] by (simp add: enterable_def)
  ultimately show ?thesis
    using assms by (simp add: dialog_ok_def Let_def accepting_def enterable_def set_value_def RegSetValueEx_def
        settings_def dotted_def)
qed

lemma keys_differ: "CLIENT_KEY \<noteq> SERVER_KEY"
  by (simp add: CLIENT_KEY_def SERVER_KEY_def)

lemma set_value_key: "wr_values (ap_reg (set_value v bs a)) SERVER_KEY = wr_values (ap_reg a) SERVER_KEY"
  using keys_differ by (auto simp: set_value_def RegSetValueEx_def box_def)

lemma dialog_ok_key: "dialog_ok a = Some a' \<Longrightarrow> wr_values (ap_reg a') SERVER_KEY = wr_values (ap_reg a) SERVER_KEY"
  unfolding dialog_ok_def Let_def
  by (auto simp: set_value_key box_def split: if_splits Option.bind_splits)

lemma dialog_init_reg: "dialog_init key sv nv dn F a = Some (r, a') \<Longrightarrow> ap_reg a' = ap_reg a"
  unfolding dialog_init_def Let_def by (auto simp: box_def split: if_splits Option.bind_splits)

lemma handler_server_key:
  "handler_server F m a = Some (r, a') \<Longrightarrow> wr_values (ap_reg a') SERVER_KEY = wr_values (ap_reg a) SERVER_KEY"
  unfolding handler_server_def
  by (auto simp: dialog_ok_key dest!: dialog_init_reg split: dialog_msg.splits if_splits Option.bind_splits)

text \<open>A dialog: the messages it gets, each with the frame of its call, and what the user enters in the meantime.\<close>

datatype dialog_event = Handle frame dialog_msg | Entered u32 string string

fun server_dialog :: "dialog_event list \<Rightarrow> applet \<Rightarrow> applet option" where
  "server_dialog [] a = Some a"
| "server_dialog (Handle F m # es) a = do { (_, a) \<leftarrow> handler_server F m a; server_dialog es a }"
| "server_dialog (Entered ip nm pt # es) a = server_dialog es (a\<lparr>ap_ip := ip, ap_name := nm, ap_port := pt\<rparr>)"

lemma server_dialog_key:
  "server_dialog es a = Some a' \<Longrightarrow> wr_values (ap_reg a') SERVER_KEY = wr_values (ap_reg a) SERVER_KEY"
  by (induction es a rule: server_dialog.induct) (auto split: Option.bind_splits dest: handler_server_key)

lemma cstring_stored:
  assumes "0 \<notin> set bs" and "length bs < n" and "b (length bs) = 0"
  shows "cstring n (put_bytes 0 bs b) 0 = Some bs"
  using assms by (intro cstring_name) (simp_all add: put_bytes_def)

lemma char_byte_zero: "(of_nat (of_char c) :: byte) = 0 \<longleftrightarrow> c = CHR 0x00"
proof
  assume "(of_nat (of_char c) :: byte) = 0"
  then have "unat (of_nat (of_char c :: nat) :: byte) = 0" by (simp only: unsigned_0)
  then have "(of_char c :: nat) = 0" by (simp add: unat_of_nat)
  then have "c = char_of (0 :: nat)" by (metis char_of_char)
  then show "c = CHR 0x00" by (simp add: char_of_def)
qed simp

lemma string_bytes_zero: "0 \<in> set (string_bytes t) \<longleftrightarrow> CHR 0x00 \<in> set t"
  by (auto simp: string_bytes_def char_byte_zero image_iff dest: sym)

lemma dotted_text: "CHR 0x00 \<notin> set (dotted ip)" "length (dotted ip) \<le> 15"
proof -
  have z: "CHR 0x00 \<notin> set (decimal n)" for n
    using decimal_digits [of n] by (auto simp: is_digit_def)
  then show "CHR 0x00 \<notin> set (dotted ip)" by (simp add: dotted_def)
  have "length (decimal (unat b)) \<le> 3" for b :: byte
  proof -
    have "unat b < 2 ^ LENGTH(8)" by (rule unsigned_less)
    then show ?thesis using length_decimal [of 3 "unat b"] by simp
  qed
  from this [of "ip_octet 1 ip"] this [of "ip_octet 2 ip"] this [of "ip_octet 3 ip"] this [of "ip_octet 4 ip"]
  show "length (dotted ip) \<le> 15" by (simp add: dotted_def)
qed

lemma itoa_port: "p < 2 ^ 31 \<Longrightarrow> itoa (sint (word_of_int (int p) :: u32)) = decimal p"
  by (simp add: itoa_def signed_of_nat signed_take_bit_int_eq_self)

text \<open>After OK the client finds in the registry what was entered.\<close>

lemma applet_reaches_client:
  assumes "accepting (ap_reg a)" and "enterable p a"
  shows "\<exists>a'. handler_client F (Command IDOK) a = Some (True, a') \<and>
     client_settings (ap_reg a') = (client_settings (ap_reg a))
       \<lparr>reg_open := True, reg_server := True, reg_name := Some (string_bytes (ap_name a)), reg_port := Some (of_nat p)\<rparr>"
  using dialog_ok_stores [OF assms] assms dotted_text(2) [of "ap_ip a"]
  by (simp add: handler_client_def client_settings_def reg_value_def settings_def accepting_def enterable_def word_le_bytes_le)

lemma scan_dotted_digit:
  assumes "d < 10"
  shows "scan_dotted 4 (dotted ip @ [char_of (48 + d)]) =
     [int (unat (ip_octet 1 ip)), int (unat (ip_octet 2 ip)), int (unat (ip_octet 3 ip)), int (10 * unat (ip_octet 4 ip) + d)]"
proof -
  have dot: "\<not> is_digit CHR ''.''" by (simp add: is_digit_def)
  let ?ds = "decimal (unat (ip_octet 4 ip)) @ [char_of (48 + d)]"
  have "\<forall>c \<in> set ?ds. is_digit c" "digits_value ?ds = int (10 * unat (ip_octet 4 ip) + d)"
    using decimal_digits [of "unat (ip_octet 4 ip)"] digit_char [OF assms] by (simp_all add: digits_value_append)
  then have "scan_int ?ds = Some (int (10 * unat (ip_octet 4 ip) + d), [])"
    using scan_int_digits [of ?ds "[]"] by simp
  then show ?thesis by (simp add: dotted_def eval_nat_numeral scan_int_decimal dot)
qed

text \<open>
  The value is stored without a terminator: an octet behind it in the uninitialised array that happens to be a digit becomes part of
  the address.
\<close>

lemma applet_reads_past_value:
  assumes "wr_values (ap_reg a) CLIENT_KEY ''server'' = Some (string_bytes (dotted ip))" and "ips_apart F" and "d < 10"
    and "fr_server F (length (dotted ip)) = of_nat (48 + d)" and "fr_server F (Suc (length (dotted ip))) = 0"
    and "handler_client F InitDialog a = Some (True, a')"
  shows "ap_ip a' = MAKEIPADDRESS (ip_octet 1 ip) (ip_octet 2 ip) (ip_octet 3 ip) (of_nat (10 * unat (ip_octet 4 ip) + d))"
proof -
  let ?t = "dotted ip @ [char_of (48 + d)]"
  have c: "string_bytes [char_of (48 + d)] = [of_nat (48 + d)]" using assms(3) by (simp add: string_bytes_def)
  have "char_of (48 + d) \<noteq> CHR 0x00" using digit_char [OF assms(3)] by (auto simp: is_digit_def)
  then have z: "0 \<notin> set (string_bytes ?t)" using dotted_text(1) [of ip] by (simp only: string_bytes_zero) auto
  have "put_bytes 0 (string_bytes (dotted ip)) (fr_server F) = put_bytes 0 (string_bytes ?t) (fr_server F)"
    using assms(4) c by (intro ext) (auto simp: put_bytes_def string_bytes_def nth_append less_Suc_eq)
  then have s: "cstring 256 (put_bytes 0 (string_bytes (dotted ip)) (fr_server F)) 0 = Some (string_bytes ?t)"
    using z assms(5) dotted_text(2) [of ip] by (simp only:) (rule cstring_stored, simp_all)
  have "length (string_bytes (dotted ip)) \<le> 256" using dotted_text(2) [of ip] by simp
  with assms(1,6) s have "Some (ap_ip a') = scan_address F ?t"
    unfolding handler_client_def dialog_init_def Let_def RegQueryValueEx_def
    by (auto split: if_splits Option.bind_splits)
  moreover have "scan_address F ?t = Some (MAKEIPADDRESS (ip_octet 1 ip) (ip_octet 2 ip) (ip_octet 3 ip) (of_nat (10 * unat (ip_octet 4 ip) + d)))"
    unfolding scan_address_def Let_def scan_dotted_digit [OF assms(3)]
    by (subst if_not_P [OF ips_unused [OF assms(2)]], simp) (simp only: zip_Cons_Cons zip_Nil fold_simps prod.case put32_low ips_apartD [OF assms(2), THEN put32_apart], simp)
  ultimately show ?thesis by simp
qed

section \<open>Properties\<close>

text \<open>
  C21. What is entered in the applet of the client comes back when its dialog is opened again: address, name and port. This
  needs a registry that lets the applet in and takes every value (\<open>accepting\<close>); a name of less than 64 characters, none of them NUL,
  and a port below \<open>10 ^ 9\<close> in the usual notation (\<open>enterable\<close>); a frame in which the \<^verbatim>\<open>int\<close>s that \<^verbatim>\<open>sscanf\<close>
  stores over the octets of the address do no harm (\<open>ips_apart\<close>); and octets that are zero behind the values in
  the two arrays, for the values are stored without a terminator.
\<close>

theorem applet_settings_roundtrip:
  assumes "accepting (ap_reg a)" and "enterable p a" and "ips_apart F"
    and "fr_server F (length (dotted (ap_ip a))) = 0" and "fr_name F (length (ap_name a)) = 0"
  shows "\<exists>a1 a2. handler_client F (Command IDOK) a = Some (True, a1) \<and> ap_end a1 = Some IDOK \<and>
     handler_client F InitDialog (b\<lparr>ap_reg := ap_reg a1\<rparr>) = Some (True, a2) \<and>
     ap_ip a2 = ap_ip a \<and> ap_name a2 = ap_name a \<and> ap_port a2 = ap_port a"
proof -
  let ?r = "(ap_reg a)\<lparr>wr_values := (wr_values (ap_reg a))(CLIENT_KEY := settings p a)\<rparr>"
  let ?p = "word_of_int (int p) :: u32"
  have ok: "handler_client F (Command IDOK) a = Some (True, a\<lparr>ap_reg := ?r, ap_end := Some IDOK\<rparr>)"
    using dialog_ok_stores [OF assms(1,2)] by (simp add: handler_client_def)
  have "cstring 256 (put_bytes 0 (string_bytes (dotted (ap_ip a))) (fr_server F)) 0 = Some (string_bytes (dotted (ap_ip a)))"
    using dotted_text [of "ap_ip a"] assms(4) by (intro cstring_stored) (simp_all add: string_bytes_zero)
  moreover have "cstring 64 (put_bytes 0 (string_bytes (ap_name a)) (fr_name F)) 0 = Some (string_bytes (ap_name a))"
    using assms(2,5) by (intro cstring_stored) (simp_all add: string_bytes_zero enterable_def)
  moreover have "get32 (put_bytes 0 (bytes_le 4 ?p) (fr_port F)) 0 = ?p"
    using put32_same [of 0 ?p] by (simp add: put32_def)
  moreover have "itoa (sint ?p) = decimal p" "length (decimal p) < 10"
    using assms(2) itoa_port [of p] length_decimal [of 9 p] by (simp_all add: enterable_def)
  moreover have "scan_address F (dotted (ap_ip a)) = Some (ap_ip a)" using scan_address_dotted [OF assms(3), of "[]"] by simp
  moreover have "length (dotted (ap_ip a)) \<le> 256" using dotted_text(2) [of "ap_ip a"] by simp
  moreover have "length (ap_name a) \<le> 64" "ap_port a = decimal p" "wr_readable (ap_reg a) CLIENT_KEY"
    using assms(1,2) by (simp_all add: enterable_def accepting_def)
  ultimately have "\<exists>a2. handler_client F InitDialog (b\<lparr>ap_reg := ?r\<rparr>) = Some (True, a2) \<and>
     ap_ip a2 = ap_ip a \<and> ap_name a2 = ap_name a \<and> ap_port a2 = ap_port a"
    by (simp add: handler_client_def dialog_init_def RegQueryValueEx_def settings_def Let_def del: of_nat_numeral)
  with ok show ?thesis by auto
qed

definition demo_applet :: applet where
  "demo_applet = \<lparr>ap_reg = \<lparr>wr_values = (\<lambda>_ _. None), wr_readable = (\<lambda>_. True), wr_writable = (\<lambda>_. True), wr_set_ok = (\<lambda>_. True)\<rparr>,
     ap_ip = 0x0A000001, ap_name = ''Freddy'', ap_port = ''6674'', ap_columns = [], ap_end = None, ap_boxes = 0\<rparr>"

definition demo_frame :: frame where
  "demo_frame = \<lparr>fr_server = (\<lambda>_. 0), fr_name = (\<lambda>_. 0), fr_port = (\<lambda>_. 0), fr_ips = (\<lambda>_. 0),
     fr_ip1 = 12, fr_ip2 = 8, fr_ip3 = 4, fr_ip4 = 0,
     fr_used = (\<lambda>i. 16 \<le> i)\<rparr>"

lemma demo_applet_ok: "accepting (ap_reg demo_applet)" "enterable 6674 demo_applet" "ips_apart demo_frame"
  by (simp_all add: demo_applet_def demo_frame_def accepting_def enterable_def ips_apart_def decimal.simps char_of_def bit_0)

theorem applet_settings_roundtrip_witness:
  "\<exists>a1 a2. handler_client demo_frame (Command IDOK) demo_applet = Some (True, a1) \<and>
     handler_client demo_frame InitDialog (demo_applet\<lparr>ap_reg := ap_reg a1\<rparr>) = Some (True, a2) \<and> ap_port a2 = ''6674''"
  using applet_settings_roundtrip [OF demo_applet_ok, of demo_applet] by (auto simp: demo_frame_def demo_applet_def)

text \<open>
  C22. The applet of the server does not reach the server: it reads the key of the server and writes that of the client. Whatever
  happens in its dialog, the key of the server stays as it was. When it can open the key of the client, which then takes
  every value, and the texts in the dialog fit (\<open>enterable\<close>), OK replaces the name and the port of the client, by
  the name of a log file and the port of the server; when it cannot, OK shows a box and changes nothing.
\<close>

theorem server_applet_sets_client:
  assumes "server_dialog es a = Some a1"
  shows "wr_values (ap_reg a1) SERVER_KEY = wr_values (ap_reg a) SERVER_KEY \<and>
     (if wr_readable (ap_reg a1) CLIENT_KEY \<and> wr_writable (ap_reg a1) CLIENT_KEY then
        \<forall>p. accepting (ap_reg a1) \<and> enterable p a1 \<longrightarrow> (\<exists>a'. handler_server F (Command IDOK) a1 = Some (True, a') \<and>
          reg_name (client_settings (ap_reg a')) = Some (string_bytes (ap_name a1)) \<and>
          reg_port (client_settings (ap_reg a')) = Some (of_nat p))
      else handler_server F (Command IDOK) a1 = Some (True, box a1) \<and> ap_reg (box a1) = ap_reg a1)"
proof -
  have same: "handler_server F (Command IDOK) a1 = handler_client F (Command IDOK) a1"
    by (simp add: handler_client_def handler_server_def)
  show ?thesis
  proof (cases "wr_readable (ap_reg a1) CLIENT_KEY \<and> wr_writable (ap_reg a1) CLIENT_KEY")
    case True
    have "\<exists>a'. handler_server F (Command IDOK) a1 = Some (True, a') \<and>
        reg_name (client_settings (ap_reg a')) = Some (string_bytes (ap_name a1)) \<and>
        reg_port (client_settings (ap_reg a')) = Some (of_nat p)" if "accepting (ap_reg a1)" "enterable p a1" for p
      using applet_reaches_client [OF that, of F] unfolding same by auto
    then show ?thesis using True server_dialog_key [OF assms] by simp
  next
    case False
    then have "handler_server F (Command IDOK) a1 = Some (True, box a1)"
      by (auto simp: handler_server_def dialog_ok_def)
    then show ?thesis using False server_dialog_key [OF assms] by (auto simp: box_def)
  qed
qed

theorem server_applet_sets_client_witness:
  "\<exists>a1 a'. server_dialog [Entered 0x7F000001 ''capi20proxy.log'' ''6675'', Handle demo_frame OtherMessage] demo_applet = Some a1 \<and>
     handler_server demo_frame (Command IDOK) a1 = Some (True, a') \<and>
     reg_name (client_settings (ap_reg a')) = Some (string_bytes ''capi20proxy.log'') \<and>
     reg_port (client_settings (ap_reg a')) = Some 6675"
proof -
  let ?a1 = "demo_applet\<lparr>ap_ip := 0x7F000001, ap_name := ''capi20proxy.log'', ap_port := ''6675''\<rparr>"
  have d: "server_dialog [Entered 0x7F000001 ''capi20proxy.log'' ''6675'', Handle demo_frame OtherMessage] demo_applet = Some ?a1"
    by (simp add: handler_server_def)
  have ok: "accepting (ap_reg ?a1)" "enterable 6675 ?a1"
    using demo_applet_ok(1) by (simp_all add: enterable_def decimal.simps char_of_def bit_0)
  from server_applet_sets_client [OF d, of demo_frame] ok d show ?thesis by (auto simp: accepting_def)
qed

end
