(* ===== verification/Spec2Isabelle.thy ===== *)
theory Spec2Isabelle
  imports ClientProperties Win32Peers OldProperties Applet
begin

text \<open>
  \<^bold>\<open>capi20proxy\<close> makes the ISDN interface (CAPI 2.0) of one computer available to others over TCP/IP. This
  development models the programs of the repository as executable functions on explicit states
  and proves what they do, alone and together.

  \<^bold>\<open>The parts and how they interact.\<close> An application calls the CAPI. On Windows the calls end up in the
  library \<^verbatim>\<open>capi2032.dll\<close> (\<^verbatim>\<open>win32-client\<close>), which sends a request per call to the server and waits for
  the answer. On Linux the CAPI layer of the kernel passes messages to a driver (\<^verbatim>\<open>linux-client/module\<close>),
  which queues them for a daemon (\<^verbatim>\<open>linux-client/daemon\<close>); the daemon turns them into requests. The server
  \<^verbatim>\<open>capifwd\<close> (\<^verbatim>\<open>linux-server\<close>) forks a process per connection, which reads requests, calls the CAPI library of
  the computer it runs on and sends answers; on Windows the server is a service with a thread per connection
  (\<^verbatim>\<open>win32-server\<close>). All of them share the packet format of \<^verbatim>\<open>protocol.h\<close>.

  \<^bold>\<open>The theories.\<close>

  \<^item> \<open>Prelude\<close>: octets, little-endian words, packet buffers as functions with checked accesses, strings.
  \<^item> \<open>Protocol\<close>: constants, structures and layouts of \<^verbatim>\<open>protocol.h\<close>.
  \<^item> \<open>AppIndex\<close>: the table of registered applications (\<^verbatim>\<open>appindex.c\<close>) and the linked list it replaced
    (\<^verbatim>\<open>old/main-rev1.14-cvs.c\<close>), both as instances of the locale \<open>app_index\<close>, in which the release of all applications is
    analysed once.
  \<^item> \<open>ServerState\<close>: the globals of \<^verbatim>\<open>capifwd.h\<close>, the CAPI library as a parameter (record \<open>capi20\<close>), socket calls with
    scripted results, composing and sending an answer.
  \<^item> \<open>HandlerContract\<close>: what the session loop relies on when it calls a packet handler, as the locales
    \<open>session_handler\<close>, \<open>answer_handler\<close> and \<open>capi_handler\<close>.
  \<^item> \<open>Handlers\<close>: the handlers of \<^verbatim>\<open>capi/*.c\<close>, one function each, the equation of what each of them sends, and
    the interpretations of the contracts.
  \<^item> \<open>Proxy\<close>: the handlers of \<^verbatim>\<open>capi/proxy.c\<close> and the authentication of \<^verbatim>\<open>auth/auth.c\<close>.
  \<^item> \<open>Session\<close>: \<^verbatim>\<open>recvn\<close> and the session loop of \<^verbatim>\<open>capifwd.c\<close>; the specification \<open>serve\<close> on the octet stream, and that
    the loop refines it.
  \<^item> \<open>Unix\<close>, \<open>Cmdline\<close>, \<open>Main_Server\<close>: \<^verbatim>\<open>unix.c\<close>, \<^verbatim>\<open>config/cmdline.c\<close>, and \<^verbatim>\<open>main\<close> with its accept loop.
  \<^item> \<open>CapiUtil\<close>: the accessors of the kernel header \<^verbatim>\<open>capiutil.h\<close>, which is not part of the repository, as a parameter
    (record \<open>capiutil\<close>), with the documented message layout as hypothesis \<open>capiutil_documented\<close>; the constants of
    \<^verbatim>\<open>capi20proxy.h\<close>.
  \<^item> \<open>Daemon\<close>: \<^verbatim>\<open>c2pclient.c\<close>; what it sends, its message ids, its tables of application ids.
  \<^item> \<open>Module\<close>: \<^verbatim>\<open>capi20proxy.c\<close>; the invariant of the queues over the step relation \<open>kstep\<close>, and the queue of a card as
    instance of the locale \<open>bounded_fifo\<close>.
  \<^item> \<open>Win32Client\<close>: \<^verbatim>\<open>capi2032.cpp\<close> and \<^verbatim>\<open>capi2032.h\<close>; the table of waiting calls as instance of the locale
    \<open>call_table\<close>. \<open>Win32Hash\<close>: this table as the linked list it is in memory, with the unlocked read and the critical
    section of \<^verbatim>\<open>addToHash\<close> and \<^verbatim>\<open>removeFromHash\<close> as steps of their own; the operations of \<open>Win32Client\<close> are what the steps do
    when they follow each other, and what happens when calls overlap.
  \<^item> \<open>Win32Server\<close>: the structures, handlers and the session thread of \<^verbatim>\<open>win32-server/capi20server.cpp\<close>, one round at
    a time; \<open>Win32Session\<close>: every request of a session is answered once, the handlers as instances of the locales
    \<open>accountable\<close> and \<open>answering\<close>; \<open>Win32Requests\<close>: which requests are served inside the buffers (locale
    \<open>safe_answering\<close>) and which are not (\<open>request_fault\<close>), what REGISTER and HELO answer, authentication; \<open>Win32System\<close>: the end of a session, the table
    of sessions and the step relation \<open>wsys_step\<close> of all threads and of the accept loop, whose phases
    (\<open>accept_phase\<close>) separate the test of \<^verbatim>\<open>run\<close>, the \<^verbatim>\<open>Sleep\<close> and the test of \<^verbatim>\<open>pause\<close> with what follows; \<open>Win32Service\<close>: \<^verbatim>\<open>main\<close>, the service entry
    points and the dialog.
  \<^item> \<open>Win32ServerProperties\<close>, \<open>Win32Peers\<close>: properties of the Windows server, alone and together with the Windows client
    and the Linux daemon.
  \<^item> \<open>DaemonGreeting\<close>: the greeting of the daemon and which answers to it the daemon takes, for all servers.
  \<^item> \<open>OldServer\<close>: the first server, \<^verbatim>\<open>old/main-rev1.14-cvs.c\<close>, on the state of the present one with the linked list
    in the place of the table; the present server as its specification. \<open>OldProperties\<close>: what it answers, compared with the
    present server and together with the daemon.
  \<^item> \<open>Applet\<close>: the control panel applets (\<^verbatim>\<open>CPL/CPL.cpp\<close> of the Windows client and of the Windows server), with numbers and
    addresses as text and back.
  \<^item> \<open>Example\<close>, \<open>ClientProperties\<close>, \<open>Win32Properties\<close> and this theory: the properties, with the concrete states
    they are instantiated on.

  \<^bold>\<open>Conventions.\<close> A function of the code is a function of the same name on the state of its program. A result
  \<open>None\<close> means that the program leaves one of its buffers or tables or uses a null pointer. What the
  environment does (data that arrives, results of \<^verbatim>\<open>send\<close>, \<^verbatim>\<open>fork\<close>, \<^verbatim>\<open>malloc\<close>) is a script in the state or an
  argument; what the program does is a log. Words have the width they have on i386, with wrap-around. The CAPI
  library and the kernel headers are parameters; the hypotheses on them are \<open>capi20_documented\<close> and
  \<open>capiutil_documented\<close>, for which \<open>demo_capi\<close> and \<open>capi_layout\<close> are instances.

  For the Windows server the library is the record \<open>capi2032\<close> (hypothesis \<open>capi2032_documented\<close>, instance
  \<open>demo_lib\<close>), and \<open>win_registry\<close> holds what the registry and \<^verbatim>\<open>inet_addr\<close> deliver. Its handlers build answers in
  local buffers that are not initialised: \<open>ws_frames\<close> holds arbitrary contents for the frame of each call. A result \<open>None\<close> of
  \<open>StartSession\<close> and its parts is an access outside a buffer or a loop that does not end, as the comment at each function says.
  Offsets from the request that its handlers compute from lengths in the packet are addresses and wrap around at \<open>2 ^ 32\<close> (\<open>ofs\<close>).

  \<^bold>\<open>What is shown.\<close> The session loop refines its specification on octet streams, so the way the network cuts the
  stream does not matter; requests are handled in order, each answered once and framed correctly unless it makes a
  handler leave a buffer, which needs one of the cases listed in \<open>request_fits\<close>; foreign requests change nothing; at the end every application is released exactly once. Each handler passes
  parameters, results and data on unchanged. A registration and a release on Windows reach the library of the
  server and come back, with both sides in the same state. The driver delivers messages in order up to the
  capacity of its queue and never dequeues from an empty one. Other properties state where the programs
  do not fit together: requests of the Linux client without a body end the session, its greeting fails
  against this server, the driver doubles the length of messages, and the Windows client does not survive an
  announcement of the server. The Windows server answers every request of a session once whatever the order in
  which its threads run, serves requests with sound lengths inside its buffers but for the cases of \<open>request_fault\<close>, and works with the Windows client; but its sessions never
  return, its table of sessions is used up after 127 connections, its check of lengths wraps around, authentication
  decides nothing, requests that arrive together are lost, and most requests of the Linux daemon are ignored. The first
  server answers like the present one as long as a segment is a request, and it does serve the daemon, whose greeting and
  queries the present one refuses. The applet of the client shows again what was entered; that of the server writes into the
  settings of the client.

  \<^bold>\<open>Bounds.\<close> Loops over input terminate because each \<^verbatim>\<open>recv\<close> consumes part of the script; no fuel is involved. The
  main loop of the daemon, which runs until it is told to stop, is given a number of rounds, and its
  properties hold for every number. The accept loop is given the list of results of \<^verbatim>\<open>accept\<close>. Session ids are
  distinct for fewer than \<open>2 ^ 32 - 3\<close> connections.

  The threads of the Windows server interleave at the granularity of one round of a session; \<^verbatim>\<open>getfirst_app\<close>, whose loop
  does not end, makes one step per iteration.

  \<^bold>\<open>Not modelled.\<close> Output on terminal, system log and kernel log, and the texts of message boxes; the names processes give
  themselves; the functions \<^verbatim>\<open>Wait\<close> and \<^verbatim>\<open>TimeOut\<close> of the Windows server, which nothing calls; what \<^verbatim>\<open>sscanf\<close> overwrites behind
  the four octets of an address in the applets, other locals and the return address with them; what is destroyed behind the table of
  applications of the Linux server by an id of the library above its end, where an entry is treated like the others; a failing
  \<^verbatim>\<open>malloc\<close> in the list of applications of the first server; preemption inside the functions of the driver (a
  reader that sleeps in \<open>capiproxy_read\<close> finds the messages sent meanwhile, and no other change); preemption inside the functions
  of the Windows client, which are taken to run one after the other, but for the table of waiting calls in \<open>Win32Hash\<close>.
  \<^verbatim>\<open>DllMain\<close> of the applets does nothing. The copies of
  \<^verbatim>\<open>protocol.h\<close> with the clients and the Windows server define the same protocol as that of the server, which \<open>Protocol\<close> models.
\<close>

section \<open>The session of a client\<close>

text \<open>
  C1. The session loop with its \<^verbatim>\<open>recv\<close> calls implements the specification on the octet
  stream: cut off a request, dispatch it, go on; hang up at the end.
\<close>

theorem session_refines_stream:
  "map_option (apsnd detach) (session L s) = serve L (detach s) (stream (rx s))"
  by (rule session_serve)

text \<open>
  The way the network cuts the stream into segments has no influence: two scripts
  that deliver the same octets lead to the same exit status, answers, library calls and
  application table.
\<close>

theorem segmentation_irrelevant:
  assumes "stream es = stream es'"
  shows "map_option (apsnd detach) (session L (s\<lparr>rx := es\<rparr>)) = map_option (apsnd detach) (session L (s\<lparr>rx := es'\<rparr>))"
  using assms by (simp add: session_serve)

theorem segmentation_irrelevant_witness:
  "map_option (apsnd detach) (session demo_capi (demo_server\<lparr>rx := [Data [1, 2], Data [3]]\<rparr>)) =
   map_option (apsnd detach) (session demo_capi (demo_server\<lparr>rx := [Data [1], Data [2, 3]]\<rparr>))"
  by (rule segmentation_irrelevant) simp

text \<open>
  C2. A stream of well-formed requests is handled request by request, in order, each
  exactly once, and after the last one the session is closed.
\<close>

theorem session_handles_requests:
  assumes "\<forall>p \<in> set ps. wf_request p" and "stream (rx s) = concat ps"
  shows "map_option (apsnd detach) (session L s) = handle_all L (detach s) ps"
  using assms by (simp add: session_serve serve_requests)

theorem session_handles_requests_witness:
  "map_option (apsnd detach) (session demo_capi (demo_server\<lparr>rx :=
       [Data (demo_request TYPE_CAPI_RELEASE [] [0]), Data (demo_request TYPE_CAPI_PROFILE [0] [])]\<rparr>)) =
   handle_all demo_capi (detach demo_server)
     [demo_request TYPE_CAPI_RELEASE [] [0], demo_request TYPE_CAPI_PROFILE [0] []]"
proof -
  have "\<forall>p \<in> set [demo_request TYPE_CAPI_RELEASE [] [0], demo_request TYPE_CAPI_PROFILE [0] []]. wf_request p"
    by (simp add: wf_demo_request PACKET_SIZE_def)
  moreover have "demo_request ty b d \<noteq> []" for ty b d
    using length_demo_request [of ty b d] by (metis add_is_0 list.size(3) zero_neq_numeral)
  ultimately show ?thesis
    using session_handles_requests [of "[demo_request TYPE_CAPI_RELEASE [] [0], demo_request TYPE_CAPI_PROFILE [0] []]"
        "demo_server\<lparr>rx := [Data (demo_request TYPE_CAPI_RELEASE [] [0]), Data (demo_request TYPE_CAPI_PROFILE [0] [])]\<rparr>"
        demo_capi] by simp
qed

text \<open>
  C3. What becomes of a request that is served. When its handler returns, it has sent exactly
  one packet, which is framed correctly (its lengths add up to what is sent), has the type of
  the request and carries its message id; only the parent of a forked \<^verbatim>\<open>WAITFORSIGNAL\<close>
  request sends nothing (the child answers for it). The handler leaves a buffer, \<open>None\<close>, only
  when \<open>request_fits\<close> fails: the body it reads is not inside \<^verbatim>\<open>in_packet\<close>, the user name or
  password of an \<^verbatim>\<open>AUTH\<close> request is longer than its data, a \<^verbatim>\<open>HELO\<close> name has no terminator,
  or the message the library delivers does not fit the answer.
\<close>

theorem request_answered_once:
  assumes "capi20_documented L" and "served s"
  shows "case dispatch L s of
      None \<Rightarrow> \<not> request_fits L s
    | Some (c, s') \<Rightarrow> if leaves_to_child s then tx s' = tx s
        else answered s s' (rq_message_type (req s)) (rq_message_id (req s))"
  using dispatch_returns [OF assms] dispatch_answered [OF assms]
  by (auto split: option.split prod.split)

theorem request_answered_once_witness:
  "let s = input (demo_request TYPE_CAPI_SERIAL [] [0]) demo_server in
   \<exists>c s'. dispatch demo_capi s = Some (c, s') \<and> answered s s' TYPE_CAPI_SERIAL 7"
proof -
  let ?s = "input (demo_request TYPE_CAPI_SERIAL [] [0]) demo_server"
  have s: "served ?s" and "request_fits demo_capi ?s" and "\<not> leaves_to_child ?s"
    by (simp_all add: served_def capi_types_def request_fits_def leaves_to_child_def demo_header_def
        proto_consts)
  with request_answered_once [OF demo_documented s] show ?thesis
    by (simp add: demo_header_def split: option.splits prod.splits)
qed

text \<open>
  C23. Keep-alives, requests of unknown type and requests of another session change nothing, except HELO and AUTH, which are
  answered whatever session they name: no answer is sent, not even the \<^verbatim>\<open>PERROR_WRONG_SESSION\<close> the protocol has for
  this, and the library is not called.
\<close>

theorem foreign_request_ignored:
  assumes "rq_message_type (req s) \<notin> {TYPE_PROXY_HELO, TYPE_PROXY_AUTH}"
    and "rq_session_id (req s) \<noteq> sessionID s \<or> rq_message_type (req s) \<notin> set capi_types"
  shows "dispatch L s = Some (Returned 1, s)"
  using assms by (intro dispatch_silent) (auto simp: served_def)

theorem foreign_request_ignored_witness:
  "dispatch demo_capi (input (demo_request TYPE_PROXY_KEEPALIVE [] [0]) demo_server) =
     Some (Returned 1, input (demo_request TYPE_PROXY_KEEPALIVE [] [0]) demo_server)"
  by (rule foreign_request_ignored) (simp_all add: demo_header_def proto_consts capi_types_def)

text \<open>
  C4. When the client hangs up, every application it has registered and not released is
  released exactly once, and nothing else; the table is empty and the socket closed. (The
  process that waits for a signal on behalf of the session is excluded: it never takes the
  branch of the child in \<^verbatim>\<open>fork\<close>.)
\<close>

theorem session_releases_applications:
  assumes "capi20_documented L" and "\<forall>p \<in> set ps. wf_request p" and "stream (rx s) = concat ps"
    and "0 \<notin> set (fork_rets s)" and "session L s = Some (k, s')"
  shows "\<exists>t apps. state_after L (detach s) ps = Some t \<and> distinct apps \<and>
     set apps = fold apply_event (app_log L (detach s) ps) (owned L s) \<and>
     world s' = fold (\<lambda>a v. snd (capi20_release L a v)) apps (world t) \<and>
     owned L s' = {} \<and> \<not> sock_open s' \<and> k = 0"
proof -
  have h: "handle_all L (detach s) ps = Some (k, detach s')"
    using assms session_serve [of L s] by (simp add: serve_requests)
  have "0 \<notin> set (fork_rets (detach s))" using assms(4) by (simp add: detach_def)
  from handle_all_releases [OF assms(1) h this] show ?thesis
    by (simp add: detach_def owned_def)
qed

theorem session_releases_applications_witness:
  "\<exists>k s' t apps. session demo_capi (demo_server\<lparr>rx := [Data (demo_request TYPE_CAPI_REGISTER (replicate 16 0) [])]\<rparr>)
       = Some (k, s') \<and> set apps = {1 :: u32} \<and> distinct apps \<and>
     world s' = fold (\<lambda>a v. snd (capi20_release demo_capi a v)) apps t \<and>
     owned demo_capi s' = {} \<and> \<not> sock_open s' \<and> k = 0"
proof -
  let ?p = "demo_request TYPE_CAPI_REGISTER (replicate 16 0) []"
  let ?s = "demo_server\<lparr>rx := [Data ?p]\<rparr>" and ?d = "input ?p (detach demo_server)"
  have ne: "?p \<noteq> []" using length_demo_request by (metis add_is_0 list.size(3) zero_neq_numeral)
  have st: "stream (rx ?s) = concat [?p]" using ne by simp
  have wf: "\<forall>p \<in> set [?p]. wf_request p" by (simp add: wf_demo_request PACKET_SIZE_def)
  have nf: "0 \<notin> set (fork_rets ?s)" by simp
  have "served ?d" "request_pre demo_capi ?d"
    by (simp_all add: served_def capi_types_def request_pre_def demo_header_def proto_consts
        register_pre_def PACKET_SIZE_def)
  from dispatch_answers [OF demo_documented this] obtain c t where d: "dispatch demo_capi ?d = Some (c, t)"
    by blast
  obtain n where c: "c = Returned n"
    using dispatch_forks [OF d] by (cases c) (auto simp: detach_def)
  obtain s1 where "handle_all demo_capi (detach ?s) [?p] = Some (0, s1)"
    using d c by (cases "hangup demo_capi t") auto
  then obtain k s' where ses: "session demo_capi ?s = Some (k, s')"
    using session_serve [of demo_capi ?s] st serve_requests [OF wf, of demo_capi "detach ?s"]
    by (cases "session demo_capi ?s") auto
  have "fold apply_event (app_log demo_capi (detach ?s) [?p]) (owned demo_capi ?s) = {1}"
    using d c by (simp add: app_effect_def demo_header_def proto_consts demo_capi_def owned_def apps_of_def)
  with session_releases_applications [OF demo_documented wf st nf ses] ses show ?thesis by metis
qed

text \<open>
  A request that consists of a header only (\<^verbatim>\<open>message_len\<close> 36, as the client daemon
  sends for most of its requests) is never dispatched: the second \<^verbatim>\<open>recvn\<close>, for no octets,
  returns 0, which the loop takes for the end of the connection.
\<close>

theorem header_only_request_hangs_up:
  assumes "36 \<le> length (stream (rx s))"
    and "rq_message_len (request_header_at (buffer_of (stream (rx s)))) = 36"
  shows "\<exists>s'. session L s = Some (0, s') \<and> tx s' = tx s \<and> \<not> sock_open s'"
  using assms by (rule header_only_session)

theorem header_only_request_hangs_up_witness:
  "\<exists>s'. session demo_capi (demo_server\<lparr>rx := [Data (demo_request TYPE_CAPI_PROFILE [] [])]\<rparr>) = Some (0, s') \<and>
     tx s' = [] \<and> \<not> sock_open s'"
proof -
  let ?s = "demo_server\<lparr>rx := [Data (demo_request TYPE_CAPI_PROFILE [] [])]\<rparr>"
  have "demo_request TYPE_CAPI_PROFILE [] [] \<noteq> []"
    using length_demo_request by (metis add_is_0 list.size(3) zero_neq_numeral)
  then show ?thesis
    using header_only_request_hangs_up [of ?s demo_capi] by (simp add: buffer_of_def demo_header_def)
qed

text \<open>
  Authentication by address accepts exactly the private networks 192.168.0.0/16 and
  10.0.0.0/8 of the address \<^verbatim>\<open>getsockname\<close> delivers.
\<close>

theorem ip_auth_private_networks:
  "ip_auth s = 0 \<longleftrightarrow> (\<exists>a. sockname s = Some a \<and>
     (unat a div 2 ^ 16 = 0xC0A8 \<or> unat a div 2 ^ 24 = 0x0A))"
  by (auto simp: ip_auth_def network_prefix split: option.splits if_splits)

section \<open>The handlers\<close>

text \<open>
  REGISTER passes the three parameters of the request body to the library, answers
  with the id and the error code the library gives, and records the application exactly
  when the library has accepted it.
\<close>

theorem register_forwards:
  assumes "unat (rq_header_len (req s)) = v" and "v + 16 \<le> PACKET_SIZE"
    and "capi20_register L (get32 (in_packet s) (v + 4)) (get32 (in_packet s) (v + 8))
           (get32 (in_packet s) (v + 12)) (get32 (out_packet s) 24) (world s) = (e, app, w)"
  shows "\<exists>n s'. exec_capi_register L s = Some (n, s') \<and> tx s' = tx s @ [(answer_packet
      \<lparr>an_message_len = 40, an_header_len = 40, an_body_len = 0, an_data_len = 0,
       an_message_id = rq_message_id (req s), an_message_type = TYPE_CAPI_REGISTER,
       an_app_id = app, an_session_id = sessionID s, an_proxy_error = 0, an_capi_error = e\<rparr> [], n)] \<and>
     world s' = w \<and>
     registered_apps s' = (if e = 0 then add_app app (registered_apps s) else registered_apps s)"
  by (rule sent_effect [OF exec_capi_register_eq [OF assms(2,3) [folded assms(1)]]]) simp_all

theorem register_forwards_witness:
  "\<exists>n s'. exec_capi_register demo_capi (input (demo_request TYPE_CAPI_REGISTER (replicate 16 0) []) demo_server)
       = Some (n, s') \<and> registered_apps s' 1 = 1"
proof -
  let ?s = "input (demo_request TYPE_CAPI_REGISTER (replicate 16 0) []) demo_server"
  have "unat (rq_header_len (req ?s)) = 36" "36 + 16 \<le> PACKET_SIZE"
    by (simp_all add: demo_header_def PACKET_SIZE_def)
  from register_forwards [OF this, of demo_capi 0 1 "()"] show ?thesis
    by (auto simp: demo_capi_def add_app_def)
qed

text \<open>
  RELEASE calls the library with the id of the request and forgets the application
  exactly when the library reports success.
\<close>

theorem release_forwards:
  assumes "capi20_release L (rq_app_id (req s)) (world s) = (e, w)"
  shows "\<exists>n s'. exec_capi_release L s = Some (n, s') \<and> tx s' = tx s @ [(answer_packet
      \<lparr>an_message_len = 40, an_header_len = 40, an_body_len = 0, an_data_len = 0,
       an_message_id = rq_message_id (req s), an_message_type = TYPE_CAPI_RELEASE,
       an_app_id = rq_app_id (req s), an_session_id = sessionID s, an_proxy_error = 0,
       an_capi_error = e\<rparr> [], n)] \<and>
     world s' = w \<and> registered_apps s' =
       (if e = 0 then del_app (rq_app_id (req s)) (registered_apps s) else registered_apps s)"
  by (rule sent_effect [OF exec_capi_release_eq [OF assms]]) simp_all

theorem release_forwards_witness:
  "\<exists>n s'. exec_capi_release demo_capi (input (demo_request TYPE_CAPI_RELEASE [] [0]) demo_server) = Some (n, s') \<and>
     registered_apps s' 1 = 0"
  using release_forwards [of demo_capi "input (demo_request TYPE_CAPI_RELEASE [] [0]) demo_server" 0 "()"]
  by (auto simp: demo_capi_def del_app_def)

lemma exec_capi_getmessage_overrun:
  assumes get: "capi20_get_message L (rq_app_id (req s)) (world s) = (0, a, w)"
    and len: "6 \<le> length (capi_message L w a)"
    and d: "getmessage_data L w a = (pe, d)" and long: "PACKET_SIZE < 40 + length d"
  shows "exec_capi_getmessage L s = None"
proof -
  define m where "m = capi_message L w a"
  define len1 where "len1 = (word_le (capi20_bytes L w a 2) :: u32)"
  have m: "capi20_bytes L w a (unat len1) = m" and lm: "unat len1 = length m" "len1 = of_nat (length m)"
    by (simp_all add: m_def len1_def capi_message_def)
  have lm6: "6 \<le> length m" using len by (simp add: m_def)
  show ?thesis
  proof (cases "40 + length m \<le> PACKET_SIZE")
    case False
    then have "put_bytes_chk PACKET_SIZE 40 m b = None" for b by (simp add: put_bytes_chk_def)
    then show ?thesis
      unfolding exec_capi_getmessage_def Let_def get prod.case len1_def [symmetric] m
      by (simp add: buf_simps sizeof_defs)
  next
    case True
    then have chk: "put_bytes_chk PACKET_SIZE 40 m b = Some (put_bytes 40 m b)" for b
      by (simp add: put_bytes_chk_def)
    have b3: "m ! 4 = 0x86" "m ! 5 = 0x82" "18 \<le> length m"
      using True long d by (auto simp: getmessage_data_def Let_def m_def split: if_splits)
    define len2 where "len2 = (word_le (take 2 (drop 16 m)) :: u32)"
    define x where "x = capi20_bytes L w (word_le (take 4 (drop 12 m))) (unat len2)"
    have "d = m @ x"
      using d b3 by (auto simp: getmessage_data_def Let_def m_def x_def len2_def)
    then have "put_bytes_chk PACKET_SIZE (40 + length m) x b = None" for b
      using long by (simp add: put_bytes_chk_def)
    then show ?thesis
      unfolding exec_capi_getmessage_def Let_def get prod.case len1_def [symmetric] m
      using b3 lm6 True
      by (simp add: buf_simps chk sizeof_defs len2_def [symmetric] x_def [symmetric] lm(1) word_less_nat_alt)
  qed
qed

text \<open>
  C30. What GETMESSAGE makes of a message of the library (of at least six octets, the length and the command). The data are the
  message, for a \<^verbatim>\<open>DATA_B3_IND\<close> followed by the data block its pointer and length fields name. When this fits the packet
  buffer behind the header of 40 octets, it is delivered unchanged as the data of the answer; a \<^verbatim>\<open>DATA_B3_IND\<close>
  too short for these fields is delivered with a parse error. When it does not fit, the handler
  writes behind the end of the buffer.
\<close>

theorem getmessage_delivers:
  assumes "capi20_get_message L (rq_app_id (req s)) (world s) = (0, a, w)"
    and "6 \<le> length (capi_message L w a)" and "getmessage_data L w a = (pe, d)"
  shows "if 40 + length d \<le> PACKET_SIZE then
     \<exists>n s'. exec_capi_getmessage L s = Some (n, s') \<and> tx s' = tx s @ [(answer_packet
      \<lparr>an_message_len = of_nat (40 + length d), an_header_len = 40, an_body_len = 0,
       an_data_len = of_nat (length d), an_message_id = rq_message_id (req s),
       an_message_type = TYPE_CAPI_GETMESSAGE, an_app_id = rq_app_id (req s),
       an_session_id = sessionID s, an_proxy_error = pe, an_capi_error = 0\<rparr> d, n)] \<and>
       world s' = w \<and> registered_apps s' = registered_apps s
     else exec_capi_getmessage L s = None"
proof (cases "40 + length d \<le> PACKET_SIZE")
  case True
  from sent_effect [OF exec_capi_getmessage_ok [OF assms this], of s w "registered_apps s"] True show ?thesis by simp
next
  case False
  with exec_capi_getmessage_overrun [OF assms] show ?thesis by simp
qed

definition long_message_capi :: "unit capi20" where
  "long_message_capi = demo_capi\<lparr>capi20_memory := (\<lambda>w a. 0xFF)\<rparr>"

theorem getmessage_delivers_witness:
  "(\<exists>n s'. exec_capi_getmessage demo_capi (input (demo_request TYPE_CAPI_GETMESSAGE [] [0]) demo_server) = Some (n, s') \<and>
     length (fst (last (tx s'))) = 48) \<and>
   exec_capi_getmessage long_message_capi (input (demo_request TYPE_CAPI_GETMESSAGE [] [0]) demo_server) = None"
proof
  let ?s = "input (demo_request TYPE_CAPI_GETMESSAGE [] [0]) demo_server"
  have m: "capi_message demo_capi () 0 = [8, 0, 0, 0, 0, 0, 0, 0]"
    by (simp add: capi_message_def capi20_bytes_def demo_capi_def upt_rec word_le_def)
  have "getmessage_data demo_capi () 0 = (0, [8, 0, 0, 0, 0, 0, 0, 0])"
    by (simp add: getmessage_data_def m)
  moreover have "capi20_get_message demo_capi (rq_app_id (req ?s)) (world ?s) = (0, 0, ())"
    by (simp add: demo_capi_def)
  ultimately show "\<exists>n s'. exec_capi_getmessage demo_capi ?s = Some (n, s') \<and> length (fst (last (tx s'))) = 48"
    using getmessage_delivers [of demo_capi ?s 0 "()" 0 "[8, 0, 0, 0, 0, 0, 0, 0]"]
    by (auto simp: m PACKET_SIZE_def)
  have l: "length (capi_message long_message_capi () 0) = 65535"
  proof -
    have "(word_le (capi20_bytes long_message_capi () 0 2) :: u32) = 65535"
      by (simp add: capi20_bytes_def long_message_capi_def upt_rec word_le_def)
    then show ?thesis unfolding capi_message_def length_capi20_bytes by simp
  qed
  obtain pe d where d: "getmessage_data long_message_capi () 0 = (pe, d)" by fastforce
  have "65535 \<le> length d" using length_getmessage_data [of long_message_capi "()" 0] l d by simp
  moreover have "capi20_get_message long_message_capi (rq_app_id (req ?s)) (world ?s) = (0, 0, ())"
    by (simp add: long_message_capi_def demo_capi_def)
  ultimately show "exec_capi_getmessage long_message_capi ?s = None"
    using getmessage_delivers [of long_message_capi ?s 0 "()" pe d] d l by (simp add: PACKET_SIZE_def)
qed

text \<open>
  An error of the library (for instance an empty queue) is passed on as the error
  code of an answer without data.
\<close>

theorem getmessage_reports_error:
  assumes "capi20_get_message L (rq_app_id (req s)) (world s) = (e, a, w)" and "e \<noteq> 0"
  shows "\<exists>n s'. exec_capi_getmessage L s = Some (n, s') \<and> tx s' = tx s @ [(answer_packet
      \<lparr>an_message_len = 40, an_header_len = 40, an_body_len = 0, an_data_len = 0,
       an_message_id = rq_message_id (req s), an_message_type = TYPE_CAPI_GETMESSAGE,
       an_app_id = rq_app_id (req s), an_session_id = sessionID s, an_proxy_error = 0,
       an_capi_error = e\<rparr> [], n)] \<and> world s' = w \<and> registered_apps s' = registered_apps s"
  by (rule sent_effect [OF exec_capi_getmessage_error [OF assms]]) simp_all

theorem getmessage_reports_error_witness:
  "\<exists>n s'. exec_capi_getmessage (demo_capi\<lparr>capi20_get_message := (\<lambda>a w. (0x1104, 0, w))\<rparr>) demo_server = Some (n, s')"
  using getmessage_reports_error [of "demo_capi\<lparr>capi20_get_message := (\<lambda>a w. (0x1104, 0, w))\<rparr>" demo_server "0x1104" 0 "()"]
  by auto

text \<open>
  C29. A message that fits the request is handed to the library, which sees it exactly as
  the client sent it, except that the data pointer of a \<^verbatim>\<open>DATA_B3_REQ\<close> is the address of the
  octets behind the message in the packet buffer, and these octets are the client's data.
\<close>

theorem putmessage_forwards:
  assumes "put_msg s + unat (rq_data_len (req s)) \<le> PACKET_SIZE" and "\<not> put_rejects s"
    and "36 \<le> put_msg s"
    and "capi20_put_message L (rq_app_id (req s)) (in_addr s + of_nat (put_msg s))
           (\<lambda>i. put_patched s (put_msg s + i)) (world s) = (e, w)"
  shows "\<exists>n s'. exec_capi_putmessage L s = Some (n, s') \<and>
     tx s' = tx s @ [(answer_packet (put_answer s 0 e) [], n)] \<and> world s' = w"
proof -
  have "rq_app_id (request_header_at (put_patched s)) = rq_app_id (req s)"
    using assms(3) by (simp add: put_patched_def request_header_at_def buf_simps)
  with assms(4) have "capi20_put_message L (rq_app_id (request_header_at (put_patched s)))
     (in_addr s + of_nat (put_msg s)) (\<lambda>i. put_patched s (put_msg s + i)) (world s) = (e, w)" by simp
  from sent_effect [OF exec_capi_putmessage_accepted [OF assms(1,2) this], of s w "registered_apps s"]
  show ?thesis by auto
qed

theorem putmessage_forwards_witness:
  "\<exists>n s'. exec_capi_putmessage demo_capi
       (input (demo_request TYPE_CAPI_PUTMESSAGE [] [8, 0, 1, 0, 0, 0, 0, 0]) demo_server) = Some (n, s') \<and>
     length (tx s') = 1"
proof -
  let ?s = "input (demo_request TYPE_CAPI_PUTMESSAGE [] [8, 0, 1, 0, 0, 0, 0, 0]) demo_server"
  have m: "put_msg ?s = 36" by (simp add: put_msg_def demo_header_def)
  have oct: "in_packet ?s (36 + i) = [8, 0, 1, 0, 0, 0, 0, 0] ! i" if "i < 8" for i
    using that by (simp add: demo_request_def put_bytes_def nth_append)
  have "get_bytes (in_packet ?s) 36 2 = [8, 0]"
    using oct [of 0] oct [of 1] by (simp add: get_bytes_def upt_rec del: in_packet_input)
  then have "get16 (in_packet ?s) 36 = 8" by (simp add: get16_def word_le_def del: in_packet_input)
  moreover have "in_packet ?s (36 + 4) = 0" using oct [of 4] by simp
  ultimately have "\<not> put_rejects ?s"
    unfolding put_rejects_def put_b3_def m by (simp add: demo_header_def)
  then show ?thesis
    using putmessage_forwards [of ?s demo_capi 0 "()"] m
    by (auto simp: demo_header_def PACKET_SIZE_def demo_capi_def)
qed

text \<open>
  For a \<^verbatim>\<open>DATA_B3_REQ\<close> that is accepted, the data pointer the library sees is the address of
  the octets behind the message, the data block lies within the octets the client
  declared, and setting the pointer has not changed it.
\<close>

theorem putmessage_data_pointer:
  assumes "put_b3 s" and "\<not> put_rejects s"
  defines "len1 \<equiv> get16 (in_packet s) (put_msg s)" and "len2 \<equiv> get16 (in_packet s) (put_msg s + 16)"
  shows "get32 (put_patched s) (put_msg s + 12) = in_addr s + of_nat (put_msg s + unat len1) \<and>
     unat len1 + unat len2 \<le> unat (rq_data_len (req s)) \<and>
     get_bytes (put_patched s) (put_msg s + unat len1) (unat len2) =
       get_bytes (in_packet s) (put_msg s + unat len1) (unat len2)"
proof -
  have r: "18 \<le> len1" "len1 + len2 \<le> rq_data_len (req s)"
    using assms(1,2) by (auto simp: put_rejects_def len1_def len2_def)
  have sum: "unat (len1 + len2) = unat len1 + unat len2"
    using get16_less [of "in_packet s" "put_msg s"] get16_less [of "in_packet s" "put_msg s + 16"]
    by (simp add: unat_word_ariths len1_def len2_def)
  have "18 \<le> unat len1" using r(1) by (simp add: word_le_nat_alt)
  then show ?thesis
    using assms(1) r(2) sum
    by (simp add: put_patched_def len1_def len2_def buf_simps word_le_nat_alt word_le_bytes_le add.assoc)
qed

theorem putmessage_data_pointer_witness:
  "\<exists>s :: unit server. put_b3 s \<and> get32 (put_patched s) (put_msg s + 12) =
     in_addr s + of_nat (put_msg s + unat (get16 (in_packet s) (put_msg s)))"
proof -
  let ?d = "[18, 0, 1, 0, 0x86, 0x80, 0, 0, 0, 0, 0, 0, 0, 0, 0, 0, 1, 0, 42] :: byte list"
  let ?s = "input (demo_request TYPE_CAPI_PUTMESSAGE [] ?d) demo_server"
  have m: "put_msg ?s = 36" by (simp add: put_msg_def demo_header_def)
  have oct: "in_packet ?s (36 + i) = ?d ! i" if "i < 19" for i
    using that by (simp add: demo_request_def put_bytes_def nth_append)
  have "get_bytes (in_packet ?s) 36 2 = [18, 0]" "get_bytes (in_packet ?s) (36 + 16) 2 = [1, 0]"
    using oct [of 0] oct [of 1] oct [of 16] oct [of 17]
    by (simp_all add: get_bytes_def upt_rec del: in_packet_input)
  then have "get16 (in_packet ?s) 36 = 18" "get16 (in_packet ?s) (36 + 16) = 1"
    by (simp_all add: get16_def word_le_def del: in_packet_input)
  moreover have b3: "put_b3 ?s" using oct [of 4] oct [of 5] by (simp add: put_b3_def m del: in_packet_input)
  ultimately have "\<not> put_rejects ?s"
    unfolding put_rejects_def m by (simp add: demo_header_def)
  with putmessage_data_pointer [OF b3] b3 show ?thesis by blast
qed

text \<open>
  A message that does not fit the octets of its request is not handed to the
  library: the client gets a parse error. The library error field is not assigned on this
  path: it still holds the value of the answer before.
\<close>

theorem putmessage_rejects:
  assumes "put_msg s + unat (rq_data_len (req s)) \<le> PACKET_SIZE" and "put_rejects s"
  shows "\<exists>n s'. exec_capi_putmessage L s = Some (n, s') \<and> tx s' = tx s @ [(answer_packet
      (put_answer s PERROR_PARSE_ERROR (get32 (out_packet s) 36)) [], n)] \<and>
     world s' = world s \<and> registered_apps s' = registered_apps s"
  by (rule sent_effect [OF exec_capi_putmessage_rejected [OF assms]]) simp_all

theorem putmessage_rejects_witness:
  "\<exists>n s'. exec_capi_putmessage demo_capi
       (input (demo_request TYPE_CAPI_PUTMESSAGE [] [1, 2, 3]) demo_server) = Some (n, s') \<and> length (tx s') = 1"
  using putmessage_rejects [of "input (demo_request TYPE_CAPI_PUTMESSAGE [] [1, 2, 3]) demo_server" demo_capi]
  by (auto simp: put_rejects_def put_msg_def demo_header_def PACKET_SIZE_def)

text \<open>
  WAITFORSIGNAL does not block the session: the parent returns at once without
  sending anything, and the child that waits sends the one answer and ends; when \<^verbatim>\<open>fork\<close>
  fails the client is told that resources are missing.
\<close>

theorem waitforsignal_processes:
  assumes "sys_fork (s\<lparr>numbytes := 1\<rparr>) = (pid, s1)"
  shows "(pid \<noteq> 0 \<and> pid \<noteq> -1 \<longrightarrow> exec_capi_waitforsignal L s = Some (Returned 1, s1) \<and> tx s1 = tx s) \<and>
     (pid = 0 \<longrightarrow> (\<exists>n s'. exec_capi_waitforsignal L s = Some (Exited 0, s') \<and>
        tx s' = tx s @ [(answer_packet (wait_answer s PERROR_NONE
          (fst (capi20_waitformessage L (rq_app_id (req s)) (world s)))) [], n)])) \<and>
     (pid = -1 \<longrightarrow> (\<exists>n s'. exec_capi_waitforsignal L s = Some (Returned n, s') \<and>
        tx s' = tx s @ [(answer_packet (wait_answer s PERROR_NO_RESSOURCES 0x1108) [], n)]))"
proof (intro conjI impI)
  have tx: "tx s1 = tx s" using assms by (auto simp: sys_fork_def split: list.splits)
  show "exec_capi_waitforsignal L s = Some (Returned 1, s1)" "tx s1 = tx s" if "pid \<noteq> 0 \<and> pid \<noteq> -1"
    using that exec_capi_waitforsignal_parent [OF assms] tx by auto
  have ans: "\<exists>n s'. exec_capi_waitforsignal L s = Some (if pid = 0 then Exited 0 else Returned n, s') \<and>
      tx s' = tx s @ [(answer_packet (wait_answer s pe e) [], n)]"
    if r: "wait_result L pid s = (pe, e, w)" and p: "pid = 0 \<or> pid = -1" for pe e w
  proof -
    obtain q where q: "exec_capi_waitforsignal L s =
       map_option (apfst (\<lambda>n. if pid = 0 then Exited 0 else Returned n))
         (Some (sock_send (answer_packet (wait_answer s pe e) []) (s1\<lparr>world := w, out_packet := q\<rparr>)))"
      using exec_capi_waitforsignal_answer [OF assms p r] by blast
    then show ?thesis
      by (cases rule: sock_send_cases [of "answer_packet (wait_answer s pe e) []" "s1\<lparr>world := w, out_packet := q\<rparr>"])
        (simp add: tx)
  qed
  show "\<exists>n s'. exec_capi_waitforsignal L s = Some (Exited 0, s') \<and>
        tx s' = tx s @ [(answer_packet (wait_answer s PERROR_NONE
          (fst (capi20_waitformessage L (rq_app_id (req s)) (world s)))) [], n)]" if "pid = 0"
    using ans [of PERROR_NONE "fst (capi20_waitformessage L (rq_app_id (req s)) (world s))"
        "snd (capi20_waitformessage L (rq_app_id (req s)) (world s))"] that
    by (simp add: wait_result_def case_prod_beta)
  show "\<exists>n s'. exec_capi_waitforsignal L s = Some (Returned n, s') \<and>
        tx s' = tx s @ [(answer_packet (wait_answer s PERROR_NO_RESSOURCES 0x1108) [], n)]" if "pid = -1"
    using ans [of PERROR_NO_RESSOURCES "0x1108" "world s"] that by (simp add: wait_result_def)
qed

theorem waitforsignal_processes_witness:
  "\<exists>n s'. exec_capi_waitforsignal demo_capi (demo_server\<lparr>fork_rets := [-1]\<rparr>) = Some (Returned n, s')"
  using waitforsignal_processes [of "demo_server\<lparr>fork_rets := [-1]\<rparr>" "-1" "demo_server\<lparr>fork_rets := [], numbytes := 1\<rparr>" demo_capi]
  by (simp add: sys_fork_def) blast

text \<open>
  The answer to VERSION holds the sixteen octets of the library with its two halves
  exchanged: manufacturer version first, then the CAPI version.
\<close>

theorem version_halves_exchanged:
  assumes "capi20_get_version L (rq_controller_id (req s)) (world s) = (bs, w)" and "length bs = 16"
  shows "\<exists>n s' h. exec_capi_version L s = Some (n, s') \<and>
     tx s' = tx s @ [(answer_packet h (drop 8 bs @ take 8 bs), n)] \<and>
     an_message_type h = TYPE_CAPI_VERSION \<and> an_body_len h = 16 \<and> an_capi_error h = 0"
proof -
  from exec_capi_version_eq [OF assms] obtain h p where
    e: "exec_capi_version L s = Some (sock_send (answer_packet h (drop 8 bs @ take 8 bs)) (s\<lparr>world := w, out_packet := p\<rparr>))"
    and h: "an_message_type h = TYPE_CAPI_VERSION" "an_body_len h = 16" "an_capi_error h = 0"
    by fastforce
  show ?thesis
    by (cases rule: sock_send_cases [of "answer_packet h (drop 8 bs @ take 8 bs)" "s\<lparr>world := w, out_packet := p\<rparr>"])
      (use e h in auto)
qed

theorem version_halves_exchanged_witness:
  "\<exists>n s'. exec_capi_version demo_capi demo_server = Some (n, s') \<and> length (tx s') = 1"
  using version_halves_exchanged [of demo_capi demo_server "replicate 16 2" "()"]
  by (auto simp: demo_capi_def)

text \<open>
  HELO stores what the client says about itself and answers with the id of the
  session, the demand for authentication, and the server's name and version. The answer
  advertises no authentication method, and its time-out field is never assigned.
\<close>

theorem helo_introduces:
  assumes "helo_pre s"
  shows "\<exists>n s'. exec_proxy_helo s = Some (n, s') \<and> client_info s' = helo_client s \<and>
     tx s' = tx s @ [(answer_packet
      \<lparr>an_message_len = 124, an_header_len = 40, an_body_len = 84, an_data_len = 0,
       an_message_id = rq_message_id (req s), an_message_type = TYPE_PROXY_HELO,
       an_app_id = 0, an_session_id = sessionID s, an_proxy_error = PERROR_AUTH_REQUIRED,
       an_capi_error = 0\<rparr> (helo_body s), n)]"
proof -
  let ?h = "\<lparr>an_message_len = 124, an_header_len = 40, an_body_len = 84, an_data_len = 0,
       an_message_id = rq_message_id (req s), an_message_type = TYPE_PROXY_HELO,
       an_app_id = 0, an_session_id = sessionID s, an_proxy_error = PERROR_AUTH_REQUIRED,
       an_capi_error = 0\<rparr> :: answer_header"
  from exec_proxy_helo_eq [OF assms] obtain p where
    e: "exec_proxy_helo s = Some (sock_send (answer_packet ?h (helo_body s))
      (s\<lparr>client_info := helo_client s, out_packet := p\<rparr>))" by blast
  show ?thesis
    by (cases rule: sock_send_cases [of "answer_packet ?h (helo_body s)" "s\<lparr>client_info := helo_client s, out_packet := p\<rparr>"])
      (use e in auto)
qed

theorem helo_introduces_witness:
  "\<exists>n s'. exec_proxy_helo (input (demo_request TYPE_PROXY_HELO (replicate 76 0) []) demo_server) = Some (n, s') \<and>
     length (tx s') = 1"
  using helo_introduces [OF helo_pre_demo] by auto

text \<open>
  C31. The answer to AUTH carries the session id only when the authentication has
  succeeded, and 0 otherwise; user name and password never succeed.
\<close>

theorem auth_grants_session:
  assumes "unat (rq_header_len (req s)) + 4 \<le> PACKET_SIZE" and "auth_verdict s = Some v"
  shows "\<exists>n s'. exec_proxy_auth s = Some (n, s') \<and> tx s' = tx s @ [(answer_packet (auth_answer s v) [], n)] \<and>
     world s' = world s \<and> an_session_id (auth_answer s v) = (if v = PERROR_NONE then sessionID s else 0) \<and>
     (get32 (in_packet s) (unat (rq_header_len (req s))) AND AUTH_USERPASS \<noteq> 0 \<longrightarrow> v = PERROR_ACCESS_DENIED)"
proof -
  from exec_proxy_auth_eq [OF assms] obtain p where
    e: "exec_proxy_auth s = Some (sock_send (answer_packet (auth_answer s v) [])
     (s\<lparr>in_packet := put32 12 0 (in_packet s), out_packet := p\<rparr>))" by blast
  show ?thesis
    by (cases rule: sock_send_cases [of "answer_packet (auth_answer s v) []"
          "s\<lparr>in_packet := put32 12 0 (in_packet s), out_packet := p\<rparr>"])
      (use e auth_verdict_userpass [OF _ assms(2)] in \<open>auto simp: auth_answer_def\<close>)
qed

theorem auth_grants_session_witness:
  "\<exists>n s'. exec_proxy_auth (input (demo_request TYPE_PROXY_AUTH [1, 0, 0, 0] []) demo_server) = Some (n, s') \<and>
     length (tx s') = 1"
proof -
  let ?s = "input (demo_request TYPE_PROXY_AUTH [1, 0, 0, 0] []) demo_server"
  have oct: "in_packet ?s (36 + i) = [1, 0, 0, 0] ! i" if "i < 4" for i
    using that by (simp add: demo_request_def put_bytes_def nth_append)
  have "get_bytes (in_packet ?s) 36 4 = [1, 0, 0, 0]"
    using oct [of 0] oct [of 1] oct [of 2] oct [of 3] by (simp add: get_bytes_def upt_rec del: in_packet_input)
  then have "get32 (in_packet ?s) 36 = 1" by (simp add: get32_def word_le_def del: in_packet_input)
  then have "auth_verdict ?s = Some PERROR_NONE"
    by (simp add: auth_verdict_def demo_header_def proto_consts ip_auth_def)
  from auth_grants_session [OF _ this] show ?thesis by (auto simp: demo_header_def PACKET_SIZE_def)
qed

text \<open>
  A request longer than the packet buffer overruns it: \<^verbatim>\<open>message_len\<close> comes from the
  client and is not compared with the size of the buffer.
\<close>

theorem long_request_overruns_buffer:
  assumes "36 \<le> length (stream (rx s))"
    and "unat (rq_message_len (request_header_at (buffer_of (stream (rx s))))) = n"
    and "PACKET_SIZE < n" and "n \<le> length (stream (rx s))"
  shows "session L s = None"
proof -
  let ?bs = "stream (rx s)"
  have h: "req (input (take 36 ?bs) (detach s)) = request_header_at (buffer_of ?bs)"
    using assms(1) by (intro input_header) auto
  have "unat (rq_message_len (request_header_at (buffer_of ?bs)) - 36) = n - 36"
    using assms by (simp add: unat_sub word_le_nat_alt PACKET_SIZE_def)
  moreover have "9964 < n - 36" using assms(3) by (simp add: PACKET_SIZE_def)
  ultimately have "map_option (apsnd detach) (session L s) = None"
    using assms unfolding session_serve
    by (subst serve.simps) (simp add: h PACKET_SIZE_def Let_def del: in_packet_input)
  then show ?thesis by simp
qed

theorem long_request_overruns_buffer_witness:
  "session demo_capi (demo_server\<lparr>rx := [Data (demo_request TYPE_CAPI_PROFILE [] (replicate 10000 0))]\<rparr>) = None"
proof -
  let ?p = "demo_request TYPE_CAPI_PROFILE [] (replicate 10000 0)"
  have "?p \<noteq> []" using length_demo_request by (metis add_is_0 list.size(3) zero_neq_numeral)
  then show ?thesis
    using long_request_overruns_buffer [of "demo_server\<lparr>rx := [Data ?p]\<rparr>" 10036 demo_capi]
    by (simp add: buffer_of_def demo_header_def PACKET_SIZE_def)
qed

text \<open>
  \<^verbatim>\<open>recvn\<close> returns the requested number of octets, in order, whenever the stream has
  them, whatever the segments; otherwise it reports what the last \<^verbatim>\<open>recv\<close> reported.
\<close>

theorem recvn_reassembles:
  assumes "recvn es n = (r, bs, es')" and "unat n < 10000"
  shows "if unat n \<le> length (stream es)
     then r = int (unat n) \<and> bs = take (unat n) (stream es) \<and> stream es' = drop (unat n) (stream es)
     else r = stream_end es \<and> r \<le> 0 \<and> bs = stream es"
  using recvn_stream [OF assms(1)] sint_small [OF assms(2)] stream_end_le [of es] by (auto split: if_splits)

theorem recvn_reassembles_witness:
  "stream (snd (snd (recvn [Data [1], Data [2, 3]] 2))) = [3]"
  using recvn_reassembles [of "[Data [1], Data [2, 3]]" 2 "fst (recvn [Data [1], Data [2, 3]] 2)"
      "fst (snd (recvn [Data [1], Data [2, 3]] 2))" "snd (snd (recvn [Data [1], Data [2, 3]] 2))"]
  by simp

section \<open>Protocol, tables and process control\<close>

text \<open>
  \<^verbatim>\<open>release_all\<close> terminates, releases every application of the table exactly once and
  leaves the table empty.
\<close>

theorem release_all_exactly_once:
  assumes "m < 2 ^ 32"
  shows "\<exists>apps. distinct apps \<and> set apps = apps_of m l \<and>
     snd (release_all m rel l w) = fold (\<lambda>a v. snd (rel a v)) apps w \<and>
     apps_of m (fst (release_all m rel l w)) = {}"
  using table.rel_all_exact [OF assms] .

theorem release_all_exactly_once_witness:
  "apps_of 240 (fst (release_all 240 (capi20_release demo_capi) (add_app 5 (\<lambda>_. 0)) ())) = {}"
  using release_all_exactly_once [of 240 "add_app 5 (\<lambda>_. 0)" "capi20_release demo_capi" "()"] by auto

text \<open>
  The linked list of the first server keeps the same promise, provided it holds
  every id once.
\<close>

theorem release_all_list_exactly_once:
  assumes "distinct xs" and "0 \<notin> set xs"
  shows "\<exists>apps. distinct apps \<and> set apps = set xs \<and>
     snd (release_all_list rel xs w) = fold (\<lambda>a v. snd (rel a v)) apps w \<and>
     fst (release_all_list rel xs w) = []"
  using applist.rel_all_exact [of xs rel w] assms by simp

theorem release_all_list_exactly_once_witness:
  "fst (release_all_list (capi20_release demo_capi) (add_app_list 5 [3]) ()) = []"
  using release_all_list_exactly_once [of "add_app_list 5 [3]" "capi20_release demo_capi" "()"] by auto

text \<open>
  Replacing the controller in a message with \<^verbatim>\<open>SET_CTRL\<close> changes the seven controller
  bits and nothing else of the message.
\<close>

theorem SET_CTRL_replaces_controller:
  assumes "c < 128"
  shows "get32 (SET_CTRL msg c b) (msg + 8) AND 0x7F = ucast c \<and>
     get32 (SET_CTRL msg c b) (msg + 8) AND 0xFFFFFF80 = get32 b (msg + 8) AND 0xFFFFFF80 \<and>
     (\<forall>i. i < msg + 8 \<or> msg + 12 \<le> i \<longrightarrow> SET_CTRL msg c b i = b i)"
  using SET_CTRL_bits [OF assms] by (auto simp: SET_CTRL_def buf_simps)

theorem SET_CTRL_replaces_controller_witness:
  "get32 (SET_CTRL 0 1 (\<lambda>_. 0xFF)) 8 AND 0x7F = 1"
  using SET_CTRL_replaces_controller [of 1 0 "\<lambda>_. 0xFF"] by simp

text \<open>
  While the server forks, the sessions it serves have pairwise distinct ids, none of
  them 0, for less than 2 to the 32 minus 3 connections.
\<close>

theorem session_ids_distinct:
  assumes "length as < 2 ^ 32 - 3" and "sessionID (lst_server l) = 2"
  shows "distinct (map fst (fst (accept_loop L False l as))) \<and>
     0 \<notin> set (map fst (fst (accept_loop L False l as)))"
  using accept_loop_distinct [of as L l] accept_loop_fresh [OF assms, of _ L] assms by fastforce

theorem session_ids_distinct_witness:
  "distinct (map fst (fst (accept_loop demo_capi False \<lparr>lst_server = demo_server\<lparr>sessionID := 2\<rparr>, lst_socks = 0\<rparr>
     (replicate 2 (Accepted \<lparr>conn_rx = [], conn_send_rets = [], conn_fork_rets = [], conn_sockname = None,
        conn_in_addr = 0, conn_in_packet = (\<lambda>_. 0), conn_fork_ok = True\<rparr>)))))"
  using session_ids_distinct [of "replicate 2 (Accepted \<lparr>conn_rx = [], conn_send_rets = [], conn_fork_rets = [],
      conn_sockname = None, conn_in_addr = 0, conn_in_packet = (\<lambda>_. 0), conn_fork_ok = True\<rparr>)"
    "\<lparr>lst_server = demo_server\<lparr>sessionID := 2\<rparr>, lst_socks = 0\<rparr>" demo_capi] by simp

text \<open>
  The parent never closes the socket of a connection it has handed to a child: it
  holds one descriptor more for every client.
\<close>

theorem parent_keeps_sockets:
  assumes "\<forall>a \<in> set as. \<exists>c. a = Accepted c \<and> conn_fork_ok c"
  shows "lst_socks (snd (snd (accept_loop L False l as))) = lst_socks l + length as"
  using assms by (rule accept_loop_socks)

theorem parent_keeps_sockets_witness:
  "lst_socks (snd (snd (accept_loop demo_capi False \<lparr>lst_server = demo_server, lst_socks = 0\<rparr>
     [Accepted \<lparr>conn_rx = [], conn_send_rets = [], conn_fork_rets = [], conn_sockname = None,
        conn_in_addr = 0, conn_in_packet = (\<lambda>_. 0), conn_fork_ok = True\<rparr>]))) = 1"
  using parent_keeps_sockets [of "[Accepted \<lparr>conn_rx = [], conn_send_rets = [], conn_fork_rets = [],
      conn_sockname = None, conn_in_addr = 0, conn_in_packet = (\<lambda>_. 0), conn_fork_ok = True\<rparr>]"
    demo_capi "\<lparr>lst_server = demo_server, lst_socks = 0\<rparr>"] by simp

text \<open>
  A process that comes back from \<^verbatim>\<open>become_daemon\<close> is a daemon: it leads no session, has no
  controlling terminal and no standard streams, works in the root directory and has its
  signal handlers installed; the processes it leaves behind have ended.
\<close>

theorem daemon_is_detached:
  assumes "become_daemon p = (c, p')"
  shows "(\<exists>k. c = Exited k \<and> (k = 0 \<or> k = 1)) \<or>
     c = Returned 0 \<and> \<not> session_leader p' \<and> \<not> ctty p' \<and> cwd p' = ''/'' \<and> umask_bits p' = 0 \<and>
     \<not> std_open p' \<and> handlers p' SIGCHLD = H_sigchld \<and>
     (\<forall>sig \<in> {SIGINT, SIGHUP, SIGTERM, SIGUSR1}. handlers p' sig = H_sigparent)"
  using become_daemon_detached [of p _ p'] become_daemon_exits [of p _ p'] assms by (cases c) auto

theorem daemon_is_detached_witness:
  "\<not> session_leader (snd (become_daemon \<lparr>session_leader = True, group_leader = True, ctty = True, cwd = ''/root'',
     umask_bits = 18, std_open = True, handlers = (\<lambda>_. SIG_DFL), forks = [0, 0]\<rparr>))"
  using daemon_is_detached [of "\<lparr>session_leader = True, group_leader = True, ctty = True, cwd = ''/root'',
     umask_bits = 18, std_open = True, handlers = (\<lambda>_. SIG_DFL), forks = [0, 0]\<rparr>", OF surjective_pairing]
  by (auto simp: become_daemon_def sys_fork_proc_def setsid_def signal_to_def Let_def)

text \<open>
  Options given as the usage text describes them take effect from left to right.
\<close>

theorem cmdline_options_take_effect:
  assumes "\<forall>opt \<in> set opts. option_ok opt"
  shows "eval_cmdline (prog # concat (map render opts)) c = Some (Parsed (fold effect opts c))"
  using assms by (rule eval_cmdline_parsed)

theorem cmdline_options_take_effect_witness:
  "eval_cmdline [''capifwd'', ''-d'', ''-p'', ''7000''] initial_config =
     Some (Parsed (initial_config\<lparr>debug := True, port := 7000\<rparr>))"
proof -
  have a: "atoi ''7000'' = Some 7000"
    by (simp add: atoi_def is_space_def is_digit_def digits_value_def)
  show ?thesis
    using cmdline_options_take_effect [of "[(True, Port ''7000'')]" "''capifwd''" initial_config]
    by (simp add: option_ok_def render_def effect_def a)
qed

text \<open>
  A debug flag as the last argument makes the server hand the null pointer behind
  \<^verbatim>\<open>argv\<close> to \<^verbatim>\<open>strcmp\<close>.
\<close>

theorem cmdline_debug_flag_last:
  assumes "\<forall>opt \<in> set opts. option_ok opt"
  shows "eval_cmdline (prog # concat (map render opts) @ [''-d'']) c = None"
  using assms by (rule eval_cmdline_debug_last)

theorem cmdline_debug_flag_last_witness: "eval_cmdline [''capifwd'', ''-d''] initial_config = None"
  using cmdline_debug_flag_last [of "[]" "''capifwd''" initial_config] by simp

text \<open>
  \<^verbatim>\<open>xquit\<close> tells the client why the server goes down, closes the connection and exits
  with status 0, whatever status it was given.
\<close>

theorem xquit_announces_shutdown:
  assumes "length excuse < 128"
  shows "\<exists>n s' h rest. xquit ret excuse s = Some (Exited 0, s') \<and> \<not> sock_open s' \<and>
     tx s' = tx s @ [(answer_packet h (excuse @ [0] @ rest), n)] \<and>
     an_message_type h = TYPE_PROXY_SHUTDOWN \<and> length (excuse @ [0] @ rest) = 128"
  using assms by (rule xquit_says_goodbye)

theorem xquit_announces_shutdown_witness:
  "\<exists>s'. xquit 1 [98, 121, 101] demo_server = Some (Exited 0, s') \<and> \<not> sock_open s'"
  using xquit_announces_shutdown [of "[98, 121, 101]" 1 demo_server] by auto

end
